(* ===== verification/Prelude.thy ===== *)
theory Prelude
  imports Complex_Main "HOL-Library.Word" "HOL-Library.Multiset" "HOL-Library.Char_ord"
    "HOL-Library.List_Lexorder"
begin

text \<open>
  Shared vocabulary of the development: the result type of a Go call (value, error or
  panic), the error values of the repository, 64-bit integer addition, slice
  expressions, and generic facts on lists that several components use.
\<close>

named_theorems go_simps

subsection \<open>Errors and results\<close>

text \<open>
  Go's \<open>error\<close> values. The three sentinels are those of \<open>internal/query/errors.go\<close>;
  \<open>ErrLib\<close> is an error value that a library exports, by its name, \<open>ErrText\<close> any other error of
  \<open>errors.New\<close>, \<open>fmt.Errorf\<close> or of code outside the repository, \<open>ErrWrap\<close> is \<open>fmt.Errorf("...: %w", err)\<close>.
\<close>

datatype error =
    ErrClusterNotFound
  | ErrNotFound
  | ErrNotReady
  | ErrLib string
  | ErrText string
  | ErrWrap string error

fun errors_Is :: "error \<Rightarrow> error \<Rightarrow> bool" where
  "errors_Is (ErrWrap m e) target \<longleftrightarrow> ErrWrap m e = target \<or> errors_Is e target"
| "errors_Is e target \<longleftrightarrow> e = target"

text \<open>A call returns a value, returns an error, or panics.\<close>

datatype 'a result = Ok 'a | Err error | Panic string

fun rbind :: "'a result \<Rightarrow> ('a \<Rightarrow> 'b result) \<Rightarrow> 'b result" where
  "rbind (Ok x) f = f x"
| "rbind (Err e) f = Err e"
| "rbind (Panic m) f = Panic m"

text \<open>\<open>map_result\<close>, which the datatype declares, applies a function to a value only. The
  collection \<open>go_simps\<close> inverts a call that returned a value.\<close>

lemma rbind_Ok_iff [go_simps]: "rbind r f = Ok y \<longleftrightarrow> (\<exists>x. r = Ok x \<and> f x = Ok y)"
  by (cases r) auto

lemma map_result_Ok_iff [go_simps]: "map_result f r = Ok y \<longleftrightarrow> (\<exists>x. r = Ok x \<and> y = f x)"
  by (cases r) auto

lemma sum_Ok_iff [go_simps]:
  "(case v of Inl e \<Rightarrow> Err (f e) | Inr y \<Rightarrow> g y) = Ok z \<longleftrightarrow> (\<exists>y. v = Inr y \<and> g y = Ok z)"
  by (cases v) auto

lemma if_Err_Ok_iff [go_simps]:
  "(if b then Err e else r) = Ok z \<longleftrightarrow> \<not> b \<and> r = Ok z"
  by auto

lemma map_result_Panic_iff: "map_result f r = Panic m \<longleftrightarrow> r = Panic m"
  by (cases r) auto

lemma rbind_assoc: "rbind (rbind r f) g = rbind r (\<lambda>x. rbind (f x) g)"
  by (cases r) auto

subsection \<open>64-bit integers\<close>

text \<open>
  Go's \<open>int\<close> is 64 bits wide: values are kept as \<open>int\<close>, and an addition that may overflow
  wraps around in two's complement, as the conversion to a 64-bit word and back does.
\<close>

definition goint_min :: int where "goint_min = - (2 ^ 63)"
definition goint_max :: int where "goint_max = 2 ^ 63 - 1"

definition is_goint :: "int \<Rightarrow> bool" where
  "is_goint n \<longleftrightarrow> goint_min \<le> n \<and> n \<le> goint_max"

definition go_add :: "int \<Rightarrow> int \<Rightarrow> int" where
  "go_add a b = sint (word_of_int (a + b) :: 64 word)"

lemma go_add_exact:
  assumes "is_goint (a + b)"
  shows "go_add a b = a + b"
proof -
  have "signed_take_bit 63 (a + b) = a + b"
    using assms by (intro signed_take_bit_int_eq_self)
      (auto simp: is_goint_def goint_min_def goint_max_def)
  then show ?thesis
    unfolding go_add_def sint_sbintrunc' by simp
qed

lemma go_add_nonneg_exact:
  "0 \<le> a \<Longrightarrow> 0 \<le> b \<Longrightarrow> a + b \<le> goint_max \<Longrightarrow> go_add a b = a + b"
  by (rule go_add_exact) (simp add: is_goint_def goint_min_def)

definition go_sub :: "int \<Rightarrow> int \<Rightarrow> int" where
  "go_sub a b = sint (word_of_int (a - b) :: 64 word)"

lemma go_sub_exact: "is_goint (a - b) \<Longrightarrow> go_sub a b = a - b"
  using go_add_exact [of a "- b"] by (simp add: go_sub_def go_add_def)

subsection \<open>Slice expressions\<close>

text \<open>
  \<open>s[i:j]\<close> panics unless \<open>0 \<le> i \<le> j \<le> len(s)\<close>. (Go bounds \<open>j\<close> by the capacity; every use
  in the repository has clamped \<open>j\<close> to the length before.)
\<close>

definition go_slice :: "'a list \<Rightarrow> int \<Rightarrow> int \<Rightarrow> 'a list result" where
  "go_slice xs i j =
     (if 0 \<le> i \<and> i \<le> j \<and> j \<le> int (length xs)
      then Ok (take (nat (j - i)) (drop (nat i) xs))
      else Panic ''slice bounds out of range'')"

lemma go_slice_Ok:
  "0 \<le> i \<Longrightarrow> i \<le> j \<Longrightarrow> j \<le> int (length xs) \<Longrightarrow>
   go_slice xs i j = Ok (take (nat (j - i)) (drop (nat i) xs))"
  by (simp add: go_slice_def)

text \<open>\<open>s[i]\<close>.\<close>

definition go_index :: "'a list \<Rightarrow> int \<Rightarrow> 'a result" where
  "go_index xs i =
     (if 0 \<le> i \<and> i < int (length xs) then Ok (xs ! nat i) else Panic ''index out of range'')"

lemma go_slice_not_Err: "go_slice xs i j \<noteq> Err e"
  by (simp add: go_slice_def)

subsection \<open>Lists\<close>

lemma takeWhile_neq_id [simp]: "c \<notin> set w \<Longrightarrow> takeWhile (\<lambda>x. x \<noteq> c) w = w"
  by (induction w) auto

lemma dropWhile_neq_Nil [simp]: "c \<notin> set w \<Longrightarrow> dropWhile (\<lambda>x. x \<noteq> c) w = []"
  by (induction w) auto

lemma concat_map_singleton_filter:
  "concat (map (\<lambda>x. if P x then [f x] else []) xs) = map f (filter P xs)"
  by (induction xs) auto

lemma distinct_map_fst_filter:
  "distinct (map fst xs) \<Longrightarrow> distinct (map fst (filter P xs))"
  by (induction xs) auto

lemma sorted_wrt_rev_flip: "sorted_wrt P (rev xs) \<longleftrightarrow> sorted_wrt (\<lambda>x y. P y x) xs"
  by (simp add: sorted_wrt_rev)

lemma sorted_wrt_take_drop:
  "sorted_wrt P xs \<Longrightarrow> sorted_wrt P (take n (drop m xs))"
  by (simp add: sorted_wrt_take sorted_wrt_drop)

text \<open>
  The first occurrence of each element, in order: how the code fills a set
  (\<open>seen\<close>) while it appends to a slice.
\<close>

fun dedup_seen :: "'a list \<Rightarrow> 'a list \<Rightarrow> 'a list" where
  "dedup_seen seen [] = []"
| "dedup_seen seen (x # xs) =
     (if x \<in> set seen then dedup_seen seen xs else x # dedup_seen (x # seen) xs)"

lemma set_dedup_seen: "set (dedup_seen seen xs) = set xs - set seen"
  by (induction seen xs rule: dedup_seen.induct) auto

lemma distinct_dedup_seen: "distinct (dedup_seen seen xs)"
  by (induction seen xs rule: dedup_seen.induct) (auto simp: set_dedup_seen)

lemma dedup_seen_id: "distinct xs \<Longrightarrow> set xs \<inter> set seen = {} \<Longrightarrow> dedup_seen seen xs = xs"
  by (induction seen xs rule: dedup_seen.induct) auto

end
