(* ===== verification/GoSort.thy ===== *)
theory GoSort
  imports Prelude
begin

text \<open>
  \<open>sort.Slice\<close>, \<open>sort.SliceStable\<close> and \<open>sort.Strings\<close>. The package documents only that the
  result is a permutation in the order of the \<open>less\<close> function (and, for \<open>SliceStable\<close>, that
  equal elements keep their order): that contract is the locale \<open>slice_sort\<close> with its
  extension \<open>stable_slice_sort\<close>. The executable instance is the insertion sort that Go
  itself runs on short slices. Where \<open>less\<close> is a total order the contract leaves one
  result only (lemma \<open>srt_unique\<close>).
\<close>

definition strict_weak :: "('a \<Rightarrow> 'a \<Rightarrow> bool) \<Rightarrow> bool" where
  "strict_weak lt \<longleftrightarrow>
     (\<forall>x. \<not> lt x x) \<and>
     (\<forall>x y z. lt x y \<longrightarrow> lt y z \<longrightarrow> lt x z) \<and>
     (\<forall>x y z. \<not> lt x y \<longrightarrow> \<not> lt y z \<longrightarrow> \<not> lt x z)"

definition in_order :: "('a \<Rightarrow> 'a \<Rightarrow> bool) \<Rightarrow> 'a list \<Rightarrow> bool" where
  "in_order lt xs \<longleftrightarrow> sorted_wrt (\<lambda>a b. \<not> lt b a) xs"

lemma strict_weak_key: "strict_weak (\<lambda>a b. f a < (f b :: 'k :: linorder))"
  by (auto simp: strict_weak_def)

lemma strict_weak_key_desc: "strict_weak (\<lambda>a b. f b < (f a :: 'k :: linorder))"
  by (auto simp: strict_weak_def)

text \<open>Two keys, the first descending and the second ascending: the rankings of the code.\<close>

lemma strict_weak_desc_asc:
  "strict_weak (\<lambda>a b. if f a \<noteq> (f b :: 'k :: linorder) then f b < f a
                      else g a < (g b :: 'l :: linorder))"
  unfolding strict_weak_def by (auto split: if_splits)

lemma in_order_key: "in_order (\<lambda>a b. f a < (f b :: 'k :: linorder)) xs \<longleftrightarrow> sorted (map f xs)"
  by (simp add: in_order_def sorted_map not_less)

lemma sorted_wrt_unique:
  assumes anti: "\<And>x y. le x y \<Longrightarrow> le y x \<Longrightarrow> x = y"
  shows "sorted_wrt le xs \<Longrightarrow> sorted_wrt le ys \<Longrightarrow> mset xs = mset ys \<Longrightarrow> xs = ys"
proof (induction xs arbitrary: ys)
  case (Cons x xs)
  then obtain y zs where ys: "ys = y # zs" by (cases ys) auto
  from Cons.prems(3) have "set (x # xs) = set ys" by (metis set_mset_mset)
  then have "x \<in> set ys" "y \<in> set (x # xs)" using ys by auto
  then have "x = y" using Cons.prems(1,2) ys anti by auto
  with Cons ys show ?case by auto
qed simp

locale slice_sort =
  fixes srt :: "('a \<Rightarrow> 'a \<Rightarrow> bool) \<Rightarrow> 'a list \<Rightarrow> 'a list"
  assumes srt_mset: "mset (srt lt xs) = mset xs"
    and srt_order: "strict_weak lt \<Longrightarrow> in_order lt (srt lt xs)"
begin

lemma srt_set [simp]: "set (srt lt xs) = set xs"
  by (metis set_mset_mset srt_mset)

lemma srt_length [simp]: "length (srt lt xs) = length xs"
  by (metis size_mset srt_mset)

lemma srt_distinct [simp]: "distinct (srt lt xs) \<longleftrightarrow> distinct xs"
  by (metis mset_eq_imp_distinct_iff srt_mset)

lemma srt_filter_mset: "mset (filter P (srt lt xs)) = mset (filter P xs)"
  by (simp add: srt_mset)

text \<open>A total order leaves the sort no choice.\<close>

lemma srt_unique:
  assumes sw: "strict_weak lt" and total: "\<And>a b. lt a b \<or> a = b \<or> lt b a"
    and perm: "mset ys = mset xs" and ord: "in_order lt ys"
  shows "ys = srt lt xs"
proof (rule sorted_wrt_unique)
  show "sorted_wrt (\<lambda>a b. \<not> lt b a) ys" "sorted_wrt (\<lambda>a b. \<not> lt b a) (srt lt xs)"
    using ord srt_order [OF sw] by (simp_all add: in_order_def)
  show "mset ys = mset (srt lt xs)" by (simp add: perm srt_mset)
  show "\<And>x y. \<not> lt y x \<Longrightarrow> \<not> lt x y \<Longrightarrow> x = y" using total by blast
qed

end

locale stable_slice_sort = slice_sort srt for srt :: "('a \<Rightarrow> 'a \<Rightarrow> bool) \<Rightarrow> 'a list \<Rightarrow> 'a list" +
  assumes srt_stable: "strict_weak lt \<Longrightarrow>
    filter (\<lambda>y. \<not> lt x y \<and> \<not> lt y x) (srt lt xs) =
    filter (\<lambda>y. \<not> lt x y \<and> \<not> lt y x) xs"

subsection \<open>The insertion sort\<close>

fun go_insert :: "('a \<Rightarrow> 'a \<Rightarrow> bool) \<Rightarrow> 'a \<Rightarrow> 'a list \<Rightarrow> 'a list" where
  "go_insert lt x [] = [x]"
| "go_insert lt x (y # ys) = (if lt x y then x # y # ys else y # go_insert lt x ys)"

definition go_sort :: "('a \<Rightarrow> 'a \<Rightarrow> bool) \<Rightarrow> 'a list \<Rightarrow> 'a list" where
  "go_sort lt xs = foldl (\<lambda>acc x. go_insert lt x acc) [] xs"

lemma mset_go_insert [simp]: "mset (go_insert lt x ys) = add_mset x (mset ys)"
  by (induction ys) auto

lemma set_go_insert [simp]: "set (go_insert lt x ys) = insert x (set ys)"
  by (induction ys) auto

lemma mset_foldl_go_insert:
  "mset (foldl (\<lambda>acc x. go_insert lt x acc) acc xs) = mset acc + mset xs"
  by (induction xs arbitrary: acc) auto

lemma mset_go_sort: "mset (go_sort lt xs) = mset xs"
  by (simp add: go_sort_def mset_foldl_go_insert)

lemma in_order_go_insert:
  assumes sw: "strict_weak lt" and "in_order lt ys"
  shows "in_order lt (go_insert lt x ys)"
  using assms(2)
proof (induction ys)
  case (Cons y ys)
  have asym: "lt a b \<Longrightarrow> \<not> lt b a" for a b
    using sw unfolding strict_weak_def by blast
  have neg: "\<not> lt b a \<Longrightarrow> \<not> lt c b \<Longrightarrow> \<not> lt c a" for a b c
    using sw unfolding strict_weak_def by blast
  show ?case
  proof (cases "lt x y")
    case True
    then have "\<forall>z \<in> set (y # ys). \<not> lt z x"
      using Cons.prems asym neg unfolding in_order_def by (metis set_ConsD sorted_wrt.simps(2))
    with Cons.prems True show ?thesis by (simp add: in_order_def)
  next
    case False
    with Cons show ?thesis by (auto simp: in_order_def)
  qed
qed (simp add: in_order_def)

lemma in_order_go_sort:
  assumes "strict_weak lt"
  shows "in_order lt (go_sort lt xs)"
proof -
  have "in_order lt acc \<Longrightarrow> in_order lt (foldl (\<lambda>acc x. go_insert lt x acc) acc xs)" for acc
    by (induction xs arbitrary: acc) (auto intro: in_order_go_insert [OF assms])
  then show ?thesis by (simp add: go_sort_def in_order_def)
qed

text \<open>Stability: an element goes after the equal ones that are already there.\<close>

lemma filter_go_insert:
  assumes sw: "strict_weak lt" and ord: "in_order lt ys"
  shows "filter (\<lambda>y. \<not> lt k y \<and> \<not> lt y k) (go_insert lt x ys) =
         filter (\<lambda>y. \<not> lt k y \<and> \<not> lt y k) ys @ (if \<not> lt k x \<and> \<not> lt x k then [x] else [])"
  using ord
proof (induction ys)
  case (Cons y ys)
  have irr: "\<not> lt a a" for a
    using sw unfolding strict_weak_def by blast
  have neg: "\<not> lt a b \<Longrightarrow> \<not> lt b c \<Longrightarrow> \<not> lt a c" for a b c
    using sw unfolding strict_weak_def by blast
  show ?case
  proof (cases "lt x y")
    case True
    have *: "lt k z \<or> lt z k" if "\<not> lt k x" "\<not> lt x k" "z \<in> set (y # ys)" for z
    proof -
      have "\<not> lt z y" using Cons.prems that(3) irr by (auto simp: in_order_def)
      then have "lt x z" using True neg by blast
      then show ?thesis using that neg by blast
    qed
    have "filter (\<lambda>y. \<not> lt k y \<and> \<not> lt y k) (y # ys) = []" if "\<not> lt k x" "\<not> lt x k"
      unfolding filter_empty_conv using * [OF that] by blast
    with True show ?thesis by auto
  next
    case False
    with Cons show ?thesis by (auto simp: in_order_def)
  qed
qed simp

lemma stable_go_sort:
  assumes sw: "strict_weak lt"
  shows "filter (\<lambda>y. \<not> lt k y \<and> \<not> lt y k) (go_sort lt xs) =
         filter (\<lambda>y. \<not> lt k y \<and> \<not> lt y k) xs"
proof -
  let ?P = "\<lambda>y. \<not> lt k y \<and> \<not> lt y k"
  have "in_order lt acc \<Longrightarrow>
    filter ?P (foldl (\<lambda>acc x. go_insert lt x acc) acc xs) = filter ?P acc @ filter ?P xs" for acc
  proof (induction xs arbitrary: acc)
    case (Cons x xs)
    have "in_order lt (go_insert lt x acc)" by (rule in_order_go_insert [OF sw Cons.prems])
    from Cons.IH [OF this] show ?case
      by (simp add: filter_go_insert [OF sw Cons.prems])
  qed simp
  from this [of "[]"] show ?thesis by (simp add: go_sort_def in_order_def)
qed

interpretation sorts: stable_slice_sort go_sort
  by unfold_locales (auto simp: mset_go_sort in_order_go_sort stable_go_sort)

lemma go_sort_key: "go_sort (\<lambda>a b. f a < (f b :: 'k :: linorder)) xs = sort_key f xs"
proof (rule properties_for_sort_key [symmetric])
  show "mset (go_sort (\<lambda>a b. f a < f b) xs) = mset xs" by (rule mset_go_sort)
next
  fix k
  assume "k \<in> set (go_sort (\<lambda>a b. f a < f b) xs)"
  have "(\<lambda>y. \<not> f k < f y \<and> \<not> f y < f k) = (\<lambda>y. f k = f y)"
    by (auto simp: not_less fun_eq_iff)
  then show "filter (\<lambda>y. f k = f y) (go_sort (\<lambda>a b. f a < f b) xs) = filter (\<lambda>y. f k = f y) xs"
    using sorts.srt_stable [OF strict_weak_key, of f k xs] by simp
next
  show "sorted (map f (go_sort (\<lambda>a b. f a < f b) xs))"
    using sorts.srt_order [OF strict_weak_key] by (simp add: in_order_key)
qed

lemma go_sort_linorder: "go_sort (<) xs = sort (xs :: 'a :: linorder list)"
  using go_sort_key [of "\<lambda>x. x" xs] by simp

text \<open>\<open>sort.Strings\<close>: bytewise lexicographic order.\<close>

definition sort_Strings :: "string list \<Rightarrow> string list" where
  "sort_Strings xs = go_sort (<) xs"

lemma sort_Strings_sorted [simp]: "sorted (sort_Strings xs)"
  by (simp add: sort_Strings_def go_sort_linorder)

lemma sort_Strings_set [simp]: "set (sort_Strings xs) = set xs"
  by (simp add: sort_Strings_def)

end
