(* ===== verification/GoStrings.thy ===== *)
theory GoStrings
  imports Prelude "HOL-Library.Sublist"
begin

text \<open>
  The functions of Go's \<open>strings\<close>, \<open>bytes\<close>, \<open>strconv\<close> and \<open>path/filepath\<close> packages that
  the repository calls, on byte strings (\<open>char list\<close>, one \<open>char\<close> per byte). Case folding
  and white space are those of ASCII: \<open>strings.EqualFold\<close> and \<open>strings.TrimSpace\<close> treat a
  few non-ASCII code points specially, which the model does not.
\<close>

subsection \<open>Prefixes and suffixes\<close>

definition HasPrefix :: "string \<Rightarrow> string \<Rightarrow> bool" where
  "HasPrefix s p \<longleftrightarrow> take (length p) s = p"

definition HasSuffix :: "string \<Rightarrow> string \<Rightarrow> bool" where
  "HasSuffix s p \<longleftrightarrow> length p \<le> length s \<and> drop (length s - length p) s = p"

definition TrimPrefix :: "string \<Rightarrow> string \<Rightarrow> string" where
  "TrimPrefix s p = (if HasPrefix s p then drop (length p) s else s)"

definition TrimSuffix :: "string \<Rightarrow> string \<Rightarrow> string" where
  "TrimSuffix s p = (if HasSuffix s p then take (length s - length p) s else s)"

lemma HasPrefix_iff: "HasPrefix s p \<longleftrightarrow> (\<exists>t. s = p @ t)"
  unfolding HasPrefix_def by (metis append_eq_conv_conj append_take_drop_id)

lemma HasSuffix_iff: "HasSuffix s p \<longleftrightarrow> (\<exists>t. s = t @ p)"
proof
  assume "HasSuffix s p"
  then have "s = take (length s - length p) s @ p"
    unfolding HasSuffix_def by (metis append_take_drop_id)
  then show "\<exists>t. s = t @ p" ..
qed (auto simp: HasSuffix_def)

lemma HasPrefix_append [simp]: "HasPrefix (p @ t) p"
  by (auto simp: HasPrefix_iff)

lemma HasSuffix_append [simp]: "HasSuffix (t @ p) p"
  by (auto simp: HasSuffix_iff)

lemma HasPrefix_Nil [simp]: "HasPrefix s []"
  by (simp add: HasPrefix_def)

lemma TrimPrefix_append [simp]: "TrimPrefix (p @ t) p = t"
  by (simp add: TrimPrefix_def)

lemma TrimSuffix_append [simp]: "TrimSuffix (t @ p) p = t"
  by (simp add: TrimSuffix_def)

lemma TrimPrefix_Nil [simp]: "TrimPrefix s [] = s"
  by (simp add: TrimPrefix_def)

lemma TrimPrefix_eq_iff: "p \<noteq> [] \<Longrightarrow> TrimPrefix s p = s \<longleftrightarrow> \<not> HasPrefix s p"
  by (auto simp: TrimPrefix_def HasPrefix_iff)

lemma HasSuffix_append_left: "HasSuffix s p \<Longrightarrow> HasSuffix (t @ s) p"
  by (auto simp: HasSuffix_iff)

lemma HasSuffix_append_right_iff:
  "length p \<le> length s \<Longrightarrow> HasSuffix (t @ s) p \<longleftrightarrow> HasSuffix s p"
  by (auto simp: HasSuffix_def)

subsection \<open>Splitting and joining\<close>

text \<open>\<open>split_by P s\<close> cuts \<open>s\<close> at every character that satisfies \<open>P\<close>.\<close>

fun split_by :: "(char \<Rightarrow> bool) \<Rightarrow> string \<Rightarrow> string list" where
  "split_by P [] = [[]]"
| "split_by P (c # cs) =
     (if P c then [] # split_by P cs
      else (case split_by P cs of [] \<Rightarrow> [[c]] | w # ws \<Rightarrow> (c # w) # ws))"

definition Split :: "string \<Rightarrow> char \<Rightarrow> string list" where
  "Split s c = split_by (\<lambda>x. x = c) s"

fun Join :: "string list \<Rightarrow> string \<Rightarrow> string" where
  "Join [] sep = []"
| "Join [w] sep = w"
| "Join (w # v # ws) sep = w @ sep @ Join (v # ws) sep"

lemma split_by_not_Nil [simp]: "split_by P s \<noteq> []"
  by (cases s) (auto split: list.splits)

lemma split_by_clean: "\<forall>c \<in> set w. \<not> P c \<Longrightarrow> split_by P w = [w]"
  by (induction w) auto

lemma split_by_sep:
  "\<forall>c \<in> set w. \<not> P c \<Longrightarrow> P c \<Longrightarrow> split_by P (w @ c # s) = w # split_by P s"
  by (induction w) auto

lemma split_by_pieces: "w \<in> set (split_by P s) \<Longrightarrow> c \<in> set w \<Longrightarrow> \<not> P c"
proof (induction s arbitrary: w)
  case (Cons d s)
  then show ?case
    by (auto split: list.splits if_splits)
      (metis list.set_intros(1) set_ConsD)+
qed simp

lemma Split_clean: "c \<notin> set w \<Longrightarrow> Split w c = [w]"
  unfolding Split_def by (rule split_by_clean) auto

lemma Split_sep: "c \<notin> set w \<Longrightarrow> Split (w @ c # s) c = w # Split s c"
  unfolding Split_def by (rule split_by_sep) auto

lemma Split_Nil [simp]: "Split [] c = [[]]"
  by (simp add: Split_def)

lemma Split_not_Nil [simp]: "Split s c \<noteq> []"
  by (simp add: Split_def)

lemma Split_Join:
  "ws \<noteq> [] \<Longrightarrow> \<forall>w \<in> set ws. c \<notin> set w \<Longrightarrow> Split (Join ws [c]) c = ws"
  by (induction ws "[c]" rule: Join.induct) (auto simp: Split_clean Split_sep)

lemma Join_Split: "Join (Split s c) [c] = s"
proof (induction s)
  case (Cons d s)
  obtain w ws where s: "split_by (\<lambda>x. x = c) s = w # ws"
    by (cases "split_by (\<lambda>x. x = c) s") auto
  with Cons.IH show ?case by (cases ws) (auto simp: Split_def)
qed simp

text \<open>Splitting at a separator string; the separator is not empty where the code uses it.\<close>

function split_str :: "string \<Rightarrow> string \<Rightarrow> string \<Rightarrow> string list" where
  "split_str sep cur [] = [rev cur]"
| "split_str sep cur (c # cs) =
     (if sep \<noteq> [] \<and> HasPrefix (c # cs) sep
      then rev cur # split_str sep [] (drop (length sep) (c # cs))
      else split_str sep (c # cur) cs)"
  by pat_completeness auto
termination
  by (relation "measure (\<lambda>(sep, cur, s). length s)") auto

definition SplitString :: "string \<Rightarrow> string \<Rightarrow> string list" where
  "SplitString s sep = split_str sep [] s"

text \<open>\<open>strings.Cut\<close> at a single character: before, after, found.\<close>

definition Cut :: "string \<Rightarrow> char \<Rightarrow> string \<times> string \<times> bool" where
  "Cut s c =
     (let b = takeWhile (\<lambda>x. x \<noteq> c) s
      in case dropWhile (\<lambda>x. x \<noteq> c) s of
           [] \<Rightarrow> (s, [], False)
         | _ # r \<Rightarrow> (b, r, True))"

lemma Cut_found: "c \<notin> set w \<Longrightarrow> Cut (w @ c # r) c = (w, r, True)"
  by (simp add: Cut_def takeWhile_tail dropWhile_append3)

lemma Cut_missing: "c \<notin> set s \<Longrightarrow> Cut s c = (s, [], False)"
  by (simp add: Cut_def)

text \<open>\<open>strings.SplitN(s, sep, 2)\<close> for a one-character separator.\<close>

definition SplitN2 :: "string \<Rightarrow> char \<Rightarrow> string list" where
  "SplitN2 s c = (case Cut s c of (b, r, found) \<Rightarrow> if found then [b, r] else [s])"

lemma SplitN2_sep: "c \<notin> set w \<Longrightarrow> SplitN2 (w @ c # r) c = [w, r]"
  by (simp add: SplitN2_def Cut_found)

lemma SplitN2_clean: "c \<notin> set s \<Longrightarrow> SplitN2 s c = [s]"
  by (simp add: SplitN2_def Cut_missing)

text \<open>The text before and after the last occurrence of a character that occurs.\<close>

definition before_last :: "string \<Rightarrow> char \<Rightarrow> string" where
  "before_last s c = rev (tl (dropWhile (\<lambda>x. x \<noteq> c) (rev s)))"

definition after_last :: "string \<Rightarrow> char \<Rightarrow> string" where
  "after_last s c = rev (takeWhile (\<lambda>x. x \<noteq> c) (rev s))"

lemma before_after_last:
  "c \<notin> set v \<Longrightarrow> before_last (g @ c # v) c = g \<and> after_last (g @ c # v) c = v"
  by (simp add: before_last_def after_last_def takeWhile_tail dropWhile_append3)

subsection \<open>White space and case\<close>

definition is_space :: "char \<Rightarrow> bool" where
  "is_space c \<longleftrightarrow> c \<in> {CHR '' '', CHR 0x09, CHR 0x0A, CHR 0x0B, CHR 0x0C, CHR 0x0D}"

definition TrimRightBy :: "(char \<Rightarrow> bool) \<Rightarrow> string \<Rightarrow> string" where
  "TrimRightBy P s = rev (dropWhile P (rev s))"

definition TrimSpace :: "string \<Rightarrow> string" where
  "TrimSpace s = TrimRightBy is_space (dropWhile is_space s)"

definition Fields :: "string \<Rightarrow> string list" where
  "Fields s = filter (\<lambda>w. w \<noteq> []) (split_by is_space s)"

lemma TrimRightBy_id: "s = [] \<or> \<not> P (last s) \<Longrightarrow> TrimRightBy P s = s"
  by (cases s rule: rev_cases) (auto simp: TrimRightBy_def)

lemma TrimSpace_id: "\<forall>c \<in> set s. \<not> is_space c \<Longrightarrow> TrimSpace s = s"
proof -
  assume a: "\<forall>c \<in> set s. \<not> is_space c"
  then have "dropWhile is_space s = s" by (cases s) auto
  moreover have "TrimRightBy is_space s = s"
    using a by (intro TrimRightBy_id) (cases s rule: rev_cases; simp)
  ultimately show ?thesis by (simp add: TrimSpace_def)
qed

lemma Fields_word: "w \<noteq> [] \<Longrightarrow> \<forall>c \<in> set w. \<not> is_space c \<Longrightarrow> Fields w = [w]"
  by (simp add: Fields_def split_by_clean)

lemma Fields_sep:
  "w \<noteq> [] \<Longrightarrow> \<forall>c \<in> set w. \<not> is_space c \<Longrightarrow> is_space c \<Longrightarrow> Fields (w @ c # s) = w # Fields s"
  by (simp add: Fields_def split_by_sep)

definition to_lower :: "char \<Rightarrow> char" where
  "to_lower c =
     (let n = of_char c :: nat in if 65 \<le> n \<and> n \<le> 90 then char_of (n + 32) else c)"

definition EqualFold :: "string \<Rightarrow> string \<Rightarrow> bool" where
  "EqualFold s t \<longleftrightarrow> map to_lower s = map to_lower t"

text \<open>What every filter of the repository relies on: an equivalence that contains equality.\<close>

locale name_matching =
  fixes same :: "string \<Rightarrow> string \<Rightarrow> bool"
  assumes same_refl: "same s s"
    and same_sym: "same s t \<Longrightarrow> same t s"
    and same_trans: "same s t \<Longrightarrow> same t u \<Longrightarrow> same s u"
begin

text \<open>A filter that is empty accepts everything; another accepts one equivalence class.\<close>

lemma class_filter_cong:
  assumes "same s t"
  shows "filter (\<lambda>r. same (f r) s) xs = filter (\<lambda>r. same (f r) t) xs"
  using assms by (intro filter_cong) (auto intro: same_trans same_sym)

lemma same_cong_left: "same s t \<Longrightarrow> same s u \<longleftrightarrow> same t u"
  by (blast intro: same_trans same_sym)

end

interpretation fold_case: name_matching EqualFold
  by unfold_locales (auto simp: EqualFold_def)

subsection \<open>Decimal numbers\<close>

definition is_digit :: "char \<Rightarrow> bool" where
  "is_digit c \<longleftrightarrow> (48::nat) \<le> of_char c \<and> of_char c \<le> (57::nat)"

fun digits_value :: "nat \<Rightarrow> string \<Rightarrow> nat" where
  "digits_value acc [] = acc"
| "digits_value acc (c # cs) = digits_value (10 * acc + (of_char c - 48)) cs"

text \<open>\<open>strconv.Atoi\<close> as \<open>size, _ :=\<close> uses it: 0 for a string that is no number, the nearest
  bound for one out of range.\<close>

definition atoi_or_zero :: "string \<Rightarrow> int" where
  "atoi_or_zero s =
     (let (neg, ds) = (case s of
            [] \<Rightarrow> (False, [])
          | c # cs \<Rightarrow> if c = CHR ''-'' then (True, cs) else if c = CHR ''+'' then (False, cs) else (False, s))
      in if ds = [] \<or> \<not> list_all is_digit ds then 0
         else let v = int (digits_value 0 ds)
              in if neg then max goint_min (- v) else min goint_max v)"

fun show_nat :: "nat \<Rightarrow> string" where
  "show_nat n = (if n < 10 then [char_of (n + 48)] else show_nat (n div 10) @ [char_of (n mod 10 + 48)])"

declare show_nat.simps [simp del]

lemma digits_value_append: "digits_value acc (s @ t) = digits_value (digits_value acc s) t"
  by (induction s arbitrary: acc) auto

lemma of_char_digit: "n < 10 \<Longrightarrow> (of_char (char_of (n + 48 :: nat)) :: nat) = n + 48"
  by (simp add: of_char_of)

lemma digit_char: "n < 10 \<Longrightarrow> is_digit (char_of (n + 48 :: nat))"
  by (simp add: is_digit_def of_char_digit)

lemma show_nat_digits: "list_all is_digit (show_nat n)"
proof (induction n rule: show_nat.induct)
  case (1 n)
  then show ?case
    by (subst show_nat.simps) (auto simp: digit_char)
qed

lemma show_nat_value: "digits_value 0 (show_nat n) = n"
proof (induction n rule: show_nat.induct)
  case (1 n)
  then show ?case
    by (subst show_nat.simps) (auto simp: of_char_digit digits_value_append)
qed

lemma show_nat_not_Nil [simp]: "show_nat n \<noteq> []"
  by (subst show_nat.simps) auto

lemma is_digit_not_space: "is_digit c \<Longrightarrow> \<not> is_space c"
  by (auto simp: is_digit_def is_space_def)

lemma atoi_show_nat:
  assumes "int n \<le> goint_max"
  shows "atoi_or_zero (show_nat n) = int n"
proof -
  obtain c cs where s: "show_nat n = c # cs" by (cases "show_nat n") auto
  then have "is_digit c" using show_nat_digits [of n] by simp
  then have "c \<noteq> CHR ''-''" "c \<noteq> CHR ''+''" by (auto simp: is_digit_def)
  then show ?thesis
    using assms show_nat_digits [of n] show_nat_value [of n] s
    by (simp add: atoi_or_zero_def)
qed

end
