(* ===== verification/GoData.thy ===== *)
theory GoData
  imports GoStrings
begin

text \<open>
  Decoded YAML and JSON documents (\<open>map[string]any\<close>). A Go map is an association list
  whose order stands for the iteration order; the operations read the first entry of a
  key, so that a list with distinct keys behaves as the map does. The values of type
  \<open>any\<close> are those the YAML and JSON decoders produce; a number is kept as the rational it
  denotes, since no code of the repository looks into it.
\<close>

subsection \<open>Maps\<close>

type_synonym 'v gmap = "(string \<times> 'v) list"

definition gm_get :: "'v gmap \<Rightarrow> string \<Rightarrow> 'v option" where
  "gm_get m k = map_of m k"

fun gm_put :: "string \<Rightarrow> 'v \<Rightarrow> 'v gmap \<Rightarrow> 'v gmap" where
  "gm_put k v [] = [(k, v)]"
| "gm_put k v ((k', v') # m) = (if k = k' then (k, v) # m else (k', v') # gm_put k v m)"

definition gm_del :: "string \<Rightarrow> 'v gmap \<Rightarrow> 'v gmap" where
  "gm_del k m = filter (\<lambda>(k', _). k' \<noteq> k) m"

definition gm_keys :: "'v gmap \<Rightarrow> string list" where
  "gm_keys m = map fst m"

definition gm_wf :: "'v gmap \<Rightarrow> bool" where
  "gm_wf m \<longleftrightarrow> distinct (gm_keys m)"

text \<open>The interface of a Go map, as the components use it.\<close>

locale go_map =
  fixes get :: "'m \<Rightarrow> 'k \<Rightarrow> 'v option"
    and put :: "'k \<Rightarrow> 'v \<Rightarrow> 'm \<Rightarrow> 'm"
    and del :: "'k \<Rightarrow> 'm \<Rightarrow> 'm"
    and keys :: "'m \<Rightarrow> 'k list"
    and wf :: "'m \<Rightarrow> bool"
  assumes get_put: "get (put k v m) k' = (if k' = k then Some v else get m k')"
    and get_del: "get (del k m) k' = (if k' = k then None else get m k')"
    and keys_get: "k \<in> set (keys m) \<longleftrightarrow> get m k \<noteq> None"
    and wf_put: "wf m \<Longrightarrow> wf (put k v m)"
    and wf_del: "wf m \<Longrightarrow> wf (del k m)"
    and wf_distinct: "wf m \<Longrightarrow> distinct (keys m)"
begin

lemma get_put_same [simp]: "get (put k v m) k = Some v"
  by (simp add: get_put)

lemma get_put_other [simp]: "k' \<noteq> k \<Longrightarrow> get (put k v m) k' = get m k'"
  by (simp add: get_put)

lemma get_del_same [simp]: "get (del k m) k = None"
  by (simp add: get_del)

lemma get_del_other [simp]: "k' \<noteq> k \<Longrightarrow> get (del k m) k' = get m k'"
  by (simp add: get_del)

lemma keys_put: "set (keys (put k v m)) = insert k (set (keys m))"
  by (auto simp: keys_get get_put split: if_splits)

lemma keys_del: "set (keys (del k m)) = set (keys m) - {k}"
  by (auto simp: keys_get get_del split: if_splits)

end

lemma gm_put_get: "map_of (gm_put k v m) k' = (if k' = k then Some v else map_of m k')"
  by (induction k v m rule: gm_put.induct) auto

lemma gm_put_keys: "fst ` set (gm_put k v m) = insert k (fst ` set m)"
  by (induction k v m rule: gm_put.induct) auto

lemma gm_put_distinct: "distinct (map fst m) \<Longrightarrow> distinct (map fst (gm_put k v m))"
  by (induction k v m rule: gm_put.induct) (auto simp: gm_put_keys)

lemma gm_del_get: "map_of (gm_del k m) k' = (if k' = k then None else map_of m k')"
  by (induction m) (auto simp: gm_del_def)

interpretation gm: go_map gm_get gm_put gm_del gm_keys gm_wf
proof unfold_locales
  show "k \<in> set (gm_keys m) \<longleftrightarrow> gm_get m k \<noteq> None" for k and m :: "'c gmap"
    by (simp add: gm_keys_def gm_get_def map_of_eq_None_iff)
  show "gm_wf (gm_del k m)" if "gm_wf m" for k and m :: "'c gmap"
    using that by (simp add: gm_wf_def gm_keys_def gm_del_def distinct_map_fst_filter)
qed (auto simp: gm_get_def gm_put_get gm_del_get gm_wf_def gm_keys_def gm_put_distinct)

lemma gm_del_twice [simp]: "gm_del k (gm_del k m) = gm_del k m"
  by (simp add: gm_del_def case_prod_unfold)

lemma gm_del_commute: "gm_del k (gm_del k' m) = gm_del k' (gm_del k m)"
  by (simp add: gm_del_def case_prod_unfold conj_commute)

lemma gm_put_commute_del: "k \<noteq> k' \<Longrightarrow> gm_del k' (gm_put k v m) = gm_put k v (gm_del k' m)"
  by (induction k v m rule: gm_put.induct) (auto simp: gm_del_def)

lemma gm_del_put_same [simp]: "gm_del k (gm_put k v m) = gm_del k m"
  by (induction k v m rule: gm_put.induct) (auto simp: gm_del_def)

lemma gm_put_put_same [simp]: "gm_put k v (gm_put k v' m) = gm_put k v m"
  by (induction k v' m rule: gm_put.induct) auto

lemma gm_put_id: "gm_get m k = Some v \<Longrightarrow> gm_put k v m = m"
  by (induction k v m rule: gm_put.induct) (auto simp: gm_get_def split: if_splits)

lemma gm_put_put_commute:
  "k \<noteq> k' \<Longrightarrow> gm_get m k \<noteq> None \<Longrightarrow> gm_get m k' \<noteq> None \<Longrightarrow>
   gm_put k v (gm_put k' v' m) = gm_put k' v' (gm_put k v m)"
  by (induction k v m rule: gm_put.induct) (auto simp: gm_get_def split: if_splits)

subsection \<open>Dynamic values\<close>

datatype any =
    ANil
  | ABool bool
  | ANum rat
  | AStr string
  | AArr "any list"
  | AMap "(string \<times> any) list"

type_synonym doc = "any gmap"

text \<open>The type assertions \<open>s, _ := v.(string)\<close> and \<open>m, ok := v.(map[string]any)\<close> on the
  result of a map read (a missing key reads as \<open>nil\<close>).\<close>

fun as_string :: "any option \<Rightarrow> string" where
  "as_string (Some (AStr s)) = s"
| "as_string _ = []"

fun as_map :: "any option \<Rightarrow> doc option" where
  "as_map (Some (AMap m)) = Some m"
| "as_map _ = None"

fun as_list :: "any option \<Rightarrow> any list option" where
  "as_list (Some (AArr xs)) = Some xs"
| "as_list _ = None"

lemma as_map_Some_iff: "as_map v = Some m \<longleftrightarrow> v = Some (AMap m)"
  by (cases v rule: as_map.cases) auto

text \<open>A value is a leaf when no path leads into it.\<close>

fun is_leaf :: "any \<Rightarrow> bool" where
  "is_leaf (AArr _) = False"
| "is_leaf (AMap _) = False"
| "is_leaf _ = True"

text \<open>Concrete positions inside a document: a key of a map or an index of a list.\<close>

datatype step = Key string | Idx nat

fun at_path :: "any \<Rightarrow> step list \<Rightarrow> any option" where
  "at_path v [] = Some v"
| "at_path (AMap m) (Key k # q) =
     (case gm_get m k of None \<Rightarrow> None | Some v \<Rightarrow> at_path v q)"
| "at_path (AArr xs) (Idx i # q) = (if i < length xs then at_path (xs ! i) q else None)"
| "at_path _ _ = None"

text \<open>The labels of a resource: the string-valued entries of \<open>metadata.labels\<close>.\<close>

fun string_entries :: "doc \<Rightarrow> string gmap" where
  "string_entries [] = []"
| "string_entries ((k, v) # m) =
     (case v of AStr s \<Rightarrow> (k, s) # string_entries m | _ \<Rightarrow> string_entries m)"

lemma string_entries_keys: "k \<in> fst ` set (string_entries m) \<Longrightarrow> k \<in> fst ` set m"
proof (induction m)
  case (Cons e m)
  then show ?case by (cases e; cases "snd e") (auto split: if_splits)
qed simp

lemma string_entries_get:
  "gm_wf m \<Longrightarrow> gm_get (string_entries m) k =
     (case gm_get m k of Some (AStr s) \<Rightarrow> Some s | _ \<Rightarrow> None)"
proof (induction m)
  case (Cons e m)
  obtain k' v where e: "e = (k', v)" by (cases e)
  have IH: "gm_get (string_entries m) k =
      (case gm_get m k of Some (AStr s) \<Rightarrow> Some s | _ \<Rightarrow> None)"
    using Cons by (simp add: gm_wf_def gm_keys_def)
  have "k' \<notin> fst ` set (string_entries m)"
    using Cons.prems string_entries_keys [of k' m] by (auto simp: gm_wf_def gm_keys_def e)
  then have "gm_get (string_entries m) k' = None"
    by (simp add: gm_get_def map_of_eq_None_iff)
  with IH show ?case by (cases v; cases "k = k'") (auto simp: gm_get_def e)
qed (simp add: gm_get_def)

end
