(* ===== verification/Defaults.thy ===== *)
theory Defaults
  imports GoStrings
begin

text \<open>
  \<open>internal/defaults/excludes.go\<close>: the built-in exclusions. The tables are transcribed
  entry by entry; the map of field exclusions is an association list, whose order is one
  of the orders in which Go may iterate over it.
\<close>

datatype ExclusionReason = ReasonExecutionArtifact | ReasonRuntimeDerived | ReasonSecurity

fun reason_text :: "ExclusionReason \<Rightarrow> string" where
  "reason_text ReasonExecutionArtifact = ''execution-artifact''"
| "reason_text ReasonRuntimeDerived = ''runtime-derived''"
| "reason_text ReasonSecurity = ''security''"

record ResourceExclusion =
  re_Resource :: string
  re_Reason :: ExclusionReason
  re_Note :: string

record ObjectExclusion =
  oe_Resource :: string
  oe_OwnerKind :: string
  oe_Reason :: ExclusionReason
  oe_Note :: string

definition BuiltinExcludeResources :: "ResourceExclusion list" where
  "BuiltinExcludeResources = [
    \<lparr>re_Resource = ''secrets'', re_Reason = ReasonSecurity,
     re_Note = ''Contains sensitive credentials; security exception overrides information-base classification.''\<rparr>,
    \<lparr>re_Resource = ''events'', re_Reason = ReasonExecutionArtifact,
     re_Note = ''Records what happened, not what the cluster intends. Use dedicated event storage for history.''\<rparr>,
    \<lparr>re_Resource = ''events.events.k8s.io'', re_Reason = ReasonExecutionArtifact,
     re_Note = ''Same as events; served under events.k8s.io API group.''\<rparr>,
    \<lparr>re_Resource = ''leases.coordination.k8s.io'', re_Reason = ReasonRuntimeDerived,
     re_Note = ''Leader-election heartbeat tokens; pure runtime coordination state with no configuration value.''\<rparr>,
    \<lparr>re_Resource = ''endpointslices.discovery.k8s.io'', re_Reason = ReasonRuntimeDerived,
     re_Note = ''Automatically derived from Services and ready Pods by the EndpointSlice controller.''\<rparr>,
    \<lparr>re_Resource = ''componentstatuses'', re_Reason = ReasonRuntimeDerived,
     re_Note = ''Deprecated live health-check results for control-plane components; no configuration information.''\<rparr>,
    \<lparr>re_Resource = ''certificaterequests.cert-manager.io'', re_Reason = ReasonExecutionArtifact,
     re_Note = ''Transient signing request created during certificate issuance; Certificate is the desired state.''\<rparr>,
    \<lparr>re_Resource = ''orders.acme.cert-manager.io'', re_Reason = ReasonExecutionArtifact,
     re_Note = ''Transient ACME order object created during certificate issuance.''\<rparr>,
    \<lparr>re_Resource = ''challenges.acme.cert-manager.io'', re_Reason = ReasonExecutionArtifact,
     re_Note = ''Transient ACME challenge object created during certificate issuance.''\<rparr>,
    \<lparr>re_Resource = ''ciliumendpoints.cilium.io'', re_Reason = ReasonRuntimeDerived,
     re_Note = ''Per-pod CNI endpoint state maintained automatically by the Cilium agent.''\<rparr>,
    \<lparr>re_Resource = ''ciliumidentities.cilium.io'', re_Reason = ReasonRuntimeDerived,
     re_Note = ''Security identity derived from pod labels by the Cilium operator; recreated on demand.''\<rparr>,
    \<lparr>re_Resource = ''workflowtaskresults.argoproj.io'', re_Reason = ReasonExecutionArtifact,
     re_Note = ''Per-node execution result emitted during a Workflow run; Workflow/WorkflowTemplate is the desired state.''\<rparr>,
    \<lparr>re_Resource = ''workflows.argoproj.io'', re_Reason = ReasonExecutionArtifact,
     re_Note = ''Individual Workflow run instance; WorkflowTemplate is the desired state. Runs are execution history.''\<rparr>,
    \<lparr>re_Resource = ''pods.metrics.k8s.io'', re_Reason = ReasonRuntimeDerived,
     re_Note = ''Live CPU/memory samples from metrics-server; point-in-time values with no configuration information.''\<rparr>,
    \<lparr>re_Resource = ''nodes.metrics.k8s.io'', re_Reason = ReasonRuntimeDerived,
     re_Note = ''Live CPU/memory samples from metrics-server; point-in-time values with no configuration information.''\<rparr>]"

definition BuiltinExcludeObjects :: "ObjectExclusion list" where
  "BuiltinExcludeObjects = [
    \<lparr>oe_Resource = ''jobs'', oe_OwnerKind = ''CronJob'', oe_Reason = ReasonExecutionArtifact,
     oe_Note = ''Jobs generated by CronJobs are routine execution instances. CronJob is the desired state; individual runs are execution history.''\<rparr>,
    \<lparr>oe_Resource = ''pods'', oe_OwnerKind = ''Job'', oe_Reason = ReasonExecutionArtifact,
     oe_Note = ''Pods owned by Jobs are transient execution containers. The Job (or CronJob) spec is the desired state.''\<rparr>]"

definition BuiltinExcludeFields :: "(string \<times> string list) list" where
  "BuiltinExcludeFields = [
    (''applications.argoproj.io'', [''status.reconciledAt'']),
    (''grafanadashboards.grafana.integreatly.org'', [''status.lastResync'']),
    (''grafanadatasources.grafana.integreatly.org'', [''status.lastResync'', ''status.hash'']),
    (''grafanaserviceaccounts.grafana.integreatly.org'', [''status.lastResync'', ''status.conditions'']),
    (''nodes'', [''status.conditions[*].lastHeartbeatTime''])]"

lemma builtin_resource_names:
  "map re_Resource BuiltinExcludeResources =
    [''secrets'', ''events'', ''events.events.k8s.io'', ''leases.coordination.k8s.io'',
     ''endpointslices.discovery.k8s.io'', ''componentstatuses'',
     ''certificaterequests.cert-manager.io'', ''orders.acme.cert-manager.io'',
     ''challenges.acme.cert-manager.io'', ''ciliumendpoints.cilium.io'',
     ''ciliumidentities.cilium.io'', ''workflowtaskresults.argoproj.io'',
     ''workflows.argoproj.io'', ''pods.metrics.k8s.io'', ''nodes.metrics.k8s.io'']"
  by (simp add: BuiltinExcludeResources_def)

lemma builtin_field_keys:
  "map fst BuiltinExcludeFields =
    [''applications.argoproj.io'', ''grafanadashboards.grafana.integreatly.org'',
     ''grafanadatasources.grafana.integreatly.org'',
     ''grafanaserviceaccounts.grafana.integreatly.org'', ''nodes'']"
  by (simp add: BuiltinExcludeFields_def)

lemma builtin_notes: "list_all (\<lambda>e. re_Note e \<noteq> []) BuiltinExcludeResources"
  by (simp add: BuiltinExcludeResources_def)

end
