(* ===== verification/Config.thy ===== *)
theory Config
  imports GoData Defaults
begin

text \<open>
  \<open>internal/config\<close>: the configuration of the two binaries, the rules that decide what the
  backup leaves out, and the CEL functions of \<open>excludeIf\<close>. The CEL library, the YAML
  decoder, the cron and duration parsers and the accessors of
  \<open>unstructured.Unstructured\<close> are outside the repository: they are parameters.
\<close>

subsection \<open>Objects and their accessors\<close>

record OwnerReference =
  or_Kind :: string
  or_Name :: string
  or_Controller :: "bool option"

text \<open>The accessors of \<open>*unstructured.Unstructured\<close> (k8s.io/apimachinery) as functions of
  the object's content.\<close>

record k8s_accessors =
  GetNamespace :: "doc \<Rightarrow> string"
  GetName :: "doc \<Rightarrow> string"
  GetOwnerReferences :: "doc \<Rightarrow> OwnerReference list"
  GetGenerateName :: "doc \<Rightarrow> string"
  GetLabels :: "doc \<Rightarrow> string gmap"
  GetAnnotations :: "doc \<Rightarrow> string gmap"
  GetFinalizers :: "doc \<Rightarrow> string list"
  GetDeletionTimestamp :: "doc \<Rightarrow> int option"

subsection \<open>CEL functions for excludeIf\<close>

text \<open>
  \<open>celItemContext\<close> holds the object under evaluation. The extension functions dereference
  it: with no object set they panic.
\<close>

record celItemContext =
  cc_item :: "doc option"

definition with_item :: "celItemContext \<Rightarrow> (doc \<Rightarrow> 'a) \<Rightarrow> 'a result" where
  "with_item ctx f =
     (case cc_item ctx of None \<Rightarrow> Panic ''nil pointer dereference'' | Some it \<Rightarrow> Ok (f it))"

record cel_env =
  ce_hasOwnerKind :: "string \<Rightarrow> bool result"
  ce_hasOwnerName :: "string \<Rightarrow> bool result"
  ce_isControlled :: "bool result"
  ce_isGenerated :: "bool result"
  ce_hasLabel :: "string \<Rightarrow> bool result"
  ce_labelValue :: "string \<Rightarrow> string result"
  ce_hasAnnotation :: "string \<Rightarrow> bool result"
  ce_annotationValue :: "string \<Rightarrow> string result"
  ce_hasFinalizer :: "string \<Rightarrow> bool result"
  ce_isBeingDeleted :: "bool result"

definition map_read :: "string gmap \<Rightarrow> string \<Rightarrow> string" where
  "map_read m k = (case gm_get m k of None \<Rightarrow> [] | Some v \<Rightarrow> v)"

definition newExcludeIfEnv :: "k8s_accessors \<Rightarrow> celItemContext \<Rightarrow> cel_env" where
  "newExcludeIfEnv acc ctx = \<lparr>
     ce_hasOwnerKind = (\<lambda>k. with_item ctx (\<lambda>it. list_ex (\<lambda>ow. or_Kind ow = k) (GetOwnerReferences acc it))),
     ce_hasOwnerName = (\<lambda>n. with_item ctx (\<lambda>it. list_ex (\<lambda>ow. or_Name ow = n) (GetOwnerReferences acc it))),
     ce_isControlled = with_item ctx (\<lambda>it. list_ex (\<lambda>ow. or_Controller ow = Some True) (GetOwnerReferences acc it)),
     ce_isGenerated = with_item ctx (\<lambda>it. GetGenerateName acc it \<noteq> []),
     ce_hasLabel = (\<lambda>k. with_item ctx (\<lambda>it. gm_get (GetLabels acc it) k \<noteq> None)),
     ce_labelValue = (\<lambda>k. with_item ctx (\<lambda>it. map_read (GetLabels acc it) k)),
     ce_hasAnnotation = (\<lambda>k. with_item ctx (\<lambda>it. gm_get (GetAnnotations acc it) k \<noteq> None)),
     ce_annotationValue = (\<lambda>k. with_item ctx (\<lambda>it. map_read (GetAnnotations acc it) k)),
     ce_hasFinalizer = (\<lambda>k. with_item ctx (\<lambda>it. list_ex (\<lambda>f. f = k) (GetFinalizers acc it))),
     ce_isBeingDeleted = with_item ctx (\<lambda>it. GetDeletionTimestamp acc it \<noteq> None)\<rparr>"

text \<open>What a compiled program sees: the four activation variables and the functions.\<close>

record activation =
  act_resource :: string
  act_group :: string
  act_ns :: string
  act_name :: string

datatype cel_value = CelBool bool | CelOther string

type_synonym cel_program = "activation \<Rightarrow> cel_env \<Rightarrow> cel_value result"

definition compileExcludeIf ::
  "(string \<Rightarrow> error + 'ast) \<Rightarrow> ('ast \<Rightarrow> error + cel_program) \<Rightarrow> string \<Rightarrow> error + cel_program" where
  "compileExcludeIf env_Compile env_Program expr =
     (case env_Compile expr of
        Inl issues \<Rightarrow> Inl issues
      | Inr ast \<Rightarrow> (case env_Program ast of Inl err \<Rightarrow> Inl err | Inr prog \<Rightarrow> Inr prog))"

text \<open>\<open>evalExcludeIf\<close> stores the object in the shared context, then runs the program.\<close>

definition evalExcludeIf ::
  "k8s_accessors \<Rightarrow> cel_program \<Rightarrow> celItemContext \<Rightarrow> string \<Rightarrow> string \<Rightarrow> doc \<Rightarrow>
   celItemContext \<times> bool result" where
  "evalExcludeIf acc prog ctx resource grp item =
     (let ctx' = ctx\<lparr>cc_item := Some item\<rparr>;
          out = prog \<lparr>act_resource = resource, act_group = grp,
                      act_ns = GetNamespace acc item, act_name = GetName acc item\<rparr>
                     (newExcludeIfEnv acc ctx')
      in (ctx', case out of
                  Err err \<Rightarrow> Err err
                | Panic p \<Rightarrow> Panic p
                | Ok (CelBool b) \<Rightarrow> Ok b
                | Ok (CelOther t) \<Rightarrow> Err (ErrText (''expression returned '' @ t @ '', want bool''))))"

subsection \<open>The configuration types\<close>

record TypeMeta =
  tm_APIVersion :: string
  tm_Kind :: string

record AuthorConfig =
  au_Name :: string
  au_Email :: string

record GitConfig =
  git_Repo :: string
  git_Branch :: string
  git_SubDir :: string
  git_Token :: string
  git_TokenFile :: string
  git_Author :: AuthorConfig

record RuleConfig =
  rc_Resource :: string
  rc_Namespace :: string
  rc_Name :: string
  rc_Exclude :: bool
  rc_ExcludeFields :: "string list"
  rc_ExcludeIf :: string
  rc_program :: "cel_program option"

definition hasObjectFilter :: "RuleConfig \<Rightarrow> bool" where
  "hasObjectFilter rc \<longleftrightarrow> rc_Namespace rc \<noteq> [] \<or> rc_Name rc \<noteq> []"

record BackupConfig =
  bc_Schedule :: string
  bc_DisableBuiltinExcludes :: bool
  bc_Rules :: "RuleConfig list"

record KorpusSpec =
  ks_Git :: GitConfig
  ks_Backup :: BackupConfig

record KorpusConfig =
  kc_TypeMeta :: TypeMeta
  kc_Spec :: KorpusSpec
  kc_celCtx :: "celItemContext option"

record ClusterConfig =
  cl_Name :: string
  cl_Git :: GitConfig

record IndexConfig =
  ix_Fields :: "string list"
  ix_HistoryDays :: int

record OIDCConfig =
  oidc_Issuer :: string
  oidc_Audience :: string
  oidc_ClientID :: string

record ServerSpec =
  ss_Addr :: string
  ss_PullInterval :: string
  ss_Clusters :: "ClusterConfig list"
  ss_Index :: IndexConfig
  ss_OIDC :: "OIDCConfig option"

record ServerConfig =
  sc_TypeMeta :: TypeMeta
  sc_Spec :: ServerSpec

text \<open>\<open>time.ParseDuration\<close> is passed in; on an error its value is 0.\<close>

definition PullIntervalDuration :: "(string \<Rightarrow> error + int) \<Rightarrow> ServerSpec \<Rightarrow> int" where
  "PullIntervalDuration ParseDuration s =
     (case ParseDuration (ss_PullInterval s) of Inl _ \<Rightarrow> 0 | Inr d \<Rightarrow> d)"

subsection \<open>Environment variables\<close>

definition is_ident_start :: "char \<Rightarrow> bool" where
  "is_ident_start c \<longleftrightarrow>
     (let n = of_char c :: nat in (65 \<le> n \<and> n \<le> 90) \<or> (97 \<le> n \<and> n \<le> 122) \<or> c = CHR ''_'')"

definition is_ident_char :: "char \<Rightarrow> bool" where
  "is_ident_char c \<longleftrightarrow> is_ident_start c \<or> is_digit c"

text \<open>A match of \<open>envVarRe\<close> at the start of the text: the variable and the text after it.\<close>

definition envVarRe :: "string \<Rightarrow> (string \<times> string) option" where
  "envVarRe s =
     (case s of
        a # b # r \<Rightarrow>
          (let name = takeWhile is_ident_char r; after = dropWhile is_ident_char r
           in if a = CHR ''$'' \<and> b = CHR ''{'' \<and> name \<noteq> [] \<and> is_ident_start (hd name) \<and>
                 after \<noteq> [] \<and> hd after = CHR ''}''
              then Some (name, tl after) else None)
      | _ \<Rightarrow> None)"

lemma envVarRe_shorter: "envVarRe s = Some (name, r) \<Longrightarrow> length r < length s"
proof -
  assume "envVarRe s = Some (name, r)"
  then obtain a b t where s: "s = a # b # t" and r: "r = tl (dropWhile is_ident_char t)"
    by (auto simp: envVarRe_def Let_def split: list.splits if_splits)
  have "length (dropWhile is_ident_char t) \<le> length t" by (rule length_dropWhile_le)
  then show ?thesis by (simp add: s r)
qed

text \<open>\<open>ReplaceAllStringFunc\<close> with the callback: the text and the missing names, in order.\<close>

function expand_env :: "(string \<Rightarrow> string option) \<Rightarrow> string \<Rightarrow> string \<times> string list" where
  "expand_env env s =
     (case envVarRe s of
        Some (name, r) \<Rightarrow>
          (let (t, missing) = expand_env env r
           in case env name of
                Some v \<Rightarrow> (v @ t, missing)
              | None \<Rightarrow> (t, name # missing))
      | None \<Rightarrow>
          (case s of
             [] \<Rightarrow> ([], [])
           | c # r \<Rightarrow> (let (t, missing) = expand_env env r in (c # t, missing))))"
  by pat_completeness auto
termination
  by (relation "measure (\<lambda>(env, s). length s)") (auto dest: envVarRe_shorter)

declare expand_env.simps [simp del]

definition expandEnvStrict :: "(string \<Rightarrow> string option) \<Rightarrow> string \<Rightarrow> string result" where
  "expandEnvStrict LookupEnv s =
     (let (text, missing) = expand_env LookupEnv s
      in if length missing > 0
         then Err (ErrText (''undefined env vars in config: '' @ Join missing '', ''))
         else Ok text)"

definition readAndExpand ::
  "(string \<Rightarrow> error + string) \<Rightarrow> (string \<Rightarrow> string option) \<Rightarrow> string \<Rightarrow> string result" where
  "readAndExpand ReadFile LookupEnv path =
     (case ReadFile path of
        Inl err \<Rightarrow> Err (ErrWrap ''read config'' err)
      | Inr raw \<Rightarrow>
          (case expandEnvStrict LookupEnv raw of
             Err err \<Rightarrow> Err (ErrWrap ''config envsubst'' err)
           | Panic p \<Rightarrow> Panic p
           | Ok expanded \<Rightarrow> Ok expanded))"

subsection \<open>Loading\<close>

text \<open>The loop that compiles the \<open>excludeIf\<close> rules in place; \<open>i\<close> is the rule's index.\<close>

fun compile_rules ::
  "(string \<Rightarrow> error + cel_program) \<Rightarrow> nat \<Rightarrow> RuleConfig list \<Rightarrow> RuleConfig list result" where
  "compile_rules compile i [] = Ok []"
| "compile_rules compile i (rc # rcs) =
     (if rc_ExcludeIf rc = [] then map_result (\<lambda>rs. rc # rs) (compile_rules compile (Suc i) rcs)
      else (case compile (rc_ExcludeIf rc) of
              Inl err \<Rightarrow> Err (ErrWrap (''spec.backup.rules['' @ show_nat i @ ''].excludeIf'') err)
            | Inr prog \<Rightarrow>
                map_result (\<lambda>rs. rc\<lparr>rc_program := Some prog\<rparr> # rs) (compile_rules compile (Suc i) rcs)))"

definition LoadKorpus ::
  "(string \<Rightarrow> string result) \<Rightarrow> (string \<Rightarrow> error + KorpusConfig) \<Rightarrow> (string \<Rightarrow> error + unit) \<Rightarrow>
   (error + unit) \<Rightarrow> (string \<Rightarrow> error + cel_program) \<Rightarrow> string \<Rightarrow> KorpusConfig result" where
  "LoadKorpus read Unmarshal ParseStandard NewEnv compile path =
     rbind (read path) (\<lambda>data.
       case Unmarshal data of
         Inl err \<Rightarrow> Err (ErrWrap ''parse config'' err)
       | Inr cfg \<Rightarrow>
           (let git = ks_Git (kc_Spec cfg); backup = ks_Backup (kc_Spec cfg) in
            if git_Repo git = [] then Err (ErrText ''spec.git.repo is required'')
            else
              let git = (if git_Branch git = [] then git\<lparr>git_Branch := ''main''\<rparr> else git);
                  backup = (if bc_Schedule backup = []
                            then backup\<lparr>bc_Schedule := ''*/10 * * * *''\<rparr> else backup)
              in case ParseStandard (bc_Schedule backup) of
                   Inl err \<Rightarrow> Err (ErrWrap (''invalid spec.backup.schedule '' @ bc_Schedule backup) err)
                 | Inr _ \<Rightarrow>
                     (case NewEnv of
                        Inl err \<Rightarrow> Err (ErrWrap ''build CEL env'' err)
                      | Inr _ \<Rightarrow>
                          map_result
                            (\<lambda>rules. cfg\<lparr>kc_Spec := \<lparr>ks_Git = git,
                                          ks_Backup = backup\<lparr>bc_Rules := rules\<rparr>\<rparr>,
                                        kc_celCtx := Some \<lparr>cc_item = None\<rparr>\<rparr>)
                            (compile_rules compile 0 (bc_Rules backup)))))"

fun check_clusters :: "nat \<Rightarrow> ClusterConfig list \<Rightarrow> ClusterConfig list result" where
  "check_clusters i [] = Ok []"
| "check_clusters i (c # cs) =
     (if cl_Name c = [] then Err (ErrText (''spec.clusters['' @ show_nat i @ ''].name is required''))
      else if git_Repo (cl_Git c) = []
      then Err (ErrText (''spec.clusters['' @ show_nat i @ ''].git.repo is required''))
      else map_result
             (\<lambda>rs. (if git_Branch (cl_Git c) = []
                    then c\<lparr>cl_Git := (cl_Git c)\<lparr>git_Branch := ''main''\<rparr>\<rparr> else c) # rs)
             (check_clusters (Suc i) cs))"

definition check_oidc :: "OIDCConfig option \<Rightarrow> unit result" where
  "check_oidc oidc =
     (case oidc of
        None \<Rightarrow> Ok ()
      | Some ov \<Rightarrow>
          if oidc_Issuer ov = [] then Err (ErrText ''spec.oidc.issuer is required when oidc is configured'')
          else if oidc_Audience ov = [] then Err (ErrText ''spec.oidc.audience is required when oidc is configured'')
          else if oidc_ClientID ov = [] then Err (ErrText ''spec.oidc.clientId is required when oidc is configured'')
          else Ok ())"

definition LoadServer ::
  "(string \<Rightarrow> string result) \<Rightarrow> (string \<Rightarrow> error + ServerConfig) \<Rightarrow> (string \<Rightarrow> error + int) \<Rightarrow>
   string \<Rightarrow> ServerConfig result" where
  "LoadServer read Unmarshal ParseDuration path =
     rbind (read path) (\<lambda>data.
       case Unmarshal data of
         Inl err \<Rightarrow> Err (ErrWrap ''parse config'' err)
       | Inr cfg \<Rightarrow>
           (let s = sc_Spec cfg in
            if length (ss_Clusters s) = 0 then Err (ErrText ''spec.clusters must be non-empty'')
            else rbind (check_clusters 0 (ss_Clusters s)) (\<lambda>cls.
              let s = s\<lparr>ss_Clusters := cls\<rparr>;
                  s = (if ss_Addr s = [] then s\<lparr>ss_Addr := '':8080''\<rparr> else s);
                  s = (if ss_PullInterval s = [] then s\<lparr>ss_PullInterval := ''10m''\<rparr> else s)
              in case ParseDuration (ss_PullInterval s) of
                   Inl err \<Rightarrow> Err (ErrWrap (''invalid spec.pullInterval '' @ ss_PullInterval s) err)
                 | Inr _ \<Rightarrow>
                     (let ix = ss_Index s;
                          ix = (if length (ix_Fields ix) = 0
                                then ix\<lparr>ix_Fields := [''metadata.labels'', ''metadata.creationTimestamp'']\<rparr>
                                else ix);
                          ix = (if ix_HistoryDays ix = 0 then ix\<lparr>ix_HistoryDays := 30\<rparr> else ix);
                          s = s\<lparr>ss_Index := ix\<rparr>
                      in rbind (check_oidc (ss_OIDC s)) (\<lambda>_. Ok (cfg\<lparr>sc_Spec := s\<rparr>))))))"

subsection \<open>The rules\<close>

definition resourceKey :: "string \<Rightarrow> string \<Rightarrow> string" where
  "resourceKey resource grp = (if grp = [] then resource else resource @ ''.'' @ grp)"

definition cfg_rules :: "KorpusConfig \<Rightarrow> RuleConfig list" where
  "cfg_rules cfg = bc_Rules (ks_Backup (kc_Spec cfg))"

definition cfg_disable :: "KorpusConfig \<Rightarrow> bool" where
  "cfg_disable cfg \<longleftrightarrow> bc_DisableBuiltinExcludes (ks_Backup (kc_Spec cfg))"

fun IsExcluded_rules :: "RuleConfig list \<Rightarrow> string \<Rightarrow> string \<Rightarrow> bool option" where
  "IsExcluded_rules [] key resource = None"
| "IsExcluded_rules (rc # rcs) key resource =
     (if rc_Resource rc = ''*'' \<or> hasObjectFilter rc \<or> rc_ExcludeIf rc \<noteq> []
      then IsExcluded_rules rcs key resource
      else if rc_Resource rc = key \<or> rc_Resource rc = resource then Some (rc_Exclude rc)
      else IsExcluded_rules rcs key resource)"

definition IsExcluded :: "KorpusConfig \<Rightarrow> string \<Rightarrow> string \<Rightarrow> bool" where
  "IsExcluded cfg resource grp =
     (let key = resourceKey resource grp
      in case IsExcluded_rules (cfg_rules cfg) key resource of
           Some b \<Rightarrow> b
         | None \<Rightarrow>
             \<not> cfg_disable cfg \<and>
             list_ex (\<lambda>e. re_Resource e = key \<or> re_Resource e = resource) BuiltinExcludeResources)"

definition rule_names :: "RuleConfig \<Rightarrow> string \<Rightarrow> string \<Rightarrow> bool" where
  "rule_names rc key resource \<longleftrightarrow>
     rc_Resource rc = ''*'' \<or> rc_Resource rc = key \<or> rc_Resource rc = resource"

definition rule_selects :: "RuleConfig \<Rightarrow> string \<Rightarrow> string \<Rightarrow> bool" where
  "rule_selects rc namespace name \<longleftrightarrow>
     (rc_Namespace rc = [] \<or> rc_Namespace rc = namespace) \<and> (rc_Name rc = [] \<or> rc_Name rc = name)"

fun IsObjectExcluded_rules ::
  "RuleConfig list \<Rightarrow> string \<Rightarrow> string \<Rightarrow> string \<Rightarrow> string \<Rightarrow> bool" where
  "IsObjectExcluded_rules [] key resource namespace name = False"
| "IsObjectExcluded_rules (rc # rcs) key resource namespace name =
     (if \<not> hasObjectFilter rc \<or> rc_ExcludeIf rc \<noteq> []
      then IsObjectExcluded_rules rcs key resource namespace name
      else if \<not> rule_names rc key resource
      then IsObjectExcluded_rules rcs key resource namespace name
      else if rule_selects rc namespace name then rc_Exclude rc
      else IsObjectExcluded_rules rcs key resource namespace name)"

definition IsObjectExcluded :: "KorpusConfig \<Rightarrow> string \<Rightarrow> string \<Rightarrow> string \<Rightarrow> string \<Rightarrow> bool" where
  "IsObjectExcluded cfg resource grp namespace name =
     IsObjectExcluded_rules (cfg_rules cfg) (resourceKey resource grp) resource namespace name"

definition IsBuiltinObjectExcluded ::
  "KorpusConfig \<Rightarrow> string \<Rightarrow> string \<Rightarrow> OwnerReference list \<Rightarrow> bool" where
  "IsBuiltinObjectExcluded cfg resource grp ownerRefs =
     (if cfg_disable cfg then False
      else
        let key = resourceKey resource grp
        in list_ex (\<lambda>e. (oe_Resource e = resource \<or> oe_Resource e = key) \<and>
                        list_ex (\<lambda>r. or_Kind r = oe_OwnerKind e) ownerRefs)
             BuiltinExcludeObjects)"

fun IsCELObjectExcluded_rules ::
  "k8s_accessors \<Rightarrow> nat \<Rightarrow> RuleConfig list \<Rightarrow> celItemContext \<Rightarrow> string \<Rightarrow> string \<Rightarrow> doc \<Rightarrow>
   celItemContext \<times> bool result" where
  "IsCELObjectExcluded_rules acc i [] ctx resource grp item = (ctx, Ok False)"
| "IsCELObjectExcluded_rules acc i (rc # rcs) ctx resource grp item =
     (case rc_program rc of
        None \<Rightarrow> IsCELObjectExcluded_rules acc (Suc i) rcs ctx resource grp item
      | Some prog \<Rightarrow>
          if \<not> rule_names rc (resourceKey resource grp) resource \<or>
             (rc_Namespace rc \<noteq> [] \<and> rc_Namespace rc \<noteq> GetNamespace acc item) \<or>
             (rc_Name rc \<noteq> [] \<and> rc_Name rc \<noteq> GetName acc item)
          then IsCELObjectExcluded_rules acc (Suc i) rcs ctx resource grp item
          else
            (case evalExcludeIf acc prog ctx resource grp item of
               (ctx', Err err) \<Rightarrow> (ctx', Err (ErrWrap (''rules['' @ show_nat i @ ''].excludeIf'') err))
             | (ctx', Panic p) \<Rightarrow> (ctx', Panic p)
             | (ctx', Ok True) \<Rightarrow> (ctx', Ok True)
             | (ctx', Ok False) \<Rightarrow> IsCELObjectExcluded_rules acc (Suc i) rcs ctx' resource grp item))"

definition IsCELObjectExcluded ::
  "k8s_accessors \<Rightarrow> KorpusConfig \<Rightarrow> celItemContext \<Rightarrow> string \<Rightarrow> string \<Rightarrow> doc \<Rightarrow>
   celItemContext \<times> bool result" where
  "IsCELObjectExcluded acc cfg ctx resource grp item =
     IsCELObjectExcluded_rules acc 0 (cfg_rules cfg) ctx resource grp item"

definition rule_fields :: "RuleConfig \<Rightarrow> string \<Rightarrow> string \<Rightarrow> string \<Rightarrow> string \<Rightarrow> string list" where
  "rule_fields rc key resource namespace name =
     (if rc_ExcludeIf rc \<noteq> [] then []
      else if hasObjectFilter rc then
        (if \<not> rule_names rc key resource then []
         else if rule_selects rc namespace name then rc_ExcludeFields rc else [])
      else if rule_names rc key resource then rc_ExcludeFields rc else [])"

text \<open>The range over the built-in map, which stops at the first key that matches; the
  iteration order is an argument.\<close>

fun builtin_fields :: "(string \<times> string list) list \<Rightarrow> string \<Rightarrow> string \<Rightarrow> string list" where
  "builtin_fields [] key resource = []"
| "builtin_fields ((k, fs) # es) key resource =
     (if k = key \<or> k = resource then fs else builtin_fields es key resource)"

definition ResolveExcludeFieldsForObject ::
  "(string \<times> string list) list \<Rightarrow> KorpusConfig \<Rightarrow> string \<Rightarrow> string \<Rightarrow> string \<Rightarrow> string \<Rightarrow> string list" where
  "ResolveExcludeFieldsForObject builtin_order cfg resource grp namespace name =
     (let key = resourceKey resource grp
      in concat (map (\<lambda>rc. rule_fields rc key resource namespace name) (cfg_rules cfg)) @
         (if \<not> cfg_disable cfg then builtin_fields builtin_order key resource else []))"

end
