(* ===== verification/ConfigFacts.thy ===== *)
theory ConfigFacts
  imports Config
begin

text \<open>
  What the configuration promises: a loaded file is complete, environment variables are
  replaced verbatim, and the rules decide in the documented precedence.
\<close>

subsection \<open>Environment variables\<close>

text \<open>A configuration text as a sequence of literal pieces and variable references.\<close>

datatype chunk = Lit string | Var string

fun show_chunk :: "chunk \<Rightarrow> string" where
  "show_chunk (Lit s) = s"
| "show_chunk (Var x) = ''${'' @ x @ ''}''"

fun chunk_ok :: "chunk \<Rightarrow> bool" where
  "chunk_ok (Lit s) \<longleftrightarrow> CHR ''$'' \<notin> set s"
| "chunk_ok (Var x) \<longleftrightarrow> x \<noteq> [] \<and> is_ident_start (hd x) \<and> (\<forall>c \<in> set x. is_ident_char c)"

fun chunk_value :: "(string \<Rightarrow> string option) \<Rightarrow> chunk \<Rightarrow> string" where
  "chunk_value env (Lit s) = s"
| "chunk_value env (Var x) = (case env x of Some v \<Rightarrow> v | None \<Rightarrow> [])"

fun chunk_missing :: "(string \<Rightarrow> string option) \<Rightarrow> chunk \<Rightarrow> string list" where
  "chunk_missing env (Lit s) = []"
| "chunk_missing env (Var x) = (if env x = None then [x] else [])"

lemma brace_not_ident: "\<not> is_ident_char CHR ''}''"
  by (simp add: is_ident_char_def is_ident_start_def is_digit_def)

lemma envVarRe_var: "chunk_ok (Var x) \<Longrightarrow> envVarRe (show_chunk (Var x) @ r) = Some (x, r)"
  by (simp add: envVarRe_def Let_def takeWhile_tail dropWhile_append3 brace_not_ident)

lemma expand_env_Nil [simp]: "expand_env env [] = ([], [])"
  by (subst expand_env.simps) (simp add: envVarRe_def)

lemma expand_env_char:
  "c \<noteq> CHR ''$'' \<Longrightarrow>
   expand_env env (c # r) = (c # fst (expand_env env r), snd (expand_env env r))"
  by (subst expand_env.simps)
    (simp add: envVarRe_def Let_def split_beta split: list.splits)

lemma expand_env_lit:
  "CHR ''$'' \<notin> set s \<Longrightarrow>
   expand_env env (s @ r) = (s @ fst (expand_env env r), snd (expand_env env r))"
  by (induction s) (auto simp: expand_env_char)

lemma expand_env_var:
  "chunk_ok (Var x) \<Longrightarrow>
   expand_env env (show_chunk (Var x) @ r) =
     (chunk_value env (Var x) @ fst (expand_env env r), chunk_missing env (Var x) @ snd (expand_env env r))"
  by (subst expand_env.simps, subst envVarRe_var)
    (simp_all add: split_beta split: option.split)

lemma expand_env_chunks:
  "\<forall>k \<in> set ks. chunk_ok k \<Longrightarrow>
   expand_env env (concat (map show_chunk ks)) =
     (concat (map (chunk_value env) ks), concat (map (chunk_missing env) ks))"
proof (induction ks)
  case (Cons k ks)
  then show ?case
    by (cases k) (auto simp: expand_env_lit expand_env_var simp del: show_chunk.simps(2) chunk_ok.simps(2)
        chunk_value.simps(2) chunk_missing.simps(2))
qed simp

text \<open>C31: on a text made of literal pieces and references \<open>${X}\<close>, \<open>expandEnvStrict\<close> puts the
  value of each variable in place of its reference and looks at no character of a value again
  (a value may hold \<open>$\<close>); if some variables are undefined it fails, and the error lists
  exactly these, in the order of the text.\<close>

theorem expandEnvStrict_chunks:
  assumes "\<forall>k \<in> set ks. chunk_ok k"
  shows "expandEnvStrict env (concat (map show_chunk ks)) =
    (let missing = filter (\<lambda>x. env x = None) (concat (map (\<lambda>k. case k of Var x \<Rightarrow> [x] | Lit s \<Rightarrow> []) ks))
     in if missing = [] then Ok (concat (map (chunk_value env) ks))
        else Err (ErrText (''undefined env vars in config: '' @ Join missing '', '')))"
proof -
  have "concat (map (chunk_missing env) ks) =
      filter (\<lambda>x. env x = None) (concat (map (\<lambda>k. case k of Var x \<Rightarrow> [x] | Lit s \<Rightarrow> []) ks))"
  proof (induction ks)
    case (Cons k ks)
    then show ?case by (cases k) auto
  qed simp
  then show ?thesis
    by (simp add: expandEnvStrict_def expand_env_chunks [OF assms] Let_def)
qed

theorem expandEnvStrict_chunks_witness:
  "expandEnvStrict [''T'' \<mapsto> ''a$b''] ''token: ${T}!'' = Ok ''token: a$b!'' \<and>
   expandEnvStrict (\<lambda>_. None) ''token: ${T}!'' =
     Err (ErrText ''undefined env vars in config: T'')"
  using expandEnvStrict_chunks [of "[Lit ''token: '', Var ''T'', Lit ''!'']" "[''T'' \<mapsto> ''a$b'']"]
    expandEnvStrict_chunks [of "[Lit ''token: '', Var ''T'', Lit ''!'']" "\<lambda>_. None"]
  by (simp add: is_ident_char_def is_ident_start_def)

subsection \<open>Loaded configurations\<close>

definition git_ok :: "GitConfig \<Rightarrow> bool" where
  "git_ok git \<longleftrightarrow> git_Repo git \<noteq> [] \<and> git_Branch git \<noteq> []"

definition oidc_ok :: "OIDCConfig \<Rightarrow> bool" where
  "oidc_ok ov \<longleftrightarrow> oidc_Issuer ov \<noteq> [] \<and> oidc_Audience ov \<noteq> [] \<and> oidc_ClientID ov \<noteq> []"

text \<open>What the rest of the server relies on.\<close>

definition server_ok :: "(string \<Rightarrow> error + int) \<Rightarrow> ServerSpec \<Rightarrow> bool" where
  "server_ok ParseDuration s \<longleftrightarrow>
     ss_Clusters s \<noteq> [] \<and>
     list_all (\<lambda>c. cl_Name c \<noteq> [] \<and> git_ok (cl_Git c)) (ss_Clusters s) \<and>
     ss_Addr s \<noteq> [] \<and>
     (case ParseDuration (ss_PullInterval s) of Inl _ \<Rightarrow> False | Inr d \<Rightarrow> PullIntervalDuration ParseDuration s = d) \<and>
     ix_Fields (ss_Index s) \<noteq> [] \<and> ix_HistoryDays (ss_Index s) \<noteq> 0 \<and>
     pred_option oidc_ok (ss_OIDC s)"

lemma check_clusters_Ok:
  "check_clusters i cs = Ok rs \<Longrightarrow>
   list_all (\<lambda>c. cl_Name c \<noteq> [] \<and> git_ok (cl_Git c)) rs \<and>
   map cl_Name rs = map cl_Name cs \<and>
   map (\<lambda>c. git_Repo (cl_Git c)) rs = map (\<lambda>c. git_Repo (cl_Git c)) cs"
  by (induction i cs arbitrary: rs rule: check_clusters.induct)
    (auto simp: map_result_Ok_iff git_ok_def split: if_splits)

lemma check_oidc_Ok: "check_oidc ov = Ok u \<longleftrightarrow> pred_option oidc_ok ov"
  by (auto simp: check_oidc_def oidc_ok_def split: option.splits)

lemma LoadServer_Ok_steps:
  assumes "LoadServer read Unmarshal ParseDuration path = Ok cfg"
  obtains data raw cls addr pull d ix where
    "read path = Ok data" "Unmarshal data = Inr raw" "ss_Clusters (sc_Spec raw) \<noteq> []"
    "check_clusters 0 (ss_Clusters (sc_Spec raw)) = Ok cls" "addr \<noteq> []"
    "ParseDuration pull = Inr d" "ix_Fields ix \<noteq> []" "ix_HistoryDays ix \<noteq> 0"
    "pred_option oidc_ok (ss_OIDC (sc_Spec raw))"
    "cfg = raw\<lparr>sc_Spec := (sc_Spec raw)\<lparr>ss_Clusters := cls, ss_Addr := addr,
       ss_PullInterval := pull, ss_Index := ix\<rparr>\<rparr>"
proof -
  obtain data raw where 1: "read path = Ok data" "Unmarshal data = Inr raw"
    using assms by (auto simp: LoadServer_def go_simps)
  let ?s = "sc_Spec raw"
  have 2: "ss_Clusters ?s \<noteq> []" using assms 1 by (auto simp: LoadServer_def)
  obtain cls where 3: "check_clusters 0 (ss_Clusters ?s) = Ok cls"
    using assms 1 2 by (auto simp: LoadServer_def Let_def rbind_Ok_iff)
  define addr where "addr = (if ss_Addr ?s = [] then '':8080'' else ss_Addr ?s)"
  define pull where "pull = (if ss_PullInterval ?s = [] then ''10m'' else ss_PullInterval ?s)"
  define ix where "ix = (let ix = ss_Index ?s;
      ix = (if length (ix_Fields ix) = 0
            then ix\<lparr>ix_Fields := [''metadata.labels'', ''metadata.creationTimestamp'']\<rparr> else ix)
     in if ix_HistoryDays ix = 0 then ix\<lparr>ix_HistoryDays := 30\<rparr> else ix)"
  have ix: "ix_Fields ix \<noteq> []" "ix_HistoryDays ix \<noteq> 0" by (auto simp: ix_def Let_def)
  obtain d where 4: "ParseDuration pull = Inr d"
    using assms 1 2 3 by (cases "ParseDuration pull") (auto simp: LoadServer_def Let_def pull_def split: if_splits)
  have cfg: "rbind (check_oidc (ss_OIDC ?s)) (\<lambda>_. Ok (raw\<lparr>sc_Spec := ?s\<lparr>ss_Clusters := cls, ss_Addr := addr,
       ss_PullInterval := pull, ss_Index := ix\<rparr>\<rparr>)) = Ok cfg"
    using assms 1 2 3 4
    by (simp add: LoadServer_def Let_def pull_def addr_def ix_def split: if_splits)
  then have "pred_option oidc_ok (ss_OIDC ?s)"
    by (auto simp: rbind_Ok_iff check_oidc_Ok)
  moreover have "addr \<noteq> []" by (simp add: addr_def)
  ultimately show thesis
    using that [OF 1 2 3 _ 4 ix] cfg by (auto simp: rbind_Ok_iff)
qed

text \<open>A configuration that \<open>LoadServer\<close> accepts is complete: at least one cluster, every
  cluster named and with a repository and a branch, a listen address, a pull interval that
  parses (so that \<open>PullIntervalDuration\<close>, which drops its error, is the parsed value), index
  fields, a history length and either no OIDC section or a complete one; the clusters are
  those of the file, in its order.\<close>

theorem LoadServer_complete:
  assumes "LoadServer read Unmarshal ParseDuration path = Ok cfg"
  shows "server_ok ParseDuration (sc_Spec cfg) \<and>
    (\<exists>data raw. read path = Ok data \<and> Unmarshal data = Inr raw \<and>
       map cl_Name (ss_Clusters (sc_Spec cfg)) = map cl_Name (ss_Clusters (sc_Spec raw)) \<and>
       ss_OIDC (sc_Spec cfg) = ss_OIDC (sc_Spec raw))"
  using assms
proof (rule LoadServer_Ok_steps)
  fix data raw cls addr pull d ix
  assume *: "read path = Ok data" "Unmarshal data = Inr raw" "ss_Clusters (sc_Spec raw) \<noteq> []"
    "check_clusters 0 (ss_Clusters (sc_Spec raw)) = Ok cls" "addr \<noteq> []"
    "ParseDuration pull = Inr d" "ix_Fields ix \<noteq> []" "ix_HistoryDays ix \<noteq> 0"
    "pred_option oidc_ok (ss_OIDC (sc_Spec raw))"
    and cfg: "cfg = raw\<lparr>sc_Spec := (sc_Spec raw)\<lparr>ss_Clusters := cls, ss_Addr := addr,
       ss_PullInterval := pull, ss_Index := ix\<rparr>\<rparr>"
  have cls: "cls \<noteq> []" using check_clusters_Ok [OF *(4)] *(3) by auto
  have "server_ok ParseDuration (sc_Spec cfg)"
    using * cls check_clusters_Ok [OF *(4)]
    by (simp add: cfg server_ok_def PullIntervalDuration_def)
  then show ?thesis using *(1,2) check_clusters_Ok [OF *(4)] by (auto simp: cfg)
qed

definition example_server :: ServerConfig where
  "example_server = \<lparr>sc_TypeMeta = \<lparr>tm_APIVersion = ''v1'', tm_Kind = ''ServerConfig''\<rparr>,
     sc_Spec = \<lparr>ss_Addr = [], ss_PullInterval = [],
       ss_Clusters = [\<lparr>cl_Name = ''prod'', cl_Git = \<lparr>git_Repo = ''r'', git_Branch = [], git_SubDir = [],
          git_Token = [], git_TokenFile = [], git_Author = \<lparr>au_Name = [], au_Email = []\<rparr>\<rparr>\<rparr>],
       ss_Index = \<lparr>ix_Fields = [], ix_HistoryDays = 0\<rparr>, ss_OIDC = None\<rparr>\<rparr>"

theorem LoadServer_complete_witness:
  "\<exists>cfg. LoadServer (\<lambda>_. Ok ''x'') (\<lambda>_. Inr example_server) (\<lambda>_. Inr 600) ''p'' = Ok cfg \<and>
     server_ok (\<lambda>_. Inr 600) (sc_Spec cfg)"
proof -
  obtain cfg where c: "LoadServer (\<lambda>_. Ok ''x'') (\<lambda>_. Inr example_server) (\<lambda>_. Inr 600) ''p'' = Ok cfg"
    by (simp add: LoadServer_def example_server_def check_oidc_def Let_def)
  then show ?thesis using LoadServer_complete [OF c] by blast
qed

lemma compile_rules_Ok:
  "compile_rules compile i rcs = Ok rs \<Longrightarrow>
   rs = map (\<lambda>rc. if rc_ExcludeIf rc = [] then rc
                  else rc\<lparr>rc_program := (case compile (rc_ExcludeIf rc) of Inr p \<Rightarrow> Some p | Inl _ \<Rightarrow> None)\<rparr>) rcs \<and>
   (\<forall>rc \<in> set rcs. rc_ExcludeIf rc \<noteq> [] \<longrightarrow> (\<exists>p. compile (rc_ExcludeIf rc) = Inr p))"
  by (induction compile i rcs arbitrary: rs rule: compile_rules.induct)
    (auto simp: map_result_Ok_iff split: if_splits sum.splits)

text \<open>A configuration that \<open>LoadKorpus\<close> accepts has a repository, a branch and a schedule
  that parses; a rule carries a compiled program exactly when it has an \<open>excludeIf\<close>
  expression, and then it is that expression's program (the YAML decoder leaves the
  unexported field empty), so no expression is silently ignored; everything else of the
  rules is as in the file.\<close>

theorem LoadKorpus_complete:
  assumes "LoadKorpus read Unmarshal ParseStandard NewEnv compile path = Ok cfg"
    and decoder: "\<And>data raw rc. Unmarshal data = Inr raw \<Longrightarrow> rc \<in> set (cfg_rules raw) \<Longrightarrow> rc_program rc = None"
  shows "git_ok (ks_Git (kc_Spec cfg)) \<and>
    (\<exists>u. ParseStandard (bc_Schedule (ks_Backup (kc_Spec cfg))) = Inr u) \<and>
    (\<forall>rc \<in> set (cfg_rules cfg).
       rc_program rc = (if rc_ExcludeIf rc = [] then None
                        else (case compile (rc_ExcludeIf rc) of Inr p \<Rightarrow> Some p | Inl _ \<Rightarrow> None)) \<and>
       (rc_program rc = None \<longleftrightarrow> rc_ExcludeIf rc = [])) \<and>
    (\<exists>data raw. read path = Ok data \<and> Unmarshal data = Inr raw \<and>
       map (rc_program_update (\<lambda>_. None)) (cfg_rules cfg) = cfg_rules raw)"
proof -
  obtain data raw where r: "read path = Ok data" "Unmarshal data = Inr raw"
    using assms(1) by (auto simp: LoadKorpus_def go_simps)
  let ?rules = "bc_Rules (ks_Backup (kc_Spec raw))"
  have none: "\<forall>rc \<in> set ?rules. rc_program rc = None"
    using decoder [OF r(2)] by (simp add: cfg_rules_def)
  have "git_ok (ks_Git (kc_Spec cfg)) \<and>
      (\<exists>u. ParseStandard (bc_Schedule (ks_Backup (kc_Spec cfg))) = Inr u) \<and>
      compile_rules compile 0 ?rules = Ok (cfg_rules cfg)"
    using assms(1)
    by (auto simp: LoadKorpus_def r Let_def map_result_Ok_iff git_ok_def cfg_rules_def
        split: if_splits sum.splits)
  then have g: "git_ok (ks_Git (kc_Spec cfg))"
      "\<exists>u. ParseStandard (bc_Schedule (ks_Backup (kc_Spec cfg))) = Inr u"
    and c: "compile_rules compile 0 ?rules = Ok (cfg_rules cfg)" by blast+
  note c' = compile_rules_Ok [OF c]
  have "map (rc_program_update (\<lambda>_. None)) (cfg_rules cfg) = ?rules"
    by (subst conjunct1 [OF c'], simp, rule map_idI) (use none in auto)
  moreover have "rc_program rc = (if rc_ExcludeIf rc = [] then None
                        else (case compile (rc_ExcludeIf rc) of Inr p \<Rightarrow> Some p | Inl _ \<Rightarrow> None)) \<and>
       (rc_program rc = None \<longleftrightarrow> rc_ExcludeIf rc = [])" if mem: "rc \<in> set (cfg_rules cfg)" for rc
  proof -
    obtain r0 where r0: "r0 \<in> set ?rules" and rc: "rc = (if rc_ExcludeIf r0 = [] then r0
        else r0\<lparr>rc_program := (case compile (rc_ExcludeIf r0) of Inr p \<Rightarrow> Some p | Inl _ \<Rightarrow> None)\<rparr>)"
      using mem conjunct1 [OF c'] by auto
    then show ?thesis
      using none conjunct2 [OF c'] by (cases "rc_ExcludeIf r0 = []") auto
  qed
  ultimately show ?thesis using g r unfolding cfg_rules_def by blast
qed

definition example_rule :: "string \<Rightarrow> string \<Rightarrow> string \<Rightarrow> bool \<Rightarrow> string list \<Rightarrow> string \<Rightarrow> RuleConfig" where
  "example_rule res ns nm ex fs cel = \<lparr>rc_Resource = res, rc_Namespace = ns, rc_Name = nm,
     rc_Exclude = ex, rc_ExcludeFields = fs, rc_ExcludeIf = cel, rc_program = None\<rparr>"

definition example_korpus :: "bool \<Rightarrow> RuleConfig list \<Rightarrow> KorpusConfig" where
  "example_korpus dis rules = \<lparr>kc_TypeMeta = \<lparr>tm_APIVersion = ''v1'', tm_Kind = ''KorpusConfig''\<rparr>,
     kc_Spec = \<lparr>ks_Git = \<lparr>git_Repo = ''r'', git_Branch = [], git_SubDir = ''c'',
          git_Token = [], git_TokenFile = [], git_Author = \<lparr>au_Name = [], au_Email = []\<rparr>\<rparr>,
        ks_Backup = \<lparr>bc_Schedule = [], bc_DisableBuiltinExcludes = dis, bc_Rules = rules\<rparr>\<rparr>,
     kc_celCtx = None\<rparr>"

theorem LoadKorpus_complete_witness:
  "\<exists>cfg. LoadKorpus (\<lambda>_. Ok ''x'')
      (\<lambda>_. Inr (example_korpus False [example_rule ''pods'' [] [] False [] ''isControlled()'']))
      (\<lambda>_. Inr ()) (Inr ()) (\<lambda>_. Inr (\<lambda>a env. map_result CelBool (ce_isControlled env))) ''p'' = Ok cfg \<and>
     git_ok (ks_Git (kc_Spec cfg)) \<and> (\<forall>rc \<in> set (cfg_rules cfg). rc_program rc \<noteq> None)"
proof -
  let ?p = "\<lambda>(a :: activation) env. map_result CelBool (ce_isControlled env)"
  let ?raw = "example_korpus False [example_rule ''pods'' [] [] False [] ''isControlled()'']"
  define cfg where "cfg = (let s = kc_Spec ?raw in ?raw\<lparr>kc_Spec :=
     \<lparr>ks_Git = (ks_Git s)\<lparr>git_Branch := ''main''\<rparr>,
      ks_Backup = (ks_Backup s)\<lparr>bc_Schedule := ''*/10 * * * *'', bc_Rules :=
        [(example_rule ''pods'' [] [] False [] ''isControlled()'')\<lparr>rc_program := Some ?p\<rparr>]\<rparr>\<rparr>,
     kc_celCtx := Some \<lparr>cc_item = None\<rparr>\<rparr>)"
  have c: "LoadKorpus (\<lambda>_. Ok ''x'') (\<lambda>_. Inr ?raw) (\<lambda>_. Inr ()) (Inr ()) (\<lambda>_. Inr ?p) ''p'' = Ok cfg"
    by (simp add: LoadKorpus_def example_korpus_def example_rule_def Let_def cfg_def)
  have rules: "cfg_rules cfg = [(example_rule ''pods'' [] [] False [] ''isControlled()'')\<lparr>rc_program := Some ?p\<rparr>]"
    by (simp add: cfg_def cfg_rules_def Let_def)
  have d: "rc_program rc = None"
    if "(Inr ?raw :: error + KorpusConfig) = Inr raw" "rc \<in> set (cfg_rules raw)" for raw rc
    using that by (auto simp: cfg_rules_def example_korpus_def example_rule_def)
  have "git_ok (ks_Git (kc_Spec cfg))"
    by (rule conjunct1 [OF LoadKorpus_complete [OF c d]])
  then show ?thesis
    by (intro exI [of _ cfg] conjI c) (simp_all add: rules)
qed

subsection \<open>The rules\<close>

text \<open>Which rules decide about a whole resource type.\<close>

definition type_rule :: "string \<Rightarrow> string \<Rightarrow> RuleConfig \<Rightarrow> bool" where
  "type_rule resource grp rc \<longleftrightarrow>
     rc_Resource rc \<in> {resourceKey resource grp, resource} - {''*''} \<and>
     rc_Namespace rc = [] \<and> rc_Name rc = [] \<and> rc_ExcludeIf rc = []"

lemma IsExcluded_rules_find:
  "IsExcluded_rules rcs (resourceKey resource grp) resource =
     map_option rc_Exclude (find (type_rule resource grp) rcs)"
  by (induction rcs) (auto simp: type_rule_def hasObjectFilter_def)

text \<open>C29: the first rule for the type decides whether it is backed up at all, so a user rule
  with \<open>exclude: false\<close> brings a built-in exclusion back; rules with \<open>*\<close>, with a namespace, a
  name or an \<open>excludeIf\<close> never decide; without a rule the built-in table decides, unless it is
  disabled. A rule or a table entry without a group matches the resource in every group.\<close>

theorem IsExcluded_decision:
  "IsExcluded cfg resource grp =
     (case find (type_rule resource grp) (cfg_rules cfg) of
        Some rc \<Rightarrow> rc_Exclude rc
      | None \<Rightarrow> \<not> cfg_disable cfg \<and>
          {resourceKey resource grp, resource} \<inter> re_Resource ` set BuiltinExcludeResources \<noteq> {})"
  by (auto simp: IsExcluded_def Let_def IsExcluded_rules_find list_ex_iff intro: rev_image_eqI split: option.split)

definition cel_outcome ::
  "k8s_accessors \<Rightarrow> string \<Rightarrow> string \<Rightarrow> doc \<Rightarrow> RuleConfig \<Rightarrow> bool result" where
  "cel_outcome acc resource grp item rc =
     (case rc_program rc of
        None \<Rightarrow> Ok False
      | Some prog \<Rightarrow>
          if rule_names rc (resourceKey resource grp) resource \<and>
             rule_selects rc (GetNamespace acc item) (GetName acc item)
          then snd (evalExcludeIf acc prog \<lparr>cc_item = None\<rparr> resource grp item)
          else Ok False)"

lemma evalExcludeIf_context:
  "evalExcludeIf acc prog ctx resource grp item =
     (\<lparr>cc_item = Some item\<rparr>, snd (evalExcludeIf acc prog \<lparr>cc_item = None\<rparr> resource grp item))"
  by (cases ctx) (simp add: evalExcludeIf_def Let_def)

lemma IsCELObjectExcluded_rules_outcome:
  "snd (IsCELObjectExcluded_rules acc i rcs ctx resource grp item) =
     (case find (\<lambda>(j, rc). cel_outcome acc resource grp item rc \<noteq> Ok False) (enumerate i rcs) of
        None \<Rightarrow> Ok False
      | Some (j, rc) \<Rightarrow>
          (case cel_outcome acc resource grp item rc of
             Err err \<Rightarrow> Err (ErrWrap (''rules['' @ show_nat j @ ''].excludeIf'') err)
           | other \<Rightarrow> other))"
proof (induction rcs arbitrary: i ctx)
  case (Cons rc rcs)
  show ?case
  proof (cases "rc_program rc")
    case None
    then show ?thesis by (simp add: cel_outcome_def Cons.IH)
  next
    case (Some prog)
    show ?thesis
    proof (cases "rule_names rc (resourceKey resource grp) resource \<and>
                  rule_selects rc (GetNamespace acc item) (GetName acc item)")
      case False
      then show ?thesis
        using Some by (auto simp: cel_outcome_def Cons.IH rule_selects_def)
    next
      case True
      have "snd (IsCELObjectExcluded_rules acc i (rc # rcs) ctx resource grp item) =
          (case cel_outcome acc resource grp item rc of
             Err err \<Rightarrow> Err (ErrWrap (''rules['' @ show_nat i @ ''].excludeIf'') err)
           | Panic p \<Rightarrow> Panic p | Ok True \<Rightarrow> Ok True
           | Ok False \<Rightarrow> snd (IsCELObjectExcluded_rules acc (Suc i) rcs \<lparr>cc_item = Some item\<rparr> resource grp item))"
        using Some True
        by (subst IsCELObjectExcluded_rules.simps, subst evalExcludeIf_context)
          (auto simp: cel_outcome_def rule_selects_def split: result.splits bool.splits)
      then show ?thesis by (auto simp: Cons.IH split: result.splits bool.splits)
    qed
  qed
qed (simp add: cel_outcome_def)

text \<open>The object that the shared CEL context holds from earlier evaluations has no
  influence, and the answer is that of the first matching rule whose expression is not
  false: true, the panic of the expression, or its error wrapped with the rule's index; a
  rule that names another type, namespace or name is not evaluated.\<close>

theorem IsCELObjectExcluded_first_outcome:
  "snd (IsCELObjectExcluded acc cfg ctx resource grp item) =
     (case find (\<lambda>(j, rc). cel_outcome acc resource grp item rc \<noteq> Ok False) (enumerate 0 (cfg_rules cfg)) of
        None \<Rightarrow> Ok False
      | Some (j, rc) \<Rightarrow>
          (case cel_outcome acc resource grp item rc of
             Err err \<Rightarrow> Err (ErrWrap (''rules['' @ show_nat j @ ''].excludeIf'') err)
           | other \<Rightarrow> other))"
  unfolding IsCELObjectExcluded_def by (rule IsCELObjectExcluded_rules_outcome)

lemma builtin_field_keys_no_extension:
  "k \<in> fst ` set BuiltinExcludeFields \<Longrightarrow> k @ ''.'' @ g \<notin> fst ` set BuiltinExcludeFields"
  by (auto simp: BuiltinExcludeFields_def)

lemma builtin_fields_unique:
  assumes "\<And>k fs k' fs'. (k, fs) \<in> set es \<Longrightarrow> (k', fs') \<in> set es \<Longrightarrow> k \<in> {key, resource} \<Longrightarrow>
             k' \<in> {key, resource} \<Longrightarrow> fs = fs'"
  shows "(k, fs) \<in> set es \<Longrightarrow> k \<in> {key, resource} \<Longrightarrow> builtin_fields es key resource = fs"
    and "{key, resource} \<inter> fst ` set es = {} \<Longrightarrow> builtin_fields es key resource = []"
proof -
  have mem: "\<exists>k. (k, builtin_fields es key resource) \<in> set es \<and> k \<in> {key, resource}"
    if "(k, fs) \<in> set es" "k \<in> {key, resource}" for k fs es
    using that by (induction es key resource rule: builtin_fields.induct) auto
  show "builtin_fields es key resource = fs" if "(k, fs) \<in> set es" "k \<in> {key, resource}"
    using mem [OF that] assms that by blast
  show "builtin_fields es key resource = []" if "{key, resource} \<inter> fst ` set es = {}"
    using that by (induction es key resource rule: builtin_fields.induct) auto
qed

text \<open>C30: which fields are stripped does not depend on the order in which Go iterates over the
  built-in map, although the loop stops at the first key that matches: the rules contribute
  in their order, whatever their kind, and then the built-in entry of the group-qualified
  name or of the plain name (they are never both there). The comment of the function documents another order: the wildcard and type
  rules, then the rules for single objects, then the built-in fields; a rule for an object that stands first
  contributes first all the same (\<open>ResolveExcludeFields_object_rule_first\<close>).\<close>

theorem ResolveExcludeFields_any_order:
  assumes "mset es = mset BuiltinExcludeFields"
  shows "ResolveExcludeFieldsForObject es cfg resource grp namespace name =
    concat (map (\<lambda>rc. if rc_ExcludeIf rc = [] \<and> rule_names rc (resourceKey resource grp) resource \<and>
                         rule_selects rc namespace name
                      then rc_ExcludeFields rc else []) (cfg_rules cfg)) @
    (if cfg_disable cfg then []
     else case map_of BuiltinExcludeFields (resourceKey resource grp) of
            Some fs \<Rightarrow> fs
          | None \<Rightarrow> (case map_of BuiltinExcludeFields resource of Some fs \<Rightarrow> fs | None \<Rightarrow> []))"
proof -
  let ?key = "resourceKey resource grp" and ?B = BuiltinExcludeFields
  have set: "set es = set ?B" by (rule mset_eq_setD [OF assms])
  have d: "distinct (map fst ?B)" by (simp add: BuiltinExcludeFields_def)
  have both: "?key = resource" if "?key \<in> fst ` set ?B" "resource \<in> fst ` set ?B"
    using that builtin_field_keys_no_extension [of resource grp] by (auto simp: resourceKey_def split: if_splits)
  have uniq: "fs = fs'" if "(k, fs) \<in> set es" "(k', fs') \<in> set es"
    "k \<in> {?key, resource}" "k' \<in> {?key, resource}" for k fs k' fs'
    using that both d unfolding set by (metis eq_key_imp_eq_value image_eqI fst_conv insertE singletonD)
  note bf = builtin_fields_unique [OF uniq]
  have "builtin_fields es ?key resource =
      (case map_of ?B ?key of Some fs \<Rightarrow> fs
       | None \<Rightarrow> (case map_of ?B resource of Some fs \<Rightarrow> fs | None \<Rightarrow> []))"
  proof (cases "map_of ?B ?key")
    case (Some fs)
    then have "(?key, fs) \<in> set es" by (simp add: set map_of_SomeD)
    then show ?thesis using Some bf(1) by simp
  next
    case None
    note n = this
    show ?thesis
    proof (cases "map_of ?B resource")
      case (Some fs)
      then have "(resource, fs) \<in> set es" by (simp add: set map_of_SomeD)
      then show ?thesis using Some n bf(1) by simp
    next
      case None
      with n have "{?key, resource} \<inter> fst ` set es = {}" by (simp add: set map_of_eq_None_iff)
      then show ?thesis using None n bf(2) by simp
    qed
  qed
  moreover have "rule_fields rc ?key resource namespace name =
      (if rc_ExcludeIf rc = [] \<and> rule_names rc ?key resource \<and> rule_selects rc namespace name
       then rc_ExcludeFields rc else [])" for rc
    by (auto simp: rule_fields_def hasObjectFilter_def rule_selects_def)
  ultimately show ?thesis
    by (simp add: ResolveExcludeFieldsForObject_def Let_def cong: map_cong)
qed

theorem ResolveExcludeFields_any_order_witness:
  "ResolveExcludeFieldsForObject (rev BuiltinExcludeFields)
     (example_korpus False [example_rule ''*'' [] [] False [''metadata.managedFields''] []])
     ''nodes'' [] [] ''n1'' = [''metadata.managedFields'', ''status.conditions[*].lastHeartbeatTime'']"
proof -
  have "mset (rev BuiltinExcludeFields) = mset BuiltinExcludeFields" by simp
  from ResolveExcludeFields_any_order [OF this] show ?thesis
    by (simp add: cfg_rules_def cfg_disable_def example_korpus_def example_rule_def resourceKey_def
        rule_names_def rule_selects_def BuiltinExcludeFields_def)
qed

text \<open>A rule for one object stands before a wildcard rule: its fields come first.\<close>

lemma ResolveExcludeFields_object_rule_first:
  "ResolveExcludeFieldsForObject [] (example_korpus True
      [example_rule ''nodes'' [] ''n1'' False [''status.images''] [], example_rule ''*'' [] [] False [''metadata.managedFields''] []])
     ''nodes'' [] [] ''n1'' = [''status.images'', ''metadata.managedFields'']"
  by code_simp

end
