(* ===== verification/Sanitizer.thy ===== *)
theory Sanitizer
  imports GoData
begin

text \<open>
  \<open>internal/sanitizer/sanitizer.go\<close>: removing fields from a decoded object. \<open>parsePath\<close> is
  the byte-by-byte state machine of the source; \<open>deleteAt\<close> walks the object and deletes
  in place, which on a tree without sharing is a functional update.
\<close>

subsection \<open>Field paths\<close>

abbreviation QUOTE :: char where "QUOTE \<equiv> CHR 0x22"
abbreviation BACKSLASH :: char where "BACKSLASH \<equiv> CHR 0x5C"

definition flush :: "string list \<Rightarrow> string \<Rightarrow> string list" where
  "flush segments cur = (if length cur > 0 then segments @ [cur] else segments)"

fun parse_loop :: "string list \<Rightarrow> string \<Rightarrow> bool \<Rightarrow> bool \<Rightarrow> string \<Rightarrow> string list" where
  "parse_loop segments cur inBracket inQuote [] = flush segments cur"
| "parse_loop segments cur inBracket inQuote (c # rest) =
     (if c = QUOTE \<and> inBracket then parse_loop segments cur inBracket (\<not> inQuote) rest
      else if c = BACKSLASH \<and> inBracket \<and> inQuote \<and> rest \<noteq> []
      then parse_loop segments (cur @ [hd rest]) inBracket inQuote (tl rest)
      else if c = CHR ''['' \<and> \<not> inQuote then parse_loop (flush segments cur) [] True inQuote rest
      else if c = CHR '']'' \<and> inBracket \<and> \<not> inQuote
      then parse_loop (flush segments cur) [] False inQuote rest
      else if c = CHR ''.'' \<and> \<not> inBracket \<and> \<not> inQuote
      then parse_loop (flush segments cur) [] inBracket inQuote rest
      else parse_loop segments (cur @ [c]) inBracket inQuote rest)"

definition parsePath :: "string \<Rightarrow> string list" where
  "parsePath path = parse_loop [] [] False False path"

subsection \<open>Deletion\<close>

text \<open>
  \<open>deleteAt\<close> is called with at least one segment only (\<open>DeleteField\<close> returns before, and
  the recursive calls drop one segment of two or two of three).
\<close>

function deleteAt :: "doc \<Rightarrow> string list \<Rightarrow> doc" where
  "deleteAt m [] = m"
| "deleteAt m [s] = gm_del s m"
| "deleteAt m (s # t # rest) =
     (case gm_get m s of
        None \<Rightarrow> m
      | Some val \<Rightarrow>
          if rest \<noteq> [] \<and> t = ''*'' then
            (case val of
               AArr items \<Rightarrow>
                 gm_put s (AArr (map (\<lambda>item. case item of AMap elem \<Rightarrow> AMap (deleteAt elem rest)
                                             | _ \<Rightarrow> item) items)) m
             | _ \<Rightarrow> m)
          else
            (case val of
               AMap nxt \<Rightarrow> gm_put s (AMap (deleteAt nxt (t # rest))) m
             | _ \<Rightarrow> m))"
  by pat_completeness auto
termination
  by (relation "measure (\<lambda>(m, segs). length segs)") auto

definition DeleteField :: "doc \<Rightarrow> string \<Rightarrow> doc" where
  "DeleteField obj path =
     (let segments = parsePath path
      in if length segments = 0 then obj else deleteAt obj segments)"

definition DeleteFields :: "doc \<Rightarrow> string list \<Rightarrow> doc" where
  "DeleteFields obj paths = foldl DeleteField obj paths"

subsection \<open>Facts about paths\<close>

text \<open>How a path is written: a plain key after a dot, or any key in brackets and quotes.\<close>

datatype seg = Plain string | Quoted string

fun seg_text :: "seg \<Rightarrow> string" where
  "seg_text (Plain s) = s"
| "seg_text (Quoted s) = s"

definition escape :: "string \<Rightarrow> string" where
  "escape s = concat (map (\<lambda>c. if c = QUOTE \<or> c = BACKSLASH then [BACKSLASH, c] else [c]) s)"

fun show_seg :: "seg \<Rightarrow> string" where
  "show_seg (Plain s) = CHR ''.'' # s"
| "show_seg (Quoted s) = CHR ''['' # QUOTE # escape s @ [QUOTE, CHR '']'']"

fun seg_ok :: "seg \<Rightarrow> bool" where
  "seg_ok (Plain s) \<longleftrightarrow> s \<noteq> [] \<and> CHR ''.'' \<notin> set s \<and> CHR ''['' \<notin> set s"
| "seg_ok (Quoted s) \<longleftrightarrow> s \<noteq> []"

fun show_path :: "seg list \<Rightarrow> string" where
  "show_path [] = []"
| "show_path (Plain s # ss) = s @ concat (map show_seg ss)"
| "show_path (Quoted s # ss) = concat (map show_seg (Quoted s # ss))"

lemma flush_Nil [simp]: "flush segs [] = segs"
  by (simp add: flush_def)

lemma parse_loop_plain:
  "CHR ''.'' \<notin> set s \<Longrightarrow> CHR ''['' \<notin> set s \<Longrightarrow>
   parse_loop segs cur False False (s @ rest) = parse_loop segs (cur @ s) False False rest"
  by (induction s arbitrary: cur) auto

lemma parse_loop_escape:
  "rest \<noteq> [] \<Longrightarrow>
   parse_loop segs cur True True (escape s @ rest) = parse_loop segs (cur @ s) True True rest"
  by (induction s arbitrary: cur) (auto simp: escape_def)

lemma parse_loop_seg:
  "seg_ok s \<Longrightarrow> (case s of Plain w \<Rightarrow> True | Quoted w \<Rightarrow> True) \<Longrightarrow>
   parse_loop segs cur False False (show_seg s @ rest) =
   (case s of
      Plain w \<Rightarrow> parse_loop (flush segs cur) w False False rest
    | Quoted w \<Rightarrow> parse_loop (flush segs cur @ [w]) [] False False rest)"
  by (cases s) (auto simp: parse_loop_plain parse_loop_escape flush_def)

lemma parse_loop_segs:
  "\<forall>s \<in> set ss. seg_ok s \<Longrightarrow>
   parse_loop segs cur False False (concat (map show_seg ss)) = flush segs cur @ map seg_text ss"
proof (induction ss arbitrary: segs cur)
  case (Cons s ss)
  then show ?case
    by (cases s) (auto simp: parse_loop_seg flush_def simp del: show_seg.simps)
qed simp

lemma parsePath_show_path_aux: "\<forall>s \<in> set ss. seg_ok s \<Longrightarrow> parsePath (show_path ss) = map seg_text ss"
proof (cases ss rule: show_path.cases)
  case (2 s ts)
  assume "\<forall>s \<in> set ss. seg_ok s"
  with 2 show ?thesis
    by (simp add: parsePath_def parse_loop_plain parse_loop_segs flush_def)
next
  case (3 s ts)
  assume "\<forall>s \<in> set ss. seg_ok s"
  with 3 show ?thesis
    by (simp add: parsePath_def parse_loop_segs del: map_append concat.simps list.map)
qed (simp add: parsePath_def)

subsection \<open>Facts about deletion\<close>

text \<open>A field path covers a concrete position when it names a prefix of it.\<close>

function covers :: "string list \<Rightarrow> step list \<Rightarrow> bool" where
  "covers [] q = False"
| "covers [s] q = (case q of Key k # _ \<Rightarrow> k = s | _ \<Rightarrow> False)"
| "covers (s # t # rest) q =
     (if rest \<noteq> [] \<and> t = ''*''
      then (case q of Key k # Idx i # q' \<Rightarrow> k = s \<and> covers rest q' | _ \<Rightarrow> False)
      else (case q of Key k # q' \<Rightarrow> k = s \<and> covers (t # rest) q' | _ \<Rightarrow> False))"
  by pat_completeness auto
termination
  by (relation "measure (\<lambda>(p, q). length p)") auto

lemma at_path_leaf_iff:
  "is_leaf v \<Longrightarrow> at_path (AMap m) q = Some v \<longleftrightarrow>
     (\<exists>k q' w. q = Key k # q' \<and> gm_get m k = Some w \<and> at_path w q' = Some v)"
  by (cases "(AMap m, q)" rule: at_path.cases) (auto split: option.splits)

lemma at_path_items_iff:
  "is_leaf v \<Longrightarrow> at_path (AArr xs) q = Some v \<longleftrightarrow>
     (\<exists>i q'. q = Idx i # q' \<and> i < length xs \<and> at_path (xs ! i) q' = Some v)"
  by (cases "(AArr xs, q)" rule: at_path.cases) (auto split: if_splits)

lemma covers_Key: "covers p q \<Longrightarrow> \<exists>k q'. q = Key k # q'"
  by (induction p q rule: covers.induct) (auto split: list.splits step.splits if_splits)

lemma at_path_Key: "at_path w (Key k # q) = Some v \<Longrightarrow> \<exists>m. w = AMap m"
  by (cases w) auto

lemma at_path_Idx: "at_path w (Idx i # q) = Some v \<Longrightarrow> \<exists>xs. w = AArr xs"
  by (cases w) auto

lemma covers_at_path: "covers p q \<Longrightarrow> at_path w q = Some v \<Longrightarrow> \<exists>m. w = AMap m"
  using covers_Key at_path_Key by blast

lemma at_path_put:
  "at_path (AMap (gm_put s w m)) (Key k # q) =
     (if k = s then at_path w q else at_path (AMap m) (Key k # q))"
  by (simp add: gm.get_put)

text \<open>One case of the induction: the entry of the first key is replaced.\<close>

lemma leaf_replace:
  assumes leaf: "is_leaf v" and val: "gm_get m s = Some w"
    and inner: "\<And>q. at_path w' q = Some v \<longleftrightarrow> at_path w q = Some v \<and> \<not> cov q"
    and cov: "\<And>q. covers p (Key s # q) \<longleftrightarrow> cov q"
    and other: "\<And>k q. k \<noteq> s \<Longrightarrow> \<not> covers p (Key k # q)"
  shows "at_path (AMap (gm_put s w' m)) q = Some v \<longleftrightarrow> at_path (AMap m) q = Some v \<and> \<not> covers p q"
proof (cases "\<exists>k q'. q = Key k # q'")
  case True
  then obtain k q' where q: "q = Key k # q'" by blast
  show ?thesis
  proof (cases "k = s")
    case True
    then show ?thesis unfolding q at_path_put by (simp add: val inner cov)
  next
    case False
    then show ?thesis unfolding q at_path_put by (simp add: other)
  qed
next
  case False
  then show ?thesis using leaf by (auto simp: at_path_leaf_iff)
qed

lemma deleteAt_leaf:
  "is_leaf v \<Longrightarrow>
   at_path (AMap (deleteAt m p)) q = Some v \<longleftrightarrow> at_path (AMap m) q = Some v \<and> \<not> covers p q"
proof (induction m p arbitrary: q rule: deleteAt.induct)
  case (1 m)
  then show ?case by simp
next
  case (2 m s)
  then show ?case by (auto simp: at_path_leaf_iff gm.get_del)
next
  case (3 m s t rest)
  let ?f = "\<lambda>item. case item of AMap elem \<Rightarrow> AMap (deleteAt elem rest) | _ \<Rightarrow> item"
  have same: ?case if unchanged: "deleteAt m (s # t # rest) = m"
    and outside: "\<And>w q'. gm_get m s = Some w \<Longrightarrow> at_path w q' = Some v \<Longrightarrow> \<not> covers (s # t # rest) (Key s # q')"
  proof -
    have "\<not> covers (s # t # rest) q" if q: "at_path (AMap m) q = Some v"
    proof -
      obtain k q' w where *: "q = Key k # q'" "gm_get m k = Some w" "at_path w q' = Some v"
        using q 3(3) by (auto simp: at_path_leaf_iff)
      show ?thesis
      proof (cases "k = s")
        case True
        then show ?thesis using * outside by blast
      next
        case False
        then show ?thesis using *(1) by (auto split: list.splits step.splits)
      qed
    qed
    then show ?thesis using unchanged by auto
  qed
  show ?case
  proof (cases "gm_get m s")
    case None
    then show ?thesis by (intro same) auto
  next
    case (Some val)
    show ?thesis
    proof (cases "rest \<noteq> [] \<and> t = ''*''")
      case star: True
      show ?thesis
      proof (cases "\<exists>items. val = AArr items")
        case True
        then obtain items where val: "val = AArr items" ..
        have item: "at_path (?f x) q = Some v \<longleftrightarrow> at_path x q = Some v \<and> \<not> covers rest q"
          if "x \<in> set items" for x q
        proof (cases "\<exists>m. x = AMap m")
          case True
          then show ?thesis using 3(1) [OF Some star val that _ 3(3)] by auto
        next
          case False
          moreover have "?f x = x" using False by (cases x) auto
          ultimately show ?thesis using covers_at_path by metis
        qed
        define cov where "cov q = (case q of Idx i # q' \<Rightarrow> covers rest q' | _ \<Rightarrow> False)" for q
        have "at_path (AArr (map ?f items)) q = Some v \<longleftrightarrow> at_path (AArr items) q = Some v \<and> \<not> cov q" for q
          unfolding at_path_items_iff [OF 3(3)] cov_def
          by (cases q) (use item in \<open>auto split: step.splits\<close>)
        then have "at_path (AMap (gm_put s (AArr (map ?f items)) m)) q = Some v \<longleftrightarrow>
            at_path (AMap m) q = Some v \<and> \<not> covers (s # t # rest) q"
          by (rule leaf_replace [OF 3(3) Some, unfolded val])
            (auto simp: cov_def star split: list.splits step.splits)
        then show ?thesis using Some star val by simp
      next
        case False
        then have "deleteAt m (s # t # rest) = m" using Some star by (cases val) auto
        then show ?thesis
          by (rule same) (use Some star False at_path_Idx in \<open>fastforce split: list.splits step.splits\<close>)
      qed
    next
      case star: False
      show ?thesis
      proof (cases "\<exists>nxt. val = AMap nxt")
        case True
        then obtain nxt where val: "val = AMap nxt" ..
        have "at_path (AMap (gm_put s (AMap (deleteAt nxt (t # rest))) m)) q = Some v \<longleftrightarrow>
            at_path (AMap m) q = Some v \<and> \<not> covers (s # t # rest) q"
          by (rule leaf_replace [OF 3(3) Some, unfolded val, OF 3(2) [OF Some star val 3(3)]])
            (use star in auto)
        then show ?thesis using Some star val by auto
      next
        case False
        then have "deleteAt m (s # t # rest) = m" using Some star by (cases val) auto
        have "\<not> covers (t # rest) q'" if "at_path val q' = Some v" for q'
          using that False covers_at_path by blast
        with \<open>deleteAt m (s # t # rest) = m\<close> show ?thesis
          by (intro same) (use Some star in \<open>auto simp del: deleteAt.simps\<close>)
      qed
    qed
  qed
qed

subsection \<open>Deletions commute\<close>

text \<open>\<open>deleteAt\<close> below the first key, as a function on the value stored there.\<close>

definition sub_delete :: "string \<Rightarrow> string list \<Rightarrow> any \<Rightarrow> any" where
  "sub_delete t rest val =
     (if rest \<noteq> [] \<and> t = ''*''
      then (case val of
              AArr items \<Rightarrow> AArr (map (\<lambda>item. case item of AMap e \<Rightarrow> AMap (deleteAt e rest) | _ \<Rightarrow> item) items)
            | _ \<Rightarrow> val)
      else (case val of AMap n \<Rightarrow> AMap (deleteAt n (t # rest)) | _ \<Rightarrow> val))"

lemma deleteAt_sub:
  "deleteAt m (s # t # rest) =
     (case gm_get m s of None \<Rightarrow> m | Some val \<Rightarrow> gm_put s (sub_delete t rest val) m)"
  by (auto simp: sub_delete_def gm_put_id split: option.splits any.splits)

lemma deleteAt_twice: "deleteAt (deleteAt m p) p = deleteAt m p"
proof (induction m p rule: deleteAt.induct)
  case (3 m s t rest)
  have "sub_delete t rest (sub_delete t rest val) = sub_delete t rest val"
    if "gm_get m s = Some val" for val
    using 3(1) [OF that] 3(2) [OF that]
    by (cases val) (auto simp: sub_delete_def split: any.splits)
  then show ?case
    by (auto simp: deleteAt_sub gm.get_put simp del: deleteAt.simps split: option.splits)
qed simp_all

lemma deleteAt_commute: "deleteAt (deleteAt m p) q = deleteAt (deleteAt m q) p"
proof (induction m p arbitrary: q rule: deleteAt.induct)
  case (1 m)
  show ?case by simp
next
  case (2 m s)
  show ?case
  proof (cases "(m, q)" rule: deleteAt.cases)
    case (3 m' s' t' rest')
    then show ?thesis
      by (auto simp: deleteAt_sub gm.get_del gm_put_commute_del simp del: deleteAt.simps(3)
          split: option.splits)
  qed (auto simp: gm_del_commute)
next
  case (3 m s t rest)
  show ?case
  proof (cases "(m, q)" rule: deleteAt.cases)
    case (2 m' s')
    then show ?thesis
      by (auto simp: deleteAt_sub gm.get_del gm_put_commute_del simp del: deleteAt.simps(3)
          split: option.splits)
  next
    case q: (3 m' s' t' rest')
    show ?thesis
    proof (cases "s = s'")
      case False
      with q show ?thesis
        by (auto simp: deleteAt_sub gm.get_put gm_put_put_commute simp del: deleteAt.simps(3)
            split: option.splits)
    next
      case True
      have "sub_delete t rest (sub_delete t' rest' val) = sub_delete t' rest' (sub_delete t rest val)"
        if "gm_get m s = Some val" for val
        using 3(1) [OF that] 3(2) [OF that]
        by (cases val) (auto simp: sub_delete_def simp del: deleteAt.simps split: any.splits)
      with q True show ?thesis
        by (auto simp: deleteAt_sub gm.get_put simp del: deleteAt.simps(3) split: option.splits)
    qed
  qed simp
qed

lemma DeleteField_commute: "DeleteField (DeleteField m p) q = DeleteField (DeleteField m q) p"
  by (simp add: DeleteField_def Let_def deleteAt_commute)

lemma DeleteField_twice: "DeleteField (DeleteField m p) p = DeleteField m p"
  by (simp add: DeleteField_def Let_def deleteAt_twice)

interpretation field_deletion: comp_fun_idem "\<lambda>p m. DeleteField m p"
  by unfold_locales (auto simp: fun_eq_iff DeleteField_commute DeleteField_twice)

lemma DeleteFields_fold: "DeleteFields m ps = Finite_Set.fold (\<lambda>p m. DeleteField m p) m (set ps)"
  by (simp add: DeleteFields_def field_deletion.fold_set_fold foldl_conv_fold)

lemma DeleteFields_leaf_iff:
  "is_leaf v \<Longrightarrow>
   at_path (AMap (DeleteFields m ps)) q = Some v \<longleftrightarrow>
     at_path (AMap m) q = Some v \<and> (\<nexists>p. p \<in> set ps \<and> covers (parsePath p) q)"
proof (induction ps arbitrary: m)
  case (Cons p ps)
  have "at_path (AMap (DeleteField m p)) q = Some v \<longleftrightarrow>
      at_path (AMap m) q = Some v \<and> \<not> covers (parsePath p) q"
    by (simp add: DeleteField_def Let_def deleteAt_leaf [OF Cons.prems])
  with Cons show ?case by (auto simp: DeleteFields_def)
qed (simp add: DeleteFields_def)

subsection \<open>Properties\<close>

text \<open>C28: \<open>parsePath\<close> reads back every written path: a plain key stands for itself when it is
  not empty and holds no dot or opening bracket, and any non-empty key can be written in
  brackets and quotes with \<open>\"\<close> and \<open>\\\<close> escaped.\<close>

theorem parsePath_show_path:
  "\<forall>s \<in> set ss. seg_ok s \<Longrightarrow> parsePath (show_path ss) = map seg_text ss"
  by (rule parsePath_show_path_aux)

theorem parsePath_show_path_witness:
  "parsePath (''metadata.annotations['' @ [QUOTE] @ ''a.b/c'' @ [QUOTE] @ '']'') =
     [''metadata'', ''annotations'', ''a.b/c'']"
  using parsePath_show_path [of "[Plain ''metadata'', Plain ''annotations'', Quoted ''a.b/c'']"]
  by (simp add: escape_def)

text \<open>C19: \<open>DeleteFields\<close> removes exactly the scalar values that lie at or below one of the paths
  (with \<open>*\<close> standing for every element of a list) and keeps every other scalar at its
  position.\<close>

theorem DeleteFields_exactly:
  assumes "is_leaf v"
  shows "at_path (AMap (DeleteFields m ps)) q = Some v \<longleftrightarrow>
     at_path (AMap m) q = Some v \<and> (\<nexists>p. p \<in> set ps \<and> covers (parsePath p) q)"
  by (rule DeleteFields_leaf_iff [OF assms])

theorem DeleteFields_exactly_witness:
  "at_path (AMap (DeleteFields [(''a'', AArr [AMap [(''t'', AStr ''x''), (''u'', AStr ''y'')]])] [''a[*].t'']))
      [Key ''a'', Idx 0, Key ''t''] \<noteq> Some (AStr ''x'') \<and>
   at_path (AMap (DeleteFields [(''a'', AArr [AMap [(''t'', AStr ''x''), (''u'', AStr ''y'')]])] [''a[*].t'']))
      [Key ''a'', Idx 0, Key ''u''] = Some (AStr ''y'')"
  using DeleteFields_exactly [of "AStr ''x''" _ "[''a[*].t'']" "[Key ''a'', Idx 0, Key ''t'']"]
    DeleteFields_exactly [of "AStr ''y''" "[(''a'', AArr [AMap [(''t'', AStr ''x''), (''u'', AStr ''y'')]])]"
      "[''a[*].t'']" "[Key ''a'', Idx 0, Key ''u'']"]
  by (simp add: parsePath_def flush_def gm_get_def)

text \<open>The order and the repetition of the paths do not matter: two lists with the same set of
  paths leave the same object, so it is harmless that the rules and the built-in table add
  the same path several times.\<close>

theorem DeleteFields_set:
  "set ps = set qs \<Longrightarrow> DeleteFields m ps = DeleteFields m qs"
  by (simp add: DeleteFields_fold)

theorem DeleteFields_set_witness:
  "DeleteFields [(''a'', AMap [(''b'', ANil)]), (''c'', ANil)] [''a.b'', ''c'', ''a.b''] =
   DeleteFields [(''a'', AMap [(''b'', ANil)]), (''c'', ANil)] [''c'', ''a.b'']"
  by (rule DeleteFields_set) auto

end
