(* ===== verification/Paths.thy ===== *)
theory Paths
  imports GoStrings
begin

text \<open>
  \<open>path/filepath\<close> on Unix (\<open>Join\<close>, \<open>Clean\<close>, \<open>Dir\<close>, \<open>Ext\<close>) and the path
  convention of the backup:
  \<open><subDir>/group/version/[namespaces/ns/]resource/name.yaml\<close>.
\<close>

subsection \<open>File paths\<close>

abbreviation SLASH :: char where "SLASH \<equiv> CHR ''/''"

text \<open>The elements of a path that \<open>Clean\<close> keeps, newest first.\<close>

fun clean_elems :: "bool \<Rightarrow> string list \<Rightarrow> string list \<Rightarrow> string list" where
  "clean_elems rooted out [] = out"
| "clean_elems rooted out (e # es) =
     (if e = [] \<or> e = ''.'' then clean_elems rooted out es
      else if e = ''..'' then
        (case out of
           [] \<Rightarrow> clean_elems rooted (if rooted then [] else [e]) es
         | d # out' \<Rightarrow> clean_elems rooted (if d = ''..'' then e # out else out') es)
      else clean_elems rooted (e # out) es)"

definition Clean :: "string \<Rightarrow> string" where
  "Clean path =
     (let rooted = HasPrefix path ''/'';
          elems = rev (clean_elems rooted [] (Split path SLASH));
          body = Join elems ''/''
      in if rooted then SLASH # body else if body = [] then ''.'' else body)"

definition filepath_Join :: "string list \<Rightarrow> string" where
  "filepath_Join elems =
     (let es = filter (\<lambda>e. e \<noteq> []) elems
      in if es = [] then [] else Clean (Join es ''/''))"

definition filepath_Dir :: "string \<Rightarrow> string" where
  "filepath_Dir path = Clean (if SLASH \<in> set path then before_last path SLASH @ ''/'' else [])"

definition filepath_Ext :: "string \<Rightarrow> string" where
  "filepath_Ext path =
     (let base = after_last path SLASH
      in if CHR ''.'' \<in> set base then CHR ''.'' # after_last base CHR ''.'' else [])"

subsection \<open>Clean paths\<close>

text \<open>An element of a path that stands for itself.\<close>

definition path_elem :: "string \<Rightarrow> bool" where
  "path_elem e \<longleftrightarrow> e \<notin> {[], ''.'', ''..''} \<and> SLASH \<notin> set e"

text \<open>The absolute path with these elements.\<close>

definition abs_path :: "string list \<Rightarrow> string" where
  "abs_path es = SLASH # Join es ''/''"

lemma clean_elems_append:
  "clean_elems rooted out (es @ fs) = clean_elems rooted (clean_elems rooted out es) fs"
  by (induction rooted out es rule: clean_elems.induct) (auto split: list.splits)

lemma clean_elems_good:
  "list_all path_elem es \<Longrightarrow> clean_elems rooted out es = rev es @ out"
  by (induction es arbitrary: out) (auto simp: path_elem_def)

lemma Join_append:
  "xs \<noteq> [] \<Longrightarrow> ys \<noteq> [] \<Longrightarrow> Join (xs @ ys) s = Join xs s @ s @ Join ys s"
proof (induction xs s rule: Join.induct)
  case (2 w sep)
  then show ?case by (cases ys) auto
qed auto

lemma Join_Cons: "ys \<noteq> [] \<Longrightarrow> Join (x # ys) s = x @ s @ Join ys s"
  by (cases ys) auto

lemma Split_append_sep: "Split (s @ c # t) c = Split s c @ Split t c"
proof (induction s)
  case (Cons d s)
  obtain w ws where s: "split_by (\<lambda>x. x = c) s = w # ws"
    by (cases "split_by (\<lambda>x. x = c) s") auto
  with Cons show ?case by (cases ws) (auto simp: Split_def)
qed (simp add: Split_def)

lemma Split_Join_concat:
  "es \<noteq> [] \<Longrightarrow> Split (Join es ''/'') SLASH = concat (map (\<lambda>e. Split e SLASH) es)"
  by (induction es "''/''" rule: Join.induct) (simp_all add: Split_append_sep)

lemma Split_abs_path:
  "list_all path_elem es \<Longrightarrow> Split (abs_path es) SLASH = [] # (if es = [] then [[]] else es)"
proof -
  assume "list_all path_elem es"
  then have "es \<noteq> [] \<Longrightarrow> Split (Join es ''/'') SLASH = es"
    by (intro Split_Join) (auto simp: path_elem_def list_all_iff)
  then show ?thesis
    using Split_append_sep [of "[]" SLASH] by (simp add: abs_path_def)
qed

lemma Clean_abs_path: "list_all path_elem es \<Longrightarrow> Clean (abs_path es) = abs_path es"
  by (simp add: Clean_def Split_abs_path clean_elems_good)
    (simp add: abs_path_def HasPrefix_def)

text \<open>A relative directory as the configuration writes it: \<open>Clean\<close> leaves these elements.\<close>

definition rel_elems :: "string \<Rightarrow> string list" where
  "rel_elems s = rev (clean_elems False [] (Split s SLASH))"

text \<open>Joining elements to an absolute path appends them.\<close>

lemma filepath_Join_abs:
  assumes "list_all path_elem es" "list_all path_elem fs"
  shows "filepath_Join (abs_path es # fs) = abs_path (es @ fs)"
proof -
  have ne: "filter (\<lambda>e. e \<noteq> []) fs = fs"
    using assms(2) by (auto simp: list_all_iff path_elem_def intro: filter_True)
  have a: "abs_path es \<noteq> []" by (simp add: abs_path_def)
  have "concat (map (\<lambda>e. Split e SLASH) fs) = fs"
    using assms(2) by (induction fs) (auto simp: Split_clean path_elem_def)
  then have sp: "Split (Join (abs_path es # fs) ''/'') SLASH = [] # (if es = [] then [[]] else es) @ fs"
    by (simp add: Split_Join_concat Split_abs_path assms)
  have "HasPrefix (Join (abs_path es # fs) ''/'') ''/''"
    by (cases fs) (auto simp: abs_path_def HasPrefix_def)
  moreover have "rev (clean_elems True [] ([] # (if es = [] then [[]] else es) @ fs)) = es @ fs"
    using assms by (auto simp: clean_elems_append clean_elems_good)
  ultimately have "Clean (Join (abs_path es # fs) ''/'') = abs_path (es @ fs)"
    unfolding Clean_def Let_def sp by (simp only: if_True) (simp add: abs_path_def)
  then show ?thesis by (simp add: filepath_Join_def ne a)
qed

lemma path_elem_not_Nil: "path_elem e \<Longrightarrow> e \<noteq> []"
  by (auto simp: path_elem_def)

lemma abs_path_inj:
  assumes "list_all path_elem es" "list_all path_elem fs" "abs_path es = abs_path fs"
  shows "es = fs"
proof -
  have "Split (abs_path es) SLASH = Split (abs_path fs) SLASH" using assms(3) by simp
  then show ?thesis
    using assms(1,2) by (auto simp: Split_abs_path path_elem_def split: if_splits)
qed

text \<open>A path below a directory.\<close>

definition inside :: "string \<Rightarrow> string \<Rightarrow> bool" where
  "inside dir path \<longleftrightarrow> HasPrefix path (dir @ ''/'')"

lemma abs_path_append: "fs \<noteq> [] \<Longrightarrow> es \<noteq> [] \<Longrightarrow> abs_path (es @ fs) = abs_path es @ SLASH # Join fs ''/''"
  by (simp add: abs_path_def Join_append)

lemma inside_abs_path: "es \<noteq> [] \<Longrightarrow> fs \<noteq> [] \<Longrightarrow> inside (abs_path es) (abs_path (es @ fs))"
  by (simp add: inside_def abs_path_append HasPrefix_iff)

lemma after_last_append: "c \<notin> set v \<Longrightarrow> after_last (u @ c # v) c = v"
  using before_after_last by simp

lemma Join_last: "es \<noteq> [] \<Longrightarrow> \<exists>u. abs_path es = u @ SLASH # last es"
proof (induction es rule: rev_induct)
  case (snoc e es)
  then show ?case
    by (cases "es = []") (auto simp: abs_path_def Join_append)
qed simp

lemma filepath_Ext_yaml:
  assumes "es \<noteq> []" "last es = n @ ''.yaml''" "SLASH \<notin> set n"
  shows "filepath_Ext (abs_path es) = ''.yaml''"
proof -
  obtain u where "abs_path es = u @ SLASH # last es" using Join_last assms(1) by blast
  then have "after_last (abs_path es) SLASH = n @ ''.yaml''"
    using assms by (simp add: after_last_append)
  then show ?thesis by (simp add: filepath_Ext_def Let_def after_last_def)
qed

lemma filepath_Dir_abs:
  assumes "list_all path_elem (es @ [e])"
  shows "filepath_Dir (abs_path (es @ [e])) = abs_path es"
proof -
  have e: "SLASH \<notin> set e" using assms by (simp add: path_elem_def)
  have "abs_path (es @ [e]) = (if es = [] then [] else abs_path es) @ SLASH # e"
    by (auto simp: abs_path_def Join_append)
  then have "before_last (abs_path (es @ [e])) SLASH = (if es = [] then [] else abs_path es)"
    using e by (simp add: before_after_last)
  moreover have "SLASH \<in> set (abs_path (es @ [e]))" by (simp add: abs_path_def)
  moreover have "Clean (abs_path es @ ''/'') = abs_path es" if "es \<noteq> []"
  proof -
    have "Split (abs_path es @ ''/'') SLASH = [] # es @ [[]]"
      using that assms Split_append_sep [of "abs_path es" SLASH "[]"] by (simp add: Split_abs_path)
    moreover have "clean_elems True [] (es @ [[]]) = rev es"
      using assms by (simp add: clean_elems_append clean_elems_good)
    moreover have "HasPrefix (abs_path es @ ''/'') ''/''" by (simp add: abs_path_def HasPrefix_def)
    ultimately show ?thesis by (simp add: Clean_def abs_path_def)
  qed
  moreover have "Clean ''/'' = abs_path []" by (simp add: Clean_def abs_path_def HasPrefix_def Split_def)
  ultimately show ?thesis by (auto simp: filepath_Dir_def)
qed

subsection \<open>The path of a resource\<close>

text \<open>The five values that \<open>ParseResourcePath\<close> returns with \<open>ok = true\<close>.\<close>

record resource_id =
  ri_group :: string
  ri_version :: string
  ri_namespace :: string
  ri_resource :: string
  ri_name :: string

definition ParseResourcePath :: "string \<Rightarrow> resource_id option" where
  "ParseResourcePath relPath =
     (case Split (TrimSuffix relPath ''.yaml'') SLASH of
        [p0, p1, p2, p3] \<Rightarrow>
          Some \<lparr>ri_group = p0, ri_version = p1, ri_namespace = [], ri_resource = p2, ri_name = p3\<rparr>
      | [p0, p1, p2, p3, p4, p5] \<Rightarrow>
          if p2 \<noteq> ''namespaces'' then None
          else Some \<lparr>ri_group = p0, ri_version = p1, ri_namespace = p3, ri_resource = p4, ri_name = p5\<rparr>
      | _ \<Rightarrow> None)"

text \<open>The elements that \<open>runOnce\<close> joins to \<open>subDir\<close>.\<close>

definition resource_elems :: "bool \<Rightarrow> resource_id \<Rightarrow> string list" where
  "resource_elems namespaced r =
     (if namespaced
      then [ri_group r, ri_version r, ''namespaces'', ri_namespace r, ri_resource r, ri_name r @ ''.yaml'']
      else [ri_group r, ri_version r, ri_resource r, ri_name r @ ''.yaml''])"

text \<open>An identity whose parts are path elements; without a namespace it is cluster-scoped.\<close>

definition rid_ok :: "resource_id \<Rightarrow> bool" where
  "rid_ok r \<longleftrightarrow>
     path_elem (ri_group r) \<and> path_elem (ri_version r) \<and> path_elem (ri_resource r) \<and>
     path_elem (ri_name r) \<and> (ri_namespace r = [] \<or> path_elem (ri_namespace r))"

definition resource_path :: "resource_id \<Rightarrow> string" where
  "resource_path r = Join (resource_elems (ri_namespace r \<noteq> []) r) ''/''"

text \<open>The contract of a path convention: what was written is read back.\<close>

locale path_codec =
  fixes encode :: "'i \<Rightarrow> string"
    and decode :: "string \<Rightarrow> 'i option"
    and valid :: "'i \<Rightarrow> bool"
  assumes decode_encode: "valid i \<Longrightarrow> decode (encode i) = Some i"
begin

lemma encode_inj: "inj_on encode {i. valid i}"
proof (rule inj_onI)
  fix i j
  assume "i \<in> {i. valid i}" "j \<in> {i. valid i}" "encode i = encode j"
  then show "i = j" by (metis decode_encode mem_Collect_eq option.inject)
qed

lemma encode_eq_iff: "valid i \<Longrightarrow> valid j \<Longrightarrow> encode i = encode j \<longleftrightarrow> i = j"
  using encode_inj by (auto dest: inj_onD)

text \<open>Looking a resource up by its decoded path finds the entry that was written for it.\<close>

lemma map_of_encoded:
  "list_all valid is \<Longrightarrow> valid i \<Longrightarrow>
   map_of (map (\<lambda>j. (encode j, f j)) is) (encode i) = (if i \<in> set is then Some (f i) else None)"
  by (induction "is") (auto simp: encode_eq_iff)

end

lemma path_elem_append_yaml: "path_elem n \<Longrightarrow> path_elem (n @ ''.yaml'')"
  by (auto simp: path_elem_def append_eq_Cons_conv)

lemma path_elem_namespaces: "path_elem ''namespaces''"
  by (simp add: path_elem_def)

lemma resource_elems_ok: "rid_ok r \<Longrightarrow> list_all path_elem (resource_elems (ri_namespace r \<noteq> []) r)"
  by (cases "ri_namespace r = []")
    (simp_all add: rid_ok_def resource_elems_def path_elem_append_yaml path_elem_namespaces)

lemma Join_butlast_last:
  "es \<noteq> [] \<Longrightarrow> last es = n @ t \<Longrightarrow> Join es s = Join (butlast es @ [n]) s @ t"
  by (induction es s rule: Join.induct) (auto simp: Join_Cons)

lemma ParseResourcePath_resource_path:
  assumes "rid_ok r"
  shows "ParseResourcePath (resource_path r) = Some r"
proof -
  let ?es = "resource_elems (ri_namespace r \<noteq> []) r"
  let ?fs = "butlast ?es @ [ri_name r]"
  have "resource_path r = Join ?fs ''/'' @ ''.yaml''"
    unfolding resource_path_def by (rule Join_butlast_last) (auto simp: resource_elems_def)
  moreover have "Split (Join ?fs ''/'') SLASH = ?fs"
    by (rule Split_Join) (use assms in \<open>auto simp: resource_elems_def rid_ok_def path_elem_def\<close>)
  ultimately show ?thesis
    by (auto simp: ParseResourcePath_def resource_elems_def)
qed

interpretation resource_paths: path_codec resource_path ParseResourcePath rid_ok
  by unfold_locales (rule ParseResourcePath_resource_path)

end
