(* ===== verification/Files.thy ===== *)
theory Files
  imports Paths GoData GoSort
begin

text \<open>
  The file system as the Go functions of \<open>os\<close> and \<open>path/filepath\<close> see it: regular files
  with their content, directories, and an oracle that makes single operations fail (a full
  disk, missing permissions). Paths are compared as strings; the callers use clean paths.
\<close>

datatype fs_op = OpRead | OpWrite | OpMkdir | OpRemove | OpReadDir

record fs =
  fs_files :: "string gmap"
  fs_dirs :: "string list"
  fs_fault :: "fs_op \<Rightarrow> string \<Rightarrow> error option"

abbreviation ErrNotExist :: error where "ErrNotExist \<equiv> ErrLib ''fs.ErrNotExist''"

definition content :: "fs \<Rightarrow> string \<Rightarrow> string option" where
  "content s p = gm_get (fs_files s) p"

subsection \<open>Single operations\<close>

definition ReadFile :: "fs \<Rightarrow> string \<Rightarrow> string result" where
  "ReadFile s p =
     (case fs_fault s OpRead p of
        Some e \<Rightarrow> Err e
      | None \<Rightarrow> (case content s p of
                   Some c \<Rightarrow> Ok c
                 | None \<Rightarrow> if p \<in> set (fs_dirs s) then Err (ErrText ''is a directory'') else Err ErrNotExist))"

text \<open>A write that fails leaves the file as it was (the truncation of a file whose write
  fails later is not modelled).\<close>

definition WriteFile :: "string \<Rightarrow> string \<Rightarrow> fs \<Rightarrow> fs \<times> unit result" where
  "WriteFile p c s =
     (case fs_fault s OpWrite p of
        Some e \<Rightarrow> (s, Err e)
      | None \<Rightarrow>
          if p \<in> set (fs_dirs s) then (s, Err (ErrText ''is a directory''))
          else if filepath_Dir p \<notin> set (fs_dirs s) then (s, Err ErrNotExist)
          else (s\<lparr>fs_files := gm_put p c (fs_files s)\<rparr>, Ok ()))"

definition RemoveFile :: "string \<Rightarrow> fs \<Rightarrow> fs \<times> unit result" where
  "RemoveFile p s =
     (case fs_fault s OpRemove p of
        Some e \<Rightarrow> (s, Err e)
      | None \<Rightarrow>
          if content s p = None then (s, Err ErrNotExist)
          else (s\<lparr>fs_files := gm_del p (fs_files s)\<rparr>, Ok ()))"

text \<open>A directory and its parents, outermost first.\<close>

fun dir_chain :: "string \<Rightarrow> string list \<Rightarrow> string list" where
  "dir_chain pre [] = []"
| "dir_chain pre (e # es) =
     (if e = [] then dir_chain (pre @ ''/'') es else (pre @ e) # dir_chain (pre @ e @ ''/'') es)"

fun mkdirs :: "string list \<Rightarrow> fs \<Rightarrow> fs \<times> unit result" where
  "mkdirs [] s = (s, Ok ())"
| "mkdirs (d # ds) s =
     (if d \<in> set (fs_dirs s) then mkdirs ds s
      else if content s d \<noteq> None then (s, Err (ErrText ''not a directory''))
      else case fs_fault s OpMkdir d of
             Some e \<Rightarrow> (s, Err e)
           | None \<Rightarrow> mkdirs ds (s\<lparr>fs_dirs := d # fs_dirs s\<rparr>))"

definition MkdirAll :: "string \<Rightarrow> fs \<Rightarrow> fs \<times> unit result" where
  "MkdirAll p = mkdirs (dir_chain [] (Split p SLASH))"

text \<open>\<open>os.RemoveAll("")\<close> does nothing.\<close>

definition RemoveAll :: "string \<Rightarrow> fs \<Rightarrow> fs" where
  "RemoveAll p s =
     (if p = [] then s
      else s\<lparr>fs_files := filter (\<lambda>(q, _). q \<noteq> p \<and> \<not> inside p q) (fs_files s),
             fs_dirs := filter (\<lambda>q. q \<noteq> p \<and> \<not> inside p q) (fs_dirs s)\<rparr>)"

subsection \<open>Walking a directory\<close>

text \<open>
  \<open>filepath.WalkDir\<close> visits the entries in the lexical order of their elements, reading a
  directory after it has visited it. A directory that cannot be read is visited a second
  time with the error. No callback of the repository returns \<open>SkipDir\<close>.
\<close>

definition walk_entries :: "fs \<Rightarrow> string \<Rightarrow> string list" where
  "walk_entries s dir =
     go_sort (\<lambda>p q. Split p SLASH < Split q SLASH)
       (filter (\<lambda>p. p = dir \<or> inside dir p) (remdups (map fst (fs_files s) @ fs_dirs s)))"

text \<open>The error values of the package \<open>os\<close> name the operation and the path.\<close>

definition path_error :: "string \<Rightarrow> string \<Rightarrow> error \<Rightarrow> error" where
  "path_error op p e = ErrWrap (op @ '' '' @ p) e"

function walk_list ::
  "fs \<Rightarrow> (string \<Rightarrow> bool \<Rightarrow> error option \<Rightarrow> 's \<Rightarrow> 's \<times> unit result) \<Rightarrow> string list \<Rightarrow> 's \<Rightarrow>
   's \<times> unit result" where
  "walk_list s fn [] st = (st, Ok ())"
| "walk_list s fn (p # ps) st =
     (case fn p (p \<in> set (fs_dirs s)) None st of
        (st', Ok _) \<Rightarrow>
          (case (if p \<in> set (fs_dirs s) then fs_fault s OpReadDir p else None) of
             None \<Rightarrow> walk_list s fn ps st'
           | Some e \<Rightarrow>
               (case fn p True (Some (path_error ''open'' p e)) st' of
                  (st'', Ok _) \<Rightarrow> walk_list s fn (filter (\<lambda>q. \<not> inside p q) ps) st''
                | (st'', other) \<Rightarrow> (st'', other)))
      | (st', other) \<Rightarrow> (st', other))"
  by pat_completeness auto
termination
  by (relation "measure (\<lambda>(s, fn, ps, st). length ps)") (auto simp: le_imp_less_Suc)

definition WalkDir ::
  "fs \<Rightarrow> string \<Rightarrow> (string \<Rightarrow> bool \<Rightarrow> error option \<Rightarrow> 's \<Rightarrow> 's \<times> unit result) \<Rightarrow> 's \<Rightarrow>
   's \<times> unit result" where
  "WalkDir s dir fn st =
     (if content s dir = None \<and> dir \<notin> set (fs_dirs s) then fn dir False (Some ErrNotExist) st
      else walk_list s fn (walk_entries s dir) st)"

subsection \<open>Facts\<close>

lemma content_WriteFile:
  "WriteFile p c s = (s', Ok u) \<Longrightarrow> content s' = (content s)(p := Some c)"
  by (auto simp: WriteFile_def content_def fun_eq_iff gm.get_put split: option.splits if_splits)

lemma WriteFile_keeps:
  "WriteFile p c s = (s', r) \<Longrightarrow> fs_dirs s' = fs_dirs s \<and> fs_fault s' = fs_fault s"
  by (auto simp: WriteFile_def split: option.splits if_splits)

lemma content_RemoveFile:
  "RemoveFile p s = (s', Ok u) \<Longrightarrow> content s' = (content s)(p := None)"
  by (auto simp: RemoveFile_def content_def fun_eq_iff gm.get_del split: option.splits if_splits)

lemma RemoveFile_keeps:
  "RemoveFile p s = (s', r) \<Longrightarrow> fs_dirs s' = fs_dirs s \<and> fs_fault s' = fs_fault s"
  by (auto simp: RemoveFile_def split: option.splits if_splits)

lemma mkdirs_keeps:
  "mkdirs ds s = (s', r) \<Longrightarrow>
     fs_files s' = fs_files s \<and> fs_fault s' = fs_fault s \<and> set (fs_dirs s) \<subseteq> set (fs_dirs s')"
proof (induction ds s arbitrary: s' r rule: mkdirs.induct)
  case (2 d ds s)
  consider "mkdirs (d # ds) s = mkdirs ds s" "d \<in> set (fs_dirs s)" | "fst (mkdirs (d # ds) s) = s"
    | "d \<notin> set (fs_dirs s)" "content s d = None" "fs_fault s OpMkdir d = None"
      "mkdirs (d # ds) s = mkdirs ds (s\<lparr>fs_dirs := d # fs_dirs s\<rparr>)"
    by (cases "d \<in> set (fs_dirs s)"; cases "content s d"; cases "fs_fault s OpMkdir d") auto
  then show ?case
  proof cases
    case 1
    then show ?thesis using 2 by simp
  next
    case 2
    then show ?thesis using "2.prems" by simp
  next
    case 3
    then show ?thesis using "2.IH"(2) [of s' r] "2.prems" by simp
  qed
qed simp

lemma mkdirs_Cons_Ok:
  "mkdirs (d # ds) s = (s', Ok u) \<Longrightarrow>
     (d \<in> set (fs_dirs s) \<and> mkdirs ds s = (s', Ok u)) \<or>
     mkdirs ds (s\<lparr>fs_dirs := d # fs_dirs s\<rparr>) = (s', Ok u)"
  by (cases "d \<in> set (fs_dirs s)"; cases "content s d"; cases "fs_fault s OpMkdir d") simp_all

lemma mkdirs_Ok: "mkdirs ds s = (s', Ok u) \<Longrightarrow> set (fs_dirs s') = set (fs_dirs s) \<union> set ds"
proof (induction ds arbitrary: s)
  case (Cons d ds)
  from mkdirs_Cons_Ok [OF Cons.prems] show ?case
  proof (elim disjE conjE)
    assume "d \<in> set (fs_dirs s)" "mkdirs ds s = (s', Ok u)"
    then show ?thesis using Cons.IH by auto
  next
    assume "mkdirs ds (s\<lparr>fs_dirs := d # fs_dirs s\<rparr>) = (s', Ok u)"
    then show ?thesis using Cons.IH by fastforce
  qed
qed simp

lemma content_MkdirAll: "MkdirAll p s = (s', r) \<Longrightarrow> content s' = content s"
  unfolding MkdirAll_def content_def using mkdirs_keeps by fastforce

lemma MkdirAll_keeps:
  "MkdirAll p s = (s', r) \<Longrightarrow> fs_fault s' = fs_fault s \<and> set (fs_dirs s) \<subseteq> set (fs_dirs s')"
  unfolding MkdirAll_def using mkdirs_keeps by fastforce

lemma map_of_filter_key: "map_of (filter (\<lambda>(k, _). P k) xs) k = (if P k then map_of xs k else None)"
  by (induction xs) auto

lemma content_RemoveAll:
  "p \<noteq> [] \<Longrightarrow> content (RemoveAll p s) q = (if q = p \<or> inside p q then None else content s q)"
  by (simp add: RemoveAll_def content_def gm_get_def map_of_filter_key)

lemma walk_entries_set:
  "p \<in> set (walk_entries s dir) \<longleftrightarrow>
     (content s p \<noteq> None \<or> p \<in> set (fs_dirs s)) \<and> (p = dir \<or> inside dir p)"
  by (auto simp: walk_entries_def content_def gm_get_def map_of_eq_None_iff)

lemma walk_entries_distinct: "distinct (walk_entries s dir)"
  by (simp add: walk_entries_def)

text \<open>With a callback that fails on every reported error, a walk that succeeds has called the
  callback once for every entry: a relation that holds between the states before and after
  each call, and that composes, holds for the whole walk.\<close>

lemma walk_list_Ok:
  assumes "\<And>p d e st. \<exists>e'. snd (fn p d (Some e) st) = Err e'"
    and "walk_list s fn ps st = (st', Ok u)"
    and "\<And>p st st'. fn p (p \<in> set (fs_dirs s)) None st = (st', Ok ()) \<Longrightarrow> P p st st'"
    and "\<And>st. Q [] st st"
    and "\<And>p ps st st' st''. P p st st' \<Longrightarrow> Q ps st' st'' \<Longrightarrow> Q (p # ps) st st''"
  shows "Q ps st st'"
  using assms(2)
proof (induction ps arbitrary: st)
  case Nil
  then show ?case using assms(4) by simp
next
  case (Cons p ps)
  obtain st1 r where f: "fn p (p \<in> set (fs_dirs s)) None st = (st1, r)" by fastforce
  obtain v where r: "r = Ok v" using Cons.prems f by (cases r) auto
  have "walk_list s fn ps st1 = (st', Ok u)"
  proof (cases "if p \<in> set (fs_dirs s) then fs_fault s OpReadDir p else None")
    case None
    then show ?thesis using Cons.prems f r by simp
  next
    case (Some e)
    obtain st2 e' where "fn p True (Some (path_error ''open'' p e)) st1 = (st2, Err e')"
      using assms(1) [of p True "path_error ''open'' p e" st1]
      by (cases "fn p True (Some (path_error ''open'' p e)) st1") auto
    then show ?thesis using Cons.prems f r Some by simp
  qed
  then show ?case
    using assms(3) [OF f [unfolded r, simplified]] assms(5) Cons.IH by simp
qed

text \<open>A callback that only passes on the errors it is given: the walk fails with an error of the
  file system.\<close>

lemma walk_list_Err:
  assumes "\<And>p d st. \<exists>st'. fn p d None st = (st', Ok ())"
    and "\<And>p d e st. \<exists>st'. fn p d (Some e) st = (st', Err e)"
    and "walk_list s fn ps st = (st', r)"
  shows "r = Ok () \<or> (\<exists>p e. r = Err (path_error ''open'' p e))"
  using assms(3)
proof (induction ps arbitrary: st)
  case (Cons p ps)
  obtain st1 where f: "fn p (p \<in> set (fs_dirs s)) None st = (st1, Ok ())" using assms(1) by blast
  show ?case
  proof (cases "if p \<in> set (fs_dirs s) then fs_fault s OpReadDir p else None")
    case None
    then show ?thesis using Cons f by simp
  next
    case (Some e)
    obtain st2 where "fn p True (Some (path_error ''open'' p e)) st1 = (st2, Err (path_error ''open'' p e))"
      using assms(2) by blast
    then show ?thesis using Cons.prems f Some by auto
  qed
qed simp

end
