(* ===== verification/Store.thy ===== *)
theory Store
  imports Files
begin

text \<open>
  \<open>internal/store/store.go\<close>: writing one object and removing the files of objects that are
  gone. The YAML encoder and the hash function are parameters; \<open>mirror_store\<close> is the
  contract of such a store, from which the backup gets that a directory mirrors a plan.
\<close>

subsection \<open>The operations\<close>

text \<open>\<open>WriteSingle\<close> after the object is marshalled: an existing file with the same hash stays.\<close>

definition write_changed :: "(string \<Rightarrow> string) \<Rightarrow> string \<Rightarrow> string \<Rightarrow> fs \<Rightarrow> fs \<times> bool result" where
  "write_changed sha256sum path raw s =
     (if (case ReadFile s path of Ok existing \<Rightarrow> sha256sum existing = sha256sum raw | _ \<Rightarrow> False)
      then (s, Ok False)
      else case MkdirAll (filepath_Dir path) s of
             (s1, Err err) \<Rightarrow> (s1, Err (ErrWrap (''mkdir '' @ filepath_Dir path) err))
           | (s1, Panic m) \<Rightarrow> (s1, Panic m)
           | (s1, Ok _) \<Rightarrow>
               (case WriteFile path raw s1 of
                  (s2, Err err) \<Rightarrow> (s2, Err (ErrWrap (''write '' @ path) err))
                | (s2, Panic m) \<Rightarrow> (s2, Panic m)
                | (s2, Ok _) \<Rightarrow> (s2, Ok True)))"

definition WriteSingle ::
  "(string \<Rightarrow> string) \<Rightarrow> (doc \<Rightarrow> error + string) \<Rightarrow> string \<Rightarrow> doc \<Rightarrow> fs \<Rightarrow> fs \<times> bool result" where
  "WriteSingle sha256sum Marshal path item s =
     (case Marshal item of
        Inl err \<Rightarrow> (s, Err (ErrWrap ''marshal yaml'' err))
      | Inr raw \<Rightarrow> write_changed sha256sum path raw s)"

definition clean_visit ::
  "string list \<Rightarrow> string \<Rightarrow> bool \<Rightarrow> error option \<Rightarrow> fs \<Rightarrow> fs \<times> unit result" where
  "clean_visit currPaths path isDir err s =
     (case err of
        Some e \<Rightarrow> (s, Err e)
      | None \<Rightarrow>
          if isDir then (s, Ok ())
          else if filepath_Ext path \<noteq> ''.yaml'' then (s, Ok ())
          else if path \<notin> set currPaths then RemoveFile path s
          else (s, Ok ()))"

definition CleanObsolete :: "string \<Rightarrow> string list \<Rightarrow> fs \<Rightarrow> fs \<times> unit result" where
  "CleanObsolete dir currPaths s = WalkDir s dir (clean_visit currPaths) s"

subsection \<open>The contract\<close>

fun write_all ::
  "(string \<Rightarrow> string \<Rightarrow> 's \<Rightarrow> 's \<times> bool result) \<Rightarrow> (string \<times> string) list \<Rightarrow> 's \<Rightarrow> 's \<times> unit result" where
  "write_all put [] s = (s, Ok ())"
| "write_all put ((p, c) # plan) s =
     (case put p c s of
        (s', Ok _) \<Rightarrow> write_all put plan s'
      | (s', Err e) \<Rightarrow> (s', Err e)
      | (s', Panic m) \<Rightarrow> (s', Panic m))"

locale mirror_store =
  fixes cont :: "'s \<Rightarrow> string \<Rightarrow> string option"
    and inv :: "'s \<Rightarrow> bool"
    and put :: "string \<Rightarrow> string \<Rightarrow> 's \<Rightarrow> 's \<times> bool result"
    and sweep :: "string \<Rightarrow> string list \<Rightarrow> 's \<Rightarrow> 's \<times> unit result"
    and owned :: "string \<Rightarrow> string \<Rightarrow> bool"
    and apart :: "string \<Rightarrow> string \<Rightarrow> bool"
  assumes write_Ok: "inv s \<Longrightarrow> put p c s = (s', Ok b) \<Longrightarrow> (\<And>old. cont s p = Some old \<Longrightarrow> apart old c) \<Longrightarrow>
             cont s' = (cont s)(p := Some c)"
    and write_inv: "inv s \<Longrightarrow> put p c s = (s', r) \<Longrightarrow> inv s'"
    and clean_Ok: "inv s \<Longrightarrow> sweep dir keep s = (s', Ok u) \<Longrightarrow>
             cont s' p = (if owned dir p \<and> p \<notin> set keep then None else cont s p)"
    and clean_inv: "inv s \<Longrightarrow> sweep dir keep s = (s', w) \<Longrightarrow> inv s'"
begin

lemma write_all_Ok:
  assumes "inv s" "write_all put plan s = (s', Ok u)"
    and "\<And>p old. cont s p = Some old \<Longrightarrow> old \<in> T" "snd ` set plan \<subseteq> T"
    and apart: "\<And>a b. a \<in> T \<Longrightarrow> b \<in> T \<Longrightarrow> apart a b"
  shows "inv s' \<and> cont s' q = (case map_of (rev plan) q of Some c \<Rightarrow> Some c | None \<Rightarrow> cont s q)"
  using assms(1-4)
proof (induction plan arbitrary: s)
  case (Cons e plan)
  obtain p c where e: "e = (p, c)" by (cases e)
  obtain s1 b where w: "put p c s = (s1, Ok b)" and rest: "write_all put plan s1 = (s', Ok u)"
    using Cons.prems(2) by (auto simp: e split: prod.splits result.splits)
  have c: "c \<in> T" using Cons.prems(4) by (simp add: e)
  have s1: "cont s1 = (cont s)(p := Some c)"
    using write_Ok [OF Cons.prems(1) w] Cons.prems(3) apart c by blast
  have "inv s' \<and> cont s' q = (case map_of (rev plan) q of Some c \<Rightarrow> Some c | None \<Rightarrow> cont s1 q)"
    using Cons.prems c s1
    by (intro Cons.IH [OF write_inv [OF Cons.prems(1) w] rest]) (auto split: if_splits)
  then show ?case by (auto simp: s1 e map_add_def split: option.splits)
qed simp

text \<open>Writing a plan and cleaning up what it does not name makes the owned files of the
  directory exactly those of the plan and leaves all others alone.\<close>

lemma mirror:
  assumes "inv s" "write_all put plan s = (s1, Ok u)" "sweep dir (map fst plan) s1 = (s2, Ok v)"
    and "\<And>p old. cont s p = Some old \<Longrightarrow> old \<in> T" "snd ` set plan \<subseteq> T"
    and "\<And>a b. a \<in> T \<Longrightarrow> b \<in> T \<Longrightarrow> apart a b"
  shows "cont s2 q = (case map_of (rev plan) q of
                        Some c \<Rightarrow> Some c
                      | None \<Rightarrow> if owned dir q then None else cont s q)"
proof -
  note w = write_all_Ok [where q = q, OF assms(1,2,4,5,6)]
  have "q \<in> set (map fst plan) \<longleftrightarrow> map_of (rev plan) q \<noteq> None"
    by (simp add: map_of_eq_None_iff)
  then show ?thesis
    using clean_Ok [where p = q, OF conjunct1 [OF w] assms(3)] conjunct2 [OF w]
    by (auto split: option.splits if_splits)
qed

end

subsection \<open>The code fulfils it\<close>

definition fs_ok :: "fs \<Rightarrow> bool" where
  "fs_ok s \<longleftrightarrow> list_all (\<lambda>(p, _). p \<notin> set (fs_dirs s)) (fs_files s)"

lemma fs_ok_iff: "fs_ok s \<longleftrightarrow> (\<forall>p. content s p \<noteq> None \<longrightarrow> p \<notin> set (fs_dirs s))"
proof -
  have "content s p \<noteq> None \<longleftrightarrow> p \<in> fst ` set (fs_files s)" for p
    by (simp add: content_def gm_get_def map_of_eq_None_iff)
  then show ?thesis by (force simp: fs_ok_def list_all_iff)
qed

definition owned_yaml :: "string \<Rightarrow> string \<Rightarrow> bool" where
  "owned_yaml dir p \<longleftrightarrow> (p = dir \<or> inside dir p) \<and> filepath_Ext p = ''.yaml''"

text \<open>What \<open>writeSinglePath\<close> does after the object is marshalled.\<close>

definition write_text :: "(string \<Rightarrow> string) \<Rightarrow> string \<Rightarrow> string \<Rightarrow> fs \<Rightarrow> fs \<times> bool result" where
  "write_text sha256sum path raw s =
     (case MkdirAll (filepath_Dir path) s of
        (s1, Ok _) \<Rightarrow> write_changed sha256sum path raw s1
      | (s1, Err e) \<Rightarrow> (s1, Err e)
      | (s1, Panic m) \<Rightarrow> (s1, Panic m))"

lemma mkdirs_ok: "fs_ok s \<Longrightarrow> mkdirs ds s = (s', r) \<Longrightarrow> fs_ok s'"
proof (induction ds arbitrary: s)
  case (Cons d ds)
  show ?case
  proof (cases "d \<in> set (fs_dirs s) \<or> content s d \<noteq> None \<or> fs_fault s OpMkdir d \<noteq> None")
    case True
    then show ?thesis using Cons by (auto split: if_splits)
  next
    case False
    have "fs_ok (s\<lparr>fs_dirs := d # fs_dirs s\<rparr>)"
      using Cons.prems(1) False by (auto simp: fs_ok_iff content_def)
    then show ?thesis using Cons False by simp
  qed
qed simp

lemma MkdirAll_ok: "fs_ok s \<Longrightarrow> MkdirAll p s = (s', r) \<Longrightarrow> fs_ok s'"
  unfolding MkdirAll_def by (rule mkdirs_ok)

lemma WriteFile_ok: "fs_ok s \<Longrightarrow> WriteFile p c s = (s', r) \<Longrightarrow> fs_ok s'"
  by (auto simp: fs_ok_iff WriteFile_def content_def gm.get_put split: option.splits if_splits)

lemma RemoveFile_ok: "fs_ok s \<Longrightarrow> RemoveFile p s = (s', r) \<Longrightarrow> fs_ok s'"
  by (auto simp: fs_ok_iff RemoveFile_def content_def gm.get_del split: option.splits if_splits)

lemma write_changed_ok: "fs_ok s \<Longrightarrow> write_changed sha p c s = (s', r) \<Longrightarrow> fs_ok s'"
  by (auto simp: write_changed_def dest: MkdirAll_ok WriteFile_ok split: if_splits prod.splits result.splits)

lemma write_changed_Ok:
  assumes "write_changed sha p c s = (s', Ok b)" "\<And>old. content s p = Some old \<Longrightarrow> sha old = sha c \<Longrightarrow> old = c"
  shows "content s' = (content s)(p := Some c) \<and> (\<not> b \<longrightarrow> s' = s)"
proof (cases "case ReadFile s p of Ok existing \<Rightarrow> sha existing = sha c | _ \<Rightarrow> False")
  case True
  then obtain old where "ReadFile s p = Ok old" "sha old = sha c" by (auto split: result.splits)
  then have "content s p = Some c" using assms(2)
    by (auto simp: ReadFile_def split: option.splits if_splits)
  then show ?thesis using assms(1) True by (auto simp: write_changed_def)
next
  case False
  then show ?thesis using assms(1)
    by (auto simp: write_changed_def content_WriteFile content_MkdirAll split: prod.splits result.splits)
qed

lemma clean_visit_reports: "\<exists>e'. snd (clean_visit keep p d (Some e) s) = Err e'"
  by (simp add: clean_visit_def)

lemma clean_visit_ok: "fs_ok s \<Longrightarrow> clean_visit keep p d e s = (s', r) \<Longrightarrow> fs_ok s'"
  by (auto simp: clean_visit_def dest: RemoveFile_ok split: option.splits if_splits)

lemma walk_list_ok:
  "fs_ok s \<Longrightarrow> walk_list s0 (clean_visit keep) ps s = (s', r) \<Longrightarrow> fs_ok s'"
proof (induction ps arbitrary: s rule: length_induct)
  case (1 ps)
  show ?case
  proof (cases ps)
    case (Cons p qs)
    obtain s1 r1 where v: "clean_visit keep p (p \<in> set (fs_dirs s0)) None s = (s1, r1)" by fastforce
    then have "fs_ok s1" using clean_visit_ok 1(2) by blast
    have v2: "clean_visit keep p True (Some e) s1 = (s1, Err e)" for e
      by (simp add: clean_visit_def)
    show ?thesis
      using 1(3) v v2 \<open>fs_ok s1\<close> 1(1)
      by (cases r1) (auto simp: Cons clean_visit_def split: if_splits option.splits)
  qed (use 1 in simp)
qed

lemma CleanObsolete_ok: "fs_ok s \<Longrightarrow> CleanObsolete dir keep s = (s', r) \<Longrightarrow> fs_ok s'"
  by (auto simp: CleanObsolete_def WalkDir_def clean_visit_def dest: walk_list_ok split: if_splits)

lemma CleanObsolete_Ok:
  assumes ok: "fs_ok s" and run: "CleanObsolete dir keep s = (s', Ok u)"
  shows "content s' p = (if owned_yaml dir p \<and> p \<notin> set keep then None else content s p)"
proof -
  let ?gone = "\<lambda>q. q \<notin> set (fs_dirs s) \<and> filepath_Ext q = ''.yaml'' \<and> q \<notin> set keep"
  have walk: "walk_list s (clean_visit keep) (walk_entries s dir) s = (s', Ok u)"
    using run by (auto simp: CleanObsolete_def WalkDir_def clean_visit_def split: if_splits)
  have "\<forall>q. content s' q = (if q \<in> set (walk_entries s dir) \<and> ?gone q then None else content s q)"
  proof (rule walk_list_Ok [where fn = "clean_visit keep" and Q =
        "\<lambda>ps t t'. \<forall>q. content t' q = (if q \<in> set ps \<and> ?gone q then None else content t q)"])
    show "walk_list s (clean_visit keep) (walk_entries s dir) s = (s', Ok u)" by (rule walk)
    show "content t' = (if ?gone q then (content t)(q := None) else content t)"
      if "clean_visit keep q (q \<in> set (fs_dirs s)) None t = (t', Ok ())" for q t t'
      using that by (auto simp: clean_visit_def content_RemoveFile split: if_splits)
  qed (auto simp: clean_visit_def split: if_splits)
  then have c: "content s' p = (if p \<in> set (walk_entries s dir) \<and> ?gone p then None else content s p)"
    by blast
  show ?thesis
  proof (cases "content s p")
    case None
    then show ?thesis using c by simp
  next
    case (Some x)
    then have "p \<notin> set (fs_dirs s)" using ok by (auto simp: fs_ok_iff)
    then show ?thesis using c Some by (auto simp: walk_entries_set owned_yaml_def)
  qed
qed

interpretation files: mirror_store content fs_ok "write_text sha" CleanObsolete owned_yaml
  "\<lambda>a b. sha a = sha b \<longrightarrow> a = b" for sha
proof unfold_locales
  show "content s' = (content s)(p := Some c)"
    if "fs_ok s" "write_text sha p c s = (s', Ok b)"
      "\<And>old. content s p = Some old \<Longrightarrow> sha old = sha c \<longrightarrow> old = c" for s p c s' b
    using that by (auto simp: write_text_def content_MkdirAll dest!: write_changed_Ok split: prod.splits result.splits)
  show "fs_ok s'" if "fs_ok s" "write_text sha p c s = (s', r)" for s p c s' r
    using that by (auto simp: write_text_def dest: MkdirAll_ok write_changed_ok split: prod.splits result.splits)
qed (fact CleanObsolete_Ok CleanObsolete_ok)+

end
