(* ===== verification/Discovery.thy ===== *)
theory Discovery
  imports GoData Paths
begin

text \<open>
  \<open>internal/discovery\<close> and \<open>internal/fetcher\<close>: which resources the API server offers and the
  objects of one of them. The discovery client, the dynamic client and
  \<open>schema.ParseGroupVersion\<close> are parameters.
\<close>

record GVRInfo =
  gvr_Group :: string
  gvr_Version :: string
  gvr_Resource :: string
  gvr_Namespaced :: bool

record GroupVersionResource =
  r_Group :: string
  r_Version :: string
  r_Resource :: string

definition GVR :: "GVRInfo \<Rightarrow> GroupVersionResource" where
  "GVR g = \<lparr>r_Group = gvr_Group g, r_Version = gvr_Version g, r_Resource = gvr_Resource g\<rparr>"

text \<open>The part of \<open>metav1.APIResourceList\<close> that is read.\<close>

record APIResource =
  ar_Name :: string
  ar_Namespaced :: bool
  ar_Verbs :: "string list"

record APIResourceList =
  al_GroupVersion :: string
  al_APIResources :: "APIResource list"

definition hasVerb :: "string list \<Rightarrow> string \<Rightarrow> bool" where
  "hasVerb verbs v = list_ex (\<lambda>verb. verb = v) verbs"

definition list_gvrs ::
  "(string \<Rightarrow> error + string \<times> string) \<Rightarrow> APIResourceList \<Rightarrow> GVRInfo list" where
  "list_gvrs ParseGroupVersion l =
     (case ParseGroupVersion (al_GroupVersion l) of
        Inl _ \<Rightarrow> []
      | Inr (grp, ver) \<Rightarrow>
          concat (map (\<lambda>r. if SLASH \<in> set (ar_Name r) then []
                           else if \<not> hasVerb (ar_Verbs r) ''list'' then []
                           else [\<lparr>gvr_Group = grp, gvr_Version = ver, gvr_Resource = ar_Name r,
                                  gvr_Namespaced = ar_Namespaced r\<rparr>])
                      (al_APIResources l)))"

text \<open>\<open>ServerPreferredResources\<close> returns lists (\<open>None\<close> is \<open>nil\<close>) and an error, both at once
  when only some groups failed.\<close>

definition ListPreferredResources ::
  "(string \<Rightarrow> error + string \<times> string) \<Rightarrow> APIResourceList list option \<times> error option \<Rightarrow>
   GVRInfo list result" where
  "ListPreferredResources ParseGroupVersion preferred =
     (case preferred of
        (None, Some err) \<Rightarrow> Err err
      | (found, _) \<Rightarrow>
          Ok (concat (map (list_gvrs ParseGroupVersion) (case found of None \<Rightarrow> [] | Some ls \<Rightarrow> ls))))"

definition ListAll ::
  "(GroupVersionResource \<Rightarrow> string \<Rightarrow> error + 'doc list) \<Rightarrow> GVRInfo \<Rightarrow> 'doc list result" where
  "ListAll dyn_List gvr =
     (case dyn_List (GVR gvr) [] of
        Inl err \<Rightarrow> Err (ErrWrap (''list '' @ gvr_Resource gvr) err)
      | Inr items \<Rightarrow> Ok items)"

text \<open>Every listed resource can be listed and is no sub-resource.\<close>

lemma ListPreferredResources_listable:
  "ListPreferredResources P preferred = Ok rs \<Longrightarrow> g \<in> set rs \<Longrightarrow>
     SLASH \<notin> set (gvr_Resource g) \<and>
     (\<exists>ls l r. fst preferred = Some ls \<and> l \<in> set ls \<and> r \<in> set (al_APIResources l) \<and>
        ''list'' \<in> set (ar_Verbs r) \<and> ar_Name r = gvr_Resource g \<and>
        P (al_GroupVersion l) = Inr (gvr_Group g, gvr_Version g))"
  by (fastforce simp: ListPreferredResources_def list_gvrs_def hasVerb_def list_ex_iff
      split: option.splits prod.splits sum.splits if_splits)

end
