(* ===== verification/GitClient.thy ===== *)
theory GitClient
  imports Files
begin

text \<open>
  \<open>internal/gitclient/gitclient.go\<close>. The go-git library is a record of functions on the
  world: the file system, which both the code and the library change, and a git state of
  any type, which only the library changes.
\<close>

record 'g world =
  w_fs :: fs
  w_git :: 'g

record CloneOptions =
  co_URL :: string
  co_ReferenceName :: string
  co_Depth :: int
  co_SingleBranch :: bool
  co_Auth :: "(string \<times> string) option"

record PullOptions =
  po_SingleBranch :: bool
  po_Auth :: "(string \<times> string) option"

record PushOptions =
  ps_RefSpecs :: "string list"
  ps_Auth :: "(string \<times> string) option"

text \<open>A commit: reading a file (finding it and reading it can fail), the parents with the
  outcome of iterating to them, and the names of the files of its tree in tree order.\<close>

datatype commit_obj = Commit
  (c_File: "string \<Rightarrow> error + (error + string)")
  (c_Parents: "(error + commit_obj) list")
  (c_Files: "error + string list")

record ('g, 'r) go_git =
  git_PlainClone :: "string \<Rightarrow> CloneOptions \<Rightarrow> 'g world \<Rightarrow> 'g world \<times> (error + 'r)"
  git_PlainInit :: "string \<Rightarrow> 'g world \<Rightarrow> 'g world \<times> (error + 'r)"
  git_SetHEAD :: "'r \<Rightarrow> string \<Rightarrow> 'g world \<Rightarrow> 'g world \<times> error option"
  git_CreateRemote :: "'r \<Rightarrow> string \<Rightarrow> string list \<Rightarrow> 'g world \<Rightarrow> 'g world \<times> error option"
  git_Head :: "'r \<Rightarrow> 'g world \<Rightarrow> error option"
  git_Worktree :: "'r \<Rightarrow> 'g world \<Rightarrow> error option"
  git_Status :: "'r \<Rightarrow> 'g world \<Rightarrow> error + bool"
  git_Pull :: "'r \<Rightarrow> PullOptions \<Rightarrow> 'g world \<Rightarrow> 'g world \<times> error option"
  git_Add :: "'r \<Rightarrow> string \<Rightarrow> 'g world \<Rightarrow> 'g world \<times> error option"
  git_Commit :: "'r \<Rightarrow> string \<Rightarrow> string \<Rightarrow> string \<Rightarrow> 'g world \<Rightarrow> 'g world \<times> error option"
  git_Push :: "'r \<Rightarrow> PushOptions \<Rightarrow> 'g world \<Rightarrow> 'g world \<times> error option"
  git_CommitObject :: "'r \<Rightarrow> string \<Rightarrow> 'g world \<Rightarrow> error + commit_obj"

abbreviation ErrEmptyRemoteRepository :: error where
  "ErrEmptyRemoteRepository \<equiv> ErrLib ''transport.ErrEmptyRemoteRepository''"

abbreviation ErrReferenceNotFound :: error where
  "ErrReferenceNotFound \<equiv> ErrLib ''plumbing.ErrReferenceNotFound''"

abbreviation NoErrAlreadyUpToDate :: error where
  "NoErrAlreadyUpToDate \<equiv> ErrLib ''git.NoErrAlreadyUpToDate''"

record 'r Client =
  gc_repo :: 'r
  gc_branch :: string
  gc_token :: string
  gc_tokenFile :: string

subsection \<open>The operations\<close>

definition loadToken :: "string \<Rightarrow> string \<Rightarrow> fs \<Rightarrow> string" where
  "loadToken token tokenFile s =
     (if tokenFile = [] then token
      else case ReadFile s tokenFile of Ok data \<Rightarrow> TrimSpace data | _ \<Rightarrow> token)"

definition auth_of :: "string \<Rightarrow> (string \<times> string) option" where
  "auth_of tok = (if tok \<noteq> [] then Some (''x-token'', tok) else None)"

definition NewBranchReferenceName :: "string \<Rightarrow> string" where
  "NewBranchReferenceName branch = ''refs/heads/'' @ branch"

definition Clone ::
  "('g, 'r) go_git \<Rightarrow> string \<Rightarrow> string \<Rightarrow> string \<Rightarrow> string \<Rightarrow> string \<Rightarrow> int \<Rightarrow> 'g world \<Rightarrow>
   'g world \<times> 'r Client result" where
  "Clone git repoURL branch token tokenFile dir depth w =
     (let client = (\<lambda>repo. \<lparr>gc_repo = repo, gc_branch = branch, gc_token = token, gc_tokenFile = tokenFile\<rparr>);
          opts = \<lparr>co_URL = repoURL, co_ReferenceName = NewBranchReferenceName branch, co_Depth = depth,
                  co_SingleBranch = True, co_Auth = auth_of (loadToken token tokenFile (w_fs w))\<rparr>
      in case git_PlainClone git dir opts w of
           (w1, Inr repo) \<Rightarrow> (w1, Ok (client repo))
         | (w1, Inl err) \<Rightarrow>
             if \<not> errors_Is err ErrEmptyRemoteRepository then (w1, Err (ErrWrap ''git clone'' err))
             else (case git_PlainInit git dir w1 of
                     (w2, Inl err) \<Rightarrow> (w2, Err (ErrWrap ''git init'' err))
                   | (w2, Inr repo) \<Rightarrow>
                       (case git_SetHEAD git repo (NewBranchReferenceName branch) w2 of
                          (w3, Some err) \<Rightarrow> (w3, Err (ErrWrap ''set HEAD'' err))
                        | (w3, None) \<Rightarrow>
                            (case git_CreateRemote git repo ''origin'' [repoURL] w3 of
                               (w4, Some err) \<Rightarrow> (w4, Err (ErrWrap ''create remote'' err))
                             | (w4, None) \<Rightarrow> (w4, Ok (client repo))))))"

definition IsClean :: "('g, 'r) go_git \<Rightarrow> 'r Client \<Rightarrow> 'g world \<Rightarrow> bool result" where
  "IsClean git c w =
     (case git_Worktree git (gc_repo c) w of
        Some err \<Rightarrow> Err err
      | None \<Rightarrow> (case git_Status git (gc_repo c) w of Inl err \<Rightarrow> Err err | Inr b \<Rightarrow> Ok b))"

definition Pull :: "('g, 'r) go_git \<Rightarrow> 'r Client \<Rightarrow> 'g world \<Rightarrow> 'g world \<times> unit result" where
  "Pull git c w =
     (if (case git_Head git (gc_repo c) w of Some err \<Rightarrow> errors_Is err ErrReferenceNotFound | None \<Rightarrow> False)
      then (w, Ok ())
      else case git_Worktree git (gc_repo c) w of
             Some err \<Rightarrow> (w, Err err)
           | None \<Rightarrow>
               (case git_Pull git (gc_repo c)
                       \<lparr>po_SingleBranch = True,
                        po_Auth = auth_of (loadToken (gc_token c) (gc_tokenFile c) (w_fs w))\<rparr> w of
                  (w1, None) \<Rightarrow> (w1, Ok ())
                | (w1, Some err) \<Rightarrow>
                    if err = NoErrAlreadyUpToDate then (w1, Ok ()) else (w1, Err err)))"

definition Repo :: "'r Client \<Rightarrow> 'r" where
  "Repo c = gc_repo c"

definition FileAtCommit :: "('g, 'r) go_git \<Rightarrow> 'r Client \<Rightarrow> string \<Rightarrow> string \<Rightarrow> 'g world \<Rightarrow> string result" where
  "FileAtCommit git c relPath sha w =
     (case git_CommitObject git (gc_repo c) sha w of
        Inl err \<Rightarrow> Err (ErrWrap (''resolve commit '' @ sha) err)
      | Inr commit \<Rightarrow>
          (case c_File commit relPath of
             Inl err \<Rightarrow> Err (ErrWrap (''file '' @ relPath @ '' at '' @ sha) err)
           | Inr (Inl err) \<Rightarrow> Err (ErrWrap ''read contents'' err)
           | Inr (Inr contents) \<Rightarrow> Ok contents))"

definition CommitAndPush ::
  "('g, 'r) go_git \<Rightarrow> 'r Client \<Rightarrow> string \<Rightarrow> string \<Rightarrow> string \<Rightarrow> 'g world \<Rightarrow> 'g world \<times> unit result" where
  "CommitAndPush git c name email message w =
     (case git_Worktree git (gc_repo c) w of
        Some err \<Rightarrow> (w, Err err)
      | None \<Rightarrow>
          (case git_Add git (gc_repo c) ''.'' w of
             (w1, Some err) \<Rightarrow> (w1, Err (ErrWrap ''git add'' err))
           | (w1, None) \<Rightarrow>
               (case git_Commit git (gc_repo c) message name email w1 of
                  (w2, Some err) \<Rightarrow> (w2, Err (ErrWrap ''git commit'' err))
                | (w2, None) \<Rightarrow>
                    (case git_Push git (gc_repo c)
                            \<lparr>ps_RefSpecs = [''refs/heads/'' @ gc_branch c @ '':refs/heads/'' @ gc_branch c],
                             ps_Auth = auth_of (loadToken (gc_token c) (gc_tokenFile c) (w_fs w2))\<rparr> w2 of
                       (w3, None) \<Rightarrow> (w3, Ok ())
                     | (w3, Some err) \<Rightarrow>
                         if err \<noteq> NoErrAlreadyUpToDate then (w3, Err (ErrWrap ''git push'' err))
                         else (w3, Ok ())))))"

subsection \<open>Facts\<close>

lemma IsClean_no_panic: "IsClean git c w \<noteq> Panic m"
  by (auto simp: IsClean_def split: option.splits sum.splits)

lemma Pull_no_panic: "snd (Pull git c w) \<noteq> Panic m"
  by (auto simp: Pull_def split: option.splits prod.splits)

lemma CommitAndPush_no_panic: "snd (CommitAndPush git c name email message w) \<noteq> Panic m"
  by (auto simp: CommitAndPush_def split: option.splits prod.splits)

lemma Clone_no_panic: "snd (Clone git url branch token tokenFile dir depth w) \<noteq> Panic m"
  by (auto simp: Clone_def Let_def split: option.splits prod.splits sum.splits)

text \<open>A push is only reached after the tree was added and committed, and success means that
  all three happened.\<close>

lemma CommitAndPush_Ok:
  assumes "CommitAndPush git c name email message w = (w', Ok u)"
  obtains w1 w2 e where
    "git_Add git (gc_repo c) ''.'' w = (w1, None)"
    "git_Commit git (gc_repo c) message name email w1 = (w2, None)"
    "git_Push git (gc_repo c)
       \<lparr>ps_RefSpecs = [''refs/heads/'' @ gc_branch c @ '':refs/heads/'' @ gc_branch c],
        ps_Auth = auth_of (loadToken (gc_token c) (gc_tokenFile c) (w_fs w2))\<rparr> w2 = (w', e)"
    "e = None \<or> e = Some NoErrAlreadyUpToDate"
  using assms by (auto simp: CommitAndPush_def split: option.splits prod.splits if_splits)

end
