(* ===== verification/Backup.thy ===== *)
theory Backup
  imports Config Sanitizer Store Discovery GitClient
begin

text \<open>
  \<open>cmd/korpus/main.go\<close>: the backup daemon. Its state is the world (files and git), the
  runner's working directory and git client (a pointer that may be nil), the CEL context
  that all rules share, and the metrics. What the libraries and the cluster answer during
  one run is the environment.
\<close>

record backupMetrics =
  bm_success :: nat
  bm_failure :: nat
  bm_lastSuccess :: "int option"
  bm_durations :: "int list"

definition newBackupMetrics :: backupMetrics where
  "newBackupMetrics = \<lparr>bm_success = 0, bm_failure = 0, bm_lastSuccess = None, bm_durations = []\<rparr>"

record ('g, 'r) bstate =
  bs_world :: "'g world"
  bs_workDir :: string
  bs_gc :: "'r Client option"
  bs_ctx :: celItemContext
  bs_metrics :: backupMetrics

record ('g, 'r) benv =
  be_cfg :: KorpusConfig
  be_git :: "('g, 'r) go_git"
  be_acc :: k8s_accessors
  be_MkdirTemp :: "'g world \<Rightarrow> 'g world \<times> (error + string)"
  be_ParseGroupVersion :: "string \<Rightarrow> error + string \<times> string"
  be_Preferred :: "APIResourceList list option \<times> error option"
  be_List :: "GroupVersionResource \<Rightarrow> string \<Rightarrow> error + doc list"
  be_Marshal :: "doc \<Rightarrow> error + string"
  be_sha256 :: "string \<Rightarrow> string"
  be_fields :: "(string \<times> string list) list"
  be_now :: string
  be_now_unix :: int
  be_elapsed :: int

text \<open>\<open>be_fields\<close> is \<open>BuiltinExcludeFields\<close> in the order in which this run iterates over it;
  \<open>be_now\<close> the RFC 3339 time of the commit message, \<open>be_elapsed\<close> the measured duration.\<close>

subsection \<open>The working directory\<close>

definition runner_init :: "('g, 'r) benv \<Rightarrow> ('g, 'r) bstate \<Rightarrow> ('g, 'r) bstate \<times> unit result" where
  "runner_init env st =
     (let git = ks_Git (kc_Spec (be_cfg env)) in
      case be_MkdirTemp env (bs_world st) of
        (w1, Inl err) \<Rightarrow> (st\<lparr>bs_world := w1\<rparr>, Err (ErrWrap ''create temp dir'' err))
      | (w1, Inr dir) \<Rightarrow>
          (case Clone (be_git env) (git_Repo git) (git_Branch git) (git_Token git) (git_TokenFile git) dir 1 w1 of
             (w2, Ok gc) \<Rightarrow> (st\<lparr>bs_world := w2, bs_workDir := dir, bs_gc := Some gc\<rparr>, Ok ())
           | (w2, Err err) \<Rightarrow>
               (st\<lparr>bs_world := w2\<lparr>w_fs := RemoveAll dir (w_fs w2)\<rparr>\<rparr>, Err (ErrWrap ''git clone'' err))
           | (w2, Panic m) \<Rightarrow> (st\<lparr>bs_world := w2\<rparr>, Panic m)))"

definition runner_reset :: "('g, 'r) benv \<Rightarrow> ('g, 'r) bstate \<Rightarrow> ('g, 'r) bstate \<times> unit result" where
  "runner_reset env st =
     (if bs_workDir st \<noteq> []
      then runner_init env
             (st\<lparr>bs_world := (bs_world st)\<lparr>w_fs := RemoveAll (bs_workDir st) (w_fs (bs_world st))\<rparr>,
                 bs_workDir := [], bs_gc := None\<rparr>)
      else runner_init env st)"

subsection \<open>Writing the objects\<close>

definition writeSinglePath ::
  "(string \<Rightarrow> string) \<Rightarrow> (doc \<Rightarrow> error + string) \<Rightarrow> string \<Rightarrow> doc \<Rightarrow> fs \<Rightarrow> fs \<times> unit result" where
  "writeSinglePath sha256sum Marshal path item s =
     (case MkdirAll (filepath_Dir path) s of
        (s1, Err err) \<Rightarrow> (s1, Err err)
      | (s1, Panic m) \<Rightarrow> (s1, Panic m)
      | (s1, Ok _) \<Rightarrow>
          (case WriteSingle sha256sum Marshal path item s1 of
             (s2, Err err) \<Rightarrow> (s2, Err err)
           | (s2, Panic m) \<Rightarrow> (s2, Panic m)
           | (s2, Ok _) \<Rightarrow> (s2, Ok ())))"

text \<open>Whether an object is skipped: the three tests of the loop, in order. An error of an
  \<open>excludeIf\<close> expression is only logged.\<close>

definition object_skipped ::
  "('g, 'r) benv \<Rightarrow> GVRInfo \<Rightarrow> celItemContext \<Rightarrow> doc \<Rightarrow> celItemContext \<times> bool result" where
  "object_skipped env gvr ctx item =
     (let cfg = be_cfg env; acc = be_acc env; res = gvr_Resource gvr; grp = gvr_Group gvr in
      if IsObjectExcluded cfg res grp (GetNamespace acc item) (GetName acc item) \<or>
         IsBuiltinObjectExcluded cfg res grp (GetOwnerReferences acc item)
      then (ctx, Ok True)
      else case IsCELObjectExcluded acc cfg ctx res grp item of
             (ctx', Err _) \<Rightarrow> (ctx', Ok False)
           | (ctx', other) \<Rightarrow> (ctx', other))"

text \<open>The object after its fields are stripped in place.\<close>

definition stripped :: "('g, 'r) benv \<Rightarrow> GVRInfo \<Rightarrow> doc \<Rightarrow> doc" where
  "stripped env gvr item =
     DeleteFields item
       (ResolveExcludeFieldsForObject (be_fields env) (be_cfg env) (gvr_Resource gvr) (gvr_Group gvr)
          (GetNamespace (be_acc env) item) (GetName (be_acc env) item))"

text \<open>The path is made from the stripped object.\<close>

definition item_path :: "('g, 'r) benv \<Rightarrow> string \<Rightarrow> GVRInfo \<Rightarrow> doc \<Rightarrow> string" where
  "item_path env subDir gvr item =
     (let apiGroup = (if gvr_Group gvr = [] then ''core'' else gvr_Group gvr);
          name = GetName (be_acc env) item in
      if gvr_Namespaced gvr
      then filepath_Join [subDir, apiGroup, gvr_Version gvr, ''namespaces'',
                          GetNamespace (be_acc env) item, gvr_Resource gvr, name @ ''.yaml'']
      else filepath_Join [subDir, apiGroup, gvr_Version gvr, gvr_Resource gvr, name @ ''.yaml''])"

fun backup_items ::
  "('g, 'r) benv \<Rightarrow> string \<Rightarrow> GVRInfo \<Rightarrow> doc list \<Rightarrow> celItemContext \<times> fs \<times> string list \<Rightarrow>
   (celItemContext \<times> fs \<times> string list) \<times> unit result" where
  "backup_items env subDir gvr [] (ctx, s, currPaths) = ((ctx, s, currPaths), Ok ())"
| "backup_items env subDir gvr (item # items) (ctx, s, currPaths) =
     (case object_skipped env gvr ctx item of
        (ctx', Ok True) \<Rightarrow> backup_items env subDir gvr items (ctx', s, currPaths)
      | (ctx', Ok False) \<Rightarrow>
          (let item' = stripped env gvr item;
               path = item_path env subDir gvr item'
           in case writeSinglePath (be_sha256 env) (be_Marshal env) path item' s of
                (s', Ok _) \<Rightarrow> backup_items env subDir gvr items (ctx', s', currPaths @ [path])
              | (s', Err err) \<Rightarrow> ((ctx', s', currPaths), Err (ErrWrap (''write '' @ path) err))
              | (s', Panic m) \<Rightarrow> ((ctx', s', currPaths), Panic m))
      | (ctx', Err err) \<Rightarrow> ((ctx', s, currPaths), Err err)
      | (ctx', Panic m) \<Rightarrow> ((ctx', s, currPaths), Panic m))"

fun backup_resources ::
  "('g, 'r) benv \<Rightarrow> string \<Rightarrow> GVRInfo list \<Rightarrow> celItemContext \<times> fs \<times> string list \<Rightarrow>
   (celItemContext \<times> fs \<times> string list) \<times> unit result" where
  "backup_resources env subDir [] acc = (acc, Ok ())"
| "backup_resources env subDir (gvr # gvrs) acc =
     (if IsExcluded (be_cfg env) (gvr_Resource gvr) (gvr_Group gvr)
      then backup_resources env subDir gvrs acc
      else case ListAll (be_List env) gvr of
             Err _ \<Rightarrow> backup_resources env subDir gvrs acc
           | Panic m \<Rightarrow> (acc, Panic m)
           | Ok items \<Rightarrow>
               (case backup_items env subDir gvr items acc of
                  (acc', Ok _) \<Rightarrow> backup_resources env subDir gvrs acc'
                | (acc', other) \<Rightarrow> (acc', other)))"

definition discovered :: "('g, 'r) benv \<Rightarrow> GVRInfo list" where
  "discovered env =
     (case ListPreferredResources (be_ParseGroupVersion env) (be_Preferred env) of
        Ok resources \<Rightarrow> resources | _ \<Rightarrow> [])"

text \<open>The middle of \<open>runOnce\<close>: the snapshot of the cluster in the working tree.\<close>

definition snapshot ::
  "('g, 'r) benv \<Rightarrow> string \<Rightarrow> celItemContext \<times> fs \<Rightarrow> (celItemContext \<times> fs) \<times> unit result" where
  "snapshot env subDir start =
     (case backup_resources env subDir (discovered env) (fst start, snd start, []) of
        ((ctx, s, _), Err err) \<Rightarrow> ((ctx, s), Err err)
      | ((ctx, s, _), Panic m) \<Rightarrow> ((ctx, s), Panic m)
      | ((ctx, s, currPaths), Ok _) \<Rightarrow>
          (case CleanObsolete subDir currPaths s of
             (s', Err err) \<Rightarrow> ((ctx, s'), Err (ErrWrap ''clean obsolete'' err))
           | (s', Panic m) \<Rightarrow> ((ctx, s'), Panic m)
           | (s', Ok _) \<Rightarrow> ((ctx, s'), Ok ())))"

subsection \<open>One run\<close>

definition pull_or_reset :: "('g, 'r) benv \<Rightarrow> ('g, 'r) bstate \<Rightarrow> ('g, 'r) bstate \<times> unit result" where
  "pull_or_reset env st =
     (case bs_gc st of
        None \<Rightarrow> (st, Panic ''nil pointer dereference'')
      | Some gc \<Rightarrow>
          (case Pull (be_git env) gc (bs_world st) of
             (w1, Ok _) \<Rightarrow> (st\<lparr>bs_world := w1\<rparr>, Ok ())
           | (w1, Panic m) \<Rightarrow> (st\<lparr>bs_world := w1\<rparr>, Panic m)
           | (w1, Err _) \<Rightarrow>
               (case runner_reset env (st\<lparr>bs_world := w1\<rparr>) of
                  (st2, Err err) \<Rightarrow> (st2, Err (ErrWrap ''re-clone after pull failure'' err))
                | (st2, other) \<Rightarrow> (st2, other))))"

definition commit_snapshot :: "('g, 'r) benv \<Rightarrow> ('g, 'r) bstate \<Rightarrow> ('g, 'r) bstate \<times> unit result" where
  "commit_snapshot env st =
     (case bs_gc st of
        None \<Rightarrow> (st, Panic ''nil pointer dereference'')
      | Some gc \<Rightarrow>
          (case IsClean (be_git env) gc (bs_world st) of
             Err err \<Rightarrow> (st, Err (ErrWrap ''git status'' err))
           | Panic m \<Rightarrow> (st, Panic m)
           | Ok True \<Rightarrow> (st, Ok ())
           | Ok False \<Rightarrow>
               (let author = git_Author (ks_Git (kc_Spec (be_cfg env)))
                in case CommitAndPush (be_git env) gc (au_Name author) (au_Email author)
                          (''backup: '' @ be_now env) (bs_world st) of
                     (w1, Ok _) \<Rightarrow> (st\<lparr>bs_world := w1\<rparr>, Ok ())
                   | (w1, Panic m) \<Rightarrow> (st\<lparr>bs_world := w1\<rparr>, Panic m)
                   | (w1, Err err) \<Rightarrow>
                       (case runner_reset env (st\<lparr>bs_world := w1\<rparr>) of
                          (st2, Err resetErr) \<Rightarrow> (st2, Err (ErrWrap ''re-clone after push failure'' resetErr))
                        | (st2, Panic m) \<Rightarrow> (st2, Panic m)
                        | (st2, Ok _) \<Rightarrow> (st2, Err (ErrWrap ''git commit+push'' err))))))"

definition runOnce :: "('g, 'r) benv \<Rightarrow> ('g, 'r) bstate \<Rightarrow> ('g, 'r) bstate \<times> unit result" where
  "runOnce env st =
     (case pull_or_reset env st of
        (st1, Ok _) \<Rightarrow>
          (let subDir = filepath_Join [bs_workDir st1, git_SubDir (ks_Git (kc_Spec (be_cfg env)))]
           in case snapshot env subDir (bs_ctx st1, w_fs (bs_world st1)) of
                ((ctx, s), res) \<Rightarrow>
                  (let st2 = st1\<lparr>bs_world := (bs_world st1)\<lparr>w_fs := s\<rparr>, bs_ctx := ctx\<rparr>
                   in case res of Ok _ \<Rightarrow> commit_snapshot env st2 | _ \<Rightarrow> (st2, res)))
      | (st1, other) \<Rightarrow> (st1, other))"

text \<open>\<open>run\<close> counts the outcome; a panic ends the process.\<close>

definition runner_run :: "('g, 'r) benv \<Rightarrow> ('g, 'r) bstate \<Rightarrow> ('g, 'r) bstate \<times> unit result" where
  "runner_run env st =
     (case runOnce env st of
        (st1, Panic m) \<Rightarrow> (st1, Panic m)
      | (st1, res) \<Rightarrow>
          (let m = bs_metrics st1;
               m = (case res of
                      Ok _ \<Rightarrow> m\<lparr>bm_success := bm_success m + 1, bm_lastSuccess := Some (be_now_unix env)\<rparr>
                    | _ \<Rightarrow> m\<lparr>bm_failure := bm_failure m + 1\<rparr>)
           in (st1\<lparr>bs_metrics := m\<lparr>bm_durations := bm_durations m @ [be_elapsed env]\<rparr>\<rparr>, Ok ())))"

end
