(* ===== verification/BackupFacts.thy ===== *)
theory BackupFacts
  imports Backup ConfigFacts
begin

text \<open>
  What a backup run achieves. The plan of a run is the list of the paths and contents of the
  objects that the rules keep; the loops of \<open>runOnce\<close> write exactly this plan, whatever the
  shared CEL context holds, so that the contract of the store gives the resulting files.
\<close>

subsection \<open>The plan\<close>

definition keeps_object :: "('g, 'r) benv \<Rightarrow> GVRInfo \<Rightarrow> doc \<Rightarrow> bool" where
  "keeps_object env gvr item \<longleftrightarrow> snd (object_skipped env gvr \<lparr>cc_item = None\<rparr> item) = Ok False"

definition item_entry :: "('g, 'r) benv \<Rightarrow> string \<Rightarrow> GVRInfo \<Rightarrow> doc \<Rightarrow> string \<times> doc" where
  "item_entry env subDir gvr item =
     (let item' = stripped env gvr item in (item_path env subDir gvr item', item'))"

definition gvr_plan :: "('g, 'r) benv \<Rightarrow> string \<Rightarrow> GVRInfo \<Rightarrow> (string \<times> doc) list" where
  "gvr_plan env subDir gvr =
     (if IsExcluded (be_cfg env) (gvr_Resource gvr) (gvr_Group gvr) then []
      else case ListAll (be_List env) gvr of
             Ok items \<Rightarrow> map (item_entry env subDir gvr) (filter (keeps_object env gvr) items)
           | _ \<Rightarrow> [])"

definition backup_plan :: "('g, 'r) benv \<Rightarrow> string \<Rightarrow> (string \<times> doc) list" where
  "backup_plan env subDir = concat (map (gvr_plan env subDir) (discovered env))"

definition render :: "('g, 'r) benv \<Rightarrow> (string \<times> doc) list \<Rightarrow> (string \<times> string) list" where
  "render env plan = map (\<lambda>(p, d). (p, case be_Marshal env d of Inr raw \<Rightarrow> raw | Inl _ \<Rightarrow> [])) plan"

lemma map_fst_render [simp]: "map fst (render env plan) = map fst plan"
  by (simp add: render_def case_prod_unfold)

lemma render_append [simp]: "render env (xs @ ys) = render env xs @ render env ys"
  by (simp add: render_def)

subsection \<open>The loops write the plan\<close>

lemma IsCELObjectExcluded_context:
  "snd (IsCELObjectExcluded acc cfg ctx res grp item) = snd (IsCELObjectExcluded acc cfg ctx' res grp item)"
  by (simp add: IsCELObjectExcluded_def IsCELObjectExcluded_rules_outcome)

lemma object_skipped_context:
  "snd (object_skipped env gvr ctx item) = snd (object_skipped env gvr \<lparr>cc_item = None\<rparr> item)"
  using IsCELObjectExcluded_context [of "be_acc env" "be_cfg env" ctx "gvr_Resource gvr" "gvr_Group gvr" item
      "\<lparr>cc_item = None\<rparr>"]
  by (auto simp: object_skipped_def Let_def split: prod.splits result.splits)

lemma object_skipped_no_error: "snd (object_skipped env gvr ctx item) \<noteq> Err e"
  by (auto simp: object_skipped_def Let_def split: prod.splits result.splits)

lemma write_all_append:
  "write_all put (xs @ ys) s =
     (case write_all put xs s of (s', Ok _) \<Rightarrow> write_all put ys s' | (s', other) \<Rightarrow> (s', other))"
  by (induction put xs s rule: write_all.induct) (auto split: prod.splits result.splits)

lemma writeSinglePath_Ok:
  "writeSinglePath sha Marshal path item s = (s', Ok u) \<Longrightarrow>
     \<exists>raw b. Marshal item = Inr raw \<and> write_text sha path raw s = (s', Ok b)"
  by (auto simp: writeSinglePath_def WriteSingle_def write_text_def
      split: prod.splits result.splits sum.splits)

text \<open>\<open>wrote env plan s s'\<close>: every object of the plan could be marshalled, and writing the texts in
  order leads from \<open>s\<close> to \<open>s'\<close>.\<close>

definition wrote :: "('g, 'r) benv \<Rightarrow> (string \<times> doc) list \<Rightarrow> fs \<Rightarrow> fs \<Rightarrow> bool" where
  "wrote env plan s s' \<longleftrightarrow> write_all (write_text (be_sha256 env)) (render env plan) s = (s', Ok ())"

lemma wrote_append: "wrote env xs s s1 \<Longrightarrow> wrote env ys s1 s' \<Longrightarrow> wrote env (xs @ ys) s s'"
  by (simp add: wrote_def write_all_append)

lemma wrote_Nil: "wrote env [] s s' \<longleftrightarrow> s' = s"
  by (auto simp: wrote_def render_def)

lemma wrote_one:
  "writeSinglePath (be_sha256 env) (be_Marshal env) path item s = (s', Ok u) \<Longrightarrow> wrote env [(path, item)] s s'"
  by (drule writeSinglePath_Ok) (auto simp: wrote_def render_def)

lemma backup_items_Ok:
  "backup_items env subDir gvr items (ctx, s, cps) = ((ctx', s', cps'), Ok u) \<Longrightarrow>
   (let plan = map (item_entry env subDir gvr) (filter (keeps_object env gvr) items)
    in wrote env plan s s' \<and> cps' = cps @ map fst plan)"
proof (induction items arbitrary: ctx s cps)
  case Nil
  then show ?case by (simp add: wrote_Nil)
next
  case (Cons item items)
  obtain ctx1 r where sk: "object_skipped env gvr ctx item = (ctx1, r)" by fastforce
  have keep: "keeps_object env gvr item \<longleftrightarrow> r = Ok False"
    using object_skipped_context [of env gvr ctx item] sk by (simp add: keeps_object_def)
  obtain b where r: "r = Ok b" using Cons.prems sk by (cases r) auto
  show ?case
  proof (cases b)
    case True
    then show ?thesis using Cons sk r keep by simp
  next
    case False
    let ?p = "item_path env subDir gvr (stripped env gvr item)"
    obtain s1 where w: "writeSinglePath (be_sha256 env) (be_Marshal env) ?p (stripped env gvr item) s = (s1, Ok ())"
      and rest: "backup_items env subDir gvr items (ctx1, s1, cps @ [?p]) = ((ctx', s', cps'), Ok u)"
      using Cons.prems sk r False by (auto simp: Let_def split: prod.splits result.splits)
    from Cons.IH [OF rest] wrote_append [OF wrote_one [OF w]] show ?thesis
      using keep r False by (simp add: Let_def item_entry_def)
  qed
qed

lemma backup_resources_Ok:
  "backup_resources env subDir gvrs (ctx, s, cps) = ((ctx', s', cps'), Ok u) \<Longrightarrow>
   (let plan = concat (map (gvr_plan env subDir) gvrs)
    in wrote env plan s s' \<and> cps' = cps @ map fst plan)"
proof (induction gvrs arbitrary: ctx s cps)
  case Nil
  then show ?case by (simp add: wrote_Nil)
next
  case (Cons gvr gvrs)
  show ?case
  proof (cases "IsExcluded (be_cfg env) (gvr_Resource gvr) (gvr_Group gvr)")
    case True
    then show ?thesis using Cons by (simp add: gvr_plan_def)
  next
    case False
    show ?thesis
    proof (cases "ListAll (be_List env) gvr")
      case (Ok items)
      obtain ctx1 s1 cps1 where b: "backup_items env subDir gvr items (ctx, s, cps) = ((ctx1, s1, cps1), Ok ())"
        and rest: "backup_resources env subDir gvrs (ctx1, s1, cps1) = ((ctx', s', cps'), Ok u)"
        using Cons.prems False Ok by (auto split: prod.splits result.splits)
      show ?thesis
        using backup_items_Ok [OF b] Cons.IH [OF rest] False Ok
        by (auto simp: Let_def gvr_plan_def intro: wrote_append)
    qed (use Cons False in \<open>simp_all add: gvr_plan_def\<close>)
  qed
qed

lemma snapshot_Ok:
  assumes "snapshot env subDir (ctx, s) = ((ctx', s'), Ok u)"
  obtains s1 where "wrote env (backup_plan env subDir) s s1"
    "CleanObsolete subDir (map fst (backup_plan env subDir)) s1 = (s', Ok ())"
proof -
  obtain ctx1 s1 cps where b: "backup_resources env subDir (discovered env) (ctx, s, []) = ((ctx1, s1, cps), Ok ())"
    and c: "CleanObsolete subDir cps s1 = (s', Ok ())"
    using assms by (auto simp: snapshot_def split: prod.splits result.splits)
  have "wrote env (backup_plan env subDir) s s1" "cps = map fst (backup_plan env subDir)"
    using backup_resources_Ok [OF b] unfolding Let_def backup_plan_def by simp_all
  then show thesis using c that by blast
qed

text \<open>The contents that must not collide under the hash: the files before the run and the texts
  that are written.\<close>

definition hashed_texts :: "('g, 'r) benv \<Rightarrow> string \<Rightarrow> fs \<Rightarrow> string set" where
  "hashed_texts env subDir s = snd ` set (fs_files s) \<union> snd ` set (render env (backup_plan env subDir))"

definition mirrored :: "('g, 'r) benv \<Rightarrow> string \<Rightarrow> fs \<Rightarrow> fs \<Rightarrow> bool" where
  "mirrored env subDir s s' \<longleftrightarrow>
     (\<forall>p. content s' p =
        (case map_of (rev (render env (backup_plan env subDir))) p of
           Some text \<Rightarrow> Some text
         | None \<Rightarrow> if owned_yaml subDir p then None else content s p))"

lemma snapshot_mirrored:
  assumes "snapshot env subDir (ctx, s) = ((ctx', s'), Ok u)" "fs_ok s"
    and "inj_on (be_sha256 env) (hashed_texts env subDir s)"
  shows "mirrored env subDir s s'"
proof -
  obtain s1 where w: "wrote env (backup_plan env subDir) s s1"
    and c: "CleanObsolete subDir (map fst (backup_plan env subDir)) s1 = (s', Ok ())"
    using snapshot_Ok [OF assms(1)] by blast
  have old: "old \<in> hashed_texts env subDir s" if "content s p = Some old" for p old
    using that map_of_SomeD by (force simp: hashed_texts_def content_def gm_get_def)
  have "content s' p =
        (case map_of (rev (render env (backup_plan env subDir))) p of
           Some text \<Rightarrow> Some text
         | None \<Rightarrow> if owned_yaml subDir p then None else content s p)" for p
  proof (rule files.mirror [OF assms(2) w [unfolded wrote_def] _ old])
    show "CleanObsolete subDir (map fst (render env (backup_plan env subDir))) s1 = (s', Ok ())"
      using c by simp
    show "snd ` set (render env (backup_plan env subDir)) \<subseteq> hashed_texts env subDir s"
      by (simp add: hashed_texts_def)
  qed (use assms(3) in \<open>auto dest: inj_onD\<close>)
  then show ?thesis by (simp add: mirrored_def)
qed

subsection \<open>Examples\<close>

definition example_acc :: k8s_accessors where
  "example_acc = \<lparr>
     GetNamespace = (\<lambda>d. as_string (Option.bind (as_map (gm_get d ''metadata'')) (\<lambda>m. gm_get m ''namespace''))),
     GetName = (\<lambda>d. as_string (Option.bind (as_map (gm_get d ''metadata'')) (\<lambda>m. gm_get m ''name''))),
     GetOwnerReferences = (\<lambda>_. []), GetGenerateName = (\<lambda>_. []), GetLabels = (\<lambda>_. []),
     GetAnnotations = (\<lambda>_. []), GetFinalizers = (\<lambda>_. []), GetDeletionTimestamp = (\<lambda>_. None)\<rparr>"

text \<open>A git library whose state counts the pushes and in which cloning makes a directory; the
  argument says whether pulling and cloning fail.\<close>

definition example_git :: "bool \<Rightarrow> (nat, unit) go_git" where
  "example_git broken = \<lparr>
     git_PlainClone = (\<lambda>dir opts w. if broken then (w, Inl (ErrText ''no network'')) else
        (w\<lparr>w_fs := (w_fs w)\<lparr>fs_dirs := dir # fs_dirs (w_fs w)\<rparr>\<rparr>, Inr ())),
     git_PlainInit = (\<lambda>dir w. (w, Inr ())),
     git_SetHEAD = (\<lambda>_ _ w. (w, None)), git_CreateRemote = (\<lambda>_ _ _ w. (w, None)),
     git_Head = (\<lambda>_ _. None), git_Worktree = (\<lambda>_ _. None), git_Status = (\<lambda>_ _. Inr False),
     git_Pull = (\<lambda>_ _ w. (w, if broken then Some (ErrText ''no network'') else None)),
     git_Add = (\<lambda>_ _ w. (w, None)), git_Commit = (\<lambda>_ _ _ _ w. (w, None)),
     git_Push = (\<lambda>_ _ w. (w\<lparr>w_git := w_git w + 1\<rparr>, None)),
     git_CommitObject = (\<lambda>_ _ _. Inl (ErrText ''unknown''))\<rparr>"

definition example_pod :: doc where
  "example_pod = [(''kind'', AStr ''Pod''),
     (''metadata'', AMap [(''name'', AStr ''p1''), (''namespace'', AStr ''ns1'')])]"

definition example_env :: "bool \<Rightarrow> bool \<Rightarrow> (nat, unit) benv" where
  "example_env broken apidown = \<lparr>
     be_cfg = example_korpus True [], be_git = example_git broken, be_acc = example_acc,
     be_MkdirTemp = (\<lambda>w. (w, Inr ''/w2'')),
     be_ParseGroupVersion = (\<lambda>s. Inr ([], s)),
     be_Preferred = (if apidown then (None, Some (ErrText ''down''))
       else (Some [\<lparr>al_GroupVersion = ''v1'', al_APIResources =
           [\<lparr>ar_Name = ''pods'', ar_Namespaced = True, ar_Verbs = [''list'']\<rparr>]\<rparr>], None)),
     be_List = (\<lambda>_ _. Inr [example_pod]), be_Marshal = (\<lambda>d. Inr ''pod''), be_sha256 = (\<lambda>s. s),
     be_fields = BuiltinExcludeFields, be_now = ''now'', be_now_unix = 7, be_elapsed = 1\<rparr>"

definition example_fs :: fs where
  "example_fs = \<lparr>fs_files = [(''/w/c/old.yaml'', ''x''), (''/w/README'', ''r'')],
     fs_dirs = [''/w'', ''/w/c''], fs_fault = (\<lambda>_ _. None)\<rparr>"

definition example_bstate :: "(nat, unit) bstate" where
  "example_bstate = \<lparr>bs_world = \<lparr>w_fs = example_fs, w_git = 0\<rparr>, bs_workDir = ''/w'',
     bs_gc = Some \<lparr>gc_repo = (), gc_branch = ''main'', gc_token = [], gc_tokenFile = []\<rparr>,
     bs_ctx = \<lparr>cc_item = None\<rparr>, bs_metrics = newBackupMetrics\<rparr>"

lemma example_pull: "pull_or_reset (example_env False d) example_bstate = (example_bstate, Ok ())"
  by (simp add: pull_or_reset_def example_bstate_def example_env_def example_git_def Pull_def)

lemma example_plan:
  "filepath_Join [''/w'', ''c''] = ''/w/c''"
  "backup_plan (example_env False False) ''/w/c'' = [(''/w/c/core/v1/namespaces/ns1/pods/p1.yaml'', example_pod)]"
  "render (example_env False False) [(''/w/c/core/v1/namespaces/ns1/pods/p1.yaml'', example_pod)] =
     [(''/w/c/core/v1/namespaces/ns1/pods/p1.yaml'', ''pod'')]"
  by code_simp+

lemma example_runs: "snd (runOnce (example_env False d) example_bstate) = Ok ()"
  by (cases d) (simp, code_simp)+

subsection \<open>Properties of a run\<close>

definition sub_dir :: "('g, 'r) benv \<Rightarrow> ('g, 'r) bstate \<Rightarrow> string" where
  "sub_dir env st = filepath_Join [bs_workDir st, git_SubDir (ks_Git (kc_Spec (be_cfg env)))]"

lemma runOnce_Ok_steps:
  assumes "runOnce env st = (st', Ok u)"
  obtains st1 ctx s where
    "pull_or_reset env st = (st1, Ok ())"
    "snapshot env (sub_dir env st1) (bs_ctx st1, w_fs (bs_world st1)) = ((ctx, s), Ok ())"
    "commit_snapshot env (st1\<lparr>bs_world := (bs_world st1)\<lparr>w_fs := s\<rparr>, bs_ctx := ctx\<rparr>) = (st', Ok ())"
  using assms by (auto simp: runOnce_def Let_def sub_dir_def split: prod.splits result.splits)

lemma commit_snapshot_Ok:
  assumes "commit_snapshot env st = (st', Ok u)"
  shows "\<exists>gc. bs_gc st = Some gc \<and>
    (IsClean (be_git env) gc (bs_world st) = Ok True \<and> st' = st \<or>
     IsClean (be_git env) gc (bs_world st) = Ok False \<and>
     CommitAndPush (be_git env) gc (au_Name (git_Author (ks_Git (kc_Spec (be_cfg env)))))
       (au_Email (git_Author (ks_Git (kc_Spec (be_cfg env))))) (''backup: '' @ be_now env) (bs_world st) =
         (bs_world st', Ok ()))"
  using assms by (auto simp: commit_snapshot_def Let_def split: option.splits result.splits bool.splits prod.splits)

text \<open>C1: after a run that succeeds, the working tree mirrors the cluster: the \<open>.yaml\<close> files under the
  sub-directory are exactly those of the kept objects, each with the marshalled text of the
  object without the excluded fields (the last one, should two objects have the same path);
  every other file is as it was after the pull. Then the tree was either clean or it was
  committed and pushed. The hash function must not collide on the texts involved.\<close>

theorem runOnce_mirrors:
  assumes pull: "pull_or_reset env st = (st1, Ok ())" and run: "runOnce env st = (st', Ok ())"
    and ok: "fs_ok (w_fs (bs_world st1))"
    and hash: "inj_on (be_sha256 env) (hashed_texts env (sub_dir env st1) (w_fs (bs_world st1)))"
  shows "\<exists>st2 gc. mirrored env (sub_dir env st1) (w_fs (bs_world st1)) (w_fs (bs_world st2)) \<and>
    bs_gc st1 = Some gc \<and>
    (IsClean (be_git env) gc (bs_world st2) = Ok True \<and> st' = st2 \<or>
     IsClean (be_git env) gc (bs_world st2) = Ok False \<and>
     CommitAndPush (be_git env) gc (au_Name (git_Author (ks_Git (kc_Spec (be_cfg env)))))
       (au_Email (git_Author (ks_Git (kc_Spec (be_cfg env))))) (''backup: '' @ be_now env) (bs_world st2) =
         (bs_world st', Ok ()))"
  using run
proof (rule runOnce_Ok_steps)
  fix st1' ctx s
  assume "pull_or_reset env st = (st1', Ok ())"
    and snap: "snapshot env (sub_dir env st1') (bs_ctx st1', w_fs (bs_world st1')) = ((ctx, s), Ok ())"
    and com: "commit_snapshot env (st1'\<lparr>bs_world := (bs_world st1')\<lparr>w_fs := s\<rparr>, bs_ctx := ctx\<rparr>) = (st', Ok ())"
  with pull have st1: "st1' = st1" by simp
  let ?st2 = "st1\<lparr>bs_world := (bs_world st1)\<lparr>w_fs := s\<rparr>, bs_ctx := ctx\<rparr>"
  have "mirrored env (sub_dir env st1) (w_fs (bs_world st1)) s"
    by (rule snapshot_mirrored [OF snap [unfolded st1] ok hash])
  then show ?thesis
    using commit_snapshot_Ok [OF com [unfolded st1]] by (intro exI [of _ ?st2]) auto
qed

theorem runOnce_mirrors_witness:
  "\<exists>s'. mirrored (example_env False False) ''/w/c'' example_fs s' \<and>
     content s' ''/w/c/old.yaml'' = None \<and> content s' ''/w/README'' = Some ''r'' \<and>
     content s' ''/w/c/core/v1/namespaces/ns1/pods/p1.yaml'' = Some ''pod''"
proof -
  obtain st' where run: "runOnce (example_env False False) example_bstate = (st', Ok ())"
    using example_runs [of False] by (cases "runOnce (example_env False False) example_bstate") auto
  have sub: "sub_dir (example_env False False) example_bstate = ''/w/c''"
    by (simp add: sub_dir_def example_bstate_def example_env_def example_korpus_def example_plan)
  have example_fs_of: "w_fs (bs_world example_bstate) = example_fs" by (simp add: example_bstate_def)
  have ok: "fs_ok (w_fs (bs_world example_bstate))" by code_simp
  have hash: "inj_on (be_sha256 (example_env False False)) A" for A
    by (simp add: example_env_def inj_on_def)
  obtain st2 :: "(nat, unit) bstate" where
    m: "mirrored (example_env False False) ''/w/c'' example_fs (w_fs (bs_world st2))"
    using runOnce_mirrors [OF example_pull run ok hash, unfolded sub example_fs_of] by blast
  have "owned_yaml ''/w/c'' ''/w/c/old.yaml''" "\<not> owned_yaml ''/w/c'' ''/w/README''" by code_simp+
  then have "content (w_fs (bs_world st2)) ''/w/c/old.yaml'' = None"
    "content (w_fs (bs_world st2)) ''/w/README'' = Some ''r''"
    "content (w_fs (bs_world st2)) ''/w/c/core/v1/namespaces/ns1/pods/p1.yaml'' = Some ''pod''"
    using m by (simp_all add: mirrored_def example_plan content_def example_fs_def gm_get_def)
  with m show ?thesis by blast
qed

text \<open>C21: when discovery fails completely, a run does not stop: it warns, keeps the empty list and
  cleans up, so that a run that succeeds has deleted every backed-up \<open>.yaml\<close> file.\<close>

theorem runOnce_discovery_down:
  assumes down: "be_Preferred env = (None, Some err)"
    and pull: "pull_or_reset env st = (st1, Ok ())" and ok: "fs_ok (w_fs (bs_world st1))"
    and run: "runOnce env st = (st', Ok ())"
  shows "\<exists>st2. (\<forall>p. content (w_fs (bs_world st2)) p =
       (if owned_yaml (sub_dir env st1) p then None else content (w_fs (bs_world st1)) p)) \<and>
     commit_snapshot env st2 = (st', Ok ())"
  using run
proof (rule runOnce_Ok_steps)
  fix st1' ctx s
  assume "pull_or_reset env st = (st1', Ok ())"
    and snap: "snapshot env (sub_dir env st1') (bs_ctx st1', w_fs (bs_world st1')) = ((ctx, s), Ok ())"
    and com: "commit_snapshot env (st1'\<lparr>bs_world := (bs_world st1')\<lparr>w_fs := s\<rparr>, bs_ctx := ctx\<rparr>) = (st', Ok ())"
  with pull have st1: "st1' = st1" by simp
  have plan: "backup_plan env d = []" for d
    using down by (simp add: backup_plan_def discovered_def ListPreferredResources_def)
  obtain s1 where "wrote env [] (w_fs (bs_world st1)) s1"
    and c: "CleanObsolete (sub_dir env st1) [] s1 = (s, Ok ())"
    using snapshot_Ok [OF snap [unfolded st1]] by (auto simp: plan)
  then have "content s p = (if owned_yaml (sub_dir env st1) p then None else content (w_fs (bs_world st1)) p)" for p
    using CleanObsolete_Ok [OF ok, of "sub_dir env st1" "[]" s "()" p] by (simp add: wrote_Nil)
  then show ?thesis
    using com [unfolded st1]
    by (intro exI [of _ "st1\<lparr>bs_world := (bs_world st1)\<lparr>w_fs := s\<rparr>, bs_ctx := ctx\<rparr>"]) simp
qed

theorem runOnce_discovery_down_witness:
  "\<exists>st2 st'. content (w_fs (bs_world st2)) ''/w/c/old.yaml'' = None \<and>
     commit_snapshot (example_env False True) st2 = (st', Ok ())"
proof -
  obtain st' where run: "runOnce (example_env False True) example_bstate = (st', Ok ())"
    using example_runs [of True] by (cases "runOnce (example_env False True) example_bstate") auto
  have sub: "sub_dir (example_env False True) example_bstate = ''/w/c''"
    by (simp add: sub_dir_def example_bstate_def example_env_def example_korpus_def example_plan)
  have down: "be_Preferred (example_env False True) = (None, Some (ErrText ''down''))"
    by (simp add: example_env_def)
  have "fs_ok (w_fs (bs_world example_bstate))" by code_simp
  from runOnce_discovery_down [OF down example_pull this run] obtain st2 where
    "\<forall>p. content (w_fs (bs_world st2)) p =
       (if owned_yaml ''/w/c'' p then None else content (w_fs (bs_world example_bstate)) p)"
    "commit_snapshot (example_env False True) st2 = (st', Ok ())"
    unfolding sub by blast
  moreover have "owned_yaml ''/w/c'' ''/w/c/old.yaml''" by code_simp
  ultimately show ?thesis by (intro exI [of _ st2] exI [of _ st']) simp
qed

lemma runner_init_Err: "runner_init env st = (st', Err e) \<Longrightarrow> bs_gc st' = bs_gc st \<and> bs_workDir st' = bs_workDir st"
  by (auto simp: runner_init_def Let_def split: prod.splits sum.splits result.splits)

text \<open>When the pull fails and the fresh clone fails too, the runner has no git client left, and
  the next scheduled run dereferences the nil pointer: the process panics instead of trying
  to clone again.\<close>

theorem run_after_failed_reset_panics:
  assumes run: "runner_run env st = (st', Ok ())" and dir: "bs_workDir st \<noteq> []"
    and fail: "pull_or_reset env st = (st1, Err e)"
  shows "bs_gc st' = None \<and> (\<exists>m. runner_run env' st' = (st', Panic m))"
proof -
  obtain w1 err where "runner_reset env (st\<lparr>bs_world := w1\<rparr>) = (st1, Err err)"
    using fail by (auto simp: pull_or_reset_def split: option.splits prod.splits result.splits)
  then have "bs_gc st1 = None"
    using dir by (auto simp: runner_reset_def dest: runner_init_Err)
  moreover have "bs_gc st' = bs_gc st1"
    using run fail by (auto simp: runner_run_def runOnce_def Let_def)
  ultimately show ?thesis
    by (simp add: runner_run_def runOnce_def pull_or_reset_def)
qed

theorem run_after_failed_reset_panics_witness:
  "\<exists>st'. runner_run (example_env True False) example_bstate = (st', Ok ()) \<and>
     (\<exists>m. runner_run (example_env False False) st' = (st', Panic m))"
proof -
  obtain st1 e where fail: "pull_or_reset (example_env True False) example_bstate = (st1, Err e)"
    by (simp add: pull_or_reset_def example_bstate_def example_env_def example_git_def Pull_def
        runner_reset_def runner_init_def Clone_def Let_def example_korpus_def)
  then obtain st' where run: "runner_run (example_env True False) example_bstate = (st', Ok ())"
    by (simp add: runner_run_def runOnce_def Let_def)
  have "bs_workDir example_bstate \<noteq> []" by (simp add: example_bstate_def)
  from run_after_failed_reset_panics [OF run this fail, of "example_env False False"] run
  show ?thesis by blast
qed

subsection \<open>The files of the objects\<close>

definition object_id :: "('g, 'r) benv \<Rightarrow> GVRInfo \<Rightarrow> doc \<Rightarrow> resource_id" where
  "object_id env gvr item = \<lparr>
     ri_group = (if gvr_Group gvr = [] then ''core'' else gvr_Group gvr),
     ri_version = gvr_Version gvr,
     ri_namespace = (if gvr_Namespaced gvr then GetNamespace (be_acc env) item else []),
     ri_resource = gvr_Resource gvr,
     ri_name = GetName (be_acc env) item\<rparr>"

text \<open>What the API server guarantees of an object: its names are single path elements, and a
  namespaced object has a namespace.\<close>

definition object_ok :: "('g, 'r) benv \<Rightarrow> GVRInfo \<Rightarrow> doc \<Rightarrow> bool" where
  "object_ok env gvr item \<longleftrightarrow>
     rid_ok (object_id env gvr item) \<and> (gvr_Namespaced gvr \<longrightarrow> GetNamespace (be_acc env) item \<noteq> [])"

lemma item_path_resource_path:
  assumes "list_all path_elem es" "es \<noteq> []" "object_ok env gvr item"
  shows "item_path env (abs_path es) gvr item = abs_path es @ SLASH # resource_path (object_id env gvr item)"
    and "owned_yaml (abs_path es) (item_path env (abs_path es) gvr item)"
proof -
  let ?r = "object_id env gvr item"
  let ?fs = "resource_elems (ri_namespace ?r \<noteq> []) ?r"
  have ns: "ri_namespace ?r \<noteq> [] \<longleftrightarrow> gvr_Namespaced gvr"
    using assms(3) by (auto simp: object_ok_def object_id_def)
  have "item_path env (abs_path es) gvr item = filepath_Join (abs_path es # ?fs)"
    unfolding ns by (simp add: item_path_def resource_elems_def object_id_def Let_def)
  also have "\<dots> = abs_path (es @ ?fs)"
    using assms by (intro filepath_Join_abs resource_elems_ok) (auto simp: object_ok_def)
  finally have p: "item_path env (abs_path es) gvr item = abs_path (es @ ?fs)" .
  have fs: "?fs \<noteq> []" "last (es @ ?fs) = ri_name ?r @ ''.yaml''"
    by (auto simp: resource_elems_def)
  show "item_path env (abs_path es) gvr item = abs_path es @ SLASH # resource_path ?r"
    using abs_path_append [OF fs(1) assms(2)] by (simp add: p resource_path_def)
  have "filepath_Ext (abs_path (es @ ?fs)) = ''.yaml''"
    by (rule filepath_Ext_yaml [OF _ fs(2)])
      (use assms in \<open>auto simp: object_ok_def rid_ok_def path_elem_def\<close>)
  then show "owned_yaml (abs_path es) (item_path env (abs_path es) gvr item)"
    using inside_abs_path [OF assms(2) fs(1)] by (simp add: owned_yaml_def p)
qed

text \<open>C17: the path that the backup gives to an object is read back by the history index
  (\<open>ParseResourcePath\<close>, after the sub-directory is cut off) as the group, version, namespace,
  resource and name of the object; so two objects share a file only if all five agree.\<close>

theorem item_path_read_back:
  assumes "list_all path_elem es" "es \<noteq> []" "object_ok env gvr item" "object_ok env gvr' item'"
  shows "ParseResourcePath (TrimPrefix (item_path env (abs_path es) gvr item) (abs_path es @ ''/'')) =
      Some (object_id env gvr item) \<and>
    (item_path env (abs_path es) gvr item = item_path env (abs_path es) gvr' item' \<longleftrightarrow>
      object_id env gvr item = object_id env gvr' item')"
proof -
  note p = item_path_resource_path(1) [OF assms(1,2)]
  have ok: "rid_ok (object_id env gvr item)" "rid_ok (object_id env gvr' item')"
    using assms(3,4) by (auto simp: object_ok_def)
  have "TrimPrefix (abs_path es @ SLASH # q) (abs_path es @ ''/'') = q" for q
    using TrimPrefix_append [of "abs_path es @ ''/''" q] by simp
  then show ?thesis
    using p [OF assms(3)] p [OF assms(4)] ok
    by (simp add: resource_paths.decode_encode resource_paths.encode_eq_iff)
qed

theorem item_path_read_back_witness:
  "ParseResourcePath (TrimPrefix
      (item_path (example_env False False) ''/w/c'' \<lparr>gvr_Group = [], gvr_Version = ''v1'',
         gvr_Resource = ''pods'', gvr_Namespaced = True\<rparr> example_pod) ''/w/c/'') =
   Some \<lparr>ri_group = ''core'', ri_version = ''v1'', ri_namespace = ''ns1'', ri_resource = ''pods'', ri_name = ''p1''\<rparr>"
proof -
  let ?g = "\<lparr>gvr_Group = [], gvr_Version = ''v1'', gvr_Resource = ''pods'', gvr_Namespaced = True\<rparr>"
  have ok: "object_ok (example_env False False) ?g example_pod" by code_simp
  have "list_all path_elem [''w'', ''c'']" by (simp add: path_elem_def)
  from item_path_read_back [OF this _ ok ok] show ?thesis
    by (simp add: abs_path_def object_id_def example_env_def example_acc_def example_pod_def gm_get_def)
qed

end
