(* ===== verification/CommitIndex.thy ===== *)
theory CommitIndex
  imports GoStrings GoSort
begin

text \<open>
  \<open>internal/gitindex/commit.go\<close>: the list of all commits in ascending order of time, and the
  binary search for the state at a point in time. An instant is an \<open>int\<close> (nanoseconds, as
  \<open>time.Time\<close> compares them); \<open>time.Parse\<close> and the output of \<open>git log\<close> are parameters.
\<close>

record CommitRef =
  cr_Time :: int
  cr_SHA :: string

text \<open>The zero value of \<open>time.Time\<close> (1 January of the year 1), which \<open>time.Parse\<close> returns with
  an error.\<close>

definition zero_time :: int where
  "zero_time = - 62135596800 * 1000000000"

definition zero_ref :: CommitRef where
  "zero_ref = \<lparr>cr_Time = zero_time, cr_SHA = []\<rparr>"

record CommitIndex =
  ci_refs :: "CommitRef list"

abbreviation NL :: char where "NL \<equiv> CHR 0x0A"
abbreviation CR :: char where "CR \<equiv> CHR 0x0D"

definition parse_commit_line :: "(string \<Rightarrow> error + int) \<Rightarrow> string \<Rightarrow> CommitRef list" where
  "parse_commit_line ParseTime raw =
     (let line = TrimRightBy (\<lambda>c. c = CR) raw in
      if line = [] then []
      else case Cut line CHR '' '' of
             (sha, rest, ok) \<Rightarrow>
               if \<not> ok then []
               else (case ParseTime rest of
                       Inl _ \<Rightarrow> []
                     | Inr t \<Rightarrow> [\<lparr>cr_Time = t, cr_SHA = sha\<rparr>]))"

definition BuildCommitIndex ::
  "(string \<Rightarrow> error + int) \<Rightarrow> (string \<Rightarrow> error + string) \<Rightarrow> string \<Rightarrow> CommitIndex result" where
  "BuildCommitIndex ParseTime git_log workDir =
     (case git_log workDir of
        Inl err \<Rightarrow> Err (ErrWrap ''git log'' err)
      | Inr out \<Rightarrow>
          (let refs = concat (map (parse_commit_line ParseTime) (Split out NL));
               refs = rev refs
           in Ok \<lparr>ci_refs = go_sort (\<lambda>a b. cr_Time a < cr_Time b) refs\<rparr>))"

text \<open>The loop of \<open>FindBefore\<close>: \<open>result\<close> is the index found so far.\<close>

function find_loop :: "CommitRef list \<Rightarrow> int \<Rightarrow> int \<Rightarrow> int \<Rightarrow> int \<Rightarrow> int result" where
  "find_loop refs t lo hi found =
     (if lo \<le> hi then
        let mid = (lo + hi) div 2 in
        case go_index refs mid of
          Ok r \<Rightarrow> if \<not> cr_Time r > t then find_loop refs t (mid + 1) hi mid
                   else find_loop refs t lo (mid - 1) found
        | Err e \<Rightarrow> Err e
        | Panic m \<Rightarrow> Panic m
      else Ok found)"
  by pat_completeness auto
termination
  by (relation "measure (\<lambda>(refs, t, lo, hi, found). nat (hi - lo + 1))") auto

declare find_loop.simps [simp del]

definition FindBefore :: "CommitIndex \<Rightarrow> int \<Rightarrow> (CommitRef \<times> bool) result" where
  "FindBefore ci t =
     rbind (find_loop (ci_refs ci) t 0 (int (length (ci_refs ci)) - 1) (- 1)) (\<lambda>found.
       if found = - 1 then Ok (zero_ref, False)
       else map_result (\<lambda>r. (r, True)) (go_index (ci_refs ci) found))"

definition Len :: "CommitIndex \<Rightarrow> nat" where
  "Len ci = length (ci_refs ci)"

definition AllRefs :: "CommitIndex \<Rightarrow> CommitRef list" where
  "AllRefs ci = ci_refs ci"

subsection \<open>Facts\<close>

text \<open>The search keeps: everything below \<open>lo\<close> is at most \<open>t\<close>, everything above \<open>hi\<close> is after \<open>t\<close>, and
  the index found so far is \<open>lo - 1\<close>.\<close>

lemma find_loop_split:
  assumes below: "\<And>i. i < k \<Longrightarrow> cr_Time (refs ! i) \<le> t"
    and above: "\<And>i. k \<le> i \<Longrightarrow> i < length refs \<Longrightarrow> t < cr_Time (refs ! i)"
    and "0 \<le> lo" "lo \<le> int k" "int k \<le> hi + 1" "hi < int (length refs)" "found = lo - 1"
  shows "find_loop refs t lo hi found = Ok (int k - 1)"
  using assms(3-)
proof (induction "nat (hi - lo + 1)" arbitrary: lo hi found rule: less_induct)
  case less
  show ?case
  proof (cases "lo \<le> hi")
    case False
    then show ?thesis using less.prems by (subst find_loop.simps) simp
  next
    case True
    define mid where "mid = (lo + hi) div 2"
    have mid: "lo \<le> mid" "mid \<le> hi" "0 \<le> mid" "mid < int (length refs)"
      using True less.prems by (auto simp: mid_def)
    then have ix: "go_index refs mid = Ok (refs ! nat mid)" by (simp add: go_index_def)
    show ?thesis
    proof (cases "cr_Time (refs ! nat mid) > t")
      case False
      then have "nat mid < k" using above [of "nat mid"] mid by force
      then have "find_loop refs t (mid + 1) hi mid = Ok (int k - 1)"
        using less.prems mid by (intro less.hyps) auto
      then show ?thesis
        using True False ix by (subst find_loop.simps) (simp add: Let_def mid_def)
    next
      case gt: True
      then have "k \<le> nat mid" using below [of "nat mid"] by force
      then have "find_loop refs t lo (mid - 1) found = Ok (int k - 1)"
        using less.prems mid by (intro less.hyps) auto
      then show ?thesis
        using True gt ix by (subst find_loop.simps) (simp add: Let_def mid_def)
    qed
  qed
qed

text \<open>In an ascending list the elements up to \<open>t\<close> are a prefix.\<close>

lemma sorted_prefix:
  assumes "sorted (map cr_Time refs)"
  shows "\<exists>k. k \<le> length refs \<and> filter (\<lambda>r. cr_Time r \<le> t) refs = take k refs \<and>
    (\<forall>i < k. cr_Time (refs ! i) \<le> t) \<and> (\<forall>i. k \<le> i \<and> i < length refs \<longrightarrow> t < cr_Time (refs ! i))"
  using assms
proof (induction refs)
  case (Cons r refs)
  show ?case
  proof (cases "cr_Time r \<le> t")
    case True
    obtain k where k: "k \<le> length refs" "filter (\<lambda>r. cr_Time r \<le> t) refs = take k refs"
      "\<forall>i < k. cr_Time (refs ! i) \<le> t" "\<forall>i. k \<le> i \<and> i < length refs \<longrightarrow> t < cr_Time (refs ! i)"
      using Cons by auto
    then show ?thesis
      using True by (intro exI [of _ "Suc k"]) (auto simp: nth_Cons split: nat.splits)
  next
    case False
    then have "\<forall>x \<in> set refs. t < cr_Time x" using Cons.prems by fastforce
    then show ?thesis
      using False by (intro exI [of _ 0]) (auto simp: filter_empty_conv not_le nth_Cons split: nat.splits)
  qed
qed simp

lemma FindBefore_sorted:
  assumes "sorted (map cr_Time (ci_refs ci))"
  shows "FindBefore ci t =
    (case filter (\<lambda>r. cr_Time r \<le> t) (ci_refs ci) of
       [] \<Rightarrow> Ok (zero_ref, False)
     | r # rs \<Rightarrow> Ok (last (r # rs), True))"
proof -
  let ?refs = "ci_refs ci"
  obtain k where k: "k \<le> length ?refs" "filter (\<lambda>r. cr_Time r \<le> t) ?refs = take k ?refs"
    "\<forall>i < k. cr_Time (?refs ! i) \<le> t" "\<forall>i. k \<le> i \<and> i < length ?refs \<longrightarrow> t < cr_Time (?refs ! i)"
    using sorted_prefix [OF assms] by blast
  have loop: "find_loop ?refs t 0 (int (length ?refs) - 1) (- 1) = Ok (int k - 1)"
    using k by (intro find_loop_split) auto
  show ?thesis
  proof (cases k)
    case 0
    then show ?thesis using loop k(2) by (simp add: FindBefore_def)
  next
    case (Suc j)
    then have "take k ?refs \<noteq> []" "last (take k ?refs) = ?refs ! j"
      using k(1) by (auto simp: take_Suc_conv_app_nth)
    moreover have "FindBefore ci t = Ok (?refs ! j, True)"
      using loop k(1) Suc by (simp add: FindBefore_def go_index_def)
    ultimately show ?thesis unfolding k(2) by (cases "take k ?refs") auto
  qed
qed

text \<open>The lines that \<open>git log --pretty=format:%H %aI\<close> prints, newest commit first, no newline at
  the end.\<close>

definition log_line :: "(int \<Rightarrow> string) \<Rightarrow> CommitRef \<Rightarrow> string" where
  "log_line show_time c = cr_SHA c @ CHR '' '' # show_time (cr_Time c)"

definition show_log :: "(int \<Rightarrow> string) \<Rightarrow> CommitRef list \<Rightarrow> string" where
  "show_log show_time cs = Join (map (log_line show_time) cs) [NL]"

text \<open>A history that can be printed: no blank in a hash or a time, and the parser reads the
  printed times back.\<close>

definition word_ok :: "string \<Rightarrow> bool" where
  "word_ok w \<longleftrightarrow> w \<noteq> [] \<and> list_all (\<lambda>c. \<not> is_space c) w"

definition log_ok :: "(int \<Rightarrow> string) \<Rightarrow> (string \<Rightarrow> error + int) \<Rightarrow> CommitRef list \<Rightarrow> bool" where
  "log_ok show_time ParseTime cs \<longleftrightarrow>
     list_all (\<lambda>c. word_ok (cr_SHA c) \<and> word_ok (show_time (cr_Time c)) \<and>
                   ParseTime (show_time (cr_Time c)) = Inr (cr_Time c)) cs"

lemma word_ok_not_in: "word_ok w \<Longrightarrow> is_space c \<Longrightarrow> c \<notin> set w"
  by (auto simp: word_ok_def list_all_iff)

lemma is_space_chars [simp]: "is_space NL" "is_space CR" "is_space CHR '' ''" "is_space CHR 0x09"
  by (simp_all add: is_space_def)

lemma parse_log_line:
  assumes "word_ok (cr_SHA c)" "word_ok (show_time (cr_Time c))"
    and "ParseTime (show_time (cr_Time c)) = Inr (cr_Time c)"
  shows "parse_commit_line ParseTime (log_line show_time c) = [c]"
proof -
  let ?t = "show_time (cr_Time c)"
  have ne: "?t \<noteq> []" using assms(2) by (simp add: word_ok_def)
  then have "last ?t \<noteq> CR"
    using word_ok_not_in [OF assms(2), of CR] last_in_set [OF ne] is_space_chars by metis
  then have "TrimRightBy (\<lambda>c. c = CR) (log_line show_time c) = log_line show_time c"
    using ne by (intro TrimRightBy_id) (simp add: log_line_def)
  moreover have "Cut (log_line show_time c) CHR '' '' = (cr_SHA c, ?t, True)"
    unfolding log_line_def by (rule Cut_found) (simp add: word_ok_not_in assms)
  moreover have "log_line show_time c \<noteq> []" by (simp add: log_line_def)
  ultimately show ?thesis using assms(3) by (simp add: parse_commit_line_def Let_def)
qed

lemma Split_show_log:
  assumes "log_ok show_time ParseTime cs" "cs \<noteq> []"
  shows "Split (show_log show_time cs) NL = map (log_line show_time) cs"
  unfolding show_log_def
proof (rule Split_Join)
  show "\<forall>w \<in> set (map (log_line show_time) cs). NL \<notin> set w"
    using assms(1) word_ok_not_in [where c = NL] by (auto simp: log_ok_def list_all_iff log_line_def)
qed (simp add: assms)

lemma BuildCommitIndex_show_log:
  assumes "log_ok show_time ParseTime cs" "git_log workDir = Inr (show_log show_time cs)"
  shows "BuildCommitIndex ParseTime git_log workDir = Ok \<lparr>ci_refs = sort_key cr_Time (rev cs)\<rparr>"
proof (cases "cs = []")
  case True
  then show ?thesis
    using assms(2) by (simp add: BuildCommitIndex_def show_log_def parse_commit_line_def Let_def
        TrimRightBy_def go_sort_key)
next
  case False
  have "map (parse_commit_line ParseTime) (map (log_line show_time) cs) = map (\<lambda>c. [c]) cs"
    using assms(1) by (auto simp: log_ok_def list_all_iff parse_log_line)
  then show ?thesis
    using assms(2) Split_show_log [OF assms(1) False]
    by (simp add: BuildCommitIndex_def Let_def go_sort_key del: map_map)
qed

lemma find_hd_filter: "filter P xs \<noteq> [] \<Longrightarrow> find P xs = Some (hd (filter P xs))"
  by (induction xs) auto

lemma last_sort_key_rev:
  fixes f :: "'a \<Rightarrow> 'k :: linorder"
  assumes "cs \<noteq> []"
  shows "find (\<lambda>c. f c = Max (f ` set cs)) cs = Some (last (sort_key f (rev cs)))"
proof -
  let ?xs = "sort_key f (rev cs)" and ?m = "Max (f ` set cs)"
  have ne: "?xs \<noteq> []" using assms by (metis length_0_conv length_rev length_sort)
  have "f (last ?xs) = ?m"
  proof (rule Max_eqI [symmetric])
    show "y \<le> f (last ?xs)" if "y \<in> f ` set cs" for y
    proof -
      obtain i where "i < length ?xs" "y = f (?xs ! i)"
        using \<open>y \<in> f ` set cs\<close> by (metis imageE in_set_conv_nth set_rev set_sort)
      then show ?thesis
        using sorted_nth_mono [of "map f ?xs" i "length ?xs - 1"] ne by (simp add: last_conv_nth)
    qed
  qed (use last_in_set [OF ne] in auto)
  then have "last ?xs = last (filter (\<lambda>c. f c = ?m) ?xs)"
    using ne by (cases ?xs rule: rev_cases) auto
  also have "filter (\<lambda>c. f c = ?m) ?xs = rev (filter (\<lambda>c. f c = ?m) cs)"
    by (simp add: sort_key_stable rev_filter)
  finally have l: "last ?xs = last (rev (filter (\<lambda>c. f c = ?m) cs))" .
  have "?m \<in> f ` set cs" using assms by (intro Max_in) auto
  then have "filter (\<lambda>c. f c = ?m) cs \<noteq> []" by (auto simp: filter_empty_conv)
  then show ?thesis
    unfolding l by (simp add: find_hd_filter last_rev)
qed

subsection \<open>Properties\<close>

definition example_log :: "CommitRef list" where
  "example_log = [\<lparr>cr_Time = 7, cr_SHA = ''cc''\<rparr>, \<lparr>cr_Time = 7, cr_SHA = ''bb''\<rparr>, \<lparr>cr_Time = 5, cr_SHA = ''aa''\<rparr>]"

definition example_show_time :: "int \<Rightarrow> string" where
  "example_show_time t = show_nat (nat t)"

definition example_ParseTime :: "string \<Rightarrow> error + int" where
  "example_ParseTime s = Inr (int (digits_value 0 s))"

lemma show_nat_word: "word_ok (show_nat n)"
  using show_nat_digits [of n] is_digit_not_space by (auto simp: word_ok_def list_all_iff)

lemma example_log_ok: "log_ok example_show_time example_ParseTime example_log"
  by (simp add: log_ok_def example_log_def example_show_time_def example_ParseTime_def show_nat_value
      show_nat_word) (simp add: word_ok_def is_space_def)

text \<open>On the output of \<open>git log\<close> for a history (newest commit first), \<open>BuildCommitIndex\<close> keeps
  every commit, in ascending order of time and, for equal times, from older to newer in the
  history.\<close>

theorem BuildCommitIndex_chronological:
  assumes "log_ok show_time ParseTime cs" "git_log workDir = Inr (show_log show_time cs)"
  shows "\<exists>ci. BuildCommitIndex ParseTime git_log workDir = Ok ci \<and>
    mset (AllRefs ci) = mset cs \<and> sorted (map cr_Time (AllRefs ci)) \<and> Len ci = length cs \<and>
    filter (\<lambda>c. cr_Time c = t) (AllRefs ci) = rev (filter (\<lambda>c. cr_Time c = t) cs)"
  using BuildCommitIndex_show_log [of show_time ParseTime cs git_log workDir] assms
  by (simp add: AllRefs_def Len_def sort_key_stable rev_filter)

theorem BuildCommitIndex_chronological_witness:
  "\<exists>ci. BuildCommitIndex example_ParseTime (\<lambda>_. Inr (show_log example_show_time example_log)) ''/w'' = Ok ci \<and>
     filter (\<lambda>c. cr_Time c = 7) (AllRefs ci) = [\<lparr>cr_Time = 7, cr_SHA = ''bb''\<rparr>, \<lparr>cr_Time = 7, cr_SHA = ''cc''\<rparr>]"
  using BuildCommitIndex_chronological [where git_log = "\<lambda>_. Inr (show_log example_show_time example_log)"
      and workDir = "''/w''" and t = 7, OF example_log_ok refl]
  by (auto simp: example_log_def)

text \<open>C11: on such an index the binary search never leaves the list and returns the newest commit
  that is not after the given time: among the commits with the greatest such time the one
  that comes first in \<open>git log\<close>; it returns false exactly when every commit is later.\<close>

theorem FindBefore_newest:
  assumes "log_ok show_time ParseTime cs" "git_log workDir = Inr (show_log show_time cs)"
    and "BuildCommitIndex ParseTime git_log workDir = Ok ci"
  shows "FindBefore ci t =
    (let early = filter (\<lambda>c. cr_Time c \<le> t) cs in
     case find (\<lambda>c. cr_Time c = Max (cr_Time ` set early)) early of
       Some r \<Rightarrow> Ok (r, True) | None \<Rightarrow> Ok (zero_ref, False))"
proof -
  let ?early = "filter (\<lambda>c. cr_Time c \<le> t) cs"
  have ci: "ci_refs ci = sort_key cr_Time (rev cs)"
    using BuildCommitIndex_show_log [of show_time ParseTime cs git_log workDir] assms by auto
  have f: "filter (\<lambda>c. cr_Time c \<le> t) (ci_refs ci) = sort_key cr_Time (rev ?early)"
    by (simp add: ci filter_sort rev_filter)
  have run: "FindBefore ci t =
      (case sort_key cr_Time (rev ?early) of
         [] \<Rightarrow> Ok (zero_ref, False) | r # rs \<Rightarrow> Ok (last (r # rs), True))"
    using FindBefore_sorted [of ci t] by (simp add: ci f [unfolded ci])
  show ?thesis
  proof (cases "?early = []")
    case True
    then show ?thesis by (simp add: run)
  next
    case False
    have "sort_key cr_Time (rev ?early) \<noteq> []" using False by (metis length_0_conv length_rev length_sort)
    then show ?thesis
      using last_sort_key_rev [OF False, of cr_Time]
      by (cases "sort_key cr_Time (rev ?early)") (simp_all add: run Let_def)
  qed
qed

theorem FindBefore_newest_witness:
  "\<exists>ci. BuildCommitIndex example_ParseTime (\<lambda>_. Inr (show_log example_show_time example_log)) ''/w'' = Ok ci \<and>
     FindBefore ci 9 = Ok (\<lparr>cr_Time = 7, cr_SHA = ''cc''\<rparr>, True) \<and> FindBefore ci 4 = Ok (zero_ref, False)"
proof -
  obtain ci where ci: "BuildCommitIndex example_ParseTime (\<lambda>_. Inr (show_log example_show_time example_log)) ''/w'' = Ok ci"
    using BuildCommitIndex_show_log [where git_log = "\<lambda>_. Inr (show_log example_show_time example_log)",
        OF example_log_ok refl] by blast
  show ?thesis
    using FindBefore_newest [where t = 9, OF example_log_ok refl ci]
      FindBefore_newest [where t = 4, OF example_log_ok refl ci] ci
    by (simp add: example_log_def)
qed

end
