(* ===== verification/ChangeIndex.thy ===== *)
theory ChangeIndex
  imports Paths GoData CommitIndex
begin

text \<open>
  \<open>internal/gitindex/change.go\<close>: the history of changes, read from the output of
  \<open>git log --name-status\<close>, with the kinds read from \<open>git cat-file --batch\<close>. The two git
  processes are a parameter: arguments, directory and standard input give the output or an
  error.
\<close>

type_synonym git_process = "string list \<Rightarrow> string \<Rightarrow> string \<Rightarrow> error + string"

text \<open>\<open>ChangeType\<close> is a string type with three constants.\<close>

type_synonym ChangeType = string

definition Added :: ChangeType where "Added = ''added''"
definition Modified :: ChangeType where "Modified = ''modified''"
definition Deleted :: ChangeType where "Deleted = ''deleted''"

record ChangeEvent =
  ev_Timestamp :: int
  ev_SHA :: string
  ev_Cluster :: string
  ev_Group :: string
  ev_Kind :: string
  ev_Namespace :: string
  ev_Name :: string
  ev_ChangeType :: ChangeType

record VolatilityEntry =
  ve_Cluster :: string
  ve_Group :: string
  ve_Kind :: string
  ve_Namespace :: string
  ve_Name :: string
  ve_Count :: nat
  ve_Total :: nat

record ChangeIndex =
  xi_events :: "ChangeEvent list"

record kindRef =
  kr_objectName :: string
  kr_eventIdx :: nat

subsection \<open>Reading the log\<close>

record log_scan =
  ls_events :: "ChangeEvent list"
  ls_refs :: "kindRef list"
  ls_sha :: string
  ls_time :: int

definition change_type_of :: "char \<Rightarrow> ChangeType" where
  "change_type_of status =
     (if status = CHR ''A'' then Added else if status = CHR ''D'' then Deleted
      else if status = CHR ''M'' then Modified else [])"

definition scan_line ::
  "(string \<Rightarrow> error + int) \<Rightarrow> string \<Rightarrow> string \<Rightarrow> log_scan \<Rightarrow> string \<Rightarrow> log_scan" where
  "scan_line ParseTime clusterName pfx st raw =
     (let line = TrimRightBy (\<lambda>c. c = CR) raw in
      if line = [] then st
      else if HasPrefix line ''COMMIT '' then
        (let fields = Fields line in
         if length fields < 3 then st
         else st\<lparr>ls_sha := fields ! 1,
                 ls_time := (case ParseTime (fields ! 2) of Inr t \<Rightarrow> t | Inl _ \<Rightarrow> zero_time)\<rparr>)
      else if ls_sha st = [] \<or> length line < 2 \<or> line ! 1 \<noteq> CHR 0x09 then st
      else
        (let status = line ! 0 in
         if status \<noteq> CHR ''A'' \<and> status \<noteq> CHR ''M'' \<and> status \<noteq> CHR ''D'' then st
         else
           (let filePath = drop 2 line in
            if \<not> HasSuffix filePath ''.yaml'' then st
            else if pfx \<noteq> [] \<and> \<not> HasPrefix filePath pfx then st
            else case ParseResourcePath (TrimPrefix filePath pfx) of
                   None \<Rightarrow> st
                 | Some r \<Rightarrow>
                     (let ct = change_type_of status;
                          idx = length (ls_events st);
                          st = st\<lparr>ls_events := ls_events st @ [\<lparr>ev_Timestamp = ls_time st,
                                 ev_SHA = ls_sha st, ev_Cluster = clusterName, ev_Group = ri_group r,
                                 ev_Kind = [], ev_Namespace = ri_namespace r, ev_Name = ri_name r,
                                 ev_ChangeType = ct\<rparr>]\<rparr>
                      in if ct \<noteq> Deleted
                         then st\<lparr>ls_refs := ls_refs st @
                                [\<lparr>kr_objectName = ls_sha st @ '':'' @ filePath, kr_eventIdx = idx\<rparr>]\<rparr>
                         else st))))"

definition scan_start :: log_scan where
  "scan_start = \<lparr>ls_events = [], ls_refs = [], ls_sha = [], ls_time = zero_time\<rparr>"

definition scan_log :: "(string \<Rightarrow> error + int) \<Rightarrow> string \<Rightarrow> string \<Rightarrow> string \<Rightarrow> log_scan" where
  "scan_log ParseTime clusterName pfx out =
     foldl (scan_line ParseTime clusterName pfx) scan_start (Split out NL)"

subsection \<open>Reading the kinds\<close>

fun kind_of_lines :: "string list \<Rightarrow> string" where
  "kind_of_lines [] = []"
| "kind_of_lines (l # ls) =
     (let line = TrimSpace l in
      if HasPrefix line ''kind:'' then TrimSpace (TrimPrefix line ''kind:'') else kind_of_lines ls)"

definition kindFromYAML :: "string \<Rightarrow> string" where
  "kindFromYAML text =
     (let limit = min 512 (length text) in kind_of_lines (Split (take limit text) NL))"

text \<open>The loop over the stream of \<open>cat-file\<close>: one header per object, then the content of a
  blob. It stops at the end of the stream with what it has.\<close>

fun read_kinds :: "string list \<Rightarrow> string \<Rightarrow> string gmap \<Rightarrow> string gmap result" where
  "read_kinds [] r kindMap = Ok kindMap"
| "read_kinds (objName # ordered) r kindMap =
     (case Cut r NL of
        (header, r, ok) \<Rightarrow>
          if \<not> ok then Ok kindMap
          else
            (let parts = Fields (TrimRightBy (\<lambda>c. c = CR \<or> c = NL) header) in
             if length parts < 3 \<or> parts ! 1 \<noteq> ''blob'' then read_kinds ordered r kindMap
             else
               (let size = atoi_or_zero (parts ! 2);
                    window = (if size < 512 then size else 512)
                in if window < 0 then Panic ''makeslice: len out of range''
                   else if int (length r) < window then Ok kindMap
                   else
                     (let buf = take (nat window) r; r = drop (nat window) r
                      in if size > window \<and> int (length r) < size - window then Ok kindMap
                         else
                           (let r = (if size > window then drop (nat (size - window)) r else r);
                                r = (case r of [] \<Rightarrow> [] | b # r' \<Rightarrow> if b \<noteq> NL then r else r')
                            in read_kinds ordered r (gm_put objName (kindFromYAML buf) kindMap))))))"

definition batchReadKinds :: "git_process \<Rightarrow> string \<Rightarrow> kindRef list \<Rightarrow> string gmap result" where
  "batchReadKinds git workDir refs =
     (if length refs = 0 then Ok []
      else
        (let ordered = dedup_seen [] (map kr_objectName refs);
             stdin = concat (map (\<lambda>n. n @ [NL]) ordered)
         in case git [''cat-file'', ''--batch''] workDir stdin of
              Inl _ \<Rightarrow> Ok []
            | Inr stdout \<Rightarrow> read_kinds ordered stdout []))"

definition set_kinds :: "string gmap \<Rightarrow> kindRef list \<Rightarrow> ChangeEvent list \<Rightarrow> ChangeEvent list" where
  "set_kinds kindMap refs events =
     foldl (\<lambda>es kr. es[kr_eventIdx kr := (es ! kr_eventIdx kr)\<lparr>ev_Kind :=
              (case gm_get kindMap (kr_objectName kr) of Some k \<Rightarrow> k | None \<Rightarrow> [])\<rparr>]) events refs"

subsection \<open>Building the index\<close>

text \<open>\<open>sort.Slice\<close> is a parameter: it need not be stable. \<open>since\<close> is the formatted cutoff.\<close>

definition BuildChangeIndex ::
  "((ChangeEvent \<Rightarrow> ChangeEvent \<Rightarrow> bool) \<Rightarrow> ChangeEvent list \<Rightarrow> ChangeEvent list) \<Rightarrow>
   (string \<Rightarrow> error + int) \<Rightarrow> git_process \<Rightarrow> (int \<Rightarrow> string) \<Rightarrow> string \<Rightarrow> string \<Rightarrow> string \<Rightarrow> int \<Rightarrow>
   ChangeIndex result" where
  "BuildChangeIndex sort_Slice ParseTime git cutoff workDir clusterName subDir retentionDays =
     (let args = [''log'', ''--name-status'', ''--pretty=format:COMMIT %H %aI'', ''--diff-filter=ADM'',
                  ''--no-renames'', ''--since='' @ cutoff (- retentionDays)] @
                 (if subDir \<noteq> [] then [''--'', subDir] else [])
      in case git args workDir [] of
           Inl err \<Rightarrow> Err (ErrWrap ''git log --name-status'' err)
         | Inr out \<Rightarrow>
             (let pfx = (if subDir \<noteq> [] \<and> \<not> HasSuffix subDir ''/'' then subDir @ ''/'' else subDir);
                  scan = scan_log ParseTime clusterName pfx out
              in map_result
                   (\<lambda>kindMap. \<lparr>xi_events = sort_Slice (\<lambda>a b. ev_Timestamp a < ev_Timestamp b)
                      (set_kinds kindMap (ls_refs scan) (ls_events scan))\<rparr>)
                   (batchReadKinds git workDir (ls_refs scan))))"

subsection \<open>Queries\<close>

record change_filter =
  cf_since :: "int option"
  cf_until :: "int option"
  cf_cluster :: string
  cf_group :: string
  cf_kind :: string
  cf_namespace :: string
  cf_name :: string
  cf_ct :: ChangeType

definition about_resource ::
  "string \<Rightarrow> string \<Rightarrow> string \<Rightarrow> string \<Rightarrow> string \<Rightarrow> ChangeEvent \<Rightarrow> bool" where
  "about_resource cluster grp kind namespace name e \<longleftrightarrow>
     \<not> (cluster \<noteq> [] \<and> ev_Cluster e \<noteq> cluster) \<and>
     \<not> (grp \<noteq> [] \<and> \<not> EqualFold (ev_Group e) grp) \<and>
     \<not> (kind \<noteq> [] \<and> \<not> EqualFold (ev_Kind e) kind) \<and>
     \<not> (namespace \<noteq> [] \<and> ev_Namespace e \<noteq> namespace) \<and>
     \<not> (name \<noteq> [] \<and> ev_Name e \<noteq> name)"

definition event_matches :: "change_filter \<Rightarrow> ChangeEvent \<Rightarrow> bool" where
  "event_matches f e \<longleftrightarrow>
     \<not> (case cf_since f of Some t \<Rightarrow> ev_Timestamp e < t | None \<Rightarrow> False) \<and>
     \<not> (case cf_until f of Some t \<Rightarrow> ev_Timestamp e > t | None \<Rightarrow> False) \<and>
     about_resource (cf_cluster f) (cf_group f) (cf_kind f) (cf_namespace f) (cf_name f) e \<and>
     \<not> (cf_ct f \<noteq> [] \<and> ev_ChangeType e \<noteq> cf_ct f)"

text \<open>The loop that fills the page: \<open>i\<close> runs down to \<open>stop\<close>.\<close>

function page_loop :: "'a list \<Rightarrow> int \<Rightarrow> int \<Rightarrow> 'a list result" where
  "page_loop matched i stop =
     (if i \<ge> stop
      then rbind (go_index matched i) (\<lambda>e. map_result (\<lambda>es. e # es) (page_loop matched (i - 1) stop))
      else Ok [])"
  by pat_completeness auto
termination
  by (relation "measure (\<lambda>(matched, i, stop). nat (i - stop + 1))") auto

declare page_loop.simps [simp del]

text \<open>\<open>make([]ChangeEvent, 0, n)\<close> panics on a negative capacity and on one that no address space
  holds.\<close>

definition bad_capacity :: "int \<Rightarrow> bool" where
  "bad_capacity n \<longleftrightarrow> n < 0 \<or> n \<ge> 2 ^ 47"

definition Query :: "ChangeIndex \<Rightarrow> change_filter \<Rightarrow> int \<Rightarrow> int \<Rightarrow> (ChangeEvent list \<times> nat) result" where
  "Query ci f limit offset =
     (let matched = filter (event_matches f) (xi_events ci);
          total = int (length matched)
      in if offset \<ge> total then Ok ([], length matched)
         else
           (let end1 = go_add offset limit;
                end2 = (if end1 > total then total else end1)
            in if bad_capacity (go_sub end2 offset) then Panic ''makeslice: cap out of range''
               else map_result (\<lambda>page. (page, length matched))
                      (page_loop matched (go_sub (total - 1) offset) (go_sub total end2))))"

definition ChangeLen :: "ChangeIndex \<Rightarrow> nat" where
  "ChangeLen ci = length (xi_events ci)"

subsection \<open>Volatility\<close>

type_synonym vkey = "string \<times> string \<times> string \<times> string \<times> string"

definition event_key :: "ChangeEvent \<Rightarrow> vkey" where
  "event_key e = (ev_Cluster e, ev_Group e, ev_Kind e, ev_Namespace e, ev_Name e)"

text \<open>\<open>counts[k][sha] = struct{}{}\<close> on a map from keys to sets.\<close>

fun add_sha :: "vkey \<Rightarrow> string \<Rightarrow> (vkey \<times> string list) list \<Rightarrow> (vkey \<times> string list) list" where
  "add_sha k sha [] = [(k, [sha])]"
| "add_sha k sha ((k', shas) # m) =
     (if k = k' then (k, List.insert sha shas) # m else (k', shas) # add_sha k sha m)"

fun volatility_loop ::
  "(ChangeEvent \<Rightarrow> bool) \<Rightarrow> int \<Rightarrow> ChangeEvent list \<Rightarrow> string list \<Rightarrow> (vkey \<times> string list) list \<Rightarrow>
   string list \<times> (vkey \<times> string list) list" where
  "volatility_loop matches maxCommits [] commitSeen counts = (commitSeen, counts)"
| "volatility_loop matches maxCommits (e # es) commitSeen counts =
     (if \<not> matches e then volatility_loop matches maxCommits es commitSeen counts
      else
        (let seen = (if maxCommits > 0 then List.insert (ev_SHA e) commitSeen else commitSeen)
         in if maxCommits > 0 \<and> int (length seen) > maxCommits then (seen, counts)
            else volatility_loop matches maxCommits es seen (add_sha (event_key e) (ev_SHA e) counts)))"

text \<open>\<open>range_order\<close> is the order in which Go iterates over the map.\<close>

definition Volatility ::
  "((vkey \<times> string list) list \<Rightarrow> (vkey \<times> string list) list) \<Rightarrow> ChangeIndex \<Rightarrow>
   string \<Rightarrow> string \<Rightarrow> string \<Rightarrow> string \<Rightarrow> string \<Rightarrow> int \<Rightarrow> VolatilityEntry list" where
  "Volatility range_order ci cluster grp kind namespace name maxCommits =
     (case volatility_loop (about_resource cluster grp kind namespace name) maxCommits
             (rev (xi_events ci)) [] [] of
        (commitSeen, counts) \<Rightarrow>
          map (\<lambda>((c, g, k, ns, n), shas). \<lparr>ve_Cluster = c, ve_Group = g, ve_Kind = k, ve_Namespace = ns,
                 ve_Name = n, ve_Count = length shas, ve_Total = length commitSeen\<rparr>)
            (range_order counts))"

end
