(* ===== verification/ChangeFacts.thy ===== *)
theory ChangeFacts
  imports ChangeIndex
begin

text \<open>
  The change index against a history: the log parser and the framing of the
  \<open>cat-file --batch\<close> stream are inverse to what git prints, so that the index holds exactly
  the changes of the backed-up objects; then the queries on it.
\<close>

subsection \<open>What git prints\<close>

abbreviation TAB :: char where "TAB \<equiv> CHR 0x09"

record log_commit =
  lc_SHA :: string
  lc_Time :: int
  lc_changes :: "(char \<times> resource_id) list"

definition change_path :: "string \<Rightarrow> resource_id \<Rightarrow> string" where
  "change_path pfx r = pfx @ resource_path r"

definition commit_lines :: "(int \<Rightarrow> string) \<Rightarrow> string \<Rightarrow> log_commit \<Rightarrow> string list" where
  "commit_lines show_time pfx c =
     (''COMMIT '' @ lc_SHA c @ CHR '' '' # show_time (lc_Time c)) #
     map (\<lambda>(s, r). s # TAB # change_path pfx r) (lc_changes c) @ [[]]"

definition show_history :: "(int \<Rightarrow> string) \<Rightarrow> string \<Rightarrow> log_commit list \<Rightarrow> string" where
  "show_history show_time pfx cs = Join (concat (map (commit_lines show_time pfx) cs)) [NL]"

text \<open>A history that the log prints line by line: hashes and times are words, the statuses are
  those of the filter \<open>ADM\<close>, and no path has white space.\<close>

definition commit_ok :: "(int \<Rightarrow> string) \<Rightarrow> (string \<Rightarrow> error + int) \<Rightarrow> string \<Rightarrow> log_commit \<Rightarrow> bool" where
  "commit_ok show_time ParseTime pfx c \<longleftrightarrow>
     word_ok (lc_SHA c) \<and> word_ok (show_time (lc_Time c)) \<and>
     ParseTime (show_time (lc_Time c)) = Inr (lc_Time c) \<and>
     list_all (\<lambda>(s, r). s \<in> set ''ADM'' \<and> rid_ok r \<and> word_ok (change_path pfx r)) (lc_changes c)"

text \<open>What the index should hold: an event with the object name of its file, if it has one.\<close>

definition change_entry ::
  "string \<Rightarrow> string \<Rightarrow> log_commit \<Rightarrow> char \<times> resource_id \<Rightarrow> ChangeEvent \<times> string option" where
  "change_entry clusterName pfx c sr =
     (case sr of (s, r) \<Rightarrow>
       (\<lparr>ev_Timestamp = lc_Time c, ev_SHA = lc_SHA c, ev_Cluster = clusterName, ev_Group = ri_group r,
         ev_Kind = [], ev_Namespace = ri_namespace r, ev_Name = ri_name r,
         ev_ChangeType = change_type_of s\<rparr>,
        if s = CHR ''D'' then None else Some (lc_SHA c @ '':'' @ change_path pfx r)))"

definition change_entries ::
  "string \<Rightarrow> string \<Rightarrow> log_commit list \<Rightarrow> (ChangeEvent \<times> string option) list" where
  "change_entries clusterName pfx cs =
     concat (map (\<lambda>c. map (change_entry clusterName pfx c) (lc_changes c)) cs)"

text \<open>The references that the scan queues for a list of entries.\<close>

fun entry_refs :: "nat \<Rightarrow> (ChangeEvent \<times> string option) list \<Rightarrow> kindRef list" where
  "entry_refs i [] = []"
| "entry_refs i ((e, n) # es) =
     (case n of Some nm \<Rightarrow> [\<lparr>kr_objectName = nm, kr_eventIdx = i\<rparr>] | None \<Rightarrow> []) @ entry_refs (Suc i) es"

lemma entry_refs_append:
  "entry_refs i (xs @ ys) = entry_refs i xs @ entry_refs (i + length xs) ys"
  by (induction i xs rule: entry_refs.induct) auto

subsection \<open>The log parser\<close>

lemma resource_path_yaml: "\<exists>u. resource_path r = u @ ''.yaml''"
proof -
  let ?es = "resource_elems (ri_namespace r \<noteq> []) r"
  have "resource_path r = Join (butlast ?es @ [ri_name r]) ''/'' @ ''.yaml''"
    unfolding resource_path_def by (rule Join_butlast_last) (auto simp: resource_elems_def)
  then show ?thesis by blast
qed

lemma HasSuffix_change_path: "HasSuffix (change_path pfx r) ''.yaml''"
  using resource_path_yaml [of r] by (auto simp: change_path_def HasSuffix_iff)

lemma TrimRightBy_CR_yaml: "TrimRightBy (\<lambda>c. c = CR) (u @ change_path pfx r) = u @ change_path pfx r"
  using resource_path_yaml [of r] by (intro TrimRightBy_id) (auto simp: change_path_def)

definition entry_scan :: "(ChangeEvent \<times> string option) list \<Rightarrow> string \<Rightarrow> int \<Rightarrow> log_scan" where
  "entry_scan es sha t = \<lparr>ls_events = map fst es, ls_refs = entry_refs 0 es, ls_sha = sha, ls_time = t\<rparr>"

lemma scan_change:
  assumes "s \<in> set ''ADM''" "rid_ok r" "word_ok (lc_SHA c)"
  shows "scan_line ParseTime clusterName pfx (entry_scan es (lc_SHA c) (lc_Time c)) (s # TAB # change_path pfx r) =
    entry_scan (es @ [change_entry clusterName pfx c (s, r)]) (lc_SHA c) (lc_Time c)"
proof -
  have t: "TrimRightBy (\<lambda>c. c = CR) (s # TAB # change_path pfx r) = s # TAB # change_path pfx r"
    using TrimRightBy_CR_yaml [of "[s, TAB]" pfx r] by simp
  have p: "HasPrefix (change_path pfx r) pfx" "TrimPrefix (change_path pfx r) pfx = resource_path r"
    by (simp_all add: change_path_def)
  have n: "\<not> HasPrefix (s # TAB # x) ''COMMIT ''" for x
    by (simp add: HasPrefix_def)
  have sha: "lc_SHA c \<noteq> []" using assms(3) by (simp add: word_ok_def)
  have len: "\<not> length (s # TAB # change_path pfx r) < 2" "(s # TAB # change_path pfx r) ! 1 = TAB"
    "(s # TAB # change_path pfx r) ! 0 = s" "drop 2 (s # TAB # change_path pfx r) = change_path pfx r"
    by simp_all
  have st: "\<not> (s \<noteq> CHR ''A'' \<and> s \<noteq> CHR ''M'' \<and> s \<noteq> CHR ''D'')" using assms(1) by auto
  have ct: "change_type_of s \<noteq> Deleted \<longleftrightarrow> s \<noteq> CHR ''D''"
    using assms(1) by (auto simp: change_type_of_def Deleted_def Added_def Modified_def)
  have ls: "ls_sha (entry_scan es (lc_SHA c) (lc_Time c)) = lc_SHA c" by (simp add: entry_scan_def)
  show ?thesis
    unfolding scan_line_def Let_def t n len ls HasSuffix_change_path p resource_paths.decode_encode [OF assms(2)] ct
    using st sha by (simp add: entry_scan_def change_entry_def entry_refs_append n p HasSuffix_change_path)
qed

lemma scan_header:
  assumes "word_ok (lc_SHA c)" "word_ok (show_time (lc_Time c))"
    and "ParseTime (show_time (lc_Time c)) = Inr (lc_Time c)"
  shows "scan_line ParseTime clusterName pfx (entry_scan es sha t)
      (''COMMIT '' @ lc_SHA c @ CHR '' '' # show_time (lc_Time c)) = entry_scan es (lc_SHA c) (lc_Time c)"
proof -
  let ?t = "show_time (lc_Time c)" and ?line = "''COMMIT '' @ lc_SHA c @ CHR '' '' # show_time (lc_Time c)"
  have ne: "?t \<noteq> []" using assms(2) by (simp add: word_ok_def)
  then have "last ?t \<noteq> CR"
    using word_ok_not_in [OF assms(2), of CR] last_in_set [OF ne] is_space_chars by metis
  then have tr: "TrimRightBy (\<lambda>c. c = CR) ?line = ?line"
    using ne by (intro TrimRightBy_id) simp
  have h: "HasPrefix ?line ''COMMIT ''" by (rule HasPrefix_append)
  have w: "lc_SHA c \<noteq> []" "\<forall>x \<in> set (lc_SHA c). \<not> is_space x" "\<forall>x \<in> set ?t. \<not> is_space x"
    using assms by (auto simp: word_ok_def list_all_iff)
  have "Fields ?line = [''COMMIT'', lc_SHA c, ?t]"
    using Fields_sep [of "''COMMIT''" "CHR '' ''" "lc_SHA c @ CHR '' '' # ?t"]
      Fields_sep [OF w(1,2), of "CHR '' ''" ?t] Fields_word [OF ne w(3)]
    by (simp add: is_space_def)
  then show ?thesis
    using tr h assms(3) by (simp add: scan_line_def Let_def entry_scan_def del: append_Cons append.simps)
qed

lemma scan_empty: "scan_line ParseTime clusterName pfx st [] = st"
  by (simp add: scan_line_def TrimRightBy_def)

lemma scan_commit:
  assumes "commit_ok show_time ParseTime pfx c"
  shows "foldl (scan_line ParseTime clusterName pfx) (entry_scan es sha t) (commit_lines show_time pfx c) =
    entry_scan (es @ map (change_entry clusterName pfx c) (lc_changes c)) (lc_SHA c) (lc_Time c)"
proof -
  have ok: "word_ok (lc_SHA c)" using assms by (simp add: commit_ok_def)
  have "list_all (\<lambda>(s, r). s \<in> set ''ADM'' \<and> rid_ok r) xs \<Longrightarrow>
      foldl (scan_line ParseTime clusterName pfx) (entry_scan es (lc_SHA c) (lc_Time c))
        (map (\<lambda>(s, r). s # TAB # change_path pfx r) xs) =
      entry_scan (es @ map (change_entry clusterName pfx c) xs) (lc_SHA c) (lc_Time c)" for xs es
  proof (induction xs arbitrary: es)
    case (Cons x xs)
    obtain s r where x: "x = (s, r)" by (cases x)
    have "s \<in> set ''ADM''" "rid_ok r" "list_all (\<lambda>(s, r). s \<in> set ''ADM'' \<and> rid_ok r) xs"
      using Cons.prems unfolding x by simp_all
    note sc = scan_change [OF this(1,2) ok] and IH = Cons.IH [OF this(3)]
    show ?case
      unfolding x list.map prod.case foldl_Cons sc IH by simp
  qed simp
  moreover have "list_all (\<lambda>(s, r). s \<in> set ''ADM'' \<and> rid_ok r) (lc_changes c)"
    using assms by (auto simp: commit_ok_def list_all_iff)
  moreover have "scan_line ParseTime clusterName pfx (entry_scan es sha t)
      (''COMMIT '' @ lc_SHA c @ CHR '' '' # show_time (lc_Time c)) = entry_scan es (lc_SHA c) (lc_Time c)"
    using assms by (intro scan_header) (simp_all add: commit_ok_def)
  ultimately show ?thesis
    unfolding commit_lines_def foldl_Cons foldl_append foldl_Nil scan_empty by (simp only:)
qed

lemma scan_commits:
  assumes "list_all (commit_ok show_time ParseTime pfx) cs"
  shows "\<exists>sha' t'. foldl (scan_line ParseTime clusterName pfx) (entry_scan es sha t)
      (concat (map (commit_lines show_time pfx) cs)) =
    entry_scan (es @ change_entries clusterName pfx cs) sha' t'"
  using assms
proof (induction cs arbitrary: es sha t)
  case (Cons c cs)
  have c: "commit_ok show_time ParseTime pfx c" and cs: "list_all (commit_ok show_time ParseTime pfx) cs"
    using Cons.prems by simp_all
  show ?case
    using Cons.IH [OF cs, of "es @ map (change_entry clusterName pfx c) (lc_changes c)" "lc_SHA c" "lc_Time c"]
    by (simp add: scan_commit [OF c] change_entries_def)
qed (auto simp: change_entries_def)

lemma commit_lines_no_NL:
  assumes "commit_ok show_time ParseTime pfx c" "l \<in> set (commit_lines show_time pfx c)"
  shows "NL \<notin> set l"
proof -
  have w: "NL \<notin> set (lc_SHA c)" "NL \<notin> set (show_time (lc_Time c))"
    using assms(1) word_ok_not_in [where c = NL] by (auto simp: commit_ok_def)
  consider "l = ''COMMIT '' @ lc_SHA c @ CHR '' '' # show_time (lc_Time c)" | "l = []"
    | s r where "(s, r) \<in> set (lc_changes c)" "l = s # TAB # change_path pfx r"
    using assms(2) by (auto simp: commit_lines_def)
  then show ?thesis
  proof cases
    case 3
    then have "s \<in> set ''ADM''" "NL \<notin> set (change_path pfx r)"
      using assms(1) word_ok_not_in [where c = NL] by (auto simp: commit_ok_def list_all_iff)
    then show ?thesis using 3 by auto
  qed (use w in simp_all)
qed

lemma scan_history:
  assumes "list_all (commit_ok show_time ParseTime pfx) cs"
  shows "ls_events (scan_log ParseTime clusterName pfx (show_history show_time pfx cs)) =
      map fst (change_entries clusterName pfx cs)"
    and "ls_refs (scan_log ParseTime clusterName pfx (show_history show_time pfx cs)) =
      entry_refs 0 (change_entries clusterName pfx cs)"
proof -
  have start: "scan_start = entry_scan [] [] zero_time"
    by (simp add: scan_start_def entry_scan_def)
  have "\<exists>sha t. scan_log ParseTime clusterName pfx (show_history show_time pfx cs) =
      entry_scan (change_entries clusterName pfx cs) sha t"
  proof (cases "cs = []")
    case True
    then show ?thesis
      by (auto simp: show_history_def scan_log_def scan_empty start change_entries_def)
  next
    case False
    then have "concat (map (commit_lines show_time pfx) cs) \<noteq> []"
      by (cases cs) (auto simp: commit_lines_def)
    then have "Split (show_history show_time pfx cs) NL = concat (map (commit_lines show_time pfx) cs)"
      unfolding show_history_def
      by (rule Split_Join) (use assms commit_lines_no_NL in \<open>fastforce simp: list_all_iff\<close>)
    then show ?thesis
      using scan_commits [OF assms, of clusterName "[]" "[]" zero_time] by (simp add: scan_log_def start)
  qed
  then show "ls_events (scan_log ParseTime clusterName pfx (show_history show_time pfx cs)) =
      map fst (change_entries clusterName pfx cs)"
    and "ls_refs (scan_log ParseTime clusterName pfx (show_history show_time pfx cs)) =
      entry_refs 0 (change_entries clusterName pfx cs)"
    by (auto simp: entry_scan_def)
qed

subsection \<open>The kinds\<close>

definition with_kind :: "string gmap \<Rightarrow> ChangeEvent \<times> string option \<Rightarrow> ChangeEvent" where
  "with_kind kindMap en =
     (case en of
        (e, Some n) \<Rightarrow> e\<lparr>ev_Kind := (case gm_get kindMap n of Some k \<Rightarrow> k | None \<Rightarrow> [])\<rparr>
      | (e, None) \<Rightarrow> e)"

lemma set_kinds_snoc_event:
  assumes "\<forall>kr \<in> set refs. kr_eventIdx kr < length es"
  shows "set_kinds m refs (es @ [e]) = set_kinds m refs es @ [e] \<and> length (set_kinds m refs es) = length es"
  using assms
proof (induction refs rule: rev_induct)
  case (snoc kr refs)
  then show ?case by (simp add: set_kinds_def list_update_append nth_append)
qed (simp add: set_kinds_def)

lemma entry_refs_bound: "kr \<in> set (entry_refs i es) \<Longrightarrow> kr_eventIdx kr < i + length es"
  by (induction i es rule: entry_refs.induct) (auto split: option.splits)

lemma set_kinds_entries:
  "set_kinds m (entry_refs 0 es) (map fst es) = map (with_kind m) es"
proof (induction es rule: rev_induct)
  case (snoc en es)
  obtain e n where en: "en = (e, n)" by (cases en)
  have b: "\<forall>kr \<in> set (entry_refs 0 es). kr_eventIdx kr < length (map fst es)"
    using entry_refs_bound by fastforce
  note step = set_kinds_snoc_event [OF b, of m e]
  have l: "length (map (with_kind m) es) = length es" by simp
  show ?case
  proof (cases n)
    case None
    then show ?thesis using step snoc by (simp add: en entry_refs_append with_kind_def)
  next
    case (Some nm)
    have "set_kinds m (entry_refs 0 (es @ [en])) (map fst (es @ [en])) =
        (let r = set_kinds m (entry_refs 0 es) (map fst es @ [e])
         in r[length es := (r ! length es)\<lparr>ev_Kind := (case gm_get m nm of Some k \<Rightarrow> k | None \<Rightarrow> [])\<rparr>])"
      by (simp add: set_kinds_def en Some entry_refs_append Let_def)
    then show ?thesis
      using step snoc l by (simp add: en Some with_kind_def Let_def nth_append list_update_append)
  qed
qed (simp add: set_kinds_def)

text \<open>How \<open>git cat-file --batch\<close> answers: an object with its content, or a line that says it is
  missing. \<open>blobs\<close> gives the identifier and the content of a blob by its name.\<close>

definition show_object :: "(string \<Rightarrow> (string \<times> string) option) \<Rightarrow> string \<Rightarrow> string" where
  "show_object blobs n =
     (case blobs n of
        Some (oid, text) \<Rightarrow> oid @ '' blob '' @ show_nat (length text) @ [NL] @ text @ [NL]
      | None \<Rightarrow> n @ '' missing'' @ [NL])"

definition blobs_ok :: "(string \<Rightarrow> (string \<times> string) option) \<Rightarrow> string list \<Rightarrow> bool" where
  "blobs_ok blobs ns \<longleftrightarrow>
     list_all (\<lambda>n. word_ok n \<and>
       (case blobs n of Some (oid, text) \<Rightarrow> word_ok oid \<and> int (length text) \<le> goint_max | None \<Rightarrow> True)) ns"

lemma word_ok_spaces: "word_ok w \<Longrightarrow> \<forall>c \<in> set w. \<not> is_space c"
  by (simp add: word_ok_def list_all_iff)

lemma TrimRight_word:
  "word_ok w \<Longrightarrow> TrimRightBy (\<lambda>c. c = CR \<or> c = NL) (u @ w) = u @ w"
proof (rule TrimRightBy_id)
  assume w: "word_ok w"
  then have "last w \<in> set w" "w \<noteq> []" by (simp_all add: word_ok_def)
  moreover from this have "last w \<noteq> CR" "last w \<noteq> NL"
    using word_ok_not_in [OF w is_space_chars(1)] word_ok_not_in [OF w is_space_chars(2)] by metis+
  ultimately show "u @ w = [] \<or> \<not> (last (u @ w) = CR \<or> last (u @ w) = NL)"
    by simp
qed

lemma Fields_words3:
  "word_ok a \<Longrightarrow> word_ok b \<Longrightarrow> word_ok c \<Longrightarrow> Fields (a @ CHR '' '' # b @ CHR '' '' # c) = [a, b, c]"
  using Fields_sep [of a "CHR '' ''"] Fields_sep [of b "CHR '' ''"] Fields_word [of c]
  by (simp add: word_ok_spaces) (simp add: word_ok_def)

lemma read_blob:
  assumes "word_ok oid" "int (length text) \<le> goint_max"
  shows "read_kinds (n # ns) (oid @ '' blob '' @ show_nat (length text) @ [NL] @ text @ [NL] @ rest) m =
    read_kinds ns rest (gm_put n (kindFromYAML (take 512 text)) m)"
proof -
  let ?header = "oid @ CHR '' '' # ''blob'' @ CHR '' '' # show_nat (length text)"
  have "NL \<notin> set ?header"
    using word_ok_not_in [OF assms(1) is_space_chars(1)]
      word_ok_not_in [OF show_nat_word [of "length text"] is_space_chars(1)] by simp
  then have cut: "Cut (oid @ '' blob '' @ show_nat (length text) @ [NL] @ text @ [NL] @ rest) NL =
      (?header, text @ [NL] @ rest, True)"
    using Cut_found [of NL ?header "text @ [NL] @ rest"] by simp
  have trim: "TrimRightBy (\<lambda>c. c = CR \<or> c = NL) ?header = ?header"
    using TrimRight_word [OF show_nat_word, of "oid @ CHR '' '' # ''blob'' @ CHR '' '' # []"] by simp
  have "word_ok ''blob''" by (simp add: word_ok_def is_space_def)
  then have fields: "Fields ?header = [oid, ''blob'', show_nat (length text)]"
    using assms(1) show_nat_word by (intro Fields_words3)
  have size: "atoi_or_zero (show_nat (length text)) = int (length text)"
    by (rule atoi_show_nat [OF assms(2)])
  have nth3: "[x, y, z] ! 1 = y" "[x, y, z] ! 2 = z" for x y z :: string by simp_all
  show ?thesis
  proof (cases "length text < 512")
    case True
    then show ?thesis
      by (simp only: read_kinds.simps cut prod.case trim fields Let_def nth3 size) simp
  next
    case False
    have "nat (int (length text) - 512) = length text - 512" by simp
    moreover have "drop 512 text @ NL # rest = drop 512 (text @ NL # rest)" using False by simp
    ultimately show ?thesis using False
      by (simp only: read_kinds.simps cut prod.case trim fields Let_def nth3 size) simp
  qed
qed

lemma read_missing:
  assumes "word_ok n"
  shows "read_kinds (n # ns) (n @ '' missing'' @ [NL] @ rest) m = read_kinds ns rest m"
proof -
  let ?header = "n @ CHR '' '' # ''missing''"
  have w: "word_ok ''missing''" by (simp add: word_ok_def is_space_def)
  have "NL \<notin> set ?header" using word_ok_not_in [OF assms is_space_chars(1)] by simp
  then have cut: "Cut (n @ '' missing'' @ [NL] @ rest) NL = (?header, rest, True)"
    using Cut_found [of NL ?header rest] by simp
  have trim: "TrimRightBy (\<lambda>c. c = CR \<or> c = NL) ?header = ?header"
    using TrimRight_word [OF w, of "n @ CHR '' '' # []"] by simp
  have "Fields ?header = [n, ''missing'']"
    using Fields_sep [of n "CHR '' ''" "''missing''"] Fields_word [of "''missing''"] assms w
    by (simp add: word_ok_spaces) (simp add: word_ok_def)
  then show ?thesis by (simp only: read_kinds.simps cut prod.case trim Let_def) simp
qed

definition kind_of_blob :: "(string \<Rightarrow> (string \<times> string) option) \<Rightarrow> string \<Rightarrow> string option" where
  "kind_of_blob blobs n = map_option (\<lambda>(oid, text). kindFromYAML (take 512 text)) (blobs n)"

lemma read_kinds_stream:
  assumes "blobs_ok blobs ns"
  shows "\<exists>m'. read_kinds ns (concat (map (show_object blobs) ns)) m = Ok m' \<and>
    (\<forall>k. gm_get m' k = (if k \<in> set ns \<and> blobs k \<noteq> None then kind_of_blob blobs k else gm_get m k))"
  using assms
proof (induction ns arbitrary: m)
  case (Cons n ns)
  have n: "word_ok n" and ns: "blobs_ok blobs ns" using Cons.prems by (simp_all add: blobs_ok_def)
  show ?case
  proof (cases "blobs n")
    case None
    have "concat (map (show_object blobs) (n # ns)) = n @ '' missing'' @ [NL] @ concat (map (show_object blobs) ns)"
      by (simp add: show_object_def None)
    then show ?thesis
      using Cons.IH [OF ns, of m] read_missing [OF n] None by auto
  next
    case (Some b)
    obtain oid body where b: "b = (oid, body)" by (cases b)
    have ok: "word_ok oid" "int (length body) \<le> goint_max"
      using Cons.prems by (simp_all add: blobs_ok_def Some b)
    have "concat (map (show_object blobs) (n # ns)) =
        oid @ '' blob '' @ show_nat (length body) @ [NL] @ body @ [NL] @ concat (map (show_object blobs) ns)"
      by (simp add: show_object_def Some b)
    then show ?thesis
      using Cons.IH [OF ns, of "gm_put n (kindFromYAML (take 512 body)) m"] read_blob [OF ok] Some b
      by (auto simp: kind_of_blob_def gm.get_put)
  qed
qed simp

subsection \<open>The whole index\<close>

definition event_kind :: "(string \<Rightarrow> (string \<times> string) option) \<Rightarrow> string option \<Rightarrow> string" where
  "event_kind blobs n =
     (case Option.bind n blobs of Some (oid, body) \<Rightarrow> kindFromYAML body | None \<Rightarrow> [])"

definition expected_events ::
  "string \<Rightarrow> string \<Rightarrow> (string \<Rightarrow> (string \<times> string) option) \<Rightarrow> log_commit list \<Rightarrow> ChangeEvent list" where
  "expected_events clusterName pfx blobs cs =
     map (\<lambda>(e, n). e\<lparr>ev_Kind := event_kind blobs n\<rparr>) (change_entries clusterName pfx cs)"

lemma kindFromYAML_take: "kindFromYAML (take 512 body) = kindFromYAML body"
  by (simp add: kindFromYAML_def Let_def min_def)

lemma change_entries_kind: "(e, n) \<in> set (change_entries clusterName pfx cs) \<Longrightarrow> ev_Kind e = []"
  by (auto simp: change_entries_def change_entry_def)

lemma entry_refs_names:
  "map kr_objectName (entry_refs i es) = concat (map (\<lambda>(e, n). case n of Some x \<Rightarrow> [x] | None \<Rightarrow> []) es)"
  by (induction i es rule: entry_refs.induct) (auto split: option.splits)

definition object_names :: "string \<Rightarrow> log_commit list \<Rightarrow> string list" where
  "object_names pfx cs =
     concat (map (\<lambda>c. concat (map (\<lambda>(s, r). if s = CHR ''D'' then [] else [lc_SHA c @ '':'' @ change_path pfx r])
                                (lc_changes c))) cs)"

lemma entry_names: "map kr_objectName (entry_refs i (change_entries clusterName pfx cs)) = object_names pfx cs"
proof -
  have one: "concat (map (\<lambda>(e, n). case n of Some x \<Rightarrow> [x] | None \<Rightarrow> []) (map (change_entry clusterName pfx c) xs)) =
      concat (map (\<lambda>(s, r). if s = CHR ''D'' then [] else [lc_SHA c @ '':'' @ change_path pfx r]) xs)" for c xs
    by (induction xs) (auto simp: change_entry_def)
  show ?thesis
    unfolding entry_refs_names change_entries_def object_names_def
    by (induction cs) (simp_all add: one del: map_map)
qed

definition cat_file_answers ::
  "git_process \<Rightarrow> string \<Rightarrow> (string \<Rightarrow> (string \<times> string) option) \<Rightarrow> bool" where
  "cat_file_answers git workDir blobs \<longleftrightarrow>
     (\<forall>ns. list_all word_ok ns \<longrightarrow>
        git [''cat-file'', ''--batch''] workDir (concat (map (\<lambda>n. n @ [NL]) ns)) =
          Inr (concat (map (show_object blobs) ns)))"

lemma batchReadKinds_stream:
  assumes "blobs_ok blobs (map kr_objectName refs)"
    and "cat_file_answers git workDir blobs"
  shows "\<exists>m. batchReadKinds git workDir refs = Ok m \<and>
    (\<forall>k. gm_get m k = (if k \<in> kr_objectName ` set refs then kind_of_blob blobs k else None))"
proof (cases "refs = []")
  case True
  then show ?thesis by (simp add: batchReadKinds_def gm_get_def)
next
  case False
  define ns where "ns = dedup_seen [] (map kr_objectName refs)"
  have set: "set ns = kr_objectName ` set refs" by (simp add: ns_def set_dedup_seen)
  have ok: "blobs_ok blobs ns"
    using assms(1) by (auto simp: blobs_ok_def list_all_iff set)
  then have "list_all word_ok ns" by (auto simp: blobs_ok_def list_all_iff)
  then have "git [''cat-file'', ''--batch''] workDir (concat (map (\<lambda>n. n @ [NL]) ns)) =
      Inr (concat (map (show_object blobs) ns))"
    using assms(2) by (simp add: cat_file_answers_def)
  then have "batchReadKinds git workDir refs =
      read_kinds ns (concat (map (show_object blobs) ns)) []"
    using False by (simp add: batchReadKinds_def Let_def ns_def)
  moreover obtain m where m: "read_kinds ns (concat (map (show_object blobs) ns)) [] = Ok m"
    "\<And>k. gm_get m k = (if k \<in> set ns \<and> blobs k \<noteq> None then kind_of_blob blobs k else gm_get [] k)"
    using read_kinds_stream [OF ok, of "[]"] by blast
  moreover have "gm_get m k = (if k \<in> kr_objectName ` set refs then kind_of_blob blobs k else None)" for k
    using m(2) [of k] unfolding set by (cases "blobs k") (simp_all add: kind_of_blob_def gm_get_def)
  ultimately show ?thesis by auto
qed

text \<open>C9: on a history printed by git, the change index holds exactly one event for every added,
  modified or deleted object file, with the identity that the path encodes, the commit and
  its time, in ascending order of time; the kind is read from the first 512 bytes of the
  committed file through the \<open>cat-file\<close> stream (deletions and missing objects have none).\<close>

theorem BuildChangeIndex_history:
  assumes srt: "slice_sort sort_Slice"
    and cs: "list_all (commit_ok show_time ParseTime (subDir @ ''/'')) cs"
    and sub: "subDir \<noteq> []" "\<not> HasSuffix subDir ''/''"
    and names: "blobs_ok blobs (object_names (subDir @ ''/'') cs)"
    and log: "git [''log'', ''--name-status'', ''--pretty=format:COMMIT %H %aI'', ''--diff-filter=ADM'',
                ''--no-renames'', ''--since='' @ cutoff (- days), ''--'', subDir] workDir [] =
              Inr (show_history show_time (subDir @ ''/'') cs)"
    and cat: "cat_file_answers git workDir blobs"
  shows "\<exists>ci. BuildChangeIndex sort_Slice ParseTime git cutoff workDir clusterName subDir days = Ok ci \<and>
    mset (xi_events ci) = mset (expected_events clusterName (subDir @ ''/'') blobs cs) \<and>
    sorted (map ev_Timestamp (xi_events ci))"
proof -
  let ?pfx = "subDir @ ''/''" and ?es = "change_entries clusterName (subDir @ ''/'') cs"
  have "blobs_ok blobs (map kr_objectName (entry_refs 0 ?es))"
    using names by (simp add: entry_names)
  then obtain m where m: "batchReadKinds git workDir (entry_refs 0 ?es) = Ok m"
    "\<And>k. gm_get m k = (if k \<in> kr_objectName ` set (entry_refs 0 ?es) then kind_of_blob blobs k else None)"
    using batchReadKinds_stream [OF _ cat, of "entry_refs 0 ?es"] by blast
  have kinds: "map (with_kind m) ?es = expected_events clusterName ?pfx blobs cs"
    unfolding expected_events_def
  proof (rule map_cong [OF refl])
    fix en
    assume en: "en \<in> set ?es"
    obtain e n where e: "en = (e, n)" by (cases en)
    show "with_kind m en = (case en of (e, n) \<Rightarrow> e\<lparr>ev_Kind := event_kind blobs n\<rparr>)"
    proof (cases n)
      case None
      then show ?thesis
        using change_entries_kind [of e n clusterName ?pfx cs] en by (simp add: e with_kind_def event_kind_def)
    next
      case (Some x)
      then have "x \<in> set (map kr_objectName (entry_refs 0 ?es))"
        using en by (force simp: entry_refs_names e)
      then show ?thesis
        using Some by (auto simp: e with_kind_def event_kind_def m(2) kind_of_blob_def kindFromYAML_take
            split: option.splits)
    qed
  qed
  have "BuildChangeIndex sort_Slice ParseTime git cutoff workDir clusterName subDir days =
      Ok \<lparr>xi_events = sort_Slice (\<lambda>a b. ev_Timestamp a < ev_Timestamp b)
            (expected_events clusterName ?pfx blobs cs)\<rparr>"
    using log m(1) sub
    by (simp add: BuildChangeIndex_def Let_def scan_history [OF cs] set_kinds_entries kinds)
  then show ?thesis
    using slice_sort.srt_mset [OF srt] slice_sort.srt_order [OF srt strict_weak_key]
    by (simp add: in_order_key)
qed

definition example_blobs :: "string \<Rightarrow> (string \<times> string) option" where
  "example_blobs n = (if n = ''aa:c/core/v1/nodes/n1.yaml'' then Some (''o1'', ''kind: Node'') else None)"

definition example_rid :: resource_id where
  "example_rid = \<lparr>ri_group = ''core'', ri_version = ''v1'', ri_namespace = [], ri_resource = ''nodes'', ri_name = ''n1''\<rparr>"

definition example_history :: "log_commit list" where
  "example_history = [\<lparr>lc_SHA = ''bb'', lc_Time = 9, lc_changes = [(CHR ''D'', example_rid)]\<rparr>,
     \<lparr>lc_SHA = ''aa'', lc_Time = 5, lc_changes = [(CHR ''A'', example_rid)]\<rparr>]"

definition example_process :: git_process where
  "example_process args workDir stdin =
     (if args = [''cat-file'', ''--batch'']
      then Inr (concat (map (show_object example_blobs) (butlast (Split stdin NL))))
      else Inr (show_history example_show_time ''c/'' example_history))"

lemma Split_lines: "list_all word_ok ns \<Longrightarrow> Split (concat (map (\<lambda>n. n @ [NL]) ns)) NL = ns @ [[]]"
proof (induction ns)
  case (Cons n ns)
  then have "NL \<notin> set n" using word_ok_not_in [of n NL] by simp
  with Cons show ?case using Split_sep [of NL n] by simp
qed simp

theorem BuildChangeIndex_history_witness:
  "\<exists>ci. BuildChangeIndex go_sort example_ParseTime example_process (\<lambda>_. ''t'') ''/w'' ''prod'' ''c'' 30 = Ok ci \<and>
     sorted (map ev_Timestamp (xi_events ci)) \<and> size (mset (xi_events ci)) = 2 \<and>
     image_mset ev_Kind (mset (xi_events ci)) = {#''Node'', []#}"
proof -
  have "slice_sort go_sort" by (rule sorts.slice_sort_axioms)
  moreover have "list_all (commit_ok example_show_time example_ParseTime (''c'' @ ''/'')) example_history"
    by code_simp
  moreover have "blobs_ok example_blobs (object_names (''c'' @ ''/'') example_history)" by code_simp
  moreover have "cat_file_answers example_process ''/w'' example_blobs"
    by (simp add: cat_file_answers_def example_process_def Split_lines)
  ultimately obtain ci where ci:
    "BuildChangeIndex go_sort example_ParseTime example_process (\<lambda>_. ''t'') ''/w'' ''prod'' ''c'' 30 = Ok ci"
    "mset (xi_events ci) = mset (expected_events ''prod'' (''c'' @ ''/'') example_blobs example_history)"
    "sorted (map ev_Timestamp (xi_events ci))"
    using BuildChangeIndex_history [where sort_Slice = go_sort and git = example_process and subDir = "''c''"
        and workDir = "''/w''" and cutoff = "\<lambda>_. ''t''" and days = 30 and clusterName = "''prod''"
        and cs = example_history and blobs = example_blobs and show_time = example_show_time
        and ParseTime = example_ParseTime]
    by (auto simp: example_process_def HasSuffix_def)
  have "map ev_Kind (expected_events ''prod'' (''c'' @ ''/'') example_blobs example_history) = [[], ''Node'']"
    by code_simp
  then have kinds: "image_mset ev_Kind (mset (xi_events ci)) = {#''Node'', []#}"
    unfolding ci(2) mset_map [symmetric] by simp
  moreover have "size (mset (xi_events ci)) = 2"
    using arg_cong [OF kinds, of size] by simp
  ultimately show ?thesis using ci(1,3) by blast
qed

end
