(* ===== verification/ChangeQueries.thy ===== *)
theory ChangeQueries
  imports ChangeFacts
begin

text \<open>
  The queries on the change index: the pages of \<open>Query\<close> are slices of the filtered events,
  newest first, and what \<open>Volatility\<close> counts when it stops after \<open>maxCommits\<close> commits.
\<close>

subsection \<open>Pages\<close>

lemma page_loop_rev:
  assumes "0 \<le> stop" "stop \<le> i + 1" "i < int (length xs)"
  shows "page_loop xs i stop = Ok (rev (take (nat (i + 1 - stop)) (drop (nat stop) xs)))"
  using assms
proof (induction "nat (i + 1 - stop)" arbitrary: i)
  case 0
  then show ?case by (subst page_loop.simps) simp
next
  case (Suc n)
  then have le: "stop \<le> i" "0 \<le> i" by auto
  have IH: "page_loop xs (i - 1) stop = Ok (rev (take (nat (i - stop)) (drop (nat stop) xs)))"
    using Suc.hyps(1) [of "i - 1"] Suc.hyps(2) Suc.prems le by simp
  have idx: "go_index xs i = Ok (xs ! nat i)" using le Suc.prems by (simp add: go_index_def)
  have "nat (i + 1 - stop) = Suc (nat (i - stop))" using le by simp
  moreover have "nat (i - stop) < length (drop (nat stop) xs)" using Suc.prems le by simp
  moreover have "drop (nat stop) xs ! nat (i - stop) = xs ! nat i"
    using Suc.prems le by (simp add: nat_add_distrib [symmetric])
  ultimately have "take (nat (i + 1 - stop)) (drop (nat stop) xs) =
      take (nat (i - stop)) (drop (nat stop) xs) @ [xs ! nat i]"
    by (simp add: take_Suc_conv_app_nth)
  then show ?case
    using le IH idx by (subst page_loop.simps) simp
qed

lemma is_goint_small: "- (2 ^ 48) \<le> n \<Longrightarrow> n \<le> 2 ^ 48 \<Longrightarrow> is_goint n"
  by (simp add: is_goint_def goint_min_def goint_max_def)

lemma rev_page:
  assumes "a \<le> b" "b \<le> length xs"
  shows "rev (take (b - a) (drop (length xs - b) xs)) = take (b - a) (drop a (rev xs))"
proof -
  have "take (b - a) (drop a (rev xs)) =
      rev (drop (length xs - a - (b - a)) (take (length xs - a) xs))"
    by (simp add: drop_rev take_rev)
  also have "length xs - a - (b - a) = length xs - b" using assms by simp
  also have "drop (length xs - b) (take (length xs - a) xs) = take (b - a) (drop (length xs - b) xs)"
    using assms by (simp add: drop_take)
  finally show ?thesis by (rule sym)
qed

lemma Query_page:
  assumes "0 \<le> offset" "0 \<le> limit" "offset + limit \<le> goint_max" "length (xi_events ci) < 2 ^ 47"
  shows "Query ci f limit offset =
    Ok (take (nat limit) (drop (nat offset) (rev (filter (event_matches f) (xi_events ci)))),
        length (filter (event_matches f) (xi_events ci)))"
proof -
  define ms where "ms = filter (event_matches f) (xi_events ci)"
  define total where "total = int (length ms)"
  have total: "0 \<le> total" "total < 2 ^ 47"
    using le_less_trans [OF length_filter_le assms(4)] by (simp_all add: total_def ms_def)
  show ?thesis
  proof (cases "offset \<ge> total")
    case True
    then have "length ms \<le> nat offset" by (simp add: total_def)
    then show ?thesis
      using True by (simp add: Query_def Let_def ms_def [symmetric] total_def [symmetric])
  next
    case False
    have end1: "go_add offset limit = offset + limit"
      using assms by (intro go_add_nonneg_exact)
    define e where "e = (if offset + limit > total then total else offset + limit)"
    have e: "offset \<le> e" "e \<le> total" using assms False by (auto simp: e_def)
    have subs: "go_sub e offset = e - offset" "go_sub (total - 1) offset = total - 1 - offset"
      "go_sub total e = total - e"
      using e total assms(1) by (intro go_sub_exact is_goint_small; simp)+
    have cap: "\<not> bad_capacity (e - offset)" using e total assms(1) by (simp add: bad_capacity_def)
    have "page_loop ms (total - 1 - offset) (total - e) =
        Ok (rev (take (nat (total - 1 - offset + 1 - (total - e))) (drop (nat (total - e)) ms)))"
      using e assms(1) by (intro page_loop_rev) (auto simp: total_def)
    moreover have "nat (total - 1 - offset + 1 - (total - e)) = nat e - nat offset"
      "nat (total - e) = length ms - nat e"
      using e assms(1) by (auto simp: total_def nat_diff_distrib)
    moreover have "rev (take (nat e - nat offset) (drop (length ms - nat e) ms)) =
        take (nat e - nat offset) (drop (nat offset) (rev ms))"
      using e assms(1) by (intro rev_page) (auto simp: total_def)
    moreover have "take (nat e - nat offset) (drop (nat offset) (rev ms)) =
        take (nat limit) (drop (nat offset) (rev ms))"
      using assms e by (auto simp: e_def total_def nat_add_distrib intro!: nat_le_iff [THEN iffD2])
    ultimately have "page_loop ms (total - 1 - offset) (total - e) =
        Ok (take (nat limit) (drop (nat offset) (rev ms)))"
      by simp
    then show ?thesis
      unfolding Query_def Let_def ms_def [symmetric] total_def [symmetric] end1 e_def [symmetric]
      using False subs cap by simp
  qed
qed

text \<open>For a page request within bounds, \<open>Query\<close> returns the \<open>limit\<close> events after the first
  \<open>offset\<close>, counted from the newest, of those that match every filter, and the number of all
  matches; on an index in ascending order of time the page is newest first.\<close>

theorem Query_newest_first:
  assumes "0 \<le> offset" "0 \<le> limit" "offset + limit \<le> goint_max" "length (xi_events ci) < 2 ^ 47"
    and "sorted (map ev_Timestamp (xi_events ci))"
  shows "\<exists>page. Query ci f limit offset = Ok (page, length (filter (event_matches f) (xi_events ci))) \<and>
    page = take (nat limit) (drop (nat offset) (filter (event_matches f) (rev (xi_events ci)))) \<and>
    sorted_wrt (\<lambda>a b. ev_Timestamp b \<le> ev_Timestamp a) page"
proof -
  have "sorted_wrt (\<lambda>a b. ev_Timestamp b \<le> ev_Timestamp a) (rev (xi_events ci))"
    using assms(5) by (simp add: sorted_wrt_rev_flip sorted_map)
  then show ?thesis
    using Query_page [OF assms(1-4)]
    by (simp add: rev_filter sorted_wrt_take_drop sorted_wrt_filter)
qed

definition example_event :: "int \<Rightarrow> string \<Rightarrow> string \<Rightarrow> ChangeEvent" where
  "example_event t sha nm = \<lparr>ev_Timestamp = t, ev_SHA = sha, ev_Cluster = ''prod'', ev_Group = ''apps'',
     ev_Kind = ''Deployment'', ev_Namespace = ''ns'', ev_Name = nm, ev_ChangeType = Modified\<rparr>"

definition example_changes :: ChangeIndex where
  "example_changes = \<lparr>xi_events = [example_event 1 ''a'' ''x'', example_event 2 ''b'' ''y'', example_event 3 ''c'' ''x'']\<rparr>"

definition any_change :: change_filter where
  "any_change = \<lparr>cf_since = None, cf_until = None, cf_cluster = [], cf_group = ''APPS'', cf_kind = [],
     cf_namespace = [], cf_name = [], cf_ct = []\<rparr>"

theorem Query_newest_first_witness:
  "Query example_changes any_change 2 1 = Ok ([example_event 2 ''b'' ''y'', example_event 1 ''a'' ''x''], 3)"
proof -
  have "(0 :: int) \<le> 1" "(0 :: int) \<le> 2" "(1 :: int) + 2 \<le> goint_max"
    "length (xi_events example_changes) < 2 ^ 47" "sorted (map ev_Timestamp (xi_events example_changes))"
    by (simp_all add: goint_max_def example_changes_def example_event_def)
  moreover have "filter (event_matches any_change) (rev (xi_events example_changes)) =
      [example_event 3 ''c'' ''x'', example_event 2 ''b'' ''y'', example_event 1 ''a'' ''x'']"
    "length (filter (event_matches any_change) (xi_events example_changes)) = 3"
    by code_simp+
  ultimately show ?thesis using Query_newest_first [of 1 2 example_changes any_change] by simp
qed

subsection \<open>Volatility\<close>

definition shas_of :: "vkey \<Rightarrow> ChangeEvent list \<Rightarrow> string set" where
  "shas_of k es = ev_SHA ` {e \<in> set es. event_key e = k}"

definition tally_ok :: "(vkey \<times> string list) list \<Rightarrow> ChangeEvent list \<Rightarrow> bool" where
  "tally_ok m es \<longleftrightarrow>
     distinct (map fst m) \<and> fst ` set m = event_key ` set es \<and>
     (\<forall>(k, shas) \<in> set m. distinct shas \<and> set shas = shas_of k es)"

lemma add_sha_keys: "fst ` set (add_sha k sha m) = insert k (fst ` set m)"
  by (induction k sha m rule: add_sha.induct) auto

lemma add_sha_distinct: "distinct (map fst m) \<Longrightarrow> distinct (map fst (add_sha k sha m))"
  by (induction k sha m rule: add_sha.induct) (auto simp: add_sha_keys)

lemma add_sha_entry:
  "distinct (map fst m) \<Longrightarrow> (k', shas) \<in> set (add_sha k sha m) \<Longrightarrow>
     (k' \<noteq> k \<and> (k', shas) \<in> set m) \<or> (k' = k \<and> k \<notin> fst ` set m \<and> shas = [sha]) \<or>
     (k' = k \<and> (\<exists>old. (k, old) \<in> set m \<and> shas = List.insert sha old))"
  by (induction k sha m rule: add_sha.induct) (auto split: if_splits intro: rev_image_eqI)

lemma tally_add:
  assumes "tally_ok m es"
  shows "tally_ok (add_sha (event_key e) (ev_SHA e) m) (es @ [e])"
proof -
  let ?k = "event_key e"
  have d: "distinct (map fst m)" and keys: "fst ` set m = event_key ` set es"
    and ent: "\<And>k shas. (k, shas) \<in> set m \<Longrightarrow> distinct shas \<and> set shas = shas_of k es"
    using assms by (auto simp: tally_ok_def)
  have snoc: "shas_of k (es @ [e]) = (if k = ?k then insert (ev_SHA e) (shas_of k es) else shas_of k es)" for k
    by (auto simp: shas_of_def)
  have "distinct shas \<and> set shas = shas_of k (es @ [e])"
    if "(k, shas) \<in> set (add_sha ?k (ev_SHA e) m)" for k shas
    using add_sha_entry [OF d that]
  proof (elim disjE conjE exE)
    assume "k \<noteq> ?k" "(k, shas) \<in> set m"
    then show ?thesis using ent snoc by simp
  next
    assume k: "k = ?k" "?k \<notin> fst ` set m" "shas = [ev_SHA e]"
    then have "shas_of k es = {}" using keys by (auto simp: shas_of_def intro: rev_image_eqI)
    then show ?thesis using k snoc by simp
  next
    fix old
    assume "k = ?k" "(?k, old) \<in> set m" "shas = List.insert (ev_SHA e) old"
    then show ?thesis using ent snoc by simp
  qed
  then show ?thesis
    using add_sha_distinct [OF d] add_sha_keys [of ?k "ev_SHA e" m] keys
    by (auto simp: tally_ok_def)
qed

text \<open>What the loop has looked at when it ends: the first \<open>n\<close> matching events were counted, and the
  commits seen are those of one more event when it stopped early.\<close>

lemma volatility_loop_window:
  assumes "tally_ok counts done" "distinct seen"
    "maxCommits > 0 \<Longrightarrow> set seen = ev_SHA ` set done \<and> int (length seen) \<le> maxCommits"
    "maxCommits \<le> 0 \<Longrightarrow> seen = []"
    "volatility_loop matches maxCommits es seen counts = (seen', counts')"
  shows "\<exists>n \<le> length (filter matches es).
    tally_ok counts' (done @ take n (filter matches es)) \<and> distinct seen' \<and>
    (maxCommits \<le> 0 \<longrightarrow> n = length (filter matches es) \<and> seen' = []) \<and>
    (maxCommits > 0 \<longrightarrow>
       int (card (ev_SHA ` set (done @ take n (filter matches es)))) \<le> maxCommits \<and>
       set seen' = ev_SHA ` set (done @ take (Suc n) (filter matches es)) \<and>
       (n < length (filter matches es) \<longrightarrow> int (length seen') > maxCommits))"
  using assms
proof (induction es arbitrary: "done" seen counts)
  case Nil
  then show ?case by (auto simp: distinct_card [symmetric])
next
  case (Cons e es)
  show ?case
  proof (cases "matches e")
    case False
    then show ?thesis using Cons by simp
  next
    case m: True
    let ?seen = "if maxCommits > 0 then List.insert (ev_SHA e) seen else seen"
    have d: "distinct ?seen" using Cons.prems(2) by simp
    show ?thesis
    proof (cases "maxCommits > 0 \<and> int (length ?seen) > maxCommits")
      case True
      then have "seen' = ?seen" "counts' = counts" using Cons.prems(5) m by (auto simp: Let_def)
      then show ?thesis
        using True m Cons.prems(1-4) d
        by (intro exI [of _ 0]) (auto simp: distinct_card [symmetric] simp del: List.insert_def)
    next
      case False
      then have rec: "volatility_loop matches maxCommits es ?seen (add_sha (event_key e) (ev_SHA e) counts) = (seen', counts')"
        using Cons.prems(5) m by (auto simp: Let_def)
      have "\<exists>n \<le> length (filter matches es).
        tally_ok counts' ((done @ [e]) @ take n (filter matches es)) \<and> distinct seen' \<and>
        (maxCommits \<le> 0 \<longrightarrow> n = length (filter matches es) \<and> seen' = []) \<and>
        (maxCommits > 0 \<longrightarrow>
           int (card (ev_SHA ` set ((done @ [e]) @ take n (filter matches es)))) \<le> maxCommits \<and>
           set seen' = ev_SHA ` set ((done @ [e]) @ take (Suc n) (filter matches es)) \<and>
           (n < length (filter matches es) \<longrightarrow> int (length seen') > maxCommits))"
        using False Cons.prems
        by (intro Cons.IH [OF tally_add [OF Cons.prems(1)] d _ _ rec]) auto
      then obtain n where "n \<le> length (filter matches es)"
        "tally_ok counts' ((done @ [e]) @ take n (filter matches es)) \<and> distinct seen' \<and>
        (maxCommits \<le> 0 \<longrightarrow> n = length (filter matches es) \<and> seen' = []) \<and>
        (maxCommits > 0 \<longrightarrow>
           int (card (ev_SHA ` set ((done @ [e]) @ take n (filter matches es)))) \<le> maxCommits \<and>
           set seen' = ev_SHA ` set ((done @ [e]) @ take (Suc n) (filter matches es)) \<and>
           (n < length (filter matches es) \<longrightarrow> int (length seen') > maxCommits))"
        by blast
      then show ?thesis using m by (intro exI [of _ "Suc n"]) simp
    qed
  qed
qed

definition entry_key :: "VolatilityEntry \<Rightarrow> vkey" where
  "entry_key v = (ve_Cluster v, ve_Group v, ve_Kind v, ve_Namespace v, ve_Name v)"

text \<open>C20: \<open>Volatility\<close> counts, for every resource with a matching event in a window of the newest
  events, its distinct commits in this window; the window is the longest one with at most
  \<open>maxCommits\<close> commits (all events, if that is not positive). The total it reports is not the
  number of commits in the window: a window that was cut off reports \<open>maxCommits + 1\<close>, and
  without a limit the total is 0.\<close>

theorem Volatility_window:
  assumes range: "\<And>m. mset (range_order m) = mset m"
    and es: "es = filter (about_resource cluster grp kind namespace name) (rev (xi_events ci))"
    and vs: "vs = Volatility range_order ci cluster grp kind namespace name maxCommits"
  shows "\<exists>n \<le> length es.
    distinct (map entry_key vs) \<and> set (map entry_key vs) = event_key ` set (take n es) \<and>
    list_all (\<lambda>v. ve_Count v = card (shas_of (entry_key v) (take n es))) vs \<and>
    (if maxCommits \<le> 0 then n = length es \<and> list_all (\<lambda>v. ve_Total v = 0) vs
     else int (card (ev_SHA ` set (take n es))) \<le> maxCommits \<and>
       (if n = length es then list_all (\<lambda>v. ve_Total v = card (ev_SHA ` set es)) vs
        else card (ev_SHA ` set (take (Suc n) es)) = nat maxCommits + 1 \<and>
             list_all (\<lambda>v. ve_Total v = nat maxCommits + 1) vs))"
proof -
  obtain seen counts where loop:
    "volatility_loop (about_resource cluster grp kind namespace name) maxCommits (rev (xi_events ci)) [] [] = (seen, counts)"
    by fastforce
  have "tally_ok [] []" by (simp add: tally_ok_def)
  from volatility_loop_window [OF this _ _ _ loop] obtain n where n: "n \<le> length es"
    and tally: "tally_ok counts (take n es)" and d: "distinct seen"
    and none: "maxCommits \<le> 0 \<Longrightarrow> n = length es \<and> seen = []"
    and some: "maxCommits > 0 \<Longrightarrow> int (card (ev_SHA ` set (take n es))) \<le> maxCommits \<and>
       set seen = ev_SHA ` set (take (Suc n) es) \<and> (n < length es \<longrightarrow> int (length seen) > maxCommits)"
    by (auto simp: es)
  have vs': "vs = map (\<lambda>((c, g, k, ns, n), shas). \<lparr>ve_Cluster = c, ve_Group = g, ve_Kind = k, ve_Namespace = ns,
       ve_Name = n, ve_Count = length shas, ve_Total = length seen\<rparr>) (range_order counts)"
    by (simp add: vs Volatility_def loop)
  have keys: "map entry_key vs = map fst (range_order counts)"
    by (auto simp: vs' entry_key_def)
  have set_counts: "set (range_order counts) = set counts" by (rule mset_eq_setD [OF range])
  have "mset (map fst (range_order counts)) = mset (map fst counts)" by (simp add: range)
  then have "distinct (map fst (range_order counts)) = distinct (map fst counts)"
    by (rule mset_eq_imp_distinct_iff)
  then have "distinct (map entry_key vs)" "set (map entry_key vs) = event_key ` set (take n es)"
    using tally by (simp_all add: keys tally_ok_def set_counts)
  moreover have "list_all (\<lambda>v. ve_Count v = card (shas_of (entry_key v) (take n es))) vs"
    using tally by (auto simp: vs' list_all_iff set_counts entry_key_def tally_ok_def distinct_card [symmetric])
  moreover have total: "list_all (\<lambda>v. ve_Total v = length seen) vs"
    by (auto simp: vs' list_all_iff)
  moreover have "length seen = card (ev_SHA ` set es)" if "maxCommits > 0" "n = length es"
    using some [OF that(1)] that(2) d distinct_card [OF d] by simp
  moreover have "length seen = nat maxCommits + 1 \<and> card (ev_SHA ` set (take (Suc n) es)) = nat maxCommits + 1"
    if pos: "maxCommits > 0" and cut: "n \<noteq> length es"
  proof -
    have lt: "n < length es" using cut n by simp
    then have "ev_SHA ` set (take (Suc n) es) = insert (ev_SHA (es ! n)) (ev_SHA ` set (take n es))"
      by (simp add: take_Suc_conv_app_nth)
    then have "card (ev_SHA ` set (take (Suc n) es)) \<le> Suc (card (ev_SHA ` set (take n es)))"
      by (simp add: card_insert_if)
    then show ?thesis
      using some [OF pos] lt distinct_card [OF d] by (simp, linarith)
  qed
  ultimately show ?thesis
    using n none some by (intro exI [of _ n]) (auto split: if_splits)
qed

theorem Volatility_window_witness:
  "list_all (\<lambda>v. ve_Total v = 2) (Volatility (\<lambda>m. m) example_changes [] [] [] [] [] 1) \<and>
   length (Volatility (\<lambda>m. m) example_changes [] [] [] [] [] 1) = 1"
proof -
  let ?vs = "Volatility (\<lambda>m. m) example_changes [] [] [] [] [] 1"
  let ?es = "filter (about_resource [] [] [] [] []) (rev (xi_events example_changes))"
  have es: "?es = [example_event 3 ''c'' ''x'', example_event 2 ''b'' ''y'', example_event 1 ''a'' ''x'']"
    by code_simp
  have vs: "length ?vs = 1" "map ve_Total ?vs = [2]" by code_simp+
  obtain n where n: "n \<le> length ?es"
    and w: "if (1 :: int) \<le> 0 then n = length ?es \<and> list_all (\<lambda>v. ve_Total v = 0) ?vs
     else int (card (ev_SHA ` set (take n ?es))) \<le> 1 \<and>
       (if n = length ?es then list_all (\<lambda>v. ve_Total v = card (ev_SHA ` set ?es)) ?vs
        else card (ev_SHA ` set (take (Suc n) ?es)) = nat 1 + 1 \<and>
             list_all (\<lambda>v. ve_Total v = nat 1 + 1) ?vs)"
    using Volatility_window [OF _ refl refl, of "\<lambda>m. m" "[]" "[]" "[]" "[]" "[]" example_changes 1] by blast
  have "\<not> int (card (ev_SHA ` set ?es)) \<le> 1" by (simp add: es example_event_def)
  then have "n \<noteq> length ?es" using w by (auto split: if_splits)
  then have "list_all (\<lambda>v. ve_Total v = 2) ?vs" using w by (simp add: numeral_2_eq_2)
  then show ?thesis using vs by simp
qed

text \<open>The pages are not protected against bad requests: with a negative offset (and a positive
  limit), or with a negative limit on an offset within the matches, \<open>Query\<close> panics.\<close>

lemma Query_bad_request_panics:
  assumes "is_goint (offset + limit)" "is_goint limit" "length (xi_events ci) < 2 ^ 47"
    and "offset < int (length (filter (event_matches f) (xi_events ci)))"
    and "(offset < 0 \<and> - (2 ^ 46) < offset \<and> 0 < limit) \<or> (0 \<le> offset \<and> limit < 0)"
  shows "\<exists>m. Query ci f limit offset = Panic m"
proof -
  define ms where "ms = filter (event_matches f) (xi_events ci)"
  define total where "total = int (length ms)"
  have total: "0 \<le> total" "total < 2 ^ 47"
    using le_less_trans [OF length_filter_le assms(3)] by (simp_all add: total_def ms_def)
  have off: "\<not> offset \<ge> total" using assms(4) by (simp add: total_def ms_def)
  have end1: "go_add offset limit = offset + limit" using assms(1) by (rule go_add_exact)
  define e where "e = (if offset + limit > total then total else offset + limit)"
  have q: "Query ci f limit offset =
      (if bad_capacity (go_sub e offset) then Panic ''makeslice: cap out of range''
       else map_result (\<lambda>page. (page, length ms)) (page_loop ms (go_sub (total - 1) offset) (go_sub total e)))"
    unfolding Query_def Let_def ms_def [symmetric] total_def [symmetric] end1 e_def [symmetric]
    using off by simp
  show ?thesis
  proof (cases "0 \<le> offset")
    case True
    then have "e = offset + limit" "limit < 0" using assms(5) off by (auto simp: e_def)
    then have "go_sub e offset = limit" using assms(2) by (simp add: go_sub_exact)
    then show ?thesis using q \<open>limit < 0\<close> by (simp add: bad_capacity_def)
  next
    case False
    then have o: "offset < 0" "- (2 ^ 46) < offset" "0 < limit" using assms(5) by auto
    have e: "offset < e" "e \<le> total" using o total by (auto simp: e_def)
    have "go_sub (total - 1) offset = total - 1 - offset" "go_sub total e = total - e"
      using o e total by (intro go_sub_exact is_goint_small; simp)+
    moreover have "page_loop ms (total - 1 - offset) (total - e) = Panic ''index out of range''"
      using o e by (subst page_loop.simps) (simp add: go_index_def total_def)
    ultimately show ?thesis using q by auto
  qed
qed

lemma Query_bad_request_panics_witness:
  "\<exists>m. Query example_changes any_change 50 (- 1) = Panic m"
proof -
  have "length (filter (event_matches any_change) (xi_events example_changes)) = 3" by code_simp
  then show ?thesis
    by (intro Query_bad_request_panics)
      (simp_all add: is_goint_def goint_max_def goint_min_def example_changes_def)
qed

end
