(* ===== verification/FieldVolatility.thy ===== *)
theory FieldVolatility
  imports ChangeIndex GitClient
begin

text \<open>
  \<open>internal/gitindex/fields.go\<close>: which fields of a resource changed how often. A commit is
  the object of go-git (\<open>commit_obj\<close>); the YAML encoder and decoder are parameters, the
  decoder returning \<open>None\<close> for a document that leaves the map nil.
\<close>

record FieldVolatilityEntry =
  fe_Field :: string
  fe_Count :: nat
  fe_Total :: nat

type_synonym yaml_decoder = "string \<Rightarrow> error + doc option"
type_synonym yaml_encoder = "any \<Rightarrow> error + string"

subsection \<open>Comparing two versions\<close>

definition joinPath :: "string \<Rightarrow> string \<Rightarrow> string" where
  "joinPath pfx key = (if pfx = [] then key else pfx @ ''.'' @ key)"

definition marshalled :: "yaml_encoder \<Rightarrow> any \<Rightarrow> string" where
  "marshalled Marshal v = (case Marshal v of Inr s \<Rightarrow> s | Inl _ \<Rightarrow> [])"

definition valuesEqual :: "yaml_encoder \<Rightarrow> any \<Rightarrow> any \<Rightarrow> bool" where
  "valuesEqual Marshal a b \<longleftrightarrow> marshalled Marshal a = marshalled Marshal b"

lemma size_entry: "(k, AMap m) \<in> set after \<Longrightarrow> size (AMap m) < size (AMap after)"
  by (induction after) auto

text \<open>The two loops, each in the iteration order of its map.\<close>

function diffFields :: "yaml_encoder \<Rightarrow> doc \<Rightarrow> doc \<Rightarrow> string \<Rightarrow> string list" where
  "diffFields Marshal before after pfx =
     concat (map (\<lambda>(k, afterVal).
       let path = joinPath pfx k in
       case gm_get before k of
         None \<Rightarrow> [path]
       | Some beforeVal \<Rightarrow>
           (case (beforeVal, afterVal) of
              (AMap beforeMap, AMap afterMap) \<Rightarrow>
                diffFields Marshal beforeMap afterMap path
            | _ \<Rightarrow> if \<not> valuesEqual Marshal beforeVal afterVal then [path] else [])) after) @
     concat (map (\<lambda>(k, _). if gm_get after k = None then [joinPath pfx k] else []) before)"
  by pat_completeness auto
termination
  by (relation "measure (\<lambda>(Marshal, before, after, pfx). size (AMap after))") (auto dest: size_entry)

declare diffFields.simps [simp del]

subsection \<open>Files of a commit\<close>

definition fileContentAtCommit :: "yaml_decoder \<Rightarrow> commit_obj \<Rightarrow> string \<Rightarrow> error + doc" where
  "fileContentAtCommit Unmarshal commit path =
     (case c_File commit path of
        Inl err \<Rightarrow> Inl err
      | Inr (Inl err) \<Rightarrow> Inl err
      | Inr (Inr body) \<Rightarrow>
          (case Unmarshal body of
             Inl err \<Rightarrow> Inl err
           | Inr raw \<Rightarrow> Inr (case raw of Some d \<Rightarrow> d | None \<Rightarrow> [])))"

definition resourceFilePath :: "string \<Rightarrow> string \<Rightarrow> string \<Rightarrow> string \<Rightarrow> string" where
  "resourceFilePath pfx grp namespace name = []"

definition path_matches :: "string \<Rightarrow> string \<Rightarrow> string \<Rightarrow> string \<Rightarrow> string \<Rightarrow> bool" where
  "path_matches pfx grp namespace name file \<longleftrightarrow>
     HasSuffix file ''.yaml'' \<and> (pfx \<noteq> [] \<longrightarrow> HasPrefix file pfx) \<and>
     (case ParseResourcePath (if pfx \<noteq> [] then TrimPrefix file pfx else file) of
        None \<Rightarrow> False
      | Some r \<Rightarrow> EqualFold (ri_group r) grp \<and> ri_namespace r = namespace \<and> ri_name r = name)"

text \<open>The walk stops at the first match with a sentinel error; without one the path is empty.\<close>

definition FindResourcePathInCommit ::
  "commit_obj \<Rightarrow> string \<Rightarrow> string \<Rightarrow> string \<Rightarrow> string \<Rightarrow> error + string" where
  "FindResourcePathInCommit commit pfx grp namespace name =
     (case c_Files commit of
        Inl err \<Rightarrow> Inl err
      | Inr files \<Rightarrow>
          Inr (case find (path_matches pfx grp namespace name) files of Some f \<Rightarrow> f | None \<Rightarrow> []))"

subsection \<open>Counting\<close>

definition bump :: "string \<Rightarrow> nat gmap \<Rightarrow> nat gmap" where
  "bump f m = gm_put f ((case gm_get m f of Some n \<Rightarrow> n | None \<Rightarrow> 0) + 1) m"

text \<open>The file in the first parent; every error leaves the map nil.\<close>

definition parent_content :: "yaml_decoder \<Rightarrow> commit_obj \<Rightarrow> string \<Rightarrow> doc" where
  "parent_content Unmarshal commit path =
     (case c_Parents commit of
        Inr parent # _ \<Rightarrow>
          (case fileContentAtCommit Unmarshal parent path of Inr d \<Rightarrow> d | Inl _ \<Rightarrow> [])
      | _ \<Rightarrow> [])"

text \<open>One event of the loop of \<open>FieldVolatility\<close>.\<close>

definition fv_step ::
  "yaml_encoder \<Rightarrow> yaml_decoder \<Rightarrow> (string \<Rightarrow> error + commit_obj) \<Rightarrow> string \<Rightarrow>
   nat gmap \<times> nat \<Rightarrow> ChangeEvent \<Rightarrow> nat gmap \<times> nat" where
  "fv_step Marshal Unmarshal CommitObject pfx st e =
     (case st of (fieldCount, totl) \<Rightarrow>
        if ev_ChangeType e = Deleted then (fieldCount, totl + 1)
        else
          (let filePath = resourceFilePath pfx (ev_Group e) (ev_Namespace e) (ev_Name e) in
           if filePath = [] then (fieldCount, totl)
           else case CommitObject (ev_SHA e) of
                  Inl _ \<Rightarrow> (fieldCount, totl)
                | Inr commit \<Rightarrow>
                    (case fileContentAtCommit Unmarshal commit filePath of
                       Inl _ \<Rightarrow> (fieldCount, totl + 1)
                     | Inr after \<Rightarrow>
                         (fold bump (diffFields Marshal (parent_content Unmarshal commit filePath) after [])
                            fieldCount, totl + 1))))"

text \<open>One event of the loop of \<open>FieldVolatilityFromRepo\<close>.\<close>

definition fvr_step ::
  "yaml_encoder \<Rightarrow> yaml_decoder \<Rightarrow> (string \<Rightarrow> error + commit_obj) \<Rightarrow> string \<Rightarrow>
   nat gmap \<times> nat \<Rightarrow> ChangeEvent \<Rightarrow> nat gmap \<times> nat" where
  "fvr_step Marshal Unmarshal CommitObject pfx st e =
     (case st of (fieldCount, totl) \<Rightarrow>
        case CommitObject (ev_SHA e) of
          Inl _ \<Rightarrow> (fieldCount, totl)
        | Inr commit \<Rightarrow>
            (case FindResourcePathInCommit commit pfx (ev_Group e) (ev_Namespace e) (ev_Name e) of
               Inl _ \<Rightarrow> (fieldCount, totl + 1)
             | Inr afterPath \<Rightarrow>
                 if afterPath = [] then (fieldCount, totl + 1)
                 else
                   (case (if ev_ChangeType e \<noteq> Deleted then fileContentAtCommit Unmarshal commit afterPath
                          else Inr []) of
                      Inl _ \<Rightarrow> (fieldCount, totl + 1)
                    | Inr after \<Rightarrow>
                        (fold bump (diffFields Marshal (parent_content Unmarshal commit afterPath) after [])
                           fieldCount, totl + 1))))"

definition fv_limit :: "ChangeEvent list \<Rightarrow> int \<Rightarrow> nat" where
  "fv_limit events maxCommits =
     (if maxCommits > 0 \<and> maxCommits < int (length events) then nat maxCommits else length events)"

definition fv_prefix :: "string \<Rightarrow> string" where
  "fv_prefix subDir = (if subDir = [] then [] else subDir @ ''/'')"

definition fv_result ::
  "((FieldVolatilityEntry \<Rightarrow> FieldVolatilityEntry \<Rightarrow> bool) \<Rightarrow> FieldVolatilityEntry list \<Rightarrow> FieldVolatilityEntry list) \<Rightarrow>
   nat gmap \<times> nat \<Rightarrow> FieldVolatilityEntry list" where
  "fv_result sort_Slice st =
     (case st of (fieldCount, totl) \<Rightarrow>
        sort_Slice (\<lambda>a b. if fe_Count a \<noteq> fe_Count b then fe_Count a > fe_Count b else fe_Field a < fe_Field b)
          (map (\<lambda>(field, cnt). \<lparr>fe_Field = field, fe_Count = cnt, fe_Total = totl\<rparr>) fieldCount))"

text \<open>Both loops run from the last event of the list down and stop after \<open>limit\<close> events.\<close>

definition FieldVolatility where
  "FieldVolatility sort_Slice Marshal Unmarshal CommitObject events subDir maxCommits =
     fv_result sort_Slice
       (foldl (fv_step Marshal Unmarshal CommitObject (fv_prefix subDir)) ([], 0)
          (take (fv_limit events maxCommits) (rev events)))"

definition FieldVolatilityFromRepo where
  "FieldVolatilityFromRepo sort_Slice Marshal Unmarshal CommitObject events subDir maxCommits =
     fv_result sort_Slice
       (foldl (fvr_step Marshal Unmarshal CommitObject (fv_prefix subDir)) ([], 0)
          (take (fv_limit events maxCommits) (rev events)))"

subsection \<open>Facts: the difference of two documents\<close>

fun any_wf :: "any \<Rightarrow> bool" where
  "any_wf (AMap m) \<longleftrightarrow> gm_wf m \<and> list_all (\<lambda>(k, v). any_wf v) m"
| "any_wf (AArr xs) \<longleftrightarrow> list_all any_wf xs"
| "any_wf ANil \<longleftrightarrow> True"
| "any_wf (ABool b) \<longleftrightarrow> True"
| "any_wf (ANum q) \<longleftrightarrow> True"
| "any_wf (AStr s) \<longleftrightarrow> True"

end
