(* ===== verification/FieldFacts.thy ===== *)
theory FieldFacts
  imports FieldVolatility ChangeFacts
begin

text \<open>
  What the field analysis reports: the paths at which two versions of an object differ, how
  often each was changed in the examined events, and which file of a commit is taken.
\<close>

subsection \<open>The difference of two documents\<close>

text \<open>The reference: the sequences of keys at which two documents differ. Below a key where both
  have a map the difference is that of the maps; elsewhere values are compared as wholes.\<close>

fun diff_at :: "yaml_encoder \<Rightarrow> doc \<Rightarrow> doc \<Rightarrow> string list \<Rightarrow> bool" where
  "diff_at Marshal b a [] = False"
| "diff_at Marshal b a (k # ks) =
     (case gm_get b k of
        None \<Rightarrow> gm_get a k \<noteq> None \<and> ks = []
      | Some x \<Rightarrow>
          (case gm_get a k of
             None \<Rightarrow> ks = []
           | Some y \<Rightarrow>
               (case (x, y) of
                  (AMap mb, AMap ma) \<Rightarrow> diff_at Marshal mb ma ks
                | _ \<Rightarrow> ks = [] \<and> \<not> valuesEqual Marshal x y)))"

definition entry_diff :: "yaml_encoder \<Rightarrow> doc \<Rightarrow> string \<Rightarrow> string \<times> any \<Rightarrow> string list" where
  "entry_diff Marshal before pfx kv =
     (case kv of (k, afterVal) \<Rightarrow>
       case gm_get before k of
         None \<Rightarrow> [joinPath pfx k]
       | Some beforeVal \<Rightarrow>
           (case (beforeVal, afterVal) of
              (AMap beforeMap, AMap afterMap) \<Rightarrow>
                diffFields Marshal beforeMap afterMap (joinPath pfx k)
            | _ \<Rightarrow> if \<not> valuesEqual Marshal beforeVal afterVal then [joinPath pfx k] else []))"

lemma diffFields_entries:
  "diffFields Marshal before after pfx =
     concat (map (entry_diff Marshal before pfx) after) @
     concat (map (\<lambda>(k, _). if gm_get after k = None then [joinPath pfx k] else []) before)"
  by (subst diffFields.simps) (simp add: entry_diff_def [abs_def] Let_def)

lemma any_wf_entry: "any_wf (AMap m) \<Longrightarrow> (k, v) \<in> set m \<longleftrightarrow> gm_get m k = Some v"
  by (auto simp: gm_get_def gm_wf_def gm_keys_def intro: map_of_is_SomeI dest: map_of_SomeD)

lemma any_wf_value: "any_wf (AMap m) \<Longrightarrow> gm_get m k = Some v \<Longrightarrow> any_wf v"
  by (auto simp: gm_get_def list_all_iff dest!: map_of_SomeD)

lemma in_before: "(\<exists>v. (k, v) \<in> set before) \<longleftrightarrow> gm_get before k \<noteq> None"
  by (auto simp: gm_get_def map_of_eq_None_iff image_iff) force

definition diff_set :: "yaml_encoder \<Rightarrow> doc \<Rightarrow> doc \<Rightarrow> string \<Rightarrow> string set" where
  "diff_set Marshal b a pfx = foldl joinPath pfx ` {ks. diff_at Marshal b a ks}"

text \<open>The differences that start with one key.\<close>

lemma diff_set_keys:
  "p \<in> diff_set Marshal b a pfx \<longleftrightarrow> (\<exists>k ks. diff_at Marshal b a (k # ks) \<and> p = foldl joinPath (joinPath pfx k) ks)"
proof
  assume "p \<in> diff_set Marshal b a pfx"
  then obtain ks where "diff_at Marshal b a ks" "p = foldl joinPath pfx ks" by (auto simp: diff_set_def)
  then show "\<exists>k ks. diff_at Marshal b a (k # ks) \<and> p = foldl joinPath (joinPath pfx k) ks"
    by (cases ks) auto
next
  assume "\<exists>k ks. diff_at Marshal b a (k # ks) \<and> p = foldl joinPath (joinPath pfx k) ks"
  then obtain k ks where "diff_at Marshal b a (k # ks)" "p = foldl joinPath pfx (k # ks)"
    by (metis foldl_Cons)
  then show "p \<in> diff_set Marshal b a pfx" unfolding diff_set_def by blast
qed

lemma set_diffFields:
  "any_wf (AMap after) \<Longrightarrow> set (diffFields Marshal before after pfx) = diff_set Marshal before after pfx"
proof (induction "size (AMap after)" arbitrary: before after pfx rule: less_induct)
  case less
  have ent: "p \<in> set (entry_diff Marshal before pfx (k, v)) \<longleftrightarrow>
      (\<exists>ks. diff_at Marshal before after (k # ks) \<and> p = foldl joinPath (joinPath pfx k) ks)"
    if v: "gm_get after k = Some v" for p k v
  proof (cases "gm_get before k")
    case None
    then show ?thesis using v by (auto simp: entry_diff_def)
  next
    case (Some x)
    show ?thesis
    proof (cases "\<exists>mb ma. x = AMap mb \<and> v = AMap ma")
      case True
      then obtain mb ma where xv: "x = AMap mb" "v = AMap ma" by blast
      have mem: "(k, AMap ma) \<in> set after" using v xv any_wf_entry [OF less.prems] by simp
      have wf: "any_wf (AMap ma)" using any_wf_value [OF less.prems v] xv by simp
      have "set (diffFields Marshal mb ma (joinPath pfx k)) = diff_set Marshal mb ma (joinPath pfx k)"
        by (rule less.hyps [OF size_entry [OF mem] wf])
      then show ?thesis using Some v xv by (auto simp: entry_diff_def diff_set_def)
    next
      case False
      then show ?thesis using Some v by (cases x; cases v) (auto simp: entry_diff_def)
    qed
  qed
  have gone: "diff_at Marshal before after (k # ks) \<longleftrightarrow> ks = [] \<and> gm_get before k \<noteq> None"
    if "gm_get after k = None" for k ks
    using that by (auto split: option.splits)
  have "p \<in> set (diffFields Marshal before after pfx) \<longleftrightarrow> p \<in> diff_set Marshal before after pfx" for p
  proof -
    have "p \<in> set (diffFields Marshal before after pfx) \<longleftrightarrow>
        (\<exists>k v. gm_get after k = Some v \<and> p \<in> set (entry_diff Marshal before pfx (k, v))) \<or>
        (\<exists>k. gm_get before k \<noteq> None \<and> gm_get after k = None \<and> p = joinPath pfx k)"
    proof -
      have "p \<in> set (concat (map (\<lambda>(k, _). if gm_get after k = None then [joinPath pfx k] else []) before)) \<longleftrightarrow>
          (\<exists>k. (\<exists>v. (k, v) \<in> set before) \<and> gm_get after k = None \<and> p = joinPath pfx k)"
        by (fastforce split: if_splits)
      moreover have "p \<in> set (concat (map (entry_diff Marshal before pfx) after)) \<longleftrightarrow>
          (\<exists>k v. (k, v) \<in> set after \<and> p \<in> set (entry_diff Marshal before pfx (k, v)))"
        by auto
      ultimately show ?thesis
        unfolding diffFields_entries set_append Un_iff in_before any_wf_entry [OF less.prems] by blast
    qed
    also have "\<dots> \<longleftrightarrow> (\<exists>k ks. diff_at Marshal before after (k # ks) \<and> p = foldl joinPath (joinPath pfx k) ks)"
    proof -
      have "(\<exists>v. gm_get after k = Some v \<and> p \<in> set (entry_diff Marshal before pfx (k, v))) \<or>
          (gm_get before k \<noteq> None \<and> gm_get after k = None \<and> p = joinPath pfx k) \<longleftrightarrow>
          (\<exists>ks. diff_at Marshal before after (k # ks) \<and> p = foldl joinPath (joinPath pfx k) ks)" for k
      proof (cases "gm_get after k")
        case None
        then show ?thesis using gone [OF None] by auto
      next
        case (Some v)
        then show ?thesis using ent [OF Some] by auto
      qed
      then show ?thesis by blast
    qed
    finally show ?thesis by (simp add: diff_set_keys)
  qed
  then show ?case by blast
qed

subsection \<open>Counting\<close>

text \<open>What one event contributes: nothing when its commit is unknown.\<close>

definition event_change ::
  "yaml_encoder \<Rightarrow> yaml_decoder \<Rightarrow> (string \<Rightarrow> error + commit_obj) \<Rightarrow> string \<Rightarrow> ChangeEvent \<Rightarrow>
   string list option" where
  "event_change Marshal Unmarshal CommitObject pfx e =
     (case CommitObject (ev_SHA e) of
        Inl _ \<Rightarrow> None
      | Inr commit \<Rightarrow>
          Some (case FindResourcePathInCommit commit pfx (ev_Group e) (ev_Namespace e) (ev_Name e) of
             Inl _ \<Rightarrow> []
           | Inr path \<Rightarrow>
               if path = [] then []
               else (case (if ev_ChangeType e \<noteq> Deleted then fileContentAtCommit Unmarshal commit path else Inr []) of
                       Inl _ \<Rightarrow> []
                     | Inr after \<Rightarrow> diffFields Marshal (parent_content Unmarshal commit path) after [])))"

lemma fvr_step_change:
  "fvr_step Marshal Unmarshal CommitObject pfx (fc, n) e =
     (case event_change Marshal Unmarshal CommitObject pfx e of
        None \<Rightarrow> (fc, n) | Some fs \<Rightarrow> (fold bump fs fc, n + 1))"
  by (auto simp: fvr_step_def event_change_def split: sum.splits if_splits)

text \<open>A counter map against the list of what was counted.\<close>

definition counts_ok :: "nat gmap \<Rightarrow> string list \<Rightarrow> bool" where
  "counts_ok m fs \<longleftrightarrow> gm_wf m \<and>
     (\<forall>f. gm_get m f = (if count_list fs f = 0 then None else Some (count_list fs f)))"

lemma counts_ok_bump: "counts_ok m fs \<Longrightarrow> counts_ok (bump f m) (f # fs)"
  by (auto simp: counts_ok_def bump_def gm.get_put gm.wf_put split: option.splits if_splits)

lemma counts_ok_perm: "counts_ok m fs \<Longrightarrow> mset fs = mset gs \<Longrightarrow> counts_ok m gs"
  by (simp add: counts_ok_def flip: count_mset)

lemma counts_ok_fold: "counts_ok m gs \<Longrightarrow> counts_ok (fold bump fs m) (gs @ fs)"
proof (induction fs arbitrary: m gs)
  case (Cons f fs)
  have "counts_ok (fold bump fs (bump f m)) ((f # gs) @ fs)"
    by (rule Cons.IH [OF counts_ok_bump [OF Cons.prems]])
  then show ?case by (auto elim: counts_ok_perm)
qed simp

lemma fvr_loop:
  assumes "counts_ok fc gs"
  shows "\<exists>fc'. foldl (fvr_step Marshal Unmarshal CommitObject pfx) (fc, n) es =
      (fc', n + length (filter (\<lambda>e. event_change Marshal Unmarshal CommitObject pfx e \<noteq> None) es)) \<and>
    counts_ok fc' (gs @ concat (map (\<lambda>e. case event_change Marshal Unmarshal CommitObject pfx e of
                                            Some fs \<Rightarrow> fs | None \<Rightarrow> []) es))"
  using assms
proof (induction es arbitrary: fc n gs)
  case (Cons e es)
  show ?case
  proof (cases "event_change Marshal Unmarshal CommitObject pfx e")
    case None
    then show ?thesis using Cons.IH [OF Cons.prems] by (simp add: fvr_step_change)
  next
    case (Some fs)
    then show ?thesis
      using Cons.IH [OF counts_ok_fold [OF Cons.prems, of fs], of "n + 1"]
      by (simp add: fvr_step_change)
  qed
qed simp

lemma sorted_wrt_distinct_map:
  "sorted_wrt P xs \<Longrightarrow> distinct (map f xs) \<Longrightarrow> sorted_wrt (\<lambda>a b. P a b \<and> f a \<noteq> f b) xs"
  by (induction xs) auto

lemma fv_result_ranked:
  assumes srt: "slice_sort sort_Slice" and ok: "counts_ok fc fs"
  shows "sorted_wrt (\<lambda>a b. fe_Count a > fe_Count b \<or> fe_Count a = fe_Count b \<and> fe_Field a < fe_Field b)
      (fv_result sort_Slice (fc, n)) \<and>
    set (fv_result sort_Slice (fc, n)) =
      (\<lambda>f. \<lparr>fe_Field = f, fe_Count = count_list fs f, fe_Total = n\<rparr>) ` set fs"
proof -
  let ?lt = "\<lambda>a b. if fe_Count a \<noteq> fe_Count b then fe_Count a > fe_Count b else fe_Field a < fe_Field b"
  let ?es = "map (\<lambda>(f, c). \<lparr>fe_Field = f, fe_Count = c, fe_Total = n\<rparr>) fc"
  have r: "fv_result sort_Slice (fc, n) = sort_Slice ?lt ?es" by (simp add: fv_result_def)
  have get: "gm_get fc f = (if count_list fs f = 0 then None else Some (count_list fs f))" for f
    using ok by (simp add: counts_ok_def)
  have wf: "distinct (map fst fc)" using ok by (simp add: counts_ok_def gm_wf_def gm_keys_def)
  have "(f, c) \<in> set fc \<longleftrightarrow> f \<in> set fs \<and> c = count_list fs f" for f c
    using get [of f] unfolding map_of_eq_Some_iff [OF wf, symmetric] gm_get_def
    by (auto simp: count_list_0_iff)
  then have es: "set ?es = (\<lambda>f. \<lparr>fe_Field = f, fe_Count = count_list fs f, fe_Total = n\<rparr>) ` set fs"
    by force
  have "in_order ?lt (sort_Slice ?lt ?es)"
    by (rule slice_sort.srt_order [OF srt strict_weak_desc_asc])
  moreover have "distinct (map fe_Field (sort_Slice ?lt ?es))"
  proof -
    have "mset (map fe_Field (sort_Slice ?lt ?es)) = mset (map fe_Field ?es)"
      by (simp only: mset_map slice_sort.srt_mset [OF srt])
    then have "distinct (map fe_Field (sort_Slice ?lt ?es)) = distinct (map fe_Field ?es)"
      by (rule mset_eq_imp_distinct_iff)
    moreover have "map fe_Field ?es = map fst fc" by auto
    ultimately show ?thesis using wf by (simp only:)
  qed
  ultimately have "sorted_wrt (\<lambda>a b. \<not> ?lt b a \<and> fe_Field a \<noteq> fe_Field b) (sort_Slice ?lt ?es)"
    unfolding in_order_def by (intro sorted_wrt_distinct_map)
  then have "sorted_wrt (\<lambda>a b. fe_Count a > fe_Count b \<or> fe_Count a = fe_Count b \<and> fe_Field a < fe_Field b)
      (sort_Slice ?lt ?es)"
    by (rule sorted_wrt_mono_rel [rotated]) (auto split: if_splits)
  then show ?thesis
    using slice_sort.srt_set [OF srt, of ?lt ?es] es by (simp add: r)
qed

subsection \<open>Properties\<close>

text \<open>C25: \<open>diffFields\<close> reports exactly the paths at which two versions of an object differ: the
  key sequences at which a value was added, removed or changed, looking into maps as long as
  both sides have one, written with dots.\<close>

theorem diffFields_differences:
  assumes "any_wf (AMap after)"
  shows "set (diffFields Marshal before after []) = foldl joinPath [] ` {ks. diff_at Marshal before after ks}"
  using set_diffFields [OF assms] by (simp add: diff_set_def)

definition example_marshal :: yaml_encoder where
  "example_marshal v = (case v of AStr s \<Rightarrow> Inr s | _ \<Rightarrow> Inr [])"

theorem diffFields_differences_witness:
  "foldl joinPath [] ` {ks. diff_at example_marshal
      [(''spec'', AMap [(''image'', AStr ''v1''), (''old'', AStr ''x'')])]
      [(''spec'', AMap [(''image'', AStr ''v2'')]), (''new'', AStr ''y'')] ks} =
   {''spec.image'', ''spec.old'', ''new''}"
proof -
  let ?b = "[(''spec'', AMap [(''image'', AStr ''v1''), (''old'', AStr ''x'')])]"
  let ?a = "[(''spec'', AMap [(''image'', AStr ''v2'')]), (''new'', AStr ''y'')]"
  have wf: "any_wf (AMap ?a)" by (simp add: gm_wf_def gm_keys_def)
  have "diffFields example_marshal ?b ?a [] = [''spec.image'', ''spec.old'', ''new'']"
    by (simp add: diffFields.simps joinPath_def gm_get_def valuesEqual_def marshalled_def example_marshal_def)
  then show ?thesis
    using diffFields_differences [OF wf, of example_marshal ?b] by simp
qed

text \<open>\<open>FieldVolatilityFromRepo\<close> looks at the last \<open>maxCommits\<close> events of the list it is given (all,
  if that is not positive), counts for each field the events that changed it, divides by the
  number of events whose commit exists, and ranks the fields by count and then by name.\<close>

theorem FieldVolatilityFromRepo_counts:
  assumes "slice_sort sort_Slice"
  shows "let window = take (if maxCommits > 0 then nat maxCommits else length events) (rev events);
             changes = map (event_change Marshal Unmarshal CommitObject (fv_prefix subDir)) window;
             fields = concat (map (\<lambda>c. case c of Some fs \<Rightarrow> fs | None \<Rightarrow> []) changes);
             rs = FieldVolatilityFromRepo sort_Slice Marshal Unmarshal CommitObject events subDir maxCommits
         in set rs = (\<lambda>f. \<lparr>fe_Field = f, fe_Count = count_list fields f,
                            fe_Total = length (filter (\<lambda>c. c \<noteq> None) changes)\<rparr>) ` set fields \<and>
            sorted_wrt (\<lambda>a b. fe_Count a > fe_Count b \<or> fe_Count a = fe_Count b \<and> fe_Field a < fe_Field b) rs"
proof -
  let ?w = "take (fv_limit events maxCommits) (rev events)"
  let ?ch = "event_change Marshal Unmarshal CommitObject (fv_prefix subDir)"
  have w: "take (if maxCommits > 0 then nat maxCommits else length events) (rev events) = ?w"
    by (auto simp: fv_limit_def)
  have "counts_ok [] []" by (simp add: counts_ok_def gm_wf_def gm_keys_def gm_get_def)
  from fvr_loop [OF this, of Marshal Unmarshal CommitObject "fv_prefix subDir" 0 ?w]
  obtain fc where fc: "foldl (fvr_step Marshal Unmarshal CommitObject (fv_prefix subDir)) ([], 0) ?w =
      (fc, length (filter (\<lambda>e. ?ch e \<noteq> None) ?w))"
    and ok: "counts_ok fc (concat (map (\<lambda>e. case ?ch e of Some fs \<Rightarrow> fs | None \<Rightarrow> []) ?w))"
    by auto
  show ?thesis
    unfolding Let_def w FieldVolatilityFromRepo_def fc
    using fv_result_ranked [OF assms ok, of "length (filter (\<lambda>e. ?ch e \<noteq> None) ?w)"]
    by (simp add: comp_def filter_map)
qed

theorem FieldVolatilityFromRepo_counts_witness:
  "FieldVolatilityFromRepo go_sort example_marshal (\<lambda>_. Inr None) (\<lambda>_. Inl (ErrText ''gone'')) [] ''c'' 3 = []"
proof -
  have "slice_sort go_sort" by (rule sorts.slice_sort_axioms)
  from FieldVolatilityFromRepo_counts [OF this, of 3 "[]"] show ?thesis
    by (simp add: Let_def)
qed

text \<open>\<open>FieldVolatility\<close>, documented as the analysis of the most recent events, never reports a
  field: it asks \<open>resourceFilePath\<close> for the file of each event and skips the event, because
  that function always answers with the empty path.\<close>

lemma FieldVolatility_reports_nothing:
  assumes "slice_sort sort_Slice"
  shows "FieldVolatility sort_Slice Marshal Unmarshal CommitObject events subDir maxCommits = []"
proof -
  have step: "fv_step Marshal Unmarshal CommitObject pfx (fc, n) e =
      (fc, n + (if ev_ChangeType e = Deleted then 1 else 0))" for pfx fc n e
    by (simp add: fv_step_def resourceFilePath_def Let_def)
  have "fst (foldl (fv_step Marshal Unmarshal CommitObject pfx) (fc, n) es) = fc" for pfx fc n es
    by (induction es arbitrary: n) (simp_all add: step)
  then obtain n where "foldl (fv_step Marshal Unmarshal CommitObject (fv_prefix subDir)) ([], 0)
      (take (fv_limit events maxCommits) (rev events)) = ([], n)"
    by (metis prod.collapse)
  moreover have "sort_Slice lt [] = []" for lt
    using slice_sort.srt_length [OF assms, of lt "[]"] by simp
  ultimately show ?thesis by (simp add: FieldVolatility_def fv_result_def)
qed

lemma FieldVolatility_reports_nothing_witness:
  "FieldVolatility go_sort example_marshal (\<lambda>_. Inr None) (\<lambda>_. Inl (ErrText ''gone'')) [] ''c'' 0 = []"
  by (rule FieldVolatility_reports_nothing [OF sorts.slice_sort_axioms])

text \<open>The file of a resource in a commit is found by its group, namespace and name alone: the
  first matching file in tree order is taken, whatever its kind, so that two resources of
  different kinds with the same group, namespace and name are confused.\<close>

theorem FindResourcePath_ignores_kind:
  assumes "c_Files commit = Inr (map (change_path pfx) rs)" "list_all rid_ok rs"
  shows "FindResourcePathInCommit commit pfx grp namespace name =
    Inr (case find (\<lambda>r. EqualFold (ri_group r) grp \<and> ri_namespace r = namespace \<and> ri_name r = name) rs of
           Some r \<Rightarrow> change_path pfx r | None \<Rightarrow> [])"
proof -
  have "path_matches pfx grp namespace name (change_path pfx r) \<longleftrightarrow>
      EqualFold (ri_group r) grp \<and> ri_namespace r = namespace \<and> ri_name r = name" if "r \<in> set rs" for r
    using assms(2) that HasSuffix_change_path [of pfx r]
    by (auto simp: path_matches_def change_path_def list_all_iff resource_paths.decode_encode)
  then have "find (path_matches pfx grp namespace name) (map (change_path pfx) rs) =
      map_option (change_path pfx)
        (find (\<lambda>r. EqualFold (ri_group r) grp \<and> ri_namespace r = namespace \<and> ri_name r = name) rs)"
    by (induction rs) auto
  then show ?thesis
    by (simp add: FindResourcePathInCommit_def assms(1) split: option.split)
qed

definition example_apps :: "string \<Rightarrow> resource_id" where
  "example_apps res = \<lparr>ri_group = ''apps'', ri_version = ''v1'', ri_namespace = ''ns'', ri_resource = res, ri_name = ''web''\<rparr>"

theorem FindResourcePath_ignores_kind_witness:
  "FindResourcePathInCommit (Commit (\<lambda>_. Inl (ErrText ''none'')) []
      (Inr (map (change_path ''c/'') [example_apps ''deployments'', example_apps ''statefulsets''])))
     ''c/'' ''apps'' ''ns'' ''web'' = Inr ''c/apps/v1/namespaces/ns/deployments/web.yaml''"
proof -
  let ?rs = "[example_apps ''deployments'', example_apps ''statefulsets'']"
  have ok: "list_all rid_ok ?rs" by code_simp
  have found: "find (\<lambda>r. EqualFold (ri_group r) ''apps'' \<and> ri_namespace r = ''ns'' \<and> ri_name r = ''web'') ?rs =
      Some (example_apps ''deployments'')"
    by (simp add: example_apps_def EqualFold_def)
  have path: "change_path ''c/'' (example_apps ''deployments'') = ''c/apps/v1/namespaces/ns/deployments/web.yaml''"
    by (simp add: example_apps_def change_path_def resource_path_def resource_elems_def)
  show ?thesis
    by (subst FindResourcePath_ignores_kind [where rs = ?rs, OF _ ok]) (simp_all only: commit_obj.sel found path option.case)
qed

end
