(* ===== verification/Index.thy ===== *)
theory Index
  imports Files FieldVolatility
begin

text \<open>
  \<open>internal/index/index.go\<close>: the in-memory index of the objects in the working tree. The file
  system is that of \<open>Files\<close>; the YAML decoder and the CEL environment are parameters. The
  locks guard single reads and writes of the resource list; the cache of compiled programs is
  part of the state.
\<close>

subsection \<open>Types\<close>

datatype GVKInfo = GVKInfo (gk_Group: string) (gk_Version: string) (gk_Kind: string)

text \<open>The order of the \<open>GVKs\<close> list: by group, then version, then kind.\<close>

instantiation GVKInfo :: linorder
begin

definition less_GVKInfo :: "GVKInfo \<Rightarrow> GVKInfo \<Rightarrow> bool" where
  "less_GVKInfo a b \<longleftrightarrow>
     (if gk_Group a \<noteq> gk_Group b then gk_Group a < gk_Group b
      else if gk_Version a \<noteq> gk_Version b then gk_Version a < gk_Version b
      else gk_Kind a < gk_Kind b)"

definition less_eq_GVKInfo :: "GVKInfo \<Rightarrow> GVKInfo \<Rightarrow> bool" where
  "less_eq_GVKInfo a b \<longleftrightarrow> a = b \<or> a < b"

instance
proof
  fix a b c :: GVKInfo
  have irr: "\<not> a < a" for a :: GVKInfo by (simp add: less_GVKInfo_def)
  have tr: "a < b \<Longrightarrow> b < c \<Longrightarrow> a < c" for a b c :: GVKInfo
    by (auto simp: less_GVKInfo_def split: if_splits)
  have tot: "a < b \<or> a = b \<or> b < a" for a b :: GVKInfo
    by (cases a; cases b) (auto simp: less_GVKInfo_def)
  show "(a < b) = (a \<le> b \<and> \<not> b \<le> a)"
    unfolding less_eq_GVKInfo_def using irr tr by metis
  show "a \<le> a" by (simp add: less_eq_GVKInfo_def)
  show "a \<le> b \<Longrightarrow> b \<le> c \<Longrightarrow> a \<le> c"
    unfolding less_eq_GVKInfo_def using tr by blast
  show "a \<le> b \<Longrightarrow> b \<le> a \<Longrightarrow> a = b"
    unfolding less_eq_GVKInfo_def using irr tr by metis
  show "a \<le> b \<or> b \<le> a"
    unfolding less_eq_GVKInfo_def using tot by blast
qed

end

record ResourceMeta =
  rm_Cluster :: string
  rm_Group :: string
  rm_Version :: string
  rm_Kind :: string
  rm_Name :: string
  rm_Namespace :: string
  rm_Labels :: "string gmap option"
  rm_CreationTimestamp :: string
  rm_FilePath :: string
  rm_IndexedFields :: doc

text \<open>What evaluating a compiled expression on an object gives: a Go error, an error value of CEL,
  the value true, or any other value.\<close>

datatype cel_result = EvalError string | OutError string | OutTrue | OutOther

type_synonym obj_program = "doc \<Rightarrow> cel_result"

record Index =
  in_cluster :: string
  in_resources :: "ResourceMeta list"
  in_fields :: "string list"
  in_celCache :: "obj_program gmap"

definition New :: "string \<Rightarrow> string list \<Rightarrow> Index" where
  "New cluster flds = \<lparr>in_cluster = cluster, in_resources = [], in_fields = flds, in_celCache = []\<rparr>"

subsection \<open>Fields of a document\<close>

fun Contains :: "string \<Rightarrow> string \<Rightarrow> bool" where
  "Contains [] sub \<longleftrightarrow> sub = []"
| "Contains (c # cs) sub \<longleftrightarrow> HasPrefix (c # cs) sub \<or> Contains cs sub"

lemma Cut_shorter: "Cut s c = (b, r, True) \<Longrightarrow> length r < length s"
proof -
  assume "Cut s c = (b, r, True)"
  then obtain x where d: "dropWhile (\<lambda>x. x \<noteq> c) s = x # r"
    by (auto simp: Cut_def Let_def split: list.splits)
  have "length (dropWhile (\<lambda>x. x \<noteq> c) s) \<le> length s" by (rule length_dropWhile_le)
  then show ?thesis unfolding d by simp
qed

text \<open>\<open>nil\<close> stands for a missing value. \<open>SplitN(path, ".", 2)\<close> is a \<open>Cut\<close>.\<close>

function getNestedField :: "doc \<Rightarrow> string \<Rightarrow> any" where
  "getNestedField m path =
     (case Cut path CHR ''.'' of
        (first, rest, found) \<Rightarrow>
          (case gm_get m first of
             None \<Rightarrow> ANil
           | Some v \<Rightarrow>
               if \<not> found then v
               else (case v of AMap child \<Rightarrow> getNestedField child rest | _ \<Rightarrow> ANil)))"
  by pat_completeness auto
termination
  by (relation "measure (\<lambda>(m, path). length path)") (auto dest: Cut_shorter [OF sym])

declare getNestedField.simps [simp del]

text \<open>\<open>setNestedField\<close> changes the maps in place. A child map may be shared with the indexed fields
  (when one indexed field is a prefix of another); the assignment then stores the value that
  is already there, so that the functional update has the same result.\<close>

function setNestedField :: "doc \<Rightarrow> string \<Rightarrow> any \<Rightarrow> doc" where
  "setNestedField m path v =
     (case Cut path CHR ''.'' of
        (first, rest, found) \<Rightarrow>
          if \<not> found then gm_put path v m
          else
            (let child = (case gm_get m first of Some (AMap c) \<Rightarrow> c | _ \<Rightarrow> [])
             in gm_put first (AMap (setNestedField child rest v)) m))"
  by pat_completeness auto
termination
  by (relation "measure (\<lambda>(m, path, v). length path)") (auto dest: Cut_shorter [OF sym])

declare setNestedField.simps [simp del]

subsection \<open>Building\<close>

definition splitYAMLDocs :: "string \<Rightarrow> string list" where
  "splitYAMLDocs data =
     filter (\<lambda>d. d \<noteq> []) (map TrimSpace (SplitString data (NL # ''---'')))"

definition groupFromPath :: "string \<Rightarrow> string \<Rightarrow> string" where
  "groupFromPath absPath dir =
     (let rel = TrimPrefix absPath (dir @ ''/'') in
      if rel = absPath then []
      else (case SplitN2 rel SLASH of [p0, p1] \<Rightarrow> p0 | _ \<Rightarrow> []))"

definition groupFromAPIVersion :: "doc \<Rightarrow> string" where
  "groupFromAPIVersion raw =
     (let av = as_string (gm_get raw ''apiVersion'') in
      if av = [] then []
      else if SLASH \<notin> set av then ''core''
      else before_last av SLASH)"

definition versionFromAPIVersion :: "doc \<Rightarrow> string" where
  "versionFromAPIVersion raw =
     (let av = as_string (gm_get raw ''apiVersion'') in
      if av = [] then []
      else if SLASH \<notin> set av then av
      else after_last av SLASH)"

text \<open>One document of a file: the entry that \<open>Build\<close> appends for it, if any.\<close>

definition resource_of :: "string \<Rightarrow> string list \<Rightarrow> string \<Rightarrow> string \<Rightarrow> doc \<Rightarrow> ResourceMeta option" where
  "resource_of cluster flds dir path raw =
     (let kind = as_string (gm_get raw ''kind'') in
      if kind = [] then None
      else case as_map (gm_get raw ''metadata'') of
        None \<Rightarrow> None
      | Some meta \<Rightarrow>
          (let name = as_string (gm_get meta ''name'') in
           if name = [] then None
           else
             (let namespace = as_string (gm_get meta ''namespace'');
                  creationTimestamp = as_string (gm_get meta ''creationTimestamp'');
                  rawLabels = (case as_map (gm_get meta ''labels'') of Some l \<Rightarrow> l | None \<Rightarrow> []);
                  labels = string_entries rawLabels;
                  labels = (if labels = [] then None else Some labels);
                  grp = groupFromPath path dir;
                  grp = (if grp = [] then groupFromAPIVersion raw else grp);
                  indexedFields =
                    fold (\<lambda>field m. let v = getNestedField raw field
                                    in if v \<noteq> ANil then gm_put field v m else m) flds []
              in Some \<lparr>rm_Cluster = cluster, rm_Group = grp, rm_Version = versionFromAPIVersion raw,
                       rm_Kind = kind, rm_Name = name, rm_Namespace = namespace, rm_Labels = labels,
                       rm_CreationTimestamp = creationTimestamp, rm_FilePath = path,
                       rm_IndexedFields = indexedFields\<rparr>)))"

definition file_resources ::
  "yaml_decoder \<Rightarrow> string \<Rightarrow> string list \<Rightarrow> string \<Rightarrow> string \<Rightarrow> string \<Rightarrow> ResourceMeta list" where
  "file_resources Unmarshal cluster flds dir path data =
     concat (map (\<lambda>doc. case Unmarshal doc of
                          Inr (Some raw) \<Rightarrow>
                            (case resource_of cluster flds dir path raw of Some r \<Rightarrow> [r] | None \<Rightarrow> [])
                        | _ \<Rightarrow> [])
                 (splitYAMLDocs data))"

definition build_visit ::
  "yaml_decoder \<Rightarrow> fs \<Rightarrow> Index \<Rightarrow> string \<Rightarrow> string \<Rightarrow> bool \<Rightarrow> error option \<Rightarrow>
   ResourceMeta list \<Rightarrow> ResourceMeta list \<times> unit result" where
  "build_visit Unmarshal s idx dir path isDir err acc =
     (case err of
        Some e \<Rightarrow> (acc, Err e)
      | None \<Rightarrow>
          if isDir \<or> \<not> HasSuffix path ''.yaml'' then (acc, Ok ())
          else (case ReadFile s path of
                  Ok data \<Rightarrow>
                    (acc @ file_resources Unmarshal (in_cluster idx) (in_fields idx) dir path data, Ok ())
                | _ \<Rightarrow> (acc, Ok ())))"

definition Build :: "yaml_decoder \<Rightarrow> fs \<Rightarrow> string \<Rightarrow> Index \<Rightarrow> Index \<times> unit result" where
  "Build Unmarshal s dir idx =
     (case WalkDir s dir (build_visit Unmarshal s idx dir) [] of
        (found, Ok _) \<Rightarrow> (idx\<lparr>in_resources := found\<rparr>, Ok ())
      | (_, err) \<Rightarrow> (idx, err))"

subsection \<open>Listing\<close>

definition GVKs :: "string \<Rightarrow> Index \<Rightarrow> GVKInfo list" where
  "GVKs namespace idx =
     go_sort (\<lambda>a b. if gk_Group a \<noteq> gk_Group b then gk_Group a < gk_Group b
                    else if gk_Version a \<noteq> gk_Version b then gk_Version a < gk_Version b
                    else gk_Kind a < gk_Kind b)
       (dedup_seen [] (map (\<lambda>r. GVKInfo (rm_Group r) (rm_Version r) (rm_Kind r))
          (filter (\<lambda>r. \<not> (namespace \<noteq> [] \<and> rm_Namespace r \<noteq> namespace)) (in_resources idx))))"

definition Namespaces :: "Index \<Rightarrow> string list" where
  "Namespaces idx =
     sort_Strings (dedup_seen [] (filter (\<lambda>ns. ns \<noteq> []) (map rm_Namespace (in_resources idx))))"

text \<open>Reading a nil map finds nothing.\<close>

definition or_empty :: "'v gmap option \<Rightarrow> 'v gmap" where
  "or_empty m = (case m of Some m \<Rightarrow> m | None \<Rightarrow> [])"

definition matchLabels :: "string gmap \<Rightarrow> string gmap \<Rightarrow> bool" where
  "matchLabels labels sel =
     list_all (\<lambda>(k, v). case gm_get labels k of
                           None \<Rightarrow> False
                         | Some got \<Rightarrow> \<not> (v \<noteq> [] \<and> got \<noteq> v)) sel"

definition selects :: "string \<Rightarrow> string \<Rightarrow> string \<Rightarrow> string gmap \<Rightarrow> ResourceMeta \<Rightarrow> bool" where
  "selects grp kind namespace labelSel r \<longleftrightarrow>
     \<not> (grp \<noteq> [] \<and> \<not> EqualFold (rm_Group r) grp) \<and>
     \<not> (kind \<noteq> [] \<and> \<not> EqualFold (rm_Kind r) kind) \<and>
     \<not> (namespace \<noteq> [] \<and> rm_Namespace r \<noteq> namespace) \<and>
     matchLabels (or_empty (rm_Labels r)) labelSel"

definition List :: "string \<Rightarrow> string \<Rightarrow> string \<Rightarrow> string gmap \<Rightarrow> Index \<Rightarrow> ResourceMeta list" where
  "List grp kind namespace labelSel idx = filter (selects grp kind namespace labelSel) (in_resources idx)"

definition Get :: "string \<Rightarrow> string \<Rightarrow> string \<Rightarrow> string \<Rightarrow> Index \<Rightarrow> ResourceMeta option" where
  "Get grp kind namespace name idx =
     find (\<lambda>r. \<not> (grp \<noteq> [] \<and> \<not> EqualFold (rm_Group r) grp) \<and>
               EqualFold (rm_Kind r) kind \<and> rm_Namespace r = namespace \<and> rm_Name r = name)
       (in_resources idx)"

subsection \<open>CEL queries\<close>

definition buildObjectMap :: "ResourceMeta \<Rightarrow> doc" where
  "buildObjectMap r =
     fold (\<lambda>(path, v) d. setNestedField d path v) (rm_IndexedFields r)
       [(''kind'', AStr (rm_Kind r)),
        (''metadata'', AMap [(''name'', AStr (rm_Name r)), (''namespace'', AStr (rm_Namespace r))])]"

definition is_doc_of :: "ResourceMeta \<Rightarrow> doc \<Rightarrow> bool" where
  "is_doc_of r raw \<longleftrightarrow>
     (case as_map (gm_get raw ''metadata'') of
        None \<Rightarrow> False
      | Some meta \<Rightarrow>
          EqualFold (as_string (gm_get raw ''kind'')) (rm_Kind r) \<and>
          as_string (gm_get meta ''name'') = rm_Name r \<and>
          as_string (gm_get meta ''namespace'') = rm_Namespace r)"

definition loadFullDoc :: "yaml_decoder \<Rightarrow> fs \<Rightarrow> ResourceMeta \<Rightarrow> error + doc" where
  "loadFullDoc Unmarshal s r =
     (case ReadFile s (rm_FilePath r) of
        Ok data \<Rightarrow>
          (case find (is_doc_of r)
                  (concat (map (\<lambda>d. case Unmarshal d of Inr (Some raw) \<Rightarrow> [raw] | _ \<Rightarrow> []) (splitYAMLDocs data))) of
             Some raw \<Rightarrow> Inr raw
           | None \<Rightarrow> Inl (ErrText (''document not found in '' @ rm_FilePath r)))
      | Err e \<Rightarrow> Inl e
      | Panic m \<Rightarrow> Inl (ErrText m))"

definition getOrCompile ::
  "(string \<Rightarrow> error + obj_program) \<Rightarrow> string \<Rightarrow> obj_program gmap \<Rightarrow> obj_program gmap \<times> (error + obj_program)" where
  "getOrCompile compile expr cache =
     (case gm_get cache expr of
        Some prog \<Rightarrow> (cache, Inr prog)
      | None \<Rightarrow>
          (case compile expr of
             Inl err \<Rightarrow> (cache, Inl err)
           | Inr prog \<Rightarrow> (gm_put expr prog cache, Inr prog)))"

definition evalResource :: "yaml_decoder \<Rightarrow> fs \<Rightarrow> obj_program \<Rightarrow> ResourceMeta \<Rightarrow> bool result" where
  "evalResource Unmarshal s prog r =
     (let fallback =
            (case loadFullDoc Unmarshal s r of
               Inl err \<Rightarrow> Err (ErrWrap ''load full doc'' err)
             | Inr full \<Rightarrow>
                 (case prog full of
                    EvalError m \<Rightarrow> Err (ErrWrap ''CEL eval (full)'' (ErrText m))
                  | OutError m \<Rightarrow> Err (ErrText (''CEL eval error: '' @ m))
                  | OutTrue \<Rightarrow> Ok True
                  | OutOther \<Rightarrow> Ok False))
      in case prog (buildObjectMap r) of
           EvalError m \<Rightarrow>
             if Contains m ''no such key'' then fallback
             else Err (ErrWrap ''CEL eval'' (ErrText m))
         | OutError m \<Rightarrow> fallback
         | OutTrue \<Rightarrow> Ok True
         | OutOther \<Rightarrow> Ok False)"

text \<open>The loop over the candidates ends at the first error.\<close>

fun eval_all :: "(ResourceMeta \<Rightarrow> bool result) \<Rightarrow> ResourceMeta list \<Rightarrow> ResourceMeta list result" where
  "eval_all ev [] = Ok []"
| "eval_all ev (r # rs) =
     rbind (ev r) (\<lambda>matched. map_result (\<lambda>rest. if matched then r # rest else rest) (eval_all ev rs))"

definition IndexQuery ::
  "(string \<Rightarrow> error + obj_program) \<Rightarrow> yaml_decoder \<Rightarrow> fs \<Rightarrow> string \<Rightarrow> string \<Rightarrow> string \<Rightarrow> string gmap \<Rightarrow>
   string \<Rightarrow> Index \<Rightarrow> Index \<times> ResourceMeta list result" where
  "IndexQuery compile Unmarshal s grp kind namespace labelSel expr idx =
     (let candidates = List grp kind namespace labelSel idx in
      if expr = [] then (idx, Ok candidates)
      else (case getOrCompile compile expr (in_celCache idx) of
              (cache, Inl err) \<Rightarrow> (idx\<lparr>in_celCache := cache\<rparr>, Err (ErrWrap ''CEL compile'' err))
            | (cache, Inr prog) \<Rightarrow>
                (idx\<lparr>in_celCache := cache\<rparr>, eval_all (evalResource Unmarshal s prog) candidates)))"

end
