(* ===== verification/IndexFacts.thy ===== *)
theory IndexFacts
  imports Index Store
begin

text \<open>
  What the index holds after a build, and what the lists and the CEL queries return.
\<close>

subsection \<open>Nested fields\<close>

lemma get_set_nested: "getNestedField (setNestedField m path v) path = v"
proof (induction m path v rule: setNestedField.induct)
  case (1 m path v)
  obtain first rest found where c: "Cut path CHR ''.'' = (first, rest, found)" by (metis prod_cases3)
  show ?case
  proof (cases found)
    case False
    then have "first = path" using c by (auto simp: Cut_def Let_def split: list.splits)
    then show ?thesis
      using False c by (simp add: setNestedField.simps [of m path] getNestedField.simps [of _ path])
  next
    case True
    then show ?thesis
      using 1 [OF c [symmetric] refl] c
      by (simp add: setNestedField.simps [of m path] getNestedField.simps [of _ path] Let_def)
  qed
qed

definition first_key :: "string \<Rightarrow> string" where
  "first_key path = (case Cut path CHR ''.'' of (first, rest, found) \<Rightarrow> first)"

lemma set_nested_other: "k \<noteq> first_key path \<Longrightarrow> gm_get (setNestedField m path v) k = gm_get m k"
proof -
  assume k: "k \<noteq> first_key path"
  obtain first rest found where c: "Cut path CHR ''.'' = (first, rest, found)" by (metis prod_cases3)
  have "\<not> found \<Longrightarrow> first = path" using c by (auto simp: Cut_def Let_def split: list.splits)
  then show ?thesis
    using k c by (subst setNestedField.simps) (auto simp: first_key_def Let_def gm.get_put)
qed

lemma fold_set_nested_other:
  "k \<notin> (first_key \<circ> fst) ` set fs \<Longrightarrow>
   gm_get (fold (\<lambda>(path, v) d. setNestedField d path v) fs d) k = gm_get d k"
  by (induction fs arbitrary: d) (auto simp: set_nested_other)

subsection \<open>What a build collects\<close>

definition path_resources :: "yaml_decoder \<Rightarrow> fs \<Rightarrow> Index \<Rightarrow> string \<Rightarrow> string \<Rightarrow> ResourceMeta list" where
  "path_resources Unmarshal s idx dir path =
     (if path \<in> set (fs_dirs s) \<or> \<not> HasSuffix path ''.yaml'' then []
      else case ReadFile s path of
             Ok data \<Rightarrow> file_resources Unmarshal (in_cluster idx) (in_fields idx) dir path data
           | _ \<Rightarrow> [])"

lemma Build_collects:
  assumes "Build Unmarshal s dir idx = (idx', Ok u)"
  shows "in_resources idx' = concat (map (path_resources Unmarshal s idx dir) (walk_entries s dir)) \<and>
    in_cluster idx' = in_cluster idx \<and> in_fields idx' = in_fields idx"
proof -
  let ?fn = "build_visit Unmarshal s idx dir"
  obtain found where w: "WalkDir s dir ?fn [] = (found, Ok ())" and idx': "idx' = idx\<lparr>in_resources := found\<rparr>"
    using assms by (auto simp: Build_def split: prod.splits result.splits)
  have walk: "walk_list s ?fn (walk_entries s dir) [] = (found, Ok ())"
    using w by (auto simp: WalkDir_def build_visit_def split: if_splits)
  have "found = [] @ concat (map (path_resources Unmarshal s idx dir) (walk_entries s dir))"
    by (rule walk_list_Ok [where fn = ?fn and P = "\<lambda>p st st'. st' = st @ path_resources Unmarshal s idx dir p"
          and Q = "\<lambda>ps st st'. st' = st @ concat (map (path_resources Unmarshal s idx dir) ps)", OF _ walk])
      (auto simp: build_visit_def path_resources_def split: if_splits result.splits)
  then show ?thesis by (simp add: idx')
qed

lemma ReadFile_Ok: "ReadFile s p = Ok data \<longleftrightarrow> fs_fault s OpRead p = None \<and> content s p = Some data"
  by (auto simp: ReadFile_def split: option.splits if_splits)

lemma file_resources_mem:
  "r \<in> set (file_resources Unmarshal cluster flds dir path data) \<longleftrightarrow>
     (\<exists>d raw. d \<in> set (splitYAMLDocs data) \<and> Unmarshal d = Inr (Some raw) \<and>
        resource_of cluster flds dir path raw = Some r)"
proof -
  have "r \<in> set (case Unmarshal d of
          Inr (Some raw) \<Rightarrow> (case resource_of cluster flds dir path raw of Some r \<Rightarrow> [r] | None \<Rightarrow> [])
        | _ \<Rightarrow> []) \<longleftrightarrow>
      (\<exists>raw. Unmarshal d = Inr (Some raw) \<and> resource_of cluster flds dir path raw = Some r)" for d
  proof (cases "Unmarshal d")
    case (Inr v)
    then show ?thesis
      by (cases v) (auto split: option.splits)
  qed simp
  then show ?thesis unfolding file_resources_def set_concat set_map by blast
qed

definition example_decoder :: yaml_decoder where
  "example_decoder s =
     (if s = ''pod'' then Inr (Some [(''apiVersion'', AStr ''v1''), (''kind'', AStr ''Pod''),
        (''metadata'', AMap [(''name'', AStr ''p1''), (''namespace'', AStr ''ns1'')])])
      else if s = ''empty'' then Inr None else Inl (ErrText ''bad yaml''))"

definition example_tree :: fs where
  "example_tree = \<lparr>fs_files = [(''/w/c/core/v1/namespaces/ns1/pods/p1.yaml'', ''pod''), (''/w/c/x.yaml'', ''{'')],
     fs_dirs = [''/w'', ''/w/c''], fs_fault = (\<lambda>_ _. None)\<rparr>"

definition example_pod_meta :: ResourceMeta where
  "example_pod_meta = \<lparr>rm_Cluster = ''prod'', rm_Group = ''core'', rm_Version = ''v1'', rm_Kind = ''Pod'',
     rm_Name = ''p1'', rm_Namespace = ''ns1'', rm_Labels = None, rm_CreationTimestamp = [],
     rm_FilePath = ''/w/c/core/v1/namespaces/ns1/pods/p1.yaml'', rm_IndexedFields = []\<rparr>"

definition example_index :: Index where
  "example_index = (New ''prod'' [])\<lparr>in_resources := [example_pod_meta]\<rparr>"

subsection \<open>Lists\<close>

lemma in_order_less: "in_order ((<) :: 'a :: linorder \<Rightarrow> 'a \<Rightarrow> bool) xs \<longleftrightarrow> sorted xs"
  using in_order_key [of "\<lambda>x. x" xs] by simp

lemma GVKs_sort:
  "GVKs namespace idx =
     sort (dedup_seen [] (map (\<lambda>r. GVKInfo (rm_Group r) (rm_Version r) (rm_Kind r))
       (filter (\<lambda>r. namespace = [] \<or> rm_Namespace r = namespace) (in_resources idx))))"
proof -
  have "(\<lambda>a b. if gk_Group a \<noteq> gk_Group b then gk_Group a < gk_Group b
               else if gk_Version a \<noteq> gk_Version b then gk_Version a < gk_Version b
               else gk_Kind a < gk_Kind b) = (<)"
    by (simp add: fun_eq_iff less_GVKInfo_def)
  then show ?thesis by (simp add: GVKs_def go_sort_linorder)
qed

text \<open>\<open>GVKs\<close> and \<open>Namespaces\<close> are in strictly ascending order (so without repetition) and hold
  exactly the kinds and the non-empty namespaces of the indexed resources.\<close>

theorem GVKs_Namespaces_exact:
  "sorted_wrt (<) (GVKs namespace idx) \<and>
   set (GVKs namespace idx) = (\<lambda>r. GVKInfo (rm_Group r) (rm_Version r) (rm_Kind r)) `
     {r \<in> set (in_resources idx). namespace = [] \<or> rm_Namespace r = namespace} \<and>
   sorted_wrt (<) (Namespaces idx) \<and>
   set (Namespaces idx) = rm_Namespace ` set (in_resources idx) - {[]}"
proof -
  have s: "sorted_wrt (<) xs" if "sorted xs" "distinct xs" for xs :: "'b :: linorder list"
    using that by (simp add: strict_sorted_iff)
  have "distinct (sort_Strings (dedup_seen [] xs))" for xs
    by (simp add: sort_Strings_def go_sort_linorder distinct_dedup_seen)
  then show ?thesis
    by (auto simp: GVKs_sort Namespaces_def set_dedup_seen distinct_dedup_seen intro!: s)
qed

subsection \<open>CEL queries\<close>

text \<open>The cache holds what the compiler returns.\<close>

definition cache_ok :: "(string \<Rightarrow> error + obj_program) \<Rightarrow> Index \<Rightarrow> bool" where
  "cache_ok compile idx \<longleftrightarrow> (\<forall>expr prog. gm_get (in_celCache idx) expr = Some prog \<longrightarrow> compile expr = Inr prog)"

lemma getOrCompile_coherent:
  assumes "cache_ok compile idx"
  shows "snd (getOrCompile compile expr (in_celCache idx)) = compile expr"
    and "cache_ok compile (idx\<lparr>in_celCache := fst (getOrCompile compile expr (in_celCache idx))\<rparr>)"
  using assms by (auto simp: getOrCompile_def cache_ok_def gm.get_put split: option.splits sum.splits if_splits)

lemma eval_all_filter:
  "(\<And>r. r \<in> set rs \<Longrightarrow> ev r = Ok (P r)) \<Longrightarrow> eval_all ev rs = Ok (filter P rs)"
  by (induction rs) auto

text \<open>The expression \<open>!has(object.k)\<close>.\<close>

definition not_has :: "string \<Rightarrow> obj_program" where
  "not_has k d = (if gm_get d k = None then OutTrue else OutOther)"

text \<open>C27: an expression that gives an answer on the partial object is never checked against the
  stored document: \<open>!has(object.spec)\<close> matches every resource when no indexed field lies under
  \<open>spec\<close>, also those that have a \<open>spec\<close>.\<close>

theorem evalResource_negative_test:
  assumes "k \<noteq> ''kind''" "k \<noteq> ''metadata''" "k \<notin> (first_key \<circ> fst) ` set (rm_IndexedFields r)"
  shows "evalResource Unmarshal s (not_has k) r = Ok True"
  using fold_set_nested_other [OF assms(3)] assms(1,2)
  by (simp add: evalResource_def not_has_def buildObjectMap_def Let_def gm_get_def)

theorem evalResource_negative_test_witness:
  "evalResource (\<lambda>_. Inr (Some [(''kind'', AStr ''Pod''), (''spec'', AMap []),
       (''metadata'', AMap [(''name'', AStr ''p1''), (''namespace'', AStr ''ns1'')])])) example_tree
     (not_has ''spec'') example_pod_meta = Ok True"
  by (rule evalResource_negative_test) (simp_all add: example_pod_meta_def)

end
