(* ===== verification/IndexSpec.thy ===== *)
theory IndexSpec
  imports IndexFacts FieldFacts
begin

text \<open>
  What an index entry says of the document it was made from, stated on the document itself: keys, dotted
  paths and the shape of the file's path, without the functions of \<open>internal/index/index.go\<close>. A build lists
  exactly the valid documents (\<open>splitYAMLDocs_written\<close> says what the documents of a file are). The object that a CEL query evaluates first is then a part of the stored
  document, and an expression whose answer on a part stands for the whole is answered as on the document.
\<close>

subsection \<open>Values in a document\<close>

fun value_at :: "any \<Rightarrow> string list \<Rightarrow> any option" where
  "value_at v [] = Some v"
| "value_at (AMap m) (k # ks) = (case gm_get m k of Some v \<Rightarrow> value_at v ks | None \<Rightarrow> None)"
| "value_at v (k # ks) = None"

definition dotted :: "string \<Rightarrow> string list \<Rightarrow> bool" where
  "dotted path ks \<longleftrightarrow> ks \<noteq> [] \<and> (\<forall>k \<in> set ks. CHR ''.'' \<notin> set k) \<and> Join ks ''.'' = path"

definition text_at :: "doc \<Rightarrow> string \<Rightarrow> string" where
  "text_at m k = (case gm_get m k of Some (AStr s) \<Rightarrow> s | _ \<Rightarrow> [])"

lemma as_string_text_at: "as_string (gm_get m k) = text_at m k"
  by (cases "gm_get m k" rule: as_string.cases) (simp_all add: text_at_def)

lemma Cut_cases:
  obtains (whole) "CHR ''.'' \<notin> set path" "Cut path CHR ''.'' = (path, [], False)"
  | (parts) first rest where "CHR ''.'' \<notin> set first" "path = first @ CHR ''.'' # rest"
      "Cut path CHR ''.'' = (first, rest, True)"
proof (cases "CHR ''.'' \<in> set path")
  case True
  then obtain first rest where "path = first @ CHR ''.'' # rest" "CHR ''.'' \<notin> set first"
    by (metis split_list_first)
  then show thesis using parts Cut_found by blast
next
  case False
  then show thesis using whole Cut_missing by blast
qed

lemma dotted_whole: "CHR ''.'' \<notin> set path \<Longrightarrow> dotted path ks \<longleftrightarrow> ks = [path]"
proof -
  assume n: "CHR ''.'' \<notin> set path"
  have "ks = [path]" if "ks \<noteq> []" "Join ks ''.'' = path"
    using that n by (cases "(ks, ''.'')" rule: Join.cases) auto
  then show ?thesis using n by (auto simp: dotted_def)
qed

lemma dotted_parts:
  assumes "CHR ''.'' \<notin> set first"
  shows "dotted (first @ CHR ''.'' # rest) ks \<longleftrightarrow> (\<exists>ks'. ks = first # ks' \<and> dotted rest ks')"
proof
  assume d: "dotted (first @ CHR ''.'' # rest) ks"
  then obtain k ks' where ks: "ks = k # ks'" by (cases ks) (auto simp: dotted_def)
  have k: "CHR ''.'' \<notin> set k" using d ks by (simp add: dotted_def)
  have "ks' \<noteq> []"
    using d ks k by (auto simp: dotted_def)
  then have "k @ CHR ''.'' # Join ks' ''.'' = first @ CHR ''.'' # rest"
    using d ks by (cases ks') (auto simp: dotted_def)
  then have "Cut (k @ CHR ''.'' # Join ks' ''.'') CHR ''.'' = Cut (first @ CHR ''.'' # rest) CHR ''.''" by (rule arg_cong)
  then have "k = first \<and> Join ks' ''.'' = rest"
    unfolding Cut_found [OF k] Cut_found [OF assms] by simp
  then show "\<exists>ks'. ks = first # ks' \<and> dotted rest ks'"
    using d ks \<open>ks' \<noteq> []\<close> by (auto simp: dotted_def)
next
  assume "\<exists>ks'. ks = first # ks' \<and> dotted rest ks'"
  then show "dotted (first @ CHR ''.'' # rest) ks"
    using assms by (auto simp: dotted_def neq_Nil_conv)
qed

lemma dotted_into: "dotted path ks \<Longrightarrow> value_at x ks = Some v \<Longrightarrow> \<exists>m. x = AMap m"
  by (cases "(x, ks)" rule: value_at.cases) (auto simp: dotted_def)

text \<open>\<open>getNestedField\<close> finds the value at the dotted path.\<close>

lemma getNestedField_at:
  "v \<noteq> ANil \<Longrightarrow> getNestedField m path = v \<longleftrightarrow> (\<exists>ks. dotted path ks \<and> value_at (AMap m) ks = Some v)"
proof (induction m path rule: getNestedField.induct)
  case (1 m path)
  show ?case
  proof (cases rule: Cut_cases [of path])
    case whole
    then show ?thesis
      using "1.prems" by (subst getNestedField.simps) (auto simp: dotted_whole split: option.split)
  next
    case (parts first rest)
    then show ?thesis
      using "1.prems" "1.IH" [OF parts(3) [symmetric] refl]
      by (subst getNestedField.simps) (auto simp: dotted_parts split: option.splits any.splits dest: dotted_into)
  qed
qed

subsection \<open>Entries and documents\<close>

text \<open>The group and the version that an \<open>apiVersion\<close> names.\<close>

definition api_parts :: "string \<Rightarrow> string \<Rightarrow> string \<Rightarrow> bool" where
  "api_parts av grp ver \<longleftrightarrow>
     (if SLASH \<in> set av then av = grp @ SLASH # ver \<and> SLASH \<notin> set ver
      else ver = av \<and> grp = (if av = [] then [] else ''core''))"

text \<open>The file lies in a directory of the group, below the directory of the build.\<close>

definition in_group_dir :: "string \<Rightarrow> string \<Rightarrow> string \<Rightarrow> bool" where
  "in_group_dir dir path grp \<longleftrightarrow> grp \<noteq> [] \<and> SLASH \<notin> set grp \<and> (\<exists>rest. path = dir @ SLASH # grp @ SLASH # rest)"

definition valid_doc :: "doc \<Rightarrow> bool" where
  "valid_doc raw \<longleftrightarrow> (\<exists>kind meta name. gm_get raw ''kind'' = Some (AStr kind) \<and> kind \<noteq> [] \<and>
     gm_get raw ''metadata'' = Some (AMap meta) \<and> gm_get meta ''name'' = Some (AStr name) \<and> name \<noteq> [])"

definition describes :: "string \<Rightarrow> string list \<Rightarrow> string \<Rightarrow> string \<times> doc \<Rightarrow> ResourceMeta \<Rightarrow> bool" where
  "describes cluster flds dir = (\<lambda>(path, raw) r.
     \<exists>meta. gm_get raw ''kind'' = Some (AStr (rm_Kind r)) \<and> rm_Kind r \<noteq> [] \<and>
       gm_get raw ''metadata'' = Some (AMap meta) \<and>
       gm_get meta ''name'' = Some (AStr (rm_Name r)) \<and> rm_Name r \<noteq> [] \<and>
       rm_Namespace r = text_at meta ''namespace'' \<and>
       rm_CreationTimestamp r = text_at meta ''creationTimestamp'' \<and>
       rm_Cluster r = cluster \<and> rm_FilePath r = path \<and>
       (\<exists>grp. api_parts (text_at raw ''apiVersion'') grp (rm_Version r) \<and>
          (if \<exists>g. in_group_dir dir path g then in_group_dir dir path (rm_Group r) else rm_Group r = grp)) \<and>
       (\<forall>k s. gm_get (or_empty (rm_Labels r)) k = Some s \<longleftrightarrow>
          value_at (AMap meta) [''labels'', k] = Some (AStr s)) \<and>
       gm_wf (rm_IndexedFields r) \<and>
       (\<forall>field v. gm_get (rm_IndexedFields r) field = Some v \<longleftrightarrow>
          field \<in> set flds \<and> v \<noteq> ANil \<and> (\<exists>ks. dotted field ks \<and> value_at (AMap raw) ks = Some v)))"

lemma api_version_parts: "api_parts (text_at raw ''apiVersion'') (groupFromAPIVersion raw) (versionFromAPIVersion raw)"
proof (cases "SLASH \<in> set (text_at raw ''apiVersion'')")
  case True
  then obtain g v where av: "text_at raw ''apiVersion'' = g @ SLASH # v" "SLASH \<notin> set v" by (metis split_list_last)
  then show ?thesis
    using before_after_last [OF av(2), of g]
    by (simp add: api_parts_def groupFromAPIVersion_def versionFromAPIVersion_def as_string_text_at Let_def)
qed (simp add: api_parts_def groupFromAPIVersion_def versionFromAPIVersion_def as_string_text_at Let_def)

lemma groupFromPath_dir:
  "groupFromPath path dir = g \<and> g \<noteq> [] \<longleftrightarrow> in_group_dir dir path g"
proof (cases "\<exists>rel. path = dir @ SLASH # rel")
  case False
  then have "\<not> HasPrefix path (dir @ ''/'')" by (auto simp: HasPrefix_iff)
  then show ?thesis using False by (auto simp: groupFromPath_def TrimPrefix_def Let_def in_group_dir_def)
next
  case True
  then obtain rel where path: "path = dir @ SLASH # rel" by blast
  have trim: "TrimPrefix path (dir @ ''/'') = rel" "rel \<noteq> path"
    using TrimPrefix_append [of "dir @ ''/''" rel] path by simp_all
  show ?thesis
  proof (cases "SLASH \<in> set rel")
    case False
    then show ?thesis using path trim by (auto simp: groupFromPath_def Let_def SplitN2_def Cut_missing in_group_dir_def)
  next
    case True
    then obtain w r where rel: "rel = w @ SLASH # r" "SLASH \<notin> set w" by (metis split_list_first)
    have "g = w" if "SLASH \<notin> set g" "w @ SLASH # r = g @ SLASH # rest" for rest
      using Cut_found [OF that(1), of rest] Cut_found [OF rel(2), of r] that(2) by simp
    then show ?thesis
      using path trim rel by (auto simp: groupFromPath_def Let_def SplitN2_sep in_group_dir_def)
  qed
qed

lemma indexed_fold:
  "gm_get (fold (\<lambda>field m. let v = getNestedField raw field in if v \<noteq> ANil then gm_put field v m else m) flds m0) field =
     (if field \<in> set flds \<and> getNestedField raw field \<noteq> ANil then Some (getNestedField raw field) else gm_get m0 field)"
  by (induction flds arbitrary: m0) (auto simp: Let_def gm.get_put)

lemma indexed_fold_wf:
  "gm_wf m0 \<Longrightarrow>
   gm_wf (fold (\<lambda>field m. let v = getNestedField raw field in if v \<noteq> ANil then gm_put field v m else m) flds m0)"
  by (induction flds arbitrary: m0) (simp_all add: Let_def gm.wf_put)

lemma gm_get_Nil: "gm_get [] k = None"
  by (simp add: gm_get_def)

lemma resource_of_None: "resource_of cluster flds dir path raw = None \<longleftrightarrow> \<not> valid_doc raw"
  by (auto simp: resource_of_def valid_doc_def Let_def as_string_text_at text_at_def as_map_Some_iff
      split: option.splits any.splits if_splits)

lemma resource_of_describes:
  assumes "resource_of cluster flds dir path raw = Some r" "any_wf (AMap raw)"
  shows "describes cluster flds dir (path, raw) r"
proof -
  obtain meta where meta: "gm_get raw ''metadata'' = Some (AMap meta)"
    using assms(1) by (auto simp: resource_of_def Let_def as_map_Some_iff split: option.splits if_splits)
  have wf: "any_wf (AMap meta)" using any_wf_value [OF assms(2) meta] .
  let ?labels = "case as_map (gm_get meta ''labels'') of Some l \<Rightarrow> l | None \<Rightarrow> []"
  have gw: "gm_wf ?labels"
    using any_wf_value [OF wf, of "''labels''"]
    by (cases "gm_get meta ''labels''" rule: as_map.cases) (auto simp: gm_wf_def gm_keys_def)
  then have labels: "gm_get (string_entries ?labels) k = Some s \<longleftrightarrow> value_at (AMap meta) [''labels'', k] = Some (AStr s)" for k s
    unfolding string_entries_get [OF gw]
    by (cases "gm_get meta ''labels''" rule: as_map.cases)
      (auto simp: gm_get_Nil split: option.splits any.splits)
  note r = assms(1) [unfolded resource_of_def Let_def meta as_map.simps option.simps, symmetric]
  have fields: "rm_Kind r = text_at raw ''kind''" "rm_Kind r \<noteq> []" "rm_Name r = text_at meta ''name''" "rm_Name r \<noteq> []"
    "rm_Namespace r = text_at meta ''namespace''" "rm_CreationTimestamp r = text_at meta ''creationTimestamp''"
    "rm_Cluster r = cluster" "rm_FilePath r = path" "rm_Version r = versionFromAPIVersion raw"
    "rm_Group r = (if groupFromPath path dir = [] then groupFromAPIVersion raw else groupFromPath path dir)"
    "or_empty (rm_Labels r) = string_entries ?labels"
    "rm_IndexedFields r = fold (\<lambda>field m. let v = getNestedField raw field in if v \<noteq> ANil then gm_put field v m else m) flds []"
    using r by (auto simp: as_string_text_at or_empty_def Let_def split: if_splits)
  have texts: "gm_get raw ''kind'' = Some (AStr (rm_Kind r))" "gm_get meta ''name'' = Some (AStr (rm_Name r))"
    using fields(1-4) by (auto simp: text_at_def split: option.splits any.splits)
  have grp: "if \<exists>g. in_group_dir dir path g then in_group_dir dir path (rm_Group r) else rm_Group r = groupFromAPIVersion raw"
    using fields(10) by (simp flip: groupFromPath_dir)
  have indexed: "gm_get (rm_IndexedFields r) field = Some v \<longleftrightarrow>
      field \<in> set flds \<and> v \<noteq> ANil \<and> (\<exists>ks. dotted field ks \<and> value_at (AMap raw) ks = Some v)" for field v
    unfolding fields(12) indexed_fold gm_get_Nil using getNestedField_at [of v raw field] by auto
  have indexed_wf: "gm_wf (rm_IndexedFields r)"
    unfolding fields(12) by (rule indexed_fold_wf) (simp add: gm_wf_def gm_keys_def)
  show ?thesis
    unfolding describes_def prod.case
    using meta texts indexed_wf fields(2,4-8) labels grp indexed api_version_parts [of raw]
    by (intro exI [of _ meta]) (auto simp: fields(9,11))
qed

subsection \<open>The documents of a file\<close>

text \<open>Documents with a line \<open>---\<close> between them are split apart again.\<close>

abbreviation yaml_marker :: string where
  "yaml_marker \<equiv> NL # ''---''"

lemma marker_not_across: "\<not> HasPrefix (c # w) yaml_marker \<Longrightarrow> \<not> HasPrefix ((c # w) @ yaml_marker @ r) yaml_marker"
proof (cases w)
  case (Cons d w2)
  assume a: "\<not> HasPrefix (c # w) yaml_marker"
  show ?thesis
  proof (cases w2)
    case (Cons e w3)
    then show ?thesis using a \<open>w = d # w2\<close> by (cases w3) (auto simp: HasPrefix_def)
  qed (use \<open>w = d # w2\<close> in \<open>auto simp: HasPrefix_def\<close>)
qed (auto simp: HasPrefix_def)

lemma split_at_marker:
  "\<not> Contains w yaml_marker \<Longrightarrow> split_str yaml_marker cur (w @ yaml_marker @ r) = (rev cur @ w) # split_str yaml_marker [] r"
proof (induction w arbitrary: cur)
  case Nil
  then show ?case by (simp add: HasPrefix_def)
next
  case (Cons c w)
  then have "\<not> HasPrefix ((c # w) @ yaml_marker @ r) yaml_marker" by (intro marker_not_across) simp
  then show ?case using Cons by simp
qed

lemma split_no_marker: "\<not> Contains w yaml_marker \<Longrightarrow> split_str yaml_marker cur w = [rev cur @ w]"
  by (induction w arbitrary: cur) auto

lemma TrimSpace_newline: "TrimSpace (NL # d) = TrimSpace d"
  by (simp add: TrimSpace_def is_space_def)

lemma splitYAMLDocs_written:
  assumes "\<forall>d \<in> set ds. d \<noteq> [] \<and> TrimSpace d = d \<and> \<not> Contains (NL # d) yaml_marker" "ds \<noteq> []"
  shows "splitYAMLDocs (Join ds (yaml_marker @ [NL])) = ds"
proof -
  have split: "map TrimSpace (split_str yaml_marker [] (p @ Join ds (yaml_marker @ [NL]))) = ds" if "p = [] \<or> p = [NL]" for p
    using assms that
  proof (induction ds "yaml_marker @ [NL]" arbitrary: p rule: Join.induct)
    case (2 d)
    then have "\<not> Contains (p @ d) yaml_marker" "TrimSpace (p @ d) = d" by (auto simp: TrimSpace_newline)
    then show ?case by (simp add: split_no_marker)
  next
    case (3 d d' ds)
    have p: "\<not> Contains (p @ d) yaml_marker" "TrimSpace (p @ d) = d"
      using 3(2,4) by (auto simp: TrimSpace_newline)
    have "map TrimSpace (split_str yaml_marker [] ([NL] @ Join (d' # ds) (yaml_marker @ [NL]))) = d' # ds"
      by (rule 3(1)) (use 3(2) in simp_all)
    moreover have "p @ Join (d # d' # ds) (yaml_marker @ [NL]) = (p @ d) @ yaml_marker @ [NL] @ Join (d' # ds) (yaml_marker @ [NL])"
      by simp
    ultimately show ?case by (simp only: split_at_marker [OF p(1)] list.map p(2) rev.simps append_Nil)
  qed simp
  have "filter (\<lambda>d. d \<noteq> []) ds = ds" using assms(1) by (simp add: filter_id_conv)
  then show ?thesis using split [of "[]"] by (simp add: splitYAMLDocs_def SplitString_def)
qed

subsection \<open>What a build lists\<close>

definition decoded :: "yaml_decoder \<Rightarrow> string \<Rightarrow> doc list" where
  "decoded Unmarshal data =
     concat (map (\<lambda>d. case Unmarshal d of Inr (Some raw) \<Rightarrow> [raw] | _ \<Rightarrow> []) (splitYAMLDocs data))"

text \<open>A decoded document has every key of a map once.\<close>

definition keys_once :: "yaml_decoder \<Rightarrow> bool" where
  "keys_once Unmarshal \<longleftrightarrow> (\<forall>d raw. Unmarshal d = Inr (Some raw) \<longrightarrow> any_wf (AMap raw))"

lemma set_decoded: "raw \<in> set (decoded Unmarshal data) \<longleftrightarrow> (\<exists>d \<in> set (splitYAMLDocs data). Unmarshal d = Inr (Some raw))"
  by (force simp: decoded_def split: sum.splits option.splits)

text \<open>The valid documents that a path contributes.\<close>

definition path_docs :: "yaml_decoder \<Rightarrow> fs \<Rightarrow> string \<Rightarrow> (string \<times> doc) list" where
  "path_docs Unmarshal s path =
     (if HasSuffix path ''.yaml'' \<and> fs_fault s OpRead path = None
      then (case content s path of
              Some data \<Rightarrow> map (Pair path) (filter valid_doc (decoded Unmarshal data))
            | None \<Rightarrow> [])
      else [])"

lemma set_path_docs:
  "(p, raw) \<in> set (path_docs Unmarshal s path) \<longleftrightarrow>
     p = path \<and> HasSuffix path ''.yaml'' \<and> fs_fault s OpRead path = None \<and> valid_doc raw \<and>
     (\<exists>data d. content s path = Some data \<and> d \<in> set (splitYAMLDocs data) \<and> Unmarshal d = Inr (Some raw))"
proof (cases "HasSuffix path ''.yaml'' \<and> fs_fault s OpRead path = None \<and> content s path \<noteq> None")
  case True
  then obtain data where data: "content s path = Some data" by blast
  then have "path_docs Unmarshal s path = map (Pair path) (filter valid_doc (decoded Unmarshal data))"
    using True by (simp add: path_docs_def)
  then show ?thesis using True data set_decoded [of raw Unmarshal data] by auto
next
  case False
  then have "path_docs Unmarshal s path = []" by (auto simp: path_docs_def)
  then show ?thesis using False by auto
qed

lemma file_entries:
  assumes "keys_once Unmarshal"
  shows "list_all2 (describes cluster flds dir) (map (Pair path) (filter valid_doc (decoded Unmarshal data)))
    (file_resources Unmarshal cluster flds dir path data)"
proof -
  have one: "list_all2 (describes cluster flds dir)
      (map (Pair path) (filter valid_doc (case Unmarshal d of Inr (Some raw) \<Rightarrow> [raw] | _ \<Rightarrow> [])))
      (case Unmarshal d of
         Inr (Some raw) \<Rightarrow> (case resource_of cluster flds dir path raw of Some r \<Rightarrow> [r] | None \<Rightarrow> []) | _ \<Rightarrow> [])" for d
  proof (cases "\<exists>raw. Unmarshal d = Inr (Some raw)")
    case True
    then obtain raw where raw: "Unmarshal d = Inr (Some raw)" by blast
    then have wf: "any_wf (AMap raw)" using assms by (simp add: keys_once_def)
    show ?thesis
      using resource_of_None [of cluster flds dir path raw] resource_of_describes [OF _ wf, of cluster flds dir path]
      by (cases "resource_of cluster flds dir path raw") (simp_all add: raw)
  qed (auto split: sum.split option.split)
  have "list_all2 (describes cluster flds dir)
      (map (Pair path) (filter valid_doc (concat (map (\<lambda>d. case Unmarshal d of Inr (Some raw) \<Rightarrow> [raw] | _ \<Rightarrow> []) ds))))
      (concat (map (\<lambda>d. case Unmarshal d of
         Inr (Some raw) \<Rightarrow> (case resource_of cluster flds dir path raw of Some r \<Rightarrow> [r] | None \<Rightarrow> []) | _ \<Rightarrow> []) ds))" for ds
    by (induction ds) (simp_all only: list.map concat.simps filter.simps filter_append map_append list.rel_inject
      list_all2_appendI one)
  then show ?thesis by (simp add: decoded_def file_resources_def)
qed

lemma Build_docs:
  assumes "Build Unmarshal s dir idx = (idx', Ok u)" and "fs_ok s"
    and "keys_once Unmarshal"
  shows "list_all2 (describes (in_cluster idx) (in_fields idx) dir)
    (concat (map (path_docs Unmarshal s) (walk_entries s dir))) (in_resources idx')"
proof -
  have one: "list_all2 (describes (in_cluster idx) (in_fields idx) dir) (path_docs Unmarshal s p)
      (path_resources Unmarshal s idx dir p)" for p
  proof (cases "content s p")
    case None
    then show ?thesis by (auto simp: path_docs_def path_resources_def ReadFile_def split: option.splits)
  next
    case (Some data)
    then have "p \<notin> set (fs_dirs s)" using assms(2) by (auto simp: fs_ok_iff)
    then show ?thesis
      using Some file_entries [OF assms(3)]
      by (auto simp: path_docs_def path_resources_def ReadFile_def split: option.splits)
  qed
  have "list_all2 (describes (in_cluster idx) (in_fields idx) dir) (concat (map (path_docs Unmarshal s) ps))
      (concat (map (path_resources Unmarshal s idx dir) ps))" for ps
    by (induction ps) (auto intro!: list_all2_appendI one)
  then show ?thesis using Build_collects [OF assms(1)] by simp
qed

text \<open>C18: After a build that succeeds the index holds one entry for every valid document (with a kind, a
  metadata map and a name) of the readable \<open>.yaml\<close> files under the directory, each file once, and no other; each
  entry has the kind, name, namespace, creation time and text labels of its document, the version of its \<open>apiVersion\<close>,
  the group of the directory it lies in (or else of its \<open>apiVersion\<close>), and for each configured field the value at
  that dotted path, unless it is missing or null. Unreadable files and undecodable documents do not fail the build.\<close>

theorem Build_indexes_documents:
  assumes "Build Unmarshal s dir idx = (idx', Ok u)" and "fs_ok s"
    and "keys_once Unmarshal"
  shows "\<exists>paths. distinct paths \<and>
    set paths = {p. (p = dir \<or> inside dir p) \<and> HasSuffix p ''.yaml'' \<and> fs_fault s OpRead p = None \<and> content s p \<noteq> None} \<and>
    list_all2 (describes (in_cluster idx) (in_fields idx) dir) (concat (map (path_docs Unmarshal s) paths)) (in_resources idx')"
proof (intro exI conjI)
  let ?read = "\<lambda>p. HasSuffix p ''.yaml'' \<and> fs_fault s OpRead p = None \<and> content s p \<noteq> None"
  show "distinct (filter ?read (walk_entries s dir))" by (simp add: walk_entries_distinct)
  show "set (filter ?read (walk_entries s dir)) = {p. (p = dir \<or> inside dir p) \<and> ?read p}"
    by (auto simp: walk_entries_set)
  have "concat (map (path_docs Unmarshal s) (filter ?read ps)) = concat (map (path_docs Unmarshal s) ps)" for ps
    by (induction ps) (auto simp: path_docs_def split: option.split)
  then show "list_all2 (describes (in_cluster idx) (in_fields idx) dir)
      (concat (map (path_docs Unmarshal s) (filter ?read (walk_entries s dir)))) (in_resources idx')"
    using Build_docs [OF assms] by simp
qed

lemma list_all2_left: "list_all2 P xs ys \<Longrightarrow> x \<in> set xs \<Longrightarrow> \<exists>y \<in> set ys. P x y"
  by (induction rule: list_all2_induct) auto

lemma list_all2_right: "list_all2 P xs ys \<Longrightarrow> y \<in> set ys \<Longrightarrow> \<exists>x \<in> set xs. P x y"
  by (induction rule: list_all2_induct) auto

lemma describes_group:
  assumes "describes cluster flds dir (path, raw) r" "in_group_dir dir path g"
  shows "rm_Group r = g"
proof -
  have "in_group_dir dir path (rm_Group r)"
    using assms unfolding describes_def prod.case by (metis (full_types))
  then show ?thesis using assms(2) by (simp flip: groupFromPath_dir)
qed

lemma example_decoder_wf: "keys_once example_decoder"
  by (auto simp: keys_once_def example_decoder_def gm_wf_def gm_keys_def split: if_splits)

lemma Build_rest: "Build Unmarshal s dir idx = (idx', r) \<Longrightarrow> idx' = idx\<lparr>in_resources := in_resources idx'\<rparr>"
  by (auto simp: Build_def split: prod.splits result.splits)

lemma example_build:
  "Build example_decoder example_tree ''/w/c'' (New ''prod'' []) = (example_index, Ok ())"
proof -
  obtain idx' r where b: "Build example_decoder example_tree ''/w/c'' (New ''prod'' []) = (idx', r)"
    by (metis surj_pair)
  have "in_resources (fst (Build example_decoder example_tree ''/w/c'' (New ''prod'' []))) = [example_pod_meta] \<and>
      snd (Build example_decoder example_tree ''/w/c'' (New ''prod'' [])) = Ok ()"
    by code_simp
  then show ?thesis using Build_rest [OF b] b by (simp add: example_index_def)
qed

lemma example_tree_ok: "fs_ok example_tree"
  by code_simp

theorem Build_indexes_documents_witness:
  "\<exists>idx' r. Build example_decoder example_tree ''/w/c'' (New ''prod'' []) = (idx', Ok ()) \<and>
     r \<in> set (in_resources idx') \<and> rm_Kind r = ''Pod'' \<and> rm_Name r = ''p1'' \<and> rm_Namespace r = ''ns1'' \<and>
     rm_Group r = ''core'' \<and> rm_Version r = ''v1''"
proof -
  let ?p = "''/w/c/core/v1/namespaces/ns1/pods/p1.yaml''"
  obtain idx' where b: "Build example_decoder example_tree ''/w/c'' (New ''prod'' []) = (idx', Ok ())"
    by (rule that [OF example_build])
  obtain paths where paths: "set paths = {p. (p = ''/w/c'' \<or> inside ''/w/c'' p) \<and> HasSuffix p ''.yaml'' \<and>
        fs_fault example_tree OpRead p = None \<and> content example_tree p \<noteq> None}"
    and docs: "list_all2 (describes ''prod'' [] ''/w/c'') (concat (map (path_docs example_decoder example_tree) paths)) (in_resources idx')"
    using Build_indexes_documents [OF b example_tree_ok example_decoder_wf] by (auto simp: New_def)
  obtain raw where raw: "example_decoder ''pod'' = Inr (Some raw)"
    and meta: "gm_get raw ''kind'' = Some (AStr ''Pod'')" "text_at raw ''apiVersion'' = ''v1''"
      "gm_get raw ''metadata'' = Some (AMap [(''name'', AStr ''p1''), (''namespace'', AStr ''ns1'')])"
    by (simp add: example_decoder_def gm_get_def text_at_def)
  have input: "inside ''/w/c'' ?p" "HasSuffix ?p ''.yaml''" "content example_tree ?p = Some ''pod''"
    "fs_fault example_tree OpRead ?p = None" "''pod'' \<in> set (splitYAMLDocs ''pod'')"
    by code_simp+
  have valid: "valid_doc raw" using meta by (auto simp: valid_doc_def gm_get_def)
  have "(?p, raw) \<in> set (path_docs example_decoder example_tree ?p)"
    unfolding set_path_docs using input raw valid by blast
  moreover have "?p \<in> set paths" using paths input by simp
  ultimately have "(?p, raw) \<in> set (concat (map (path_docs example_decoder example_tree) paths))" by auto
  then obtain r where r: "r \<in> set (in_resources idx')" "describes ''prod'' [] ''/w/c'' (?p, raw) r"
    using list_all2_left [OF docs] by blast
  then have "\<exists>grp. api_parts (text_at raw ''apiVersion'') grp (rm_Version r)"
    unfolding describes_def prod.case by blast
  then have version: "rm_Version r = ''v1''" by (simp add: meta(2) api_parts_def)
  have kind_name: "rm_Kind r = ''Pod'' \<and> rm_Name r = ''p1'' \<and> rm_Namespace r = ''ns1''"
    using r(2) unfolding describes_def prod.case meta(1,3) by (auto simp: gm_get_def text_at_def)
  have core: "groupFromPath ?p ''/w/c'' = ''core''" by code_simp
  then have "in_group_dir ''/w/c'' ?p ''core''" using groupFromPath_dir [of ?p "''/w/c''" "''core''"] by simp
  then have "rm_Group r = ''core''" using describes_group [OF r(2)] by simp
  then show ?thesis
    using b r(1) kind_name version by blast
qed

subsection \<open>Queries\<close>

text \<open>A part of a document: the same values with map entries left out, at any depth.\<close>

inductive part_of :: "any \<Rightarrow> any \<Rightarrow> bool" where
  part_same: "part_of v v"
| part_map: "(\<And>k v. gm_get m k = Some v \<Longrightarrow> \<exists>v'. gm_get m' k = Some v' \<and> part_of v v') \<Longrightarrow> part_of (AMap m) (AMap m')"

inductive_cases part_of_mapE: "part_of v (AMap m')"
inductive_cases part_of_textE: "part_of v (AStr s)"

lemma part_of_maps:
  "part_of (AMap m) (AMap m') \<longleftrightarrow> (\<forall>k v. gm_get m k = Some v \<longrightarrow> (\<exists>v'. gm_get m' k = Some v' \<and> part_of v v'))"
  by (auto elim: part_of_mapE intro: part_map part_same)

lemma part_of_value:
  "part_of v v' \<Longrightarrow> value_at v ks = Some x \<Longrightarrow> \<exists>x'. value_at v' ks = Some x' \<and> part_of x x'"
proof (induction v ks arbitrary: v' rule: value_at.induct)
  case (2 m k ks)
  from "2.prems"(1) show ?case
  proof cases
    case part_same
    then show ?thesis using "2.prems"(2) part_of.part_same by blast
  next
    case (part_map m')
    then show ?thesis using "2.prems"(2) "2.IH" by (fastforce split: option.splits)
  qed
qed auto

text \<open>Storing a value of the document at its own path keeps the map a part of the document.\<close>

lemma setNestedField_part:
  "part_of (AMap m) (AMap full) \<Longrightarrow> v \<noteq> ANil \<Longrightarrow> getNestedField full path = v \<Longrightarrow>
   part_of (AMap (setNestedField m path v)) (AMap full)"
proof (induction m path v arbitrary: full rule: setNestedField.induct)
  case (1 m path v)
  show ?case
  proof (cases rule: Cut_cases [of path])
    case whole
    then have "gm_get full path = Some v"
      using "1.prems"(2,3) by (simp add: getNestedField.simps split: option.splits)
    then show ?thesis
      using whole "1.prems"(1) by (subst setNestedField.simps) (auto simp: part_of_maps gm.get_put part_same)
  next
    case (parts first rest)
    obtain c where c: "gm_get full first = Some (AMap c)" "getNestedField c rest = v"
      using "1.prems"(2,3) parts(3) by (subst (asm) getNestedField.simps) (auto split: option.splits any.splits)
    let ?child = "case gm_get m first of Some (AMap c) \<Rightarrow> c | _ \<Rightarrow> []"
    have "part_of (AMap ?child) (AMap c)"
    proof (cases "gm_get m first")
      case None
      then show ?thesis by (simp add: part_of_maps gm_get_Nil)
    next
      case (Some x)
      then have "part_of x (AMap c)"
        using "1.prems"(1) [unfolded part_of_maps, rule_format, OF Some] c(1) by auto
      then have "\<exists>d. x = AMap d" by (rule part_of_mapE) auto
      then show ?thesis using Some \<open>part_of x (AMap c)\<close> by auto
    qed
    then have "part_of (AMap (setNestedField ?child rest v)) (AMap c)"
      using "1.IH" [OF parts(3) [symmetric] refl] "1.prems"(2) c(2) by simp
    then show ?thesis
      using parts(3) "1.prems"(1) c(1)
      by (subst setNestedField.simps) (auto simp: part_of_maps gm.get_put Let_def)
  qed
qed

lemma fold_setNestedField_part:
  "part_of (AMap m) (AMap full) \<Longrightarrow> \<forall>(path, v) \<in> set fs. v \<noteq> ANil \<and> getNestedField full path = v \<Longrightarrow>
   part_of (AMap (fold (\<lambda>(path, v) d. setNestedField d path v) fs m)) (AMap full)"
proof (induction fs arbitrary: m)
  case (Cons f fs)
  obtain path v where f: "f = (path, v)" by fastforce
  have "part_of (AMap (setNestedField m path v)) (AMap full)"
    by (rule setNestedField_part) (use Cons.prems f in auto)
  then show ?case using Cons.IH Cons.prems(2) f by auto
qed simp

text \<open>The object that a query evaluates first is a part of the document of the entry, when the
  document has a namespace.\<close>

lemma buildObjectMap_part:
  assumes "describes cluster flds dir (path, raw) r" "rm_Namespace r \<noteq> []"
  shows "part_of (AMap (buildObjectMap r)) (AMap raw)"
proof -
  obtain meta where kind: "gm_get raw ''kind'' = Some (AStr (rm_Kind r))"
    and meta: "gm_get raw ''metadata'' = Some (AMap meta)" "gm_get meta ''name'' = Some (AStr (rm_Name r))"
      "rm_Namespace r = text_at meta ''namespace''"
    and wf: "gm_wf (rm_IndexedFields r)"
    and flds: "\<forall>field v. gm_get (rm_IndexedFields r) field = Some v \<longleftrightarrow>
      field \<in> set flds \<and> v \<noteq> ANil \<and> (\<exists>ks. dotted field ks \<and> value_at (AMap raw) ks = Some v)"
    using assms(1) unfolding describes_def prod.case by (elim exE conjE) (rule that; assumption)
  have "gm_get meta ''namespace'' = Some (AStr (rm_Namespace r))"
    using meta(3) assms(2) by (auto simp: text_at_def split: option.splits any.splits)
  then have "part_of (AMap [(''name'', AStr (rm_Name r)), (''namespace'', AStr (rm_Namespace r))]) (AMap meta)"
    using meta(2) by (auto simp: part_of_maps gm_get_def part_same)
  then have "part_of (AMap [(''kind'', AStr (rm_Kind r)),
      (''metadata'', AMap [(''name'', AStr (rm_Name r)), (''namespace'', AStr (rm_Namespace r))])]) (AMap raw)"
    using kind meta(1) by (subst part_of_maps) (auto simp: gm_get_def part_same)
  moreover have "v \<noteq> ANil \<and> getNestedField raw field = v" if "(field, v) \<in> set (rm_IndexedFields r)" for field v
  proof -
    have "gm_get (rm_IndexedFields r) field = Some v"
      using that wf by (simp add: gm_get_def gm_wf_def gm_keys_def map_of_is_SomeI)
    then show ?thesis using flds getNestedField_at by blast
  qed
  ultimately show ?thesis unfolding buildObjectMap_def by (intro fold_setNestedField_part) auto
qed

text \<open>An expression whose answer on a part of a document stands for the whole: where it has an answer
  on the document, on a part it has the same answer, or it fails for a key that is not there.\<close>

definition stable :: "obj_program \<Rightarrow> bool" where
  "stable prog \<longleftrightarrow> (\<forall>part full. part_of (AMap part) (AMap full) \<and> prog full \<in> {OutTrue, OutOther} \<longrightarrow>
     (case prog part of EvalError m \<Rightarrow> Contains m ''no such key'' | OutError m \<Rightarrow> True | out \<Rightarrow> out = prog full))"

text \<open>The documents that are stored for an entry: those of its file with its kind, namespace and name.\<close>

definition stored :: "yaml_decoder \<Rightarrow> fs \<Rightarrow> ResourceMeta \<Rightarrow> doc \<Rightarrow> bool" where
  "stored Unmarshal s r raw \<longleftrightarrow>
     (\<exists>data. content s (rm_FilePath r) = Some data \<and> raw \<in> set (decoded Unmarshal data)) \<and>
     (\<exists>meta. gm_get raw ''metadata'' = Some (AMap meta) \<and> EqualFold (text_at raw ''kind'') (rm_Kind r) \<and>
        text_at meta ''name'' = rm_Name r \<and> text_at meta ''namespace'' = rm_Namespace r)"

lemma loadFullDoc_stored:
  assumes "stored Unmarshal s r raw" "\<And>raw'. stored Unmarshal s r raw' \<Longrightarrow> raw' = raw"
    and "fs_fault s OpRead (rm_FilePath r) = None"
  shows "loadFullDoc Unmarshal s r = Inr raw"
proof -
  obtain data where data: "content s (rm_FilePath r) = Some data" "raw \<in> set (decoded Unmarshal data)"
    using assms(1) by (auto simp: stored_def)
  have iff: "is_doc_of r raw' \<longleftrightarrow> stored Unmarshal s r raw'" if "raw' \<in> set (decoded Unmarshal data)" for raw'
    using that data(1) by (auto simp: is_doc_of_def stored_def as_string_text_at as_map_Some_iff split: option.splits)
  have "find (is_doc_of r) (decoded Unmarshal data) = Some raw"
  proof (cases "find (is_doc_of r) (decoded Unmarshal data)")
    case None
    then show ?thesis using iff data(2) assms(1) by (auto simp: find_None_iff)
  next
    case (Some raw')
    then have "is_doc_of r raw'" "raw' \<in> set (decoded Unmarshal data)" by (auto simp: find_Some_iff)
    then show ?thesis using Some iff assms(2) by blast
  qed
  moreover have "ReadFile s (rm_FilePath r) = Ok data" using data(1) assms(3) by (simp add: ReadFile_Ok)
  ultimately show ?thesis by (simp add: loadFullDoc_def decoded_def)
qed

lemma evalResource_stored:
  assumes "stable prog" "part_of (AMap (buildObjectMap r)) (AMap raw)" "prog raw \<in> {OutTrue, OutOther}"
    and "loadFullDoc Unmarshal s r = Inr raw"
  shows "evalResource Unmarshal s prog r = Ok (prog raw = OutTrue)"
proof -
  have "case prog (buildObjectMap r) of EvalError m \<Rightarrow> Contains m ''no such key'' | OutError m \<Rightarrow> True | out \<Rightarrow> out = prog raw"
    using assms(1-3) unfolding stable_def by blast
  then show ?thesis
    using assms(3,4) by (auto simp: evalResource_def split: cel_result.splits)
qed

lemma listed_entry:
  assumes "Build Unmarshal s dir idx = (built, Ok u)" "fs_ok s" "keys_once Unmarshal"
    and "r \<in> set (in_resources built)" "rm_Namespace r \<noteq> []"
  shows "\<exists>raw. stored Unmarshal s r raw \<and> part_of (AMap (buildObjectMap r)) (AMap raw) \<and> fs_fault s OpRead (rm_FilePath r) = None"
proof -
  obtain path raw p where d: "describes (in_cluster idx) (in_fields idx) dir (path, raw) r"
    and doc: "(path, raw) \<in> set (path_docs Unmarshal s p)"
    using list_all2_right [OF Build_docs [OF assms(1-3)] assms(4)] by fastforce
  have "rm_FilePath r = path" using d unfolding describes_def prod.case by blast
  then have "(\<exists>data. content s (rm_FilePath r) = Some data \<and> raw \<in> set (decoded Unmarshal data)) \<and>
      fs_fault s OpRead (rm_FilePath r) = None"
    using doc by (auto simp: set_path_docs set_decoded)
  moreover have "\<exists>meta. gm_get raw ''metadata'' = Some (AMap meta) \<and> EqualFold (text_at raw ''kind'') (rm_Kind r) \<and>
      text_at meta ''name'' = rm_Name r \<and> text_at meta ''namespace'' = rm_Namespace r"
    using d unfolding describes_def prod.case by (elim exE conjE) (simp add: text_at_def EqualFold_def)
  ultimately show ?thesis using buildObjectMap_part [OF d assms(5)] by (auto simp: stored_def)
qed

text \<open>C26: A CEL query over an index that was built from the working tree, the files being the same, selects exactly the listed
  entries whose stored documents satisfy the expression, although it evaluates the object
  made from the entry first, and keeps the program cache right. This is for expressions whose answer on a
  part of a document stands for the whole (a negative test is not one) and that have an answer on the stored documents, for entries
  with a namespace, and files that hold one document of a kind, namespace and name.\<close>

theorem IndexQuery_full_documents:
  assumes "Build Unmarshal s dir idx0 = (built, Ok u)" "fs_ok s" "keys_once Unmarshal"
    and "in_resources idx = in_resources built" "cache_ok compile idx" "compile expr = Inr prog" "expr \<noteq> []" "stable prog"
    and "\<And>r. r \<in> set (List grp kind namespace sel idx) \<Longrightarrow> rm_Namespace r \<noteq> []"
    and "\<And>r raw raw'. r \<in> set (List grp kind namespace sel idx) \<Longrightarrow> stored Unmarshal s r raw \<Longrightarrow>
      stored Unmarshal s r raw' \<Longrightarrow> raw' = raw"
    and "\<And>r raw. r \<in> set (List grp kind namespace sel idx) \<Longrightarrow> stored Unmarshal s r raw \<Longrightarrow> prog raw \<in> {OutTrue, OutOther}"
  shows "\<exists>idx'. IndexQuery compile Unmarshal s grp kind namespace sel expr idx =
      (idx', Ok (filter (\<lambda>r. \<exists>raw. stored Unmarshal s r raw \<and> prog raw = OutTrue) (List grp kind namespace sel idx))) \<and>
    cache_ok compile idx' \<and> in_resources idx' = in_resources idx"
proof -
  obtain cache where g: "getOrCompile compile expr (in_celCache idx) = (cache, Inr prog)"
    using getOrCompile_coherent(1) [OF assms(5), of expr] assms(6)
    by (cases "getOrCompile compile expr (in_celCache idx)") auto
  then have "cache_ok compile (idx\<lparr>in_celCache := cache\<rparr>)"
    using getOrCompile_coherent(2) [OF assms(5), of expr] by simp
  moreover have "evalResource Unmarshal s prog r = Ok (\<exists>raw. stored Unmarshal s r raw \<and> prog raw = OutTrue)"
    if r: "r \<in> set (List grp kind namespace sel idx)" for r
  proof -
    have "r \<in> set (in_resources built)" using r assms(4) by (simp add: List_def)
    from listed_entry [OF assms(1-3) this assms(9) [OF r]] obtain raw where raw: "stored Unmarshal s r raw"
      "part_of (AMap (buildObjectMap r)) (AMap raw)" "fs_fault s OpRead (rm_FilePath r) = None" by blast
    have only: "raw' = raw" if "stored Unmarshal s r raw'" for raw' by (rule assms(10) [OF r raw(1) that])
    have "loadFullDoc Unmarshal s r = Inr raw" by (rule loadFullDoc_stored [OF raw(1) only raw(3)])
    from evalResource_stored [OF assms(8) raw(2) assms(11) [OF r raw(1)] this]
    have "evalResource Unmarshal s prog r = Ok (prog raw = OutTrue)" .
    moreover have "(prog raw = OutTrue) = (\<exists>raw. stored Unmarshal s r raw \<and> prog raw = OutTrue)"
      using raw(1) only by blast
    ultimately show ?thesis by simp
  qed
  then have "eval_all (evalResource Unmarshal s prog) (List grp kind namespace sel idx) =
      Ok (filter (\<lambda>r. \<exists>raw. stored Unmarshal s r raw \<and> prog raw = OutTrue) (List grp kind namespace sel idx))"
    by (rule eval_all_filter)
  ultimately show ?thesis using assms(7) g by (simp add: IndexQuery_def)
qed

text \<open>An expression such as \<open>object.metadata.name == "p1"\<close>, which compares the text at a path.\<close>

definition text_is :: "string list \<Rightarrow> string \<Rightarrow> obj_program" where
  "text_is ks t d = (case value_at (AMap d) ks of
     None \<Rightarrow> EvalError ''no such key'' | Some v \<Rightarrow> if v = AStr t then OutTrue else OutOther)"

lemma text_is_stable: "stable (text_is ks t)"
proof -
  have "case text_is ks t part of EvalError m \<Rightarrow> Contains m ''no such key'' | OutError m \<Rightarrow> True | out \<Rightarrow> out = text_is ks t full"
    if p: "part_of (AMap part) (AMap full)" for part full
  proof (cases "value_at (AMap part) ks")
    case None
    then show ?thesis by (simp add: text_is_def HasPrefix_def)
  next
    case (Some x)
    then obtain x' where x': "value_at (AMap full) ks = Some x'" "part_of x x'" using part_of_value [OF p Some] by blast
    then have "x = AStr t \<longleftrightarrow> x' = AStr t" by (auto elim: part_of.cases)
    then show ?thesis using Some x'(1) by (simp add: text_is_def)
  qed
  then show ?thesis unfolding stable_def by blast
qed

theorem IndexQuery_full_documents_witness:
  "\<exists>idx'. IndexQuery (\<lambda>_. Inr (text_is [''apiVersion''] ''v1'')) example_decoder example_tree [] ''pod'' [] [] ''e'' example_index =
     (idx', Ok [example_pod_meta])"
proof -
  let ?prog = "text_is [''apiVersion''] ''v1''"
  have l: "List [] ''pod'' [] [] example_index = [example_pod_meta]" by code_simp
  obtain raw where raw: "example_decoder ''pod'' = Inr (Some raw)"
    and kind: "gm_get raw ''kind'' = Some (AStr ''Pod'')" "gm_get raw ''apiVersion'' = Some (AStr ''v1'')"
    and meta: "gm_get raw ''metadata'' = Some (AMap [(''name'', AStr ''p1''), (''namespace'', AStr ''ns1'')])"
    by (simp add: example_decoder_def gm_get_def)
  have facts: "content example_tree (rm_FilePath example_pod_meta) = Some ''pod''" "splitYAMLDocs ''pod'' = [''pod'']"
    by code_simp+
  have only: "stored example_decoder example_tree example_pod_meta raw' \<longleftrightarrow> raw' = raw" for raw'
    using facts raw kind meta
    by (auto simp: stored_def decoded_def example_pod_meta_def text_at_def EqualFold_def gm_get_def)
  have prog: "?prog raw = OutTrue" using kind by (simp add: text_is_def)
  have "cache_ok (\<lambda>_. Inr ?prog) example_index"
    by (simp add: cache_ok_def example_index_def New_def gm_get_def)
  from IndexQuery_full_documents [OF example_build example_tree_ok example_decoder_wf refl this refl _ text_is_stable,
      where expr = "''e''" and grp = "[]" and kind = "''pod''" and namespace = "[]" and sel = "[]"]
  show ?thesis using only prog by (auto simp: l example_pod_meta_def)
qed

text \<open>A resource without a namespace: the object made from its entry has the empty text as its namespace, where
  the stored document has none. A comparison of the two is answered yes, and fails on the document.\<close>

lemma evalResource_no_namespace:
  assumes "rm_Namespace r = []" "''metadata'' \<notin> (first_key \<circ> fst) ` set (rm_IndexedFields r)"
    and "gm_get raw ''metadata'' = Some (AMap meta)" "gm_get meta ''namespace'' = None"
  shows "evalResource Unmarshal s (text_is [''metadata'', ''namespace''] []) r = Ok True \<and>
    text_is [''metadata'', ''namespace''] [] raw = EvalError ''no such key''"
proof -
  have "gm_get (buildObjectMap r) ''metadata'' =
      Some (AMap [(''name'', AStr (rm_Name r)), (''namespace'', AStr [])])"
    unfolding buildObjectMap_def fold_set_nested_other [OF assms(2)] by (simp add: gm_get_def assms(1))
  then show ?thesis using assms(3,4) by (simp add: evalResource_def text_is_def gm_get_def)
qed

end
