(* ===== verification/GoFloat.thy ===== *)
theory GoFloat
  imports Prelude "HOL-Library.Log_Nat"
begin

text \<open>
  \<open>float64(a) / float64(b)\<close> for two counts: the rational quotient rounded to 53 bits of
  precision, ties to even. Counts are far below \<open>2 ^ 53\<close>, so their own conversion is
  exact, and the exponent of a quotient of counts is never out of range.
\<close>

definition two_pow :: "int \<Rightarrow> rat" where
  "two_pow k = (if 0 \<le> k then 2 ^ nat k else 1 / 2 ^ nat (- k))"

text \<open>The exponent of a positive number: \<open>2 ^ e \<le> x < 2 ^ (e + 1)\<close>.\<close>

definition ilog2 :: "rat \<Rightarrow> int" where
  "ilog2 x =
     (if 1 \<le> x then int (floorlog 2 (nat \<lfloor>x\<rfloor>)) - 1
      else - int (floorlog 2 (nat \<lceil>1 / x\<rceil> - 1)))"

definition round_even :: "rat \<Rightarrow> int" where
  "round_even x =
     (let n = \<lfloor>x\<rfloor>; d = x - of_int n
      in if d < 1 / 2 then n else if d > 1 / 2 then n + 1 else if even n then n else n + 1)"

definition float64_of :: "rat \<Rightarrow> rat" where
  "float64_of x =
     (if x = 0 then 0
      else let e = ilog2 x in of_int (round_even (x * two_pow (52 - e))) * two_pow (e - 52))"

text \<open>The ratio of the code: 0 when the total is 0.\<close>

definition count_ratio :: "nat \<Rightarrow> nat \<Rightarrow> rat" where
  "count_ratio cnt totl = (if totl > 0 then float64_of (of_nat cnt / of_nat totl) else 0)"

subsection \<open>Facts\<close>

lemma round_even_le: "x \<le> of_int n \<Longrightarrow> round_even x \<le> n"
proof -
  assume x: "x \<le> of_int n"
  show "round_even x \<le> n"
  proof (cases "x = of_int n")
    case True
    then show ?thesis by (simp add: round_even_def)
  next
    case False
    then have "\<lfloor>x\<rfloor> < n" using x by (simp add: floor_less_iff)
    then show ?thesis by (auto simp: round_even_def Let_def)
  qed
qed

lemma round_even_nonneg: "0 \<le> x \<Longrightarrow> 0 \<le> round_even x"
  by (auto simp: round_even_def Let_def)

lemma two_pow_pos [simp]: "0 < two_pow k"
  by (simp add: two_pow_def)

lemma two_pow_add: "two_pow (a + b) = two_pow a * two_pow b"
proof -
  have "two_pow k = 2 powi k" for k
    by (simp add: two_pow_def power_int_def power_one_over inverse_eq_divide)
  then show ?thesis by (simp add: power_int_add)
qed

lemma ilog2_below_one:
  assumes "0 < x" "x < 1"
  shows "ilog2 x < 0" and "x * two_pow (- ilog2 x) < 2"
proof -
  define c where "c = \<lceil>1 / x\<rceil>"
  define n where "n = nat c - 1"
  have "1 < c" using assms by (simp add: c_def less_ceiling_iff)
  then have n: "0 < n" "int n = c - 1" by (auto simp: n_def)
  have e: "ilog2 x = - int (floorlog 2 n)" using assms by (simp add: ilog2_def n_def c_def)
  have k: "0 < floorlog 2 n" using n by (simp add: floorlog_def)
  then show "ilog2 x < 0" by (simp add: e)
  have "2 ^ (floorlog 2 n - 1) \<le> n" using n by (intro floorlog_bounds [THEN conjunct1]) auto
  then have "(2 :: rat) ^ (floorlog 2 n - 1) \<le> of_nat n" by (metis of_nat_le_iff of_nat_numeral of_nat_power)
  also have "of_nat n < 1 / x"
  proof -
    have "of_int (\<lceil>1 / x\<rceil> - 1) < 1 / x" by (simp add: ceiling_correct)
    then show ?thesis unfolding c_def [symmetric] n(2) [symmetric] by simp
  qed
  finally have "x * 2 ^ (floorlog 2 n - 1) < 1" using assms by (simp add: field_simps)
  moreover have "(2 :: rat) ^ floorlog 2 n = 2 * 2 ^ (floorlog 2 n - 1)"
    using k by (cases "floorlog 2 n") auto
  ultimately show "x * two_pow (- ilog2 x) < 2" by (simp add: e two_pow_def)
qed

lemma float64_of_exact: "float64_of 0 = 0" "float64_of 1 = 1"
  by code_simp+

lemma float64_of_unit:
  assumes "0 \<le> x" "x \<le> 1"
  shows "0 \<le> float64_of x" and "float64_of x \<le> 1"
proof -
  show "0 \<le> float64_of x"
    using assms by (auto simp: float64_of_def Let_def intro!: mult_nonneg_nonneg round_even_nonneg less_imp_le [OF two_pow_pos])
  show "float64_of x \<le> 1"
  proof (cases "x = 0 \<or> x = 1")
    case True
    then show ?thesis using float64_of_exact by auto
  next
    case False
    then have x: "0 < x" "x < 1" using assms by auto
    let ?e = "ilog2 x"
    have "x * two_pow (52 - ?e) = (x * two_pow (- ?e)) * two_pow 52"
      using two_pow_add [of "- ?e" 52] by (simp add: mult.assoc)
    also have "\<dots> \<le> 2 * two_pow 52"
      using ilog2_below_one(2) [OF x] by (intro mult_right_mono) (auto simp: less_imp_le)
    finally have "x * two_pow (52 - ?e) \<le> of_int (2 ^ 53)" by (simp add: two_pow_def)
    then have "round_even (x * two_pow (52 - ?e)) \<le> 2 ^ 53" by (rule round_even_le)
    then have "(of_int (round_even (x * two_pow (52 - ?e))) :: rat) \<le> of_int (2 ^ 53)"
      by (simp only: of_int_le_iff)
    also have "(of_int (2 ^ 53) :: rat) = two_pow 53" by (simp add: two_pow_def)
    finally have "of_int (round_even (x * two_pow (52 - ?e))) \<le> two_pow 53" .
    then have "float64_of x \<le> two_pow 53 * two_pow (?e - 52)"
      using x by (simp add: float64_of_def Let_def mult_right_mono less_imp_le)
    also have "\<dots> = two_pow (?e + 1)" by (simp add: add.commute flip: two_pow_add)
    also have "\<dots> \<le> 1" using ilog2_below_one(1) [OF x] by (auto simp: two_pow_def)
    finally show ?thesis .
  qed
qed

lemma count_ratio_unit: "cnt \<le> totl \<Longrightarrow> 0 \<le> count_ratio cnt totl \<and> count_ratio cnt totl \<le> 1"
  by (auto simp: count_ratio_def intro!: float64_of_unit)

end
