(* ===== verification/ApiTypes.thy ===== *)
theory ApiTypes
  imports GoData
begin

text \<open>
  The types of the REST interface: \<open>internal/api/oas_schemas_gen.go\<close> and the parameter structs of
  \<open>internal/api/oas_parameters_gen.go\<close>. A generated \<open>OptX{Value, Set}\<close> is an option, a generated
  \<open>OptNilX{Value, Set, Null}\<close> one of three values. A \<open>float64\<close> is a rational or one of the special
  values; a \<open>time.Time\<close> is the nanoseconds since the epoch, as elsewhere.
\<close>

subsection \<open>Optional and nullable values\<close>

fun Or :: "'a option \<Rightarrow> 'a \<Rightarrow> 'a" where
  "Or (Some v) d = v"
| "Or None d = d"

datatype 'a OptNil = Unset | Null | Set 'a

fun Get_OptNil :: "'a OptNil \<Rightarrow> 'a option" where
  "Get_OptNil Null = None"
| "Get_OptNil Unset = None"
| "Get_OptNil (Set v) = Some v"

fun Or_OptNil :: "'a OptNil \<Rightarrow> 'a \<Rightarrow> 'a" where
  "Or_OptNil opt d = (case Get_OptNil opt of Some v \<Rightarrow> v | None \<Rightarrow> d)"

datatype float64 = Finite rat | PosInf | NegInf | NaN

text \<open>\<open>x < y\<close> for a finite \<open>x\<close>.\<close>

fun below_float :: "rat \<Rightarrow> float64 \<Rightarrow> bool" where
  "below_float x (Finite y) \<longleftrightarrow> x < y"
| "below_float x PosInf \<longleftrightarrow> True"
| "below_float x NegInf \<longleftrightarrow> False"
| "below_float x NaN \<longleftrightarrow> False"

subsection \<open>Responses\<close>

record ApiChangeEvent =
  ae_Timestamp :: int
  ae_Sha :: string
  ae_Cluster :: string
  ae_Group :: string
  ae_Kind :: string
  ae_Namespace :: string
  ae_Name :: string
  ae_ChangeType :: string

record ApiClusterStatus =
  as_Name :: string
  as_LastPullAt :: "int OptNil"
  as_LastPullErr :: string
  as_ResourceCount :: int

record ApiDiffResult =
  ad_Before :: string
  ad_After :: string

record ApiFieldVolatilityEntry =
  af_Field :: string
  af_Count :: int
  af_Total :: int
  af_Ratio :: float64

record ApiGVKInfo =
  ag_Group :: string
  ag_Version :: string
  ag_Kind :: string

record HistoryPage =
  hp_Items :: "ApiChangeEvent list"
  hp_Total :: int
  hp_Offset :: int
  hp_Limit :: int

record SnapshotResource =
  ar_Cluster :: string
  ar_Group :: string
  ar_Kind :: string
  ar_Name :: string
  ar_Namespace :: string
  ar_Labels :: "string gmap OptNil"
  ar_CreationTimestamp :: "string option"

record SnapshotPage =
  sp_Items :: "SnapshotResource list"
  sp_Total :: int
  sp_Offset :: int
  sp_Limit :: int
  sp_CommitSha :: "string OptNil"
  sp_CommitTime :: "int OptNil"

record StatusResponse =
  sx_Clusters :: "ApiClusterStatus list"

record ApiVolatilityEntry =
  av_Cluster :: string
  av_Group :: string
  av_Kind :: string
  av_Namespace :: string
  av_Name :: string
  av_Count :: int
  av_Total :: int
  av_Ratio :: float64

record VolatilityPage =
  vp_Items :: "ApiVolatilityEntry list"
  vp_Total :: int
  vp_Offset :: int
  vp_Limit :: int

text \<open>The response interfaces: one constructor per type that implements them.\<close>

datatype GetDiffRes = DiffOK ApiDiffResult | GetDiffBadRequest | GetDiffNotFound

datatype GetResourceRes = GetResourceOK string | GetResourceNotFound

datatype GetSnapshotRes = SnapshotOK SnapshotPage | GetSnapshotBadRequest

datatype GetVolatilityFieldsRes =
    GetVolatilityFieldsOK "ApiFieldVolatilityEntry list"
  | GetVolatilityFieldsBadRequest

datatype HealthzRes = HealthzOK | HealthzServiceUnavailable

subsection \<open>The enumerated change types\<close>

definition change_types :: "string list" where
  "change_types = [''added'', ''modified'', ''deleted'']"

definition Validate_ChangeType :: "string \<Rightarrow> error option" where
  "Validate_ChangeType s =
     (if s = ''added'' then None
      else if s = ''modified'' then None
      else if s = ''deleted'' then None
      else Some (ErrText (''invalid value: '' @ s)))"

lemma Validate_ChangeType_None: "Validate_ChangeType s = None \<longleftrightarrow> s \<in> set change_types"
  by (auto simp: Validate_ChangeType_def change_types_def)

subsection \<open>Parameters\<close>

record GetDiffParams =
  dp_Cluster :: string
  dp_Group :: string
  dp_Kind :: string
  dp_Namespace :: "string option"
  dp_Name :: string
  dp_From :: string
  dp_To :: string

record GetHistoryParams =
  yp_Since :: "int option"
  yp_Until :: "int option"
  yp_Cluster :: "string option"
  yp_Group :: "string option"
  yp_Kind :: "string option"
  yp_Namespace :: "string option"
  yp_Name :: "string option"
  yp_ChangeType :: "string option"
  yp_Limit :: "int option"
  yp_Offset :: "int option"

record GetResourceParams =
  rp_Cluster :: string
  rp_Group :: string
  rp_Kind :: string
  rp_Namespace :: "string option"
  rp_Name :: string

record GetSnapshotParams =
  np_Datetime :: "int option"
  np_Cluster :: "string option"
  np_Group :: "string option"
  np_Kind :: "string option"
  np_Namespace :: "string option"
  np_Name :: "string option"
  np_Cel :: "string option"
  np_Limit :: "int option"
  np_Offset :: "int option"

record GetVolatilityParams =
  op_Cluster :: "string option"
  op_Group :: "string option"
  op_Kind :: "string option"
  op_Namespace :: "string option"
  op_Name :: "string option"
  op_Commits :: "int option"
  op_Threshold :: "float64 option"
  op_Limit :: "int option"
  op_Offset :: "int option"

record GetVolatilityFieldsParams =
  fp_Cluster :: "string option"
  fp_Group :: string
  fp_Kind :: string
  fp_Namespace :: "string option"
  fp_Name :: "string option"
  fp_Commits :: "int option"

record ListGVKsParams =
  gp_Cluster :: "string option"
  gp_Namespace :: "string option"

record ListNamespacesParams =
  lp_Cluster :: "string option"

end
