(* ===== verification/QueryServer.thy ===== *)
theory QueryServer
  imports Index ChangeQueries GoFloat ApiTypes
begin

text \<open>
  \<open>internal/query\<close>: the read operations behind the REST and the MCP interface. A
  \<open>ClusterQuerier\<close> is the record of what its methods return at the time of the call; the map
  of the server leads from names to queriers, and a querier that a loop of the code holds is
  known by its name. Reading a name that the map lacks gives a nil interface, on which every
  method call panics. Only a query with a CEL expression changes anything: the program cache
  of the index.
\<close>

subsection \<open>Types\<close>

record ClusterQuerier =
  cq_Index :: Index
  cq_CommitIndex :: "CommitIndex option"
  cq_ChangeIndex :: "ChangeIndex option"
  cq_FileAt :: "string \<Rightarrow> string \<Rightarrow> string result"
  cq_RelPath :: "string \<Rightarrow> string"
  cq_GitRepo :: "(string \<Rightarrow> error + commit_obj) option"
  cq_SubDir :: string
  cq_WorkDir :: string

record Server =
  sv_clusters :: "ClusterQuerier gmap"
  sv_clusterNames :: "string list"

record DiffResult =
  df_Before :: string
  df_After :: string

record SnapshotResult =
  sr_Items :: "ResourceMeta list"
  sr_Total :: nat
  sr_CommitSHA :: string
  sr_CommitTime :: int

record VolatilityResult =
  vr_Cluster :: string
  vr_Group :: string
  vr_Kind :: string
  vr_Namespace :: string
  vr_Name :: string
  vr_Count :: nat
  vr_Total :: nat
  vr_Ratio :: rat

record FieldVolatilityResult =
  fr_Field :: string
  fr_Count :: nat
  fr_Total :: nat
  fr_Ratio :: rat

text \<open>What the operations use of the rest of the program: \<open>sort.Slice\<close> at its four types, the order of
  a map iteration, the CEL compiler, the YAML codec and the file system.\<close>

record query_env =
  qe_sort_events :: "(ChangeEvent \<Rightarrow> ChangeEvent \<Rightarrow> bool) \<Rightarrow> ChangeEvent list \<Rightarrow> ChangeEvent list"
  qe_sort_results :: "(VolatilityResult \<Rightarrow> VolatilityResult \<Rightarrow> bool) \<Rightarrow> VolatilityResult list \<Rightarrow> VolatilityResult list"
  qe_sort_fields ::
    "(FieldVolatilityResult \<Rightarrow> FieldVolatilityResult \<Rightarrow> bool) \<Rightarrow> FieldVolatilityResult list \<Rightarrow> FieldVolatilityResult list"
  qe_sort_entries ::
    "(FieldVolatilityEntry \<Rightarrow> FieldVolatilityEntry \<Rightarrow> bool) \<Rightarrow> FieldVolatilityEntry list \<Rightarrow> FieldVolatilityEntry list"
  qe_range :: "(vkey \<times> string list) list \<Rightarrow> (vkey \<times> string list) list"
  qe_compile :: "string \<Rightarrow> error + obj_program"
  qe_Unmarshal :: yaml_decoder
  qe_Marshal :: yaml_encoder
  qe_fs :: fs

definition NewServer :: "ClusterQuerier gmap \<Rightarrow> string list \<Rightarrow> Server" where
  "NewServer clusters clusterNames = \<lparr>sv_clusters = clusters, sv_clusterNames = clusterNames\<rparr>"

subsection \<open>Choosing the clusters and the page\<close>

definition querier :: "Server \<Rightarrow> string \<Rightarrow> ClusterQuerier result" where
  "querier s name =
     (case gm_get (sv_clusters s) name of
        Some cq \<Rightarrow> Ok cq
      | None \<Rightarrow> Panic ''nil pointer dereference'')"

definition resolve :: "Server \<Rightarrow> string \<Rightarrow> string list" where
  "resolve s cluster =
     (if cluster \<noteq> [] then (if gm_get (sv_clusters s) cluster \<noteq> None then [cluster] else [])
      else sv_clusterNames s)"

text \<open>The clusters that the loops with \<open>if cluster != "" && clusterName != cluster { continue }\<close>
  visit.\<close>

definition named :: "Server \<Rightarrow> string \<Rightarrow> string list" where
  "named s cluster = filter (\<lambda>clusterName. \<not> (cluster \<noteq> [] \<and> clusterName \<noteq> cluster)) (sv_clusterNames s)"

text \<open>A loop that appends what it gets from each cluster.\<close>

fun gather :: "('n \<Rightarrow> 'a list result) \<Rightarrow> 'n list \<Rightarrow> 'a list result" where
  "gather f [] = Ok []"
| "gather f (n # ns) = rbind (f n) (\<lambda>xs. map_result (\<lambda>rest. xs @ rest) (gather f ns))"

definition paginate :: "int \<Rightarrow> int \<Rightarrow> int \<Rightarrow> int \<times> int" where
  "paginate offset limit totl =
     (let start = offset;
          start = (if start > totl then totl else start);
          e = go_add start limit;
          e = (if e > totl then totl else e)
      in (start, e))"

text \<open>\<open>all[start:end]\<close> of the clamped bounds.\<close>

definition page_of :: "'a list \<Rightarrow> int \<Rightarrow> int \<Rightarrow> 'a list result" where
  "page_of xs offset limit =
     (case paginate offset limit (int (length xs)) of (start, e) \<Rightarrow> go_slice xs start e)"

subsection \<open>Lists\<close>

definition ListClusters :: "Server \<Rightarrow> string list" where
  "ListClusters s = sv_clusterNames s"

definition ListGVKs :: "Server \<Rightarrow> string \<Rightarrow> string \<Rightarrow> GVKInfo list result" where
  "ListGVKs s cluster namespace =
     map_result
       (\<lambda>found. go_sort (\<lambda>a b. if gk_Group a \<noteq> gk_Group b then gk_Group a < gk_Group b
                               else if gk_Version a \<noteq> gk_Version b then gk_Version a < gk_Version b
                               else gk_Kind a < gk_Kind b) (dedup_seen [] found))
       (gather (\<lambda>n. map_result (\<lambda>cq. GVKs namespace (cq_Index cq)) (querier s n)) (resolve s cluster))"

definition ListNamespaces :: "Server \<Rightarrow> string \<Rightarrow> string list result" where
  "ListNamespaces s cluster =
     map_result (\<lambda>found. sort_Strings (dedup_seen [] found))
       (gather (\<lambda>n. map_result (\<lambda>cq. Namespaces (cq_Index cq)) (querier s n)) (resolve s cluster))"

subsection \<open>One resource\<close>

definition GetResource ::
  "query_env \<Rightarrow> Server \<Rightarrow> string \<Rightarrow> string \<Rightarrow> string \<Rightarrow> string \<Rightarrow> string \<Rightarrow> string result" where
  "GetResource env s cluster grp kind namespace name =
     (case gm_get (sv_clusters s) cluster of
        None \<Rightarrow> Err ErrClusterNotFound
      | Some cq \<Rightarrow>
          (case Get grp kind namespace name (cq_Index cq) of
             None \<Rightarrow> Err ErrNotFound
           | Some meta \<Rightarrow> ReadFile (qe_fs env) (rm_FilePath meta)))"

definition findFileInCommit ::
  "ClusterQuerier \<Rightarrow> string \<Rightarrow> string \<Rightarrow> string \<Rightarrow> string \<Rightarrow> error + string" where
  "findFileInCommit cq grp namespace name sha =
     (case cq_GitRepo cq of
        None \<Rightarrow> Inr []
      | Some CommitObject \<Rightarrow>
          (case CommitObject sha of
             Inl err \<Rightarrow> Inl err
           | Inr commit \<Rightarrow>
               (let pfx = cq_SubDir cq @ ''/'';
                    pfx = (if cq_SubDir cq = [] then [] else pfx)
                in FindResourcePathInCommit commit pfx grp namespace name)))"

text \<open>The path of the resource: from the index, or else from the tree of the first commit.\<close>

definition diff_path ::
  "ClusterQuerier \<Rightarrow> string \<Rightarrow> string \<Rightarrow> string \<Rightarrow> string \<Rightarrow> string \<Rightarrow> string result" where
  "diff_path cq grp kind namespace name fromSHA =
     (case Get grp kind namespace name (cq_Index cq) of
        Some meta \<Rightarrow>
          (let relPath = cq_RelPath cq (rm_FilePath meta)
           in if relPath = [] then Err ErrNotFound else Ok relPath)
      | None \<Rightarrow>
          (case findFileInCommit cq grp namespace name fromSHA of
             Inl err \<Rightarrow> Err ErrNotFound
           | Inr found \<Rightarrow> if found = [] then Err ErrNotFound else Ok found))"

definition GetDiff ::
  "Server \<Rightarrow> string \<Rightarrow> string \<Rightarrow> string \<Rightarrow> string \<Rightarrow> string \<Rightarrow> string \<Rightarrow> string \<Rightarrow> DiffResult result" where
  "GetDiff s cluster grp kind namespace name fromSHA toSHA =
     (case gm_get (sv_clusters s) cluster of
        None \<Rightarrow> Err ErrClusterNotFound
      | Some cq \<Rightarrow>
          rbind (diff_path cq grp kind namespace name fromSHA) (\<lambda>relPath.
            rbind (cq_FileAt cq relPath fromSHA) (\<lambda>before.
              map_result (\<lambda>after. \<lparr>df_Before = before, df_After = after\<rparr>) (cq_FileAt cq relPath toSHA))))"

subsection \<open>Snapshots\<close>

text \<open>One iteration of \<open>GetCurrentSnapshot\<close>: the querier whose cache may have changed, and the
  resources found.\<close>

definition snapshot_one ::
  "query_env \<Rightarrow> string \<Rightarrow> string \<Rightarrow> string \<Rightarrow> string \<Rightarrow> string \<Rightarrow> string gmap \<Rightarrow> ClusterQuerier \<Rightarrow>
   ClusterQuerier \<times> ResourceMeta list result" where
  "snapshot_one env grp kind namespace name cel labelSel cq =
     (case (if cel \<noteq> [] then
              IndexQuery (qe_compile env) (qe_Unmarshal env) (qe_fs env) grp kind namespace labelSel cel (cq_Index cq)
            else (cq_Index cq, Ok (List grp kind namespace labelSel (cq_Index cq)))) of
        (idx, results) \<Rightarrow>
          (cq\<lparr>cq_Index := idx\<rparr>,
           map_result (\<lambda>rs. if name \<noteq> [] then filter (\<lambda>r. rm_Name r = name) rs else rs) results))"

fun snapshot_loop ::
  "(ClusterQuerier \<Rightarrow> ClusterQuerier \<times> ResourceMeta list result) \<Rightarrow> string list \<Rightarrow> Server \<Rightarrow>
   Server \<times> ResourceMeta list result" where
  "snapshot_loop one [] s = (s, Ok [])"
| "snapshot_loop one (n # ns) s =
     (case querier s n of
        Err e \<Rightarrow> (s, Err e)
      | Panic m \<Rightarrow> (s, Panic m)
      | Ok cq \<Rightarrow>
          (case one cq of
             (cq', Ok rs) \<Rightarrow>
               (case snapshot_loop one ns (s\<lparr>sv_clusters := gm_put n cq' (sv_clusters s)\<rparr>) of
                  (s', rest) \<Rightarrow> (s', map_result (\<lambda>xs. rs @ xs) rest))
           | (cq', err) \<Rightarrow> (s\<lparr>sv_clusters := gm_put n cq' (sv_clusters s)\<rparr>, err)))"

definition GetCurrentSnapshot ::
  "query_env \<Rightarrow> Server \<Rightarrow> string \<Rightarrow> string \<Rightarrow> string \<Rightarrow> string \<Rightarrow> string \<Rightarrow> string \<Rightarrow> string gmap \<Rightarrow>
   int \<Rightarrow> int \<Rightarrow> Server \<times> SnapshotResult result" where
  "GetCurrentSnapshot env s cluster grp kind namespace name cel labelSel limit offset =
     (case snapshot_loop (snapshot_one env grp kind namespace name cel labelSel) (resolve s cluster) s of
        (s', found) \<Rightarrow>
          (s', rbind found (\<lambda>all.
             map_result (\<lambda>items. \<lparr>sr_Items = items, sr_Total = length all, sr_CommitSHA = [],
                                  sr_CommitTime = zero_time\<rparr>)
               (page_of all offset limit))))"

text \<open>One file of the tree, as the callback of \<open>resourcesAtCommit\<close> handles it.\<close>

definition resource_at ::
  "yaml_decoder \<Rightarrow> commit_obj \<Rightarrow> string \<Rightarrow> string \<Rightarrow> string \<Rightarrow> string \<Rightarrow> string \<Rightarrow> string \<Rightarrow> string \<Rightarrow>
   ResourceMeta list" where
  "resource_at Unmarshal commit clusterName pfx grp kind namespace name file =
     (if \<not> HasSuffix file ''.yaml'' then []
      else if pfx \<noteq> [] \<and> \<not> HasPrefix file pfx then []
      else case ParseResourcePath (if pfx \<noteq> [] then TrimPrefix file pfx else file) of
        None \<Rightarrow> []
      | Some r \<Rightarrow>
          if grp \<noteq> [] \<and> \<not> EqualFold (ri_group r) grp then []
          else if namespace \<noteq> [] \<and> ri_namespace r \<noteq> namespace then []
          else if name \<noteq> [] \<and> ri_name r \<noteq> name then []
          else case c_File commit file of
            Inr (Inr body) \<Rightarrow>
              (case Unmarshal body of
                 Inl _ \<Rightarrow> []
               | Inr decoded \<Rightarrow>
                   (let raw = (case decoded of Some d \<Rightarrow> d | None \<Rightarrow> []);
                        k = as_string (gm_get raw ''kind'')
                    in if k = [] then []
                       else if kind \<noteq> [] \<and> \<not> EqualFold k kind then []
                       else
                         (let meta = as_map (gm_get raw ''metadata'');
                              labels = (case meta of
                                          Some m \<Rightarrow> map_option string_entries (as_map (gm_get m ''labels''))
                                        | None \<Rightarrow> None);
                              creationTimestamp = (case meta of
                                          Some m \<Rightarrow> as_string (gm_get m ''creationTimestamp'')
                                        | None \<Rightarrow> [])
                          in [\<lparr>rm_Cluster = clusterName, rm_Group = ri_group r, rm_Version = [],
                               rm_Kind = k, rm_Name = ri_name r, rm_Namespace = ri_namespace r,
                               rm_Labels = labels, rm_CreationTimestamp = creationTimestamp,
                               rm_FilePath = [], rm_IndexedFields = []\<rparr>])))
          | _ \<Rightarrow> [])"

definition resourcesAtCommit ::
  "yaml_decoder \<Rightarrow> commit_obj \<Rightarrow> string \<Rightarrow> string \<Rightarrow> string \<Rightarrow> string \<Rightarrow> string \<Rightarrow> string \<Rightarrow>
   error + ResourceMeta list" where
  "resourcesAtCommit Unmarshal commit clusterName subDir grp kind namespace name =
     (case c_Files commit of
        Inl err \<Rightarrow> Inl err
      | Inr files \<Rightarrow>
          (let pfx = subDir @ ''/'';
               pfx = (if subDir = [] then [] else pfx)
           in Inr (concat (map (resource_at Unmarshal commit clusterName pfx grp kind namespace name) files))))"

text \<open>One cluster of \<open>GetHistoricalSnapshot\<close>: nothing (a \<open>continue\<close>), or the commit chosen and the
  resources in it.\<close>

definition historical_one ::
  "query_env \<Rightarrow> int \<Rightarrow> string \<Rightarrow> string \<Rightarrow> string \<Rightarrow> string \<Rightarrow> string \<Rightarrow> ClusterQuerier \<Rightarrow>
   (CommitRef \<times> ResourceMeta list) option result" where
  "historical_one env t clusterName grp kind namespace name cq =
     (case (cq_CommitIndex cq, cq_GitRepo cq) of
        (Some commitIdx, Some CommitObject) \<Rightarrow>
          map_result
            (\<lambda>(ref, ok).
               if \<not> ok then None
               else case CommitObject (cr_SHA ref) of
                      Inl _ \<Rightarrow> None
                    | Inr commit \<Rightarrow>
                        (case resourcesAtCommit (qe_Unmarshal env) commit clusterName (cq_SubDir cq)
                                grp kind namespace name of
                           Inl _ \<Rightarrow> None
                         | Inr resources \<Rightarrow> Some (ref, resources)))
            (FindBefore commitIdx t)
      | _ \<Rightarrow> Ok None)"

text \<open>The commit reported is that of the first cluster with an answer (whose SHA is not empty).\<close>

fun historical_loop ::
  "(string \<Rightarrow> (CommitRef \<times> ResourceMeta list) option result) \<Rightarrow> string list \<Rightarrow>
   ResourceMeta list \<times> string \<times> int \<Rightarrow> (ResourceMeta list \<times> string \<times> int) result" where
  "historical_loop one [] acc = Ok acc"
| "historical_loop one (n # ns) acc =
     rbind (one n) (\<lambda>found.
       case (found, acc) of
         (None, _) \<Rightarrow> historical_loop one ns acc
       | (Some (ref, resources), (all, commitSHA, commitTime)) \<Rightarrow>
           historical_loop one ns
             (if commitSHA = [] then (all @ resources, cr_SHA ref, cr_Time ref)
              else (all @ resources, commitSHA, commitTime)))"

definition GetHistoricalSnapshot ::
  "query_env \<Rightarrow> Server \<Rightarrow> int \<Rightarrow> string \<Rightarrow> string \<Rightarrow> string \<Rightarrow> string \<Rightarrow> string \<Rightarrow> int \<Rightarrow> int \<Rightarrow>
   SnapshotResult result" where
  "GetHistoricalSnapshot env s t cluster grp kind namespace name limit offset =
     rbind (historical_loop
              (\<lambda>clusterName. rbind (querier s clusterName)
                 (historical_one env t clusterName grp kind namespace name))
              (named s cluster) ([], [], zero_time))
       (\<lambda>(all, commitSHA, commitTime).
          map_result (\<lambda>items. \<lparr>sr_Items = items, sr_Total = length all, sr_CommitSHA = commitSHA,
                               sr_CommitTime = commitTime\<rparr>)
            (page_of all offset limit))"

subsection \<open>History and volatility\<close>

definition all_pages :: "int" where "all_pages = 2 ^ 30"

definition cluster_events ::
  "int option \<Rightarrow> int option \<Rightarrow> string \<Rightarrow> string \<Rightarrow> string \<Rightarrow> string \<Rightarrow> ChangeType \<Rightarrow> string \<Rightarrow> ClusterQuerier \<Rightarrow>
   ChangeEvent list result" where
  "cluster_events since until grp kind namespace name ct clusterName cq =
     (case cq_ChangeIndex cq of
        None \<Rightarrow> Ok []
      | Some ci \<Rightarrow>
          map_result fst
            (Query ci \<lparr>cf_since = since, cf_until = until, cf_cluster = clusterName, cf_group = grp,
                       cf_kind = kind, cf_namespace = namespace, cf_name = name, cf_ct = ct\<rparr> all_pages 0))"

definition GetHistory ::
  "query_env \<Rightarrow> Server \<Rightarrow> string \<Rightarrow> string \<Rightarrow> string \<Rightarrow> string \<Rightarrow> string \<Rightarrow> string \<Rightarrow> int option \<Rightarrow> int option \<Rightarrow>
   int \<Rightarrow> int \<Rightarrow> (ChangeEvent list \<times> nat) result" where
  "GetHistory env s cluster grp kind namespace name changeType since until limit offset =
     rbind (gather
              (\<lambda>clusterName. rbind (querier s clusterName)
                 (cluster_events since until grp kind namespace name changeType clusterName))
              (named s cluster))
       (\<lambda>all.
          (let all = qe_sort_events env (\<lambda>a b. ev_Timestamp a > ev_Timestamp b) all
           in map_result (\<lambda>events. (events, length all)) (page_of all offset limit)))"

definition ratio_result :: "VolatilityEntry \<Rightarrow> VolatilityResult" where
  "ratio_result e =
     \<lparr>vr_Cluster = ve_Cluster e, vr_Group = ve_Group e, vr_Kind = ve_Kind e, vr_Namespace = ve_Namespace e,
      vr_Name = ve_Name e, vr_Count = ve_Count e, vr_Total = ve_Total e,
      vr_Ratio = count_ratio (ve_Count e) (ve_Total e)\<rparr>"

definition cluster_volatility ::
  "query_env \<Rightarrow> string \<Rightarrow> string \<Rightarrow> string \<Rightarrow> string \<Rightarrow> int \<Rightarrow> float64 \<Rightarrow> string \<Rightarrow> ClusterQuerier \<Rightarrow>
   VolatilityResult list" where
  "cluster_volatility env grp kind namespace name maxCommits threshold clusterName cq =
     (case cq_ChangeIndex cq of
        None \<Rightarrow> []
      | Some ci \<Rightarrow>
          filter (\<lambda>r. \<not> below_float (vr_Ratio r) threshold)
            (map ratio_result (Volatility (qe_range env) ci clusterName grp kind namespace name maxCommits)))"

definition GetVolatility ::
  "query_env \<Rightarrow> Server \<Rightarrow> string \<Rightarrow> string \<Rightarrow> string \<Rightarrow> string \<Rightarrow> string \<Rightarrow> int \<Rightarrow> float64 \<Rightarrow> int \<Rightarrow> int \<Rightarrow>
   (VolatilityResult list \<times> nat) result" where
  "GetVolatility env s cluster grp kind namespace name maxCommits threshold limit offset =
     rbind (gather
              (\<lambda>clusterName. map_result
                 (cluster_volatility env grp kind namespace name maxCommits threshold clusterName)
                 (querier s clusterName))
              (named s cluster))
       (\<lambda>all.
          (let all = qe_sort_results env
                       (\<lambda>a b. if vr_Ratio a \<noteq> vr_Ratio b then vr_Ratio a > vr_Ratio b else vr_Name a < vr_Name b)
                       all
           in map_result (\<lambda>items. (items, length all)) (page_of all offset limit)))"

text \<open>The field entries of one cluster; every \<open>continue\<close> gives none.\<close>

definition cluster_fields ::
  "query_env \<Rightarrow> string \<Rightarrow> string \<Rightarrow> string \<Rightarrow> string \<Rightarrow> int \<Rightarrow> string \<Rightarrow> ClusterQuerier \<Rightarrow>
   FieldVolatilityEntry list result" where
  "cluster_fields env grp kind namespace name maxCommits clusterName cq =
     (case (cq_ChangeIndex cq, cq_GitRepo cq) of
        (Some ci, Some CommitObject) \<Rightarrow>
          map_result
            (\<lambda>events.
               if events = [] then []
               else FieldVolatilityFromRepo (qe_sort_entries env) (qe_Marshal env) (qe_Unmarshal env)
                      CommitObject events (cq_SubDir cq) maxCommits)
            (cluster_events None None grp kind namespace name [] clusterName cq)
      | _ \<Rightarrow> Ok [])"

definition add_entry :: "FieldVolatilityEntry \<Rightarrow> (nat \<times> nat) gmap \<Rightarrow> (nat \<times> nat) gmap" where
  "add_entry e fieldMap =
     (case (case gm_get fieldMap (fe_Field e) of Some v \<Rightarrow> v | None \<Rightarrow> (0, 0)) of
        (cnt, totl) \<Rightarrow> gm_put (fe_Field e) (cnt + fe_Count e, totl + fe_Total e) fieldMap)"

definition GetVolatilityFields ::
  "query_env \<Rightarrow> Server \<Rightarrow> string \<Rightarrow> string \<Rightarrow> string \<Rightarrow> string \<Rightarrow> string \<Rightarrow> int \<Rightarrow> int \<Rightarrow>
   FieldVolatilityResult list result" where
  "GetVolatilityFields env s cluster grp kind namespace name maxCommits limit =
     map_result
       (\<lambda>entries.
          (let fieldMap = fold add_entry entries [];
               found = map (\<lambda>(field, cnt, totl). \<lparr>fr_Field = field, fr_Count = cnt, fr_Total = totl,
                                                 fr_Ratio = count_ratio cnt totl\<rparr>) fieldMap;
               found = qe_sort_fields env
                         (\<lambda>a b. if fr_Count a \<noteq> fr_Count b then fr_Count a > fr_Count b else fr_Field a < fr_Field b)
                         found
           in if limit > 0 \<and> int (length found) > limit then take (nat limit) found else found))
       (gather
          (\<lambda>clusterName. rbind (querier s clusterName)
             (cluster_fields env grp kind namespace name maxCommits clusterName))
          (named s cluster))"

end
