(* ===== verification/QueryFacts.thy ===== *)
theory QueryFacts
  imports QueryServer IndexFacts
begin

text \<open>
  What the query operations return: when a page request succeeds, what a page of the history
  holds, which commit a historical snapshot shows, and what the field ranking looks at.
\<close>

subsection \<open>Pages\<close>

lemma go_add_wraps:
  assumes "goint_max < a + b" "a \<le> goint_max" "b \<le> goint_max"
  shows "go_add a b = a + b - 2 ^ 64"
proof -
  have eq: "(word_of_int (a + b) :: 64 word) = word_of_int (a + (b - 2 ^ 64))"
    by (simp add: word_of_int_eq_iff take_bit_eq_mod mod_diff_eq [symmetric])
  then have "go_add a b = go_add a (b - 2 ^ 64)" by (simp only: go_add_def eq)
  also have "\<dots> = a + (b - 2 ^ 64)"
    using assms by (intro go_add_exact) (simp add: is_goint_def goint_min_def goint_max_def)
  finally show ?thesis by simp
qed

lemma page_of_Ok:
  assumes "0 \<le> offset" "0 \<le> limit" "min offset (int (length xs)) + limit \<le> goint_max"
  shows "page_of xs offset limit = Ok (take (nat limit) (drop (nat offset) xs))"
proof -
  let ?n = "int (length xs)" and ?s = "min offset (int (length xs))"
  have add: "go_add ?s limit = ?s + limit"
    using assms by (intro go_add_nonneg_exact) auto
  have p: "paginate offset limit ?n = (?s, min (?s + limit) ?n)"
    using add by (auto simp: paginate_def Let_def min_def)
  have "go_slice xs ?s (min (?s + limit) ?n) =
      Ok (take (nat (min (?s + limit) ?n - ?s)) (drop (nat ?s) xs))"
    using assms by (intro go_slice_Ok) auto
  also have "take (nat (min (?s + limit) ?n - ?s)) (drop (nat ?s) xs) = take (nat limit) (drop (nat offset) xs)"
  proof (cases "offset \<le> ?n")
    case True
    then have s: "?s = offset" by simp
    show ?thesis
      unfolding s using assms(1,2) True
      by (cases "offset + limit \<le> ?n") (auto simp: min_def nat_le_iff)
  qed (use assms in auto)
  finally show ?thesis using p by (simp add: page_of_def)
qed

text \<open>C13: a page request to any of the paginated operations succeeds, with the \<open>limit\<close> items after the
  first \<open>offset\<close>, exactly when neither number is negative and the end of the page is a 64-bit
  integer; every other request panics with a slice bounds error. In particular a large
  \<open>limit\<close> is not clamped: with a positive offset it overflows.\<close>

theorem page_of_outcome:
  assumes "is_goint offset" "is_goint limit" "length xs < 2 ^ 47"
  shows "page_of xs offset limit =
    (if 0 \<le> offset \<and> 0 \<le> limit \<and> min offset (int (length xs)) + limit \<le> goint_max
     then Ok (take (nat limit) (drop (nat offset) xs))
     else Panic ''slice bounds out of range'')"
proof (cases "0 \<le> offset \<and> 0 \<le> limit \<and> min offset (int (length xs)) + limit \<le> goint_max")
  case True
  then show ?thesis by (simp add: page_of_Ok)
next
  case False
  let ?n = "int (length xs)" and ?s = "min offset (int (length xs))"
  have p: "paginate offset limit ?n = (?s, min (go_add ?s limit) ?n)"
    by (auto simp: paginate_def Let_def min_def)
  have len: "?n < 2 ^ 47" using assms(3) by (metis of_nat_less_iff of_nat_numeral of_nat_power)
  have "offset < 0 \<or> go_add ?s limit < ?s"
  proof (cases "0 \<le> offset")
    case o: True
    show ?thesis
    proof (cases "0 \<le> limit")
      case True
      then have "goint_max < ?s + limit" using False o by auto
      moreover have "?s \<le> goint_max" "limit \<le> goint_max"
        using len assms by (auto simp: is_goint_def goint_max_def)
      ultimately have "go_add ?s limit = ?s + limit - 2 ^ 64" by (rule go_add_wraps)
      moreover have "limit < 2 ^ 64" using assms(2) by (simp add: is_goint_def goint_max_def)
      ultimately show ?thesis by linarith
    next
      case False
      then have "go_add ?s limit = ?s + limit"
        using o assms(2) len by (intro go_add_exact) (auto simp: is_goint_def goint_min_def goint_max_def)
      then show ?thesis using False by linarith
    qed
  qed simp
  then have "page_of xs offset limit = Panic ''slice bounds out of range''"
    by (auto simp: page_of_def p go_slice_def)
  then show ?thesis using False by auto
qed

theorem page_of_outcome_witness:
  "page_of [1 :: nat, 2, 3] 1 1 = Ok [2] \<and>
   page_of [1 :: nat, 2, 3] 1 (2 ^ 63 - 1) = Panic ''slice bounds out of range'' \<and>
   page_of [1 :: nat, 2, 3] (- 1) 50 = Panic ''slice bounds out of range''"
  using page_of_outcome [of 1 1 "[1 :: nat, 2, 3]"] page_of_outcome [of 1 "2 ^ 63 - 1" "[1 :: nat, 2, 3]"]
    page_of_outcome [of "- 1" 50 "[1 :: nat, 2, 3]"]
  by (simp add: is_goint_def goint_min_def goint_max_def)

subsection \<open>Gathering over clusters\<close>

lemma gather_Ok: "(\<And>n. n \<in> set ns \<Longrightarrow> f n = Ok (g n)) \<Longrightarrow> gather f ns = Ok (concat (map g ns))"
  by (induction ns) auto

lemma filter_eq_single: "distinct xs \<Longrightarrow> x \<in> set xs \<Longrightarrow> filter (\<lambda>n. n = x) xs = [x]"
  by (induction xs) (auto simp: filter_empty_conv)

lemma named_single:
  assumes "cluster \<noteq> []" "distinct (sv_clusterNames s)" "cluster \<in> set (sv_clusterNames s)"
  shows "named s cluster = [cluster]"
  using assms filter_eq_single by (simp add: named_def)

lemma named_all: "named s [] = sv_clusterNames s"
  by (simp add: named_def)

text \<open>The events of one cluster that match the request.\<close>

definition request_filter ::
  "int option \<Rightarrow> int option \<Rightarrow> string \<Rightarrow> string \<Rightarrow> string \<Rightarrow> string \<Rightarrow> ChangeType \<Rightarrow> string \<Rightarrow> change_filter" where
  "request_filter since until grp kind namespace name ct clusterName =
     \<lparr>cf_since = since, cf_until = until, cf_cluster = clusterName, cf_group = grp,
      cf_kind = kind, cf_namespace = namespace, cf_name = name, cf_ct = ct\<rparr>"

definition matching_events :: "Server \<Rightarrow> (string \<Rightarrow> change_filter) \<Rightarrow> string \<Rightarrow> ChangeEvent list" where
  "matching_events s f n =
     (case gm_get (sv_clusters s) n of
        None \<Rightarrow> []
      | Some cq \<Rightarrow> (case cq_ChangeIndex cq of None \<Rightarrow> [] | Some ci \<Rightarrow> filter (event_matches (f n)) (xi_events ci)))"

definition queriers_ok :: "Server \<Rightarrow> string \<Rightarrow> bool" where
  "queriers_ok s cluster \<longleftrightarrow>
     list_all (\<lambda>n. case gm_get (sv_clusters s) n of
                     None \<Rightarrow> False
                   | Some cq \<Rightarrow> (case cq_ChangeIndex cq of
                                  None \<Rightarrow> True | Some ci \<Rightarrow> length (xi_events ci) \<le> 2 ^ 30))
       (named s cluster)"

lemma cluster_events_rev:
  assumes "length (xi_events ci) \<le> 2 ^ 30" "cq_ChangeIndex cq = Some ci"
  shows "cluster_events since until grp kind namespace name ct n cq =
    Ok (rev (filter (event_matches (request_filter since until grp kind namespace name ct n)) (xi_events ci)))"
proof -
  let ?f = "request_filter since until grp kind namespace name ct n"
  have "Query ci ?f all_pages 0 =
      Ok (take (nat all_pages) (drop (nat 0) (rev (filter (event_matches ?f) (xi_events ci)))),
          length (filter (event_matches ?f) (xi_events ci)))"
    using assms(1) by (intro Query_page) (simp_all add: all_pages_def goint_max_def)
  moreover have "length (rev (filter (event_matches ?f) (xi_events ci))) \<le> nat all_pages"
    using le_trans [OF length_filter_le assms(1)] by (simp add: all_pages_def)
  ultimately have "Query ci ?f all_pages 0 =
      Ok (rev (filter (event_matches ?f) (xi_events ci)), length (filter (event_matches ?f) (xi_events ci)))"
    by simp
  then show ?thesis
    using assms(2) by (simp add: cluster_events_def request_filter_def)
qed

lemma gather_events:
  assumes "queriers_ok s cluster"
  shows "gather (\<lambda>n. rbind (querier s n) (cluster_events since until grp kind namespace name ct n)) (named s cluster) =
    Ok (concat (map (rev \<circ> matching_events s (request_filter since until grp kind namespace name ct)) (named s cluster)))"
proof (rule gather_Ok)
  fix n assume n: "n \<in> set (named s cluster)"
  then obtain cq where cq: "gm_get (sv_clusters s) n = Some cq"
    and len: "\<And>ci. cq_ChangeIndex cq = Some ci \<Longrightarrow> length (xi_events ci) \<le> 2 ^ 30"
    using assms by (fastforce simp: queriers_ok_def list_all_iff split: option.splits)
  show "rbind (querier s n) (cluster_events since until grp kind namespace name ct n) =
      Ok ((rev \<circ> matching_events s (request_filter since until grp kind namespace name ct)) n)"
  proof (cases "cq_ChangeIndex cq")
    case None
    then show ?thesis using cq by (simp add: querier_def cluster_events_def matching_events_def)
  next
    case (Some ci)
    then show ?thesis
      using cq cluster_events_rev [OF len [OF Some] Some, of since until grp kind namespace name ct n]
      by (simp add: querier_def matching_events_def)
  qed
qed

lemma mset_concat_rev: "mset (concat (map (rev \<circ> f) ns)) = mset (concat (map f ns))"
  by (induction ns) auto

definition history_list ::
  "query_env \<Rightarrow> Server \<Rightarrow> string \<Rightarrow> (string \<Rightarrow> change_filter) \<Rightarrow> ChangeEvent list" where
  "history_list env s cluster f =
     qe_sort_events env (\<lambda>a b. ev_Timestamp a > ev_Timestamp b)
       (concat (map (rev \<circ> matching_events s f) (named s cluster)))"

lemma history_list_mset:
  "slice_sort (qe_sort_events env) \<Longrightarrow>
   mset (history_list env s cluster f) = mset (concat (map (matching_events s f) (named s cluster)))"
  by (simp add: history_list_def slice_sort.srt_mset mset_concat_rev)

lemma history_list_order:
  assumes "slice_sort (qe_sort_events env)"
  shows "sorted_wrt (\<lambda>a b. ev_Timestamp b \<le> ev_Timestamp a) (history_list env s cluster f)"
  using slice_sort.srt_order [OF assms strict_weak_key_desc, of ev_Timestamp]
  by (simp add: history_list_def in_order_def not_less)

lemma GetHistory_page:
  assumes "queriers_ok s cluster"
  shows "GetHistory env s cluster grp kind namespace name ct since until limit offset =
    (let evs = history_list env s cluster (request_filter since until grp kind namespace name ct)
     in map_result (\<lambda>page. (page, length evs)) (page_of evs offset limit))"
  by (simp add: GetHistory_def gather_events [OF assms] history_list_def Let_def)

text \<open>C8: the history pages partition one list: the matching events of all requested clusters, each
  as often as the clusters' indexes hold it, ordered newest first across the clusters. The
  reported total is the length of this list, whatever the page.\<close>

theorem GetHistory_pages:
  assumes "slice_sort (qe_sort_events env)" "queriers_ok s cluster"
  shows "\<exists>evs.
    mset evs = mset (concat (map (matching_events s (request_filter since until grp kind namespace name ct))
                                 (named s cluster))) \<and>
    sorted_wrt (\<lambda>a b. ev_Timestamp b \<le> ev_Timestamp a) evs \<and>
    (\<forall>limit offset. 0 \<le> offset \<longrightarrow> 0 \<le> limit \<longrightarrow> offset + limit \<le> goint_max \<longrightarrow>
       GetHistory env s cluster grp kind namespace name ct since until limit offset =
         Ok (take (nat limit) (drop (nat offset) evs), length evs))"
proof (intro exI conjI allI impI)
  let ?evs = "history_list env s cluster (request_filter since until grp kind namespace name ct)"
  show "GetHistory env s cluster grp kind namespace name ct since until limit offset =
      Ok (take (nat limit) (drop (nat offset) ?evs), length ?evs)"
    if "0 \<le> offset" "0 \<le> limit" "offset + limit \<le> goint_max" for limit offset
    using that page_of_Ok [of offset limit ?evs] by (simp add: GetHistory_page [OF assms(2)] Let_def)
qed (simp_all add: history_list_mset [OF assms(1)] history_list_order [OF assms(1)])

text \<open>Two clusters, one of them without a change index.\<close>

definition viewer_env :: query_env where
  "viewer_env = \<lparr>qe_sort_events = go_sort, qe_sort_results = go_sort, qe_sort_fields = go_sort,
     qe_sort_entries = go_sort, qe_range = id, qe_compile = (\<lambda>_. Inl (ErrText ''syntax'')),
     qe_Unmarshal = example_decoder, qe_Marshal = (\<lambda>_. Inr ''v''), qe_fs = example_tree\<rparr>"

definition viewer_commit :: commit_obj where
  "viewer_commit = Commit
     (\<lambda>p. if p = ''c/core/v1/namespaces/ns1/pods/p1.yaml'' then Inr (Inr ''pod'') else Inl (ErrText ''not found''))
     [] (Inr [''README.md'', ''c/core/v1/namespaces/ns1/pods/p1.yaml''])"

definition viewer_querier :: ClusterQuerier where
  "viewer_querier = \<lparr>cq_Index = example_index,
     cq_CommitIndex = Some \<lparr>ci_refs = [\<lparr>cr_Time = 1, cr_SHA = ''a''\<rparr>, \<lparr>cr_Time = 5, cr_SHA = ''b''\<rparr>]\<rparr>,
     cq_ChangeIndex = Some example_changes, cq_FileAt = (\<lambda>p sha. Ok sha),
     cq_RelPath = (\<lambda>p. ''r''), cq_GitRepo = Some (\<lambda>sha. Inr viewer_commit), cq_SubDir = ''c'', cq_WorkDir = ''/w''\<rparr>"

definition viewer_server :: Server where
  "viewer_server = NewServer
     [(''prod'', viewer_querier), (''dev'', viewer_querier\<lparr>cq_ChangeIndex := None\<rparr>)] [''prod'', ''dev'']"

lemma viewer_queriers_ok: "queriers_ok viewer_server []"
  by (simp add: queriers_ok_def named_def viewer_server_def NewServer_def gm_get_def viewer_querier_def
      example_changes_def)

theorem GetHistory_pages_witness:
  "\<exists>page. GetHistory viewer_env viewer_server [] ''apps'' [] [] ''x'' [] None None 1 1 = Ok (page, 2) \<and>
     length page = 1"
proof -
  have srt: "slice_sort (qe_sort_events viewer_env)"
    by (simp add: viewer_env_def sorts.slice_sort_axioms)
  obtain evs where m: "mset evs = mset (concat (map (matching_events viewer_server
        (request_filter None None ''apps'' [] [] ''x'' [])) (named viewer_server [])))"
    and page: "\<And>limit offset. 0 \<le> offset \<Longrightarrow> 0 \<le> limit \<Longrightarrow> offset + limit \<le> goint_max \<Longrightarrow>
       GetHistory viewer_env viewer_server [] ''apps'' [] [] ''x'' [] None None limit offset =
         Ok (take (nat limit) (drop (nat offset) evs), length evs)"
    using GetHistory_pages [OF srt viewer_queriers_ok, of None None "''apps''" "[]" "[]" "''x''" "[]"] by blast
  have "length (concat (map (matching_events viewer_server
        (request_filter None None ''apps'' [] [] ''x'' [])) (named viewer_server []))) = 2"
    by code_simp
  then have "length evs = 2" using m by (metis size_mset)
  then show ?thesis using page [of 1 1] by (simp add: goint_max_def)
qed

subsection \<open>The current snapshot\<close>

definition listed :: "string \<Rightarrow> string \<Rightarrow> string \<Rightarrow> string \<Rightarrow> string gmap \<Rightarrow> Server \<Rightarrow> string \<Rightarrow> ResourceMeta list" where
  "listed grp kind namespace name sel s n =
     (case gm_get (sv_clusters s) n of
        None \<Rightarrow> []
      | Some cq \<Rightarrow> filter (\<lambda>r. name = [] \<or> rm_Name r = name) (List grp kind namespace sel (cq_Index cq)))"

lemma snapshot_loop_lists:
  "list_all (\<lambda>n. gm_get (sv_clusters s) n \<noteq> None) ns \<Longrightarrow>
   snapshot_loop (snapshot_one env grp kind namespace name [] sel) ns s =
     (s, Ok (concat (map (listed grp kind namespace name sel s) ns)))"
proof (induction ns)
  case (Cons n ns)
  then obtain cq where cq: "gm_get (sv_clusters s) n = Some cq" by auto
  have one: "snapshot_one env grp kind namespace name [] sel cq = (cq, Ok (listed grp kind namespace name sel s n))"
    using cq by (auto simp: snapshot_one_def listed_def intro!: filter_cong)
  have "s\<lparr>sv_clusters := gm_put n cq (sv_clusters s)\<rparr> = s" by (simp add: gm_put_id [OF cq])
  then show ?case using Cons one cq by (simp add: querier_def)
qed simp

lemma GetCurrentSnapshot_lists:
  assumes "list_all (\<lambda>n. gm_get (sv_clusters s) n \<noteq> None) (resolve s cluster)"
  shows "GetCurrentSnapshot env s cluster grp kind namespace name [] sel limit offset =
    (let all = concat (map (listed grp kind namespace name sel s) (resolve s cluster))
     in (s, map_result (\<lambda>items. \<lparr>sr_Items = items, sr_Total = length all, sr_CommitSHA = [],
                                  sr_CommitTime = zero_time\<rparr>) (page_of all offset limit)))"
  by (simp add: GetCurrentSnapshot_def snapshot_loop_lists [OF assms] Let_def)

lemma page_of_subset: "page_of xs offset limit = Ok page \<Longrightarrow> set page \<subseteq> set xs"
  by (auto simp: page_of_def go_slice_def split: if_splits prod.splits dest: in_set_takeD in_set_dropD)

subsection \<open>Time travel\<close>

text \<open>A commit stores the objects \<open>objs\<close>: its \<open>.yaml\<close> files under the sub-directory are those that the
  backup writes for them, and each decodes to its document.\<close>

definition stores :: "yaml_decoder \<Rightarrow> string \<Rightarrow> commit_obj \<Rightarrow> (resource_id \<times> doc) list \<Rightarrow> bool" where
  "stores Unmarshal subDir commit objs \<longleftrightarrow>
     (\<exists>files. c_Files commit = Inr files \<and>
        filter (\<lambda>f. HasSuffix f ''.yaml'' \<and> HasPrefix f (fv_prefix subDir)) files =
          map (\<lambda>(rid, raw). fv_prefix subDir @ resource_path rid) objs) \<and>
     list_all (\<lambda>(rid, raw). rid_ok rid \<and> as_string (gm_get raw ''kind'') \<noteq> [] \<and>
        (\<exists>body. c_File commit (fv_prefix subDir @ resource_path rid) = Inr (Inr body) \<and>
                Unmarshal body = Inr (Some raw))) objs"

definition wanted :: "string \<Rightarrow> string \<Rightarrow> string \<Rightarrow> string \<Rightarrow> resource_id \<times> doc \<Rightarrow> bool" where
  "wanted grp kind namespace name obj \<longleftrightarrow>
     (case obj of (rid, raw) \<Rightarrow>
        (grp = [] \<or> EqualFold (ri_group rid) grp) \<and>
        (kind = [] \<or> EqualFold (as_string (gm_get raw ''kind'')) kind) \<and>
        (namespace = [] \<or> ri_namespace rid = namespace) \<and> (name = [] \<or> ri_name rid = name))"

text \<open>What identifies an entry of a snapshot, and the same of a stored object.\<close>

definition entry_identity :: "ResourceMeta \<Rightarrow> string \<times> string \<times> string \<times> string \<times> string" where
  "entry_identity r = (rm_Cluster r, rm_Group r, rm_Kind r, rm_Namespace r, rm_Name r)"

definition object_identity :: "string \<Rightarrow> resource_id \<times> doc \<Rightarrow> string \<times> string \<times> string \<times> string \<times> string" where
  "object_identity cluster obj =
     (case obj of (rid, raw) \<Rightarrow>
        (cluster, ri_group rid, as_string (gm_get raw ''kind''), ri_namespace rid, ri_name rid))"

lemma concat_map_filter: "(\<And>x. \<not> P x \<Longrightarrow> f x = []) \<Longrightarrow> concat (map f xs) = concat (map f (filter P xs))"
  by (induction xs) auto

lemma stored_file:
  assumes "rid_ok rid" "as_string (gm_get raw ''kind'') \<noteq> []"
    "c_File commit (pfx @ resource_path rid) = Inr (Inr body)" "Unmarshal body = Inr (Some raw)"
  shows "map entry_identity (resource_at Unmarshal commit cluster pfx grp kind namespace name (pfx @ resource_path rid)) =
    (if wanted grp kind namespace name (rid, raw) then [object_identity cluster (rid, raw)] else [])"
proof -
  have "HasSuffix (pfx @ resource_path rid) ''.yaml''"
    using resource_path_yaml [of rid] by (auto simp: HasSuffix_iff)
  moreover have "(if pfx \<noteq> [] then TrimPrefix (pfx @ resource_path rid) pfx else pfx @ resource_path rid) = resource_path rid"
    by simp
  ultimately show ?thesis
    using assms by (auto simp: resource_at_def resource_paths.decode_encode wanted_def entry_identity_def
        object_identity_def Let_def)
qed

lemma resourcesAtCommit_stored:
  assumes "stores Unmarshal subDir commit objs"
  shows "\<exists>rs. resourcesAtCommit Unmarshal commit cluster subDir grp kind namespace name = Inr rs \<and>
    map entry_identity rs = map (object_identity cluster) (filter (wanted grp kind namespace name) objs)"
proof -
  let ?pfx = "fv_prefix subDir"
  let ?at = "resource_at Unmarshal commit cluster ?pfx grp kind namespace name"
  obtain files where files: "c_Files commit = Inr files"
    "filter (\<lambda>f. HasSuffix f ''.yaml'' \<and> HasPrefix f ?pfx) files = map (\<lambda>(rid, raw). ?pfx @ resource_path rid) objs"
    using assms by (auto simp: stores_def)
  have "concat (map ?at files) = concat (map ?at (filter (\<lambda>f. HasSuffix f ''.yaml'' \<and> HasPrefix f ?pfx) files))"
    by (rule concat_map_filter) (auto simp: resource_at_def)
  then have rs: "resourcesAtCommit Unmarshal commit cluster subDir grp kind namespace name =
      Inr (concat (map ?at (map (\<lambda>(rid, raw). ?pfx @ resource_path rid) objs)))"
    using files by (simp add: resourcesAtCommit_def Let_def fv_prefix_def)
  have "map entry_identity (concat (map ?at (map (\<lambda>(rid, raw). ?pfx @ resource_path rid) objs))) =
      map (object_identity cluster) (filter (wanted grp kind namespace name) objs)"
    using assms unfolding stores_def
  proof (elim conjE)
    assume ok: "list_all (\<lambda>(rid, raw). rid_ok rid \<and> as_string (gm_get raw ''kind'') \<noteq> [] \<and>
        (\<exists>body. c_File commit (?pfx @ resource_path rid) = Inr (Inr body) \<and> Unmarshal body = Inr (Some raw))) objs"
    show ?thesis
      using ok
    proof (induction objs)
      case (Cons o' objs)
      obtain rid raw where o': "o' = (rid, raw)" by (cases o')
      from Cons.prems obtain body where
        "rid_ok rid" "as_string (gm_get raw ''kind'') \<noteq> []"
        "c_File commit (?pfx @ resource_path rid) = Inr (Inr body)" "Unmarshal body = Inr (Some raw)"
        by (auto simp: o')
      from stored_file [where pfx = "fv_prefix subDir" and Unmarshal = Unmarshal and body = body, OF this] Cons show ?case by (simp add: o')
    qed simp
  qed
  with rs show ?thesis by blast
qed

text \<open>C7: a snapshot of a cluster at time \<open>t\<close> shows the commit that \<open>FindBefore\<close> chooses, the last one of
  the chronological index that is not after \<open>t\<close>: its items are the requested page of exactly
  those objects stored in that commit that pass the filters (group and kind up to case), one
  entry per object in tree order, and the total counts all of them. With no commit that
  early the snapshot is empty and carries no commit.\<close>

theorem GetHistoricalSnapshot_shows_commit:
  assumes "gm_get (sv_clusters s) cluster = Some cq" "cluster \<noteq> []" "cluster \<in> set (sv_clusterNames s)"
    "distinct (sv_clusterNames s)"
    and "cq_CommitIndex cq = Some ci" "sorted (map cr_Time (ci_refs ci))" "cq_GitRepo cq = Some CommitObject"
    and stored: "\<And>r. r \<in> set (ci_refs ci) \<Longrightarrow>
      \<exists>commit. CommitObject (cr_SHA r) = Inr commit \<and> stores (qe_Unmarshal env) (cq_SubDir cq) commit (objs r)"
    and "0 \<le> offset" "0 \<le> limit" "offset + limit \<le> goint_max"
  shows "let early = filter (\<lambda>r. cr_Time r \<le> t) (ci_refs ci);
             found = filter (wanted grp kind namespace name) (objs (last early))
         in \<exists>items. map entry_identity items =
                (if early = [] then []
                 else map (object_identity cluster) (take (nat limit) (drop (nat offset) found))) \<and>
              GetHistoricalSnapshot env s t cluster grp kind namespace name limit offset =
                Ok \<lparr>sr_Items = items, sr_Total = (if early = [] then 0 else length found),
                    sr_CommitSHA = (if early = [] then [] else cr_SHA (last early)),
                    sr_CommitTime = (if early = [] then zero_time else cr_Time (last early))\<rparr>"
proof -
  define early where "early = filter (\<lambda>r. cr_Time r \<le> t) (ci_refs ci)"
  have n: "named s cluster = [cluster]" using named_single assms(2-4) by blast
  have q: "querier s cluster = Ok cq" by (simp add: querier_def assms(1))
  have fb: "FindBefore ci t = (if early = [] then Ok (zero_ref, False) else Ok (last early, True))"
    using FindBefore_sorted [OF assms(6), of t] by (cases early) (simp_all add: early_def)
  show ?thesis
  proof (cases "early = []")
    case True
    have "page_of ([] :: ResourceMeta list) offset limit = Ok []"
      using page_of_Ok [of offset limit "[] :: ResourceMeta list"] assms(9-11) by simp
    then show ?thesis
      using True fb unfolding early_def [symmetric]
      by (simp add: GetHistoricalSnapshot_def n q historical_one_def assms(5,7))
  next
    case False
    let ?r = "last early"
    have "?r \<in> set early" using False by simp
    then have "?r \<in> set (ci_refs ci)" by (simp add: early_def)
    then obtain commit where c: "CommitObject (cr_SHA ?r) = Inr commit"
      "stores (qe_Unmarshal env) (cq_SubDir cq) commit (objs ?r)"
      using stored by blast
    obtain rs where rs:
      "resourcesAtCommit (qe_Unmarshal env) commit cluster (cq_SubDir cq) grp kind namespace name = Inr rs"
      "map entry_identity rs = map (object_identity cluster) (filter (wanted grp kind namespace name) (objs ?r))"
      using resourcesAtCommit_stored [OF c(2)] by blast
    have len: "length rs = length (filter (wanted grp kind namespace name) (objs ?r))"
      using rs(2) by (metis length_map)
    have "page_of rs offset limit = Ok (take (nat limit) (drop (nat offset) rs))"
      using assms(9-11) by (intro page_of_Ok) auto
    then have "GetHistoricalSnapshot env s t cluster grp kind namespace name limit offset =
        Ok \<lparr>sr_Items = take (nat limit) (drop (nat offset) rs), sr_Total = length rs,
            sr_CommitSHA = cr_SHA ?r, sr_CommitTime = cr_Time ?r\<rparr>"
      using False fb c rs by (simp add: GetHistoricalSnapshot_def n q historical_one_def assms(5,7))
    moreover have "map entry_identity (take (nat limit) (drop (nat offset) rs)) =
        map (object_identity cluster) (take (nat limit) (drop (nat offset) (filter (wanted grp kind namespace name) (objs ?r))))"
      using rs(2) by (simp add: take_map [symmetric] drop_map [symmetric])
    ultimately show ?thesis
      using False len unfolding early_def [symmetric] Let_def by simp
  qed
qed

definition viewer_objects :: "(resource_id \<times> doc) list" where
  "viewer_objects = [(\<lparr>ri_group = ''core'', ri_version = ''v1'', ri_namespace = ''ns1'', ri_resource = ''pods'',
       ri_name = ''p1''\<rparr>, [(''apiVersion'', AStr ''v1''), (''kind'', AStr ''Pod''),
        (''metadata'', AMap [(''name'', AStr ''p1''), (''namespace'', AStr ''ns1'')])])]"

lemma viewer_commit_stores: "stores example_decoder ''c'' viewer_commit viewer_objects"
proof -
  have "c_Files viewer_commit = Inr [''README.md'', ''c/core/v1/namespaces/ns1/pods/p1.yaml'']"
    by (simp add: viewer_commit_def)
  moreover have "filter (\<lambda>f. HasSuffix f ''.yaml'' \<and> HasPrefix f (fv_prefix ''c''))
       [''README.md'', ''c/core/v1/namespaces/ns1/pods/p1.yaml''] =
      map (\<lambda>(rid, raw). fv_prefix ''c'' @ resource_path rid) viewer_objects"
    by code_simp
  moreover have "list_all (\<lambda>(rid, raw). rid_ok rid \<and> as_string (gm_get raw ''kind'') \<noteq> [] \<and>
        c_File viewer_commit (fv_prefix ''c'' @ resource_path rid) = Inr (Inr ''pod'')) viewer_objects"
    by code_simp
  moreover have "list_all (\<lambda>(rid, raw). example_decoder ''pod'' = Inr (Some raw)) viewer_objects"
    by (simp add: viewer_objects_def example_decoder_def)
  ultimately show ?thesis unfolding stores_def list_all_iff by blast
qed

theorem GetHistoricalSnapshot_shows_commit_witness:
  "\<exists>items. map entry_identity items = [(''prod'', ''core'', ''Pod'', ''ns1'', ''p1'')] \<and>
     GetHistoricalSnapshot viewer_env viewer_server 3 ''prod'' ''CORE'' ''pod'' [] [] 50 0 =
       Ok \<lparr>sr_Items = items, sr_Total = 1, sr_CommitSHA = ''a'', sr_CommitTime = 1\<rparr>"
proof -
  have cq: "gm_get (sv_clusters viewer_server) ''prod'' = Some viewer_querier"
    "''prod'' \<in> set (sv_clusterNames viewer_server)" "distinct (sv_clusterNames viewer_server)"
    by (simp_all add: viewer_server_def NewServer_def gm_get_def)
  let ?ci = "\<lparr>ci_refs = [\<lparr>cr_Time = 1, cr_SHA = ''a''\<rparr>, \<lparr>cr_Time = 5, cr_SHA = ''b''\<rparr>]\<rparr>"
  have ci: "cq_CommitIndex viewer_querier = Some ?ci" "cq_SubDir viewer_querier = ''c''"
    "cq_GitRepo viewer_querier = Some (\<lambda>sha. Inr viewer_commit)" "sorted (map cr_Time (ci_refs ?ci))"
    "qe_Unmarshal viewer_env = example_decoder"
    by (simp_all add: viewer_querier_def viewer_env_def)
  have w: "filter (wanted ''CORE'' ''pod'' [] []) viewer_objects = viewer_objects"
    "map (object_identity ''prod'') viewer_objects = [(''prod'', ''core'', ''Pod'', ''ns1'', ''p1'')]"
    by code_simp+
  have len: "length viewer_objects = 1" by (simp add: viewer_objects_def)
  show ?thesis
    using GetHistoricalSnapshot_shows_commit [of viewer_server "''prod''" viewer_querier ?ci "\<lambda>sha. Inr viewer_commit"
        viewer_env "\<lambda>_. viewer_objects" 0 50 3 "''CORE''" "''pod''" "[]" "[]"]
      cq ci viewer_commit_stores w len
    by (simp add: goint_max_def Let_def)
qed

subsection \<open>The field ranking\<close>

lemma take_rev_window:
  "m \<le> length xs \<Longrightarrow> take m (rev (rev (xs @ ys))) = take m xs"
  by simp

lemma FieldVolatilityFromRepo_window:
  assumes "0 < maxCommits" "nat maxCommits \<le> length old"
  shows "FieldVolatilityFromRepo srt Marshal Unmarshal CommitObject (rev (old @ new)) subDir maxCommits =
    FieldVolatilityFromRepo srt Marshal Unmarshal CommitObject (rev old) subDir maxCommits"
proof -
  have l: "fv_limit (rev (old @ xs)) maxCommits = nat maxCommits" for xs
    using assms by (auto simp: fv_limit_def)
  show ?thesis
    using assms(2) l [of new] l [of "[]"] by (simp add: FieldVolatilityFromRepo_def)
qed

text \<open>C24: the field ranking, documented as one of the most recent commits, looks at the oldest events:
  once a cluster has \<open>maxCommits\<close> matching events, whatever changes come later leave the
  ranking as it is.\<close>

theorem GetVolatilityFields_ignores_later_events:
  assumes "gm_get (sv_clusters s) cluster = Some cq" "cluster \<noteq> []"
    "cluster \<in> set (sv_clusterNames s)" "distinct (sv_clusterNames s)"
    and "cq_ChangeIndex cq = Some \<lparr>xi_events = old @ new\<rparr>" "length (old @ new) \<le> 2 ^ 30"
    and "0 < maxCommits"
    and "maxCommits \<le> int (length (filter (event_matches
           (request_filter None None grp kind namespace name [] cluster)) old))"
  shows "GetVolatilityFields env s cluster grp kind namespace name maxCommits limit =
    GetVolatilityFields env
      (s\<lparr>sv_clusters := gm_put cluster (cq\<lparr>cq_ChangeIndex := Some \<lparr>xi_events = old\<rparr>\<rparr>) (sv_clusters s)\<rparr>)
      cluster grp kind namespace name maxCommits limit"
proof -
  let ?cq = "cq\<lparr>cq_ChangeIndex := Some \<lparr>xi_events = old\<rparr>\<rparr>"
  let ?s = "s\<lparr>sv_clusters := gm_put cluster ?cq (sv_clusters s)\<rparr>"
  let ?m = "event_matches (request_filter None None grp kind namespace name [] cluster)"
  have n: "named s cluster = [cluster]" "named ?s cluster = [cluster]"
    using named_single [of cluster] assms(2-4) by (simp_all add: named_def)
  have q: "querier s cluster = Ok cq" "querier ?s cluster = Ok ?cq"
    by (simp_all add: querier_def assms(1))
  have e: "cluster_events None None grp kind namespace name [] cluster cq = Ok (rev (filter ?m (old @ new)))"
    "cluster_events None None grp kind namespace name [] cluster ?cq = Ok (rev (filter ?m old))"
    using cluster_events_rev [of "\<lparr>xi_events = old @ new\<rparr>" cq] cluster_events_rev [of "\<lparr>xi_events = old\<rparr>" ?cq]
      assms(5,6) by simp_all
  have ne: "filter ?m old \<noteq> []" using assms(7,8) by auto
  have "cluster_fields env grp kind namespace name maxCommits cluster cq =
      cluster_fields env grp kind namespace name maxCommits cluster ?cq"
  proof (cases "cq_GitRepo cq")
    case None
    then show ?thesis by (simp add: cluster_fields_def assms(5))
  next
    case (Some CommitObject)
    have "nat maxCommits \<le> length (filter ?m old)" using assms(8) by simp
    from FieldVolatilityFromRepo_window [OF assms(7) this] show ?thesis
      using Some ne e by (simp add: cluster_fields_def assms(5))
  qed
  then show ?thesis by (simp add: GetVolatilityFields_def n q)
qed

theorem GetVolatilityFields_ignores_later_events_witness:
  "GetVolatilityFields viewer_env viewer_server ''prod'' ''apps'' [] [] [] 2 0 =
   GetVolatilityFields viewer_env
     (viewer_server\<lparr>sv_clusters := gm_put ''prod'' (viewer_querier\<lparr>cq_ChangeIndex :=
        Some \<lparr>xi_events = [example_event 1 ''a'' ''x'', example_event 2 ''b'' ''y'']\<rparr>\<rparr>) (sv_clusters viewer_server)\<rparr>)
     ''prod'' ''apps'' [] [] [] 2 0"
proof (rule GetVolatilityFields_ignores_later_events [where new = "[example_event 3 ''c'' ''x'']"])
  show "2 \<le> int (length (filter (event_matches (request_filter None None ''apps'' [] [] [] [] ''prod''))
      [example_event 1 ''a'' ''x'', example_event 2 ''b'' ''y'']))"
    by code_simp
qed (simp_all add: viewer_server_def NewServer_def gm_get_def viewer_querier_def example_changes_def)

end
