(* ===== verification/ClusterState.thy ===== *)
theory ClusterState
  imports QueryServer Config
begin

text \<open>
  \<open>cmd/server/main.go\<close>: the state of one cluster and the goroutine that keeps it up to date.
  The methods of \<open>ClusterState\<close> are functions; the goroutine is a step relation in which
  every access to the shared state is a step of its own, because handlers read the state
  between them. What git, the temporary directories and the clock answer may differ from
  step to step: each step has its own environment.
\<close>

subsection \<open>The shared state\<close>

record 'r ClusterState =
  cs_idx :: Index
  cs_subDir :: string
  cs_gc :: "'r Client option"
  cs_workDir :: string
  cs_commitIdx :: "CommitIndex option"
  cs_changeIdx :: "ChangeIndex option"
  cs_lastPullAt :: "int option"
  cs_lastPullErr :: string
  cs_resourceCount :: nat

record clusterStatus =
  st_Name :: string
  st_LastPullAt :: "int option"
  st_LastPullErr :: string
  st_ResourceCount :: nat

record ('g, 'r) senv =
  se_git :: "('g, 'r) go_git"
  se_MkdirTemp :: "'g world \<Rightarrow> 'g world \<times> (error + string)"
  se_git_log :: "'g world \<Rightarrow> string \<Rightarrow> error + string"
  se_git_process :: "'g world \<Rightarrow> git_process"
  se_sort :: "(ChangeEvent \<Rightarrow> ChangeEvent \<Rightarrow> bool) \<Rightarrow> ChangeEvent list \<Rightarrow> ChangeEvent list"
  se_ParseTime :: "string \<Rightarrow> error + int"
  se_cutoff :: "int \<Rightarrow> string"
  se_Unmarshal :: yaml_decoder
  se_ParseDuration :: "string \<Rightarrow> error + int"
  se_now :: int
  se_lib_text :: "string \<Rightarrow> string"

text \<open>\<open>err.Error()\<close>; the text of an error value of a library is the environment's.\<close>

fun Error_text :: "(string \<Rightarrow> string) \<Rightarrow> error \<Rightarrow> string" where
  "Error_text lib ErrClusterNotFound = ''cluster not found''"
| "Error_text lib ErrNotFound = ''not found''"
| "Error_text lib ErrNotReady = ''cluster not ready''"
| "Error_text lib (ErrLib name) = lib name"
| "Error_text lib (ErrText m) = m"
| "Error_text lib (ErrWrap m e) = m @ '': '' @ Error_text lib e"

text \<open>\<open>states[c.Name] = &ClusterState{...}\<close>.\<close>

definition new_state :: "string \<Rightarrow> string list \<Rightarrow> string \<Rightarrow> 'r ClusterState" where
  "new_state name flds subDir =
     \<lparr>cs_idx = New name flds, cs_subDir = subDir, cs_gc = None, cs_workDir = [], cs_commitIdx = None,
      cs_changeIdx = None, cs_lastPullAt = None, cs_lastPullErr = [], cs_resourceCount = 0\<rparr>"

definition setGit :: "'r Client \<Rightarrow> string \<Rightarrow> 'r ClusterState \<Rightarrow> 'r ClusterState" where
  "setGit gc workDir s = s\<lparr>cs_gc := Some gc, cs_workDir := workDir\<rparr>"

text \<open>\<open>rebuildIndexes\<close> in its two parts: the object index is replaced first, the commit and the
  change index together at the end.\<close>

definition rebuild_objects ::
  "('g, 'r) senv \<Rightarrow> 'g world \<Rightarrow> string \<Rightarrow> 'r ClusterState \<Rightarrow> 'r ClusterState \<times> unit result" where
  "rebuild_objects env w dir s =
     (case Build (se_Unmarshal env) (w_fs w) dir (cs_idx s) of
        (idx, res) \<Rightarrow> (s\<lparr>cs_idx := idx\<rparr>, res))"

definition rebuild_history ::
  "('g, 'r) senv \<Rightarrow> 'g world \<Rightarrow> string \<Rightarrow> int \<Rightarrow> 'r ClusterState \<Rightarrow> 'r ClusterState \<times> unit result" where
  "rebuild_history env w clusterName historyDays s =
     (case cs_gc s of
        None \<Rightarrow> (s, Err (ErrText ''git client not ready''))
      | Some gc \<Rightarrow>
          (case BuildCommitIndex (se_ParseTime env) (se_git_log env w) (cs_workDir s) of
             Err err \<Rightarrow> (s, Err (ErrWrap ''build commit index'' err))
           | Panic m \<Rightarrow> (s, Panic m)
           | Ok commitIdx \<Rightarrow>
               (case BuildChangeIndex (se_sort env) (se_ParseTime env) (se_git_process env w) (se_cutoff env)
                       (cs_workDir s) clusterName (cs_subDir s) historyDays of
                  Err err \<Rightarrow> (s, Err (ErrWrap ''build change index'' err))
                | Panic m \<Rightarrow> (s, Panic m)
                | Ok changeIdx \<Rightarrow>
                    (s\<lparr>cs_commitIdx := Some commitIdx, cs_changeIdx := Some changeIdx\<rparr>, Ok ()))))"

definition rebuildIndexes ::
  "('g, 'r) senv \<Rightarrow> 'g world \<Rightarrow> string \<Rightarrow> string \<Rightarrow> int \<Rightarrow> 'r ClusterState \<Rightarrow> 'r ClusterState \<times> unit result" where
  "rebuildIndexes env w dir clusterName historyDays s =
     (case rebuild_objects env w dir s of
        (s1, Ok _) \<Rightarrow> rebuild_history env w clusterName historyDays s1
      | (s1, other) \<Rightarrow> (s1, other))"

definition recordPull :: "('g, 'r) senv \<Rightarrow> error option \<Rightarrow> 'r ClusterState \<Rightarrow> 'r ClusterState" where
  "recordPull env err s =
     (let s = s\<lparr>cs_lastPullAt := Some (se_now env)\<rparr>
      in case err of
           Some e \<Rightarrow> s\<lparr>cs_lastPullErr := Error_text (se_lib_text env) e\<rparr>
         | None \<Rightarrow> s\<lparr>cs_lastPullErr := [], cs_resourceCount := length (List [] [] [] [] (cs_idx s))\<rparr>)"

definition status :: "'r ClusterState \<Rightarrow> clusterStatus" where
  "status s = \<lparr>st_Name = [], st_LastPullAt = cs_lastPullAt s, st_LastPullErr = cs_lastPullErr s,
               st_ResourceCount = cs_resourceCount s\<rparr>"

definition ready :: "'r ClusterState \<Rightarrow> bool" where
  "ready s \<longleftrightarrow> cs_lastPullAt s \<noteq> None \<and> cs_lastPullErr s = []"

definition relPath :: "'r ClusterState \<Rightarrow> string \<Rightarrow> string" where
  "relPath s absPath =
     (let rel = TrimPrefix absPath (cs_workDir s @ [SLASH])
      in if rel = absPath then [] else rel)"

definition fileAt :: "('g, 'r) go_git \<Rightarrow> 'g world \<Rightarrow> 'r ClusterState \<Rightarrow> string \<Rightarrow> string \<Rightarrow> string result" where
  "fileAt git w s path sha =
     (case cs_gc s of
        None \<Rightarrow> Err (ErrText ''cluster not ready'')
      | Some gc \<Rightarrow> FileAtCommit git gc path sha w)"

text \<open>The accessor methods: \<open>ClusterState\<close> as a \<open>ClusterQuerier\<close>.\<close>

definition as_querier :: "('g, 'r) go_git \<Rightarrow> 'g world \<Rightarrow> 'r ClusterState \<Rightarrow> ClusterQuerier" where
  "as_querier git w s =
     \<lparr>cq_Index = cs_idx s, cq_CommitIndex = cs_commitIdx s, cq_ChangeIndex = cs_changeIdx s,
      cq_FileAt = fileAt git w s, cq_RelPath = relPath s,
      cq_GitRepo = map_option (\<lambda>gc sha. git_CommitObject git (Repo gc) sha w) (cs_gc s),
      cq_SubDir = cs_subDir s, cq_WorkDir = cs_workDir s\<rparr>"

subsection \<open>The pull goroutine\<close>

text \<open>What the goroutine is about to do. \<open>Crashed\<close> is a panic, which ends the process.\<close>

datatype phase =
    Starting
  | BuildingObjects
  | BuildingHistory
  | Recording "error option"
  | Waiting
  | Stopped
  | Crashed string

text \<open>Its local variables (\<open>gc\<close>, \<open>workDir\<close>, the directory that the deferred \<open>RemoveAll\<close> was given), the
  shared state, the world, and whether \<open>initWg.Done\<close> was called.\<close>

record ('g, 'r) puller =
  pl_phase :: phase
  pl_gc :: "'r Client option"
  pl_workDir :: string
  pl_deferred :: string
  pl_state :: "'r ClusterState"
  pl_world :: "'g world"
  pl_initDone :: bool

definition pull_start :: "'r ClusterState \<Rightarrow> 'g world \<Rightarrow> ('g, 'r) puller" where
  "pull_start s w = \<lparr>pl_phase = Starting, pl_gc = None, pl_workDir = [], pl_deferred = [], pl_state = s,
                     pl_world = w, pl_initDone = False\<rparr>"

definition clone_into :: "('g, 'r) senv \<Rightarrow> ClusterConfig \<Rightarrow> string \<Rightarrow> 'g world \<Rightarrow> 'g world \<times> 'r Client result" where
  "clone_into env c dir w =
     Clone (se_git env) (git_Repo (cl_Git c)) (git_Branch (cl_Git c)) (git_Token (cl_Git c))
       (git_TokenFile (cl_Git c)) dir 0 w"

definition remove_dir :: "string \<Rightarrow> 'g world \<Rightarrow> 'g world" where
  "remove_dir dir w = w\<lparr>w_fs := RemoveAll dir (w_fs w)\<rparr>"

definition index_dir :: "ClusterConfig \<Rightarrow> ('g, 'r) puller \<Rightarrow> string" where
  "index_dir c p = filepath_Join [pl_workDir p, git_SubDir (cl_Git c)]"

text \<open>The first clone. Both failures end the goroutine without a \<open>recordPull\<close>.\<close>

definition first_clone :: "('g, 'r) senv \<Rightarrow> ClusterConfig \<Rightarrow> ('g, 'r) puller \<Rightarrow> ('g, 'r) puller" where
  "first_clone env c p =
     (case se_MkdirTemp env (pl_world p) of
        (w1, Inl _) \<Rightarrow> p\<lparr>pl_world := w1, pl_initDone := True, pl_phase := Stopped\<rparr>
      | (w1, Inr dir) \<Rightarrow>
          (case clone_into env c dir w1 of
             (w2, Ok gc) \<Rightarrow>
               p\<lparr>pl_world := w2, pl_workDir := dir, pl_deferred := dir, pl_gc := Some gc,
                 pl_state := setGit gc dir (pl_state p), pl_phase := BuildingObjects\<rparr>
           | (w2, Err _) \<Rightarrow>
               p\<lparr>pl_world := remove_dir dir w2, pl_workDir := dir, pl_deferred := dir,
                 pl_initDone := True, pl_phase := Stopped\<rparr>
           | (w2, Panic m) \<Rightarrow> p\<lparr>pl_world := w2, pl_phase := Crashed m\<rparr>))"

text \<open>What a tick does up to the point where the indexes are rebuilt: pull, and clone again when
  that fails. A failed clone leaves the local \<open>gc\<close> nil.\<close>

definition reclone :: "('g, 'r) senv \<Rightarrow> ClusterConfig \<Rightarrow> ('g, 'r) puller \<Rightarrow> ('g, 'r) puller" where
  "reclone env c p =
     (case se_MkdirTemp env (remove_dir (pl_workDir p) (pl_world p)) of
        (w1, Inl err) \<Rightarrow>
          p\<lparr>pl_world := w1, pl_workDir := [], pl_state := recordPull env (Some err) (pl_state p),
            pl_phase := Waiting\<rparr>
      | (w1, Inr dir) \<Rightarrow>
          (case clone_into env c dir w1 of
             (w2, Ok gc) \<Rightarrow>
               p\<lparr>pl_world := w2, pl_workDir := dir, pl_gc := Some gc,
                 pl_state := setGit gc dir (pl_state p), pl_phase := BuildingObjects\<rparr>
           | (w2, Err err) \<Rightarrow>
               p\<lparr>pl_world := w2, pl_workDir := dir, pl_gc := None,
                 pl_state := recordPull env (Some err) (pl_state p), pl_phase := Waiting\<rparr>
           | (w2, Panic m) \<Rightarrow> p\<lparr>pl_world := w2, pl_phase := Crashed m\<rparr>))"

definition on_tick :: "('g, 'r) senv \<Rightarrow> ClusterConfig \<Rightarrow> ('g, 'r) puller \<Rightarrow> ('g, 'r) puller" where
  "on_tick env c p =
     (case pl_gc p of
        None \<Rightarrow> p\<lparr>pl_phase := Crashed ''nil pointer dereference''\<rparr>
      | Some gc \<Rightarrow>
          (case Pull (se_git env) gc (pl_world p) of
             (w1, Ok _) \<Rightarrow> p\<lparr>pl_world := w1, pl_phase := BuildingObjects\<rparr>
           | (w1, Err _) \<Rightarrow> reclone env c (p\<lparr>pl_world := w1\<rparr>)
           | (w1, Panic m) \<Rightarrow> p\<lparr>pl_world := w1, pl_phase := Crashed m\<rparr>))"

text \<open>The phase after a part of \<open>rebuildIndexes\<close>.\<close>

fun after_part :: "unit result \<Rightarrow> phase \<Rightarrow> phase" where
  "after_part (Ok _) next_phase = next_phase"
| "after_part (Err e) next_phase = Recording (Some e)"
| "after_part (Panic m) next_phase = Crashed m"

definition build_objects :: "('g, 'r) senv \<Rightarrow> ClusterConfig \<Rightarrow> ('g, 'r) puller \<Rightarrow> ('g, 'r) puller" where
  "build_objects env c p =
     (case rebuild_objects env (pl_world p) (index_dir c p) (pl_state p) of
        (s, res) \<Rightarrow> p\<lparr>pl_state := s, pl_phase := after_part res BuildingHistory\<rparr>)"

definition build_history :: "('g, 'r) senv \<Rightarrow> ClusterConfig \<Rightarrow> ServerSpec \<Rightarrow> ('g, 'r) puller \<Rightarrow> ('g, 'r) puller" where
  "build_history env c spec p =
     (case rebuild_history env (pl_world p) (cl_Name c) (ix_HistoryDays (ss_Index spec)) (pl_state p) of
        (s, res) \<Rightarrow> p\<lparr>pl_state := s, pl_phase := after_part res (Recording None)\<rparr>)"

text \<open>The first record is followed by \<open>time.NewTicker\<close>, which panics on an interval that is not positive.\<close>

definition record_pull ::
  "('g, 'r) senv \<Rightarrow> ServerSpec \<Rightarrow> error option \<Rightarrow> ('g, 'r) puller \<Rightarrow> ('g, 'r) puller" where
  "record_pull env spec err p =
     p\<lparr>pl_state := recordPull env err (pl_state p), pl_initDone := True,
       pl_phase := (if \<not> pl_initDone p \<and> PullIntervalDuration (se_ParseDuration env) spec \<le> 0
                    then Crashed ''non-positive interval for NewTicker'' else Waiting)\<rparr>"

definition stop_pulling :: "('g, 'r) puller \<Rightarrow> ('g, 'r) puller" where
  "stop_pulling p = p\<lparr>pl_world := remove_dir (pl_deferred p) (pl_world p), pl_phase := Stopped\<rparr>"

inductive pull_step ::
  "ClusterConfig \<Rightarrow> ServerSpec \<Rightarrow> ('g, 'r) senv \<Rightarrow> ('g, 'r) puller \<Rightarrow> ('g, 'r) puller \<Rightarrow> bool"
  for c :: ClusterConfig and spec :: ServerSpec and env :: "('g, 'r) senv" where
  step_first: "pl_phase p = Starting \<Longrightarrow> pull_step c spec env p (first_clone env c p)"
| step_objects: "pl_phase p = BuildingObjects \<Longrightarrow> pull_step c spec env p (build_objects env c p)"
| step_history: "pl_phase p = BuildingHistory \<Longrightarrow> pull_step c spec env p (build_history env c spec p)"
| step_record: "pl_phase p = Recording err \<Longrightarrow> pull_step c spec env p (record_pull env spec err p)"
| step_tick: "pl_phase p = Waiting \<Longrightarrow> pull_step c spec env p (on_tick env c p)"
| step_done: "pl_phase p = Waiting \<Longrightarrow> pull_step c spec env p (stop_pulling p)"

inductive_cases pull_stepE: "pull_step c spec env p p'"

inductive_simps pull_step_iff: "pull_step c spec env p p'"

text \<open>The states that a run of the goroutine can be in; every step may see another environment of the
  set \<open>envs\<close>.\<close>

inductive pull_reach ::
  "ClusterConfig \<Rightarrow> ServerSpec \<Rightarrow> ('g, 'r) senv set \<Rightarrow> ('g, 'r) puller \<Rightarrow> ('g, 'r) puller \<Rightarrow> bool"
  for c :: ClusterConfig and spec :: ServerSpec and envs :: "('g, 'r) senv set" and start :: "('g, 'r) puller" where
  reach_start: "pull_reach c spec envs start start"
| reach_step: "pull_reach c spec envs start p \<Longrightarrow> env \<in> envs \<Longrightarrow> pull_step c spec env p p' \<Longrightarrow>
    pull_reach c spec envs start p'"

end
