(* ===== verification/QuerierLaws.thy ===== *)
theory QuerierLaws
  imports QueryFacts
begin

text \<open>
  The contract between the query operations and the clusters they read: what a
  \<open>ClusterQuerier\<close> promises about its three indexes. The operations rely on it for the order
  of the history and for the cluster that an entry names.
\<close>

text \<open>The server over a list of named clusters, as \<open>buildMux\<close> makes it.\<close>

definition serve :: "('c \<Rightarrow> ClusterQuerier) \<Rightarrow> (string \<times> 'c) list \<Rightarrow> Server" where
  "serve querier_of cs = NewServer (map (\<lambda>(n, c). (n, querier_of c)) cs) (map fst cs)"

lemma serve_get: "gm_get (sv_clusters (serve q cs)) n = map_option q (map_of cs n)"
  by (induction cs) (auto simp: serve_def NewServer_def gm_get_def)

lemma serve_names: "sv_clusterNames (serve q cs) = map fst cs"
  by (simp add: serve_def NewServer_def)

lemma serve_get_Some: "n \<in> set (map fst cs) \<Longrightarrow> \<exists>c. (n, c) \<in> set cs \<and> gm_get (sv_clusters (serve q cs)) n = Some (q c)"
  by (cases "map_of cs n") (auto simp: serve_get map_of_eq_None_iff dest: map_of_SomeD)

lemma named_serve: "n \<in> set (named (serve q cs) cluster) \<longleftrightarrow> n \<in> set (map fst cs) \<and> (cluster = [] \<or> n = cluster)"
  by (auto simp: named_def serve_names)

lemma resolve_serve: "n \<in> set (resolve (serve q cs) cluster) \<longleftrightarrow> n \<in> set (map fst cs) \<and> (cluster = [] \<or> n = cluster)"
proof -
  have "map_of cs cluster \<noteq> None \<longleftrightarrow> cluster \<in> fst ` set cs" by (simp add: map_of_eq_None_iff)
  then show ?thesis by (auto simp: resolve_def serve_names serve_get)
qed

locale cluster_querier =
  fixes querier_of :: "'c \<Rightarrow> ClusterQuerier"
    and name_of :: "'c \<Rightarrow> string"
    and inv :: "'c \<Rightarrow> bool"
  assumes commits_sorted:
      "inv c \<Longrightarrow> cq_CommitIndex (querier_of c) = Some ci \<Longrightarrow> sorted (map cr_Time (ci_refs ci))"
    and changes_sorted:
      "inv c \<Longrightarrow> cq_ChangeIndex (querier_of c) = Some xi \<Longrightarrow> sorted (map ev_Timestamp (xi_events xi))"
    and changes_own:
      "inv c \<Longrightarrow> cq_ChangeIndex (querier_of c) = Some xi \<Longrightarrow> e \<in> set (xi_events xi) \<Longrightarrow> ev_Cluster e = name_of c"
    and index_own:
      "inv c \<Longrightarrow> r \<in> set (in_resources (cq_Index (querier_of c))) \<Longrightarrow> rm_Cluster r = name_of c"
begin

lemma matching_own:
  assumes "list_all (\<lambda>(n, c). inv c \<and> name_of c = n) cs" "e \<in> set (matching_events (serve querier_of cs) f n)"
  shows "ev_Cluster e = n \<and> n \<in> set (map fst cs)"
proof -
  obtain cq where g: "gm_get (sv_clusters (serve querier_of cs)) n = Some cq"
    using assms(2) by (cases "gm_get (sv_clusters (serve querier_of cs)) n") (auto simp: matching_events_def)
  obtain xi where "cq_ChangeIndex cq = Some xi" "e \<in> set (xi_events xi)"
    using assms(2) g by (cases "cq_ChangeIndex cq") (auto simp: matching_events_def)
  note cq = g this
  obtain c where c: "(n, c) \<in> set cs" "cq = querier_of c"
    using g by (auto simp: serve_get dest: map_of_SomeD)
  then have "inv c" "name_of c = n" using assms(1) by (auto simp: list_all_iff)
  then show ?thesis using changes_own [of c xi e] cq c by force
qed

text \<open>A cluster's filter never drops its own events, so the history of all clusters is the union of the
  histories of the clusters.\<close>

lemma cluster_filter_vacuous:
  assumes "inv c" "cq_ChangeIndex (querier_of c) = Some xi"
  shows "filter (event_matches (request_filter since until grp kind namespace name ct (name_of c))) (xi_events xi) =
    filter (event_matches (request_filter since until grp kind namespace name ct [])) (xi_events xi)"
  using changes_own [OF assms]
  by (intro filter_cong) (auto simp: event_matches_def about_resource_def request_filter_def)

text \<open>The history of one cluster is its index read backwards.\<close>

lemma history_newest_first:
  assumes "inv c" "cq_ChangeIndex (querier_of c) = Some xi"
  shows "sorted_wrt (\<lambda>a b. ev_Timestamp b \<le> ev_Timestamp a) (rev (filter P (xi_events xi)))"
  using changes_sorted [OF assms] by (simp add: sorted_wrt_rev_flip sorted_map sorted_wrt_filter)

lemma listed_own:
  assumes "list_all (\<lambda>(n, c). inv c \<and> name_of c = n) cs" "gm_get (sv_clusters (serve querier_of cs)) n = Some cq"
    and "r \<in> set (List grp kind namespace sel (cq_Index cq))"
  shows "rm_Cluster r = n"
proof -
  obtain c where c: "(n, c) \<in> set cs" "cq = querier_of c"
    using assms(2) by (auto simp: serve_get dest: map_of_SomeD)
  then have "inv c" "name_of c = n" using assms(1) by (auto simp: list_all_iff)
  then show ?thesis using index_own [of c r] assms(3) c by (auto simp: List_def)
qed

text \<open>The search in a commit index finds the newest commit that is not later.\<close>

lemma finds_newest:
  assumes "inv c" "cq_CommitIndex (querier_of c) = Some ci" "r \<in> set (ci_refs ci)" "cr_Time r \<le> t"
  shows "\<exists>r'. FindBefore ci t = Ok (r', True) \<and> r' \<in> set (ci_refs ci) \<and> cr_Time r' \<le> t \<and> cr_Time r \<le> cr_Time r'"
proof -
  let ?early = "filter (\<lambda>r. cr_Time r \<le> t) (ci_refs ci)"
  have s: "sorted (map cr_Time (ci_refs ci))" by (rule commits_sorted [OF assms(1,2)])
  have ne: "?early \<noteq> []" "r \<in> set ?early" using assms(3,4) by (auto simp: filter_empty_conv)
  then have "last ?early \<in> set ?early" by (metis last_in_set)
  moreover have "cr_Time r \<le> cr_Time (last ?early)"
  proof -
    have "sorted_wrt (\<lambda>a b. cr_Time a \<le> cr_Time b) ?early"
      using s by (simp add: sorted_map sorted_wrt_filter)
    then have "sorted_wrt (\<lambda>a b. cr_Time a \<le> cr_Time b) (butlast ?early @ [last ?early])"
      using ne(1) by simp
    then have "\<forall>a \<in> set (butlast ?early). cr_Time a \<le> cr_Time (last ?early)"
      unfolding sorted_wrt_append by simp
    moreover have "r \<in> set (butlast ?early @ [last ?early])" using ne by simp
    ultimately show ?thesis by auto
  qed
  moreover have "FindBefore ci t = Ok (last ?early, True)"
    using FindBefore_sorted [OF s, of t] ne(1) by (cases ?early) auto
  ultimately show ?thesis by auto
qed

end

end
