(* ===== verification/ClusterFacts.thy ===== *)
theory ClusterFacts
  imports ClusterState QuerierLaws
begin

text \<open>
  What the pull goroutine keeps true of a cluster's shared state in every reachable step, so
  also at the moments at which a handler looks at it; and what happens when a clone fails.
\<close>

subsection \<open>The invariant of the shared state\<close>

definition state_ok :: "string \<Rightarrow> 'r ClusterState \<Rightarrow> bool" where
  "state_ok name s \<longleftrightarrow>
     in_cluster (cs_idx s) = name \<and>
     (\<forall>r \<in> set (in_resources (cs_idx s)). rm_Cluster r = name) \<and>
     (\<forall>ci. cs_commitIdx s = Some ci \<longrightarrow> sorted (map cr_Time (ci_refs ci))) \<and>
     (\<forall>xi. cs_changeIdx s = Some xi \<longrightarrow>
        sorted (map ev_Timestamp (xi_events xi)) \<and> (\<forall>e \<in> set (xi_events xi). ev_Cluster e = name))"

interpretation pulled: cluster_querier "as_querier git w" "in_cluster \<circ> cs_idx" "\<lambda>s. state_ok (in_cluster (cs_idx s)) s"
  for git :: "('g, 'r) go_git" and w
  by unfold_locales (auto simp: as_querier_def state_ok_def)

text \<open>Everything a query can ask for is there.\<close>

definition indexed :: "'r ClusterState \<Rightarrow> bool" where
  "indexed s \<longleftrightarrow> cs_gc s \<noteq> None \<and> cs_commitIdx s \<noteq> None \<and> cs_changeIdx s \<noteq> None"

subsection \<open>What the builders return\<close>

lemma rm_Cluster_resource_of: "resource_of cluster flds dir path raw = Some r \<Longrightarrow> rm_Cluster r = cluster"
  by (auto simp: resource_of_def Let_def split: if_splits option.splits)

lemma Build_cluster:
  assumes "Build Unmarshal s dir idx = (idx', res)"
  shows "in_cluster idx' = in_cluster idx \<and>
    (in_resources idx' = in_resources idx \<or> (\<forall>r \<in> set (in_resources idx'). rm_Cluster r = in_cluster idx))"
proof (cases res)
  case (Ok u)
  have "rm_Cluster r = in_cluster idx" if "r \<in> set (path_resources Unmarshal s idx dir p)" for r p
    using that by (auto simp: path_resources_def file_resources_mem dest: rm_Cluster_resource_of
        split: if_splits result.splits)
  then show ?thesis using Build_collects [of Unmarshal s dir idx idx' u] assms Ok by auto
qed (use assms in \<open>auto simp: Build_def split: prod.splits result.splits\<close>)

lemma Build_error:
  assumes "Build Unmarshal s dir idx = (idx', res)"
  shows "res = Ok () \<or> res = Err ErrNotExist \<or> (\<exists>p e. res = Err (path_error ''open'' p e))"
proof -
  let ?fn = "build_visit Unmarshal s idx dir"
  obtain st r where w: "WalkDir s dir ?fn [] = (st, r)" by fastforce
  have "r = Ok () \<or> r = Err ErrNotExist \<or> (\<exists>p e. r = Err (path_error ''open'' p e))"
  proof (cases "content s dir = None \<and> dir \<notin> set (fs_dirs s)")
    case True
    then show ?thesis using w by (simp add: WalkDir_def build_visit_def)
  next
    case False
    then have "walk_list s ?fn (walk_entries s dir) [] = (st, r)" using w by (auto simp: WalkDir_def)
    then have "r = Ok () \<or> (\<exists>p e. r = Err (path_error ''open'' p e))"
      by (intro walk_list_Err [where fn = ?fn]) (auto simp: build_visit_def split: result.splits)
    then show ?thesis by blast
  qed
  then show ?thesis using assms w by (cases r) (auto simp: Build_def)
qed

lemma BuildCommitIndex_sorted:
  "BuildCommitIndex ParseTime git_log workDir = Ok ci \<Longrightarrow> sorted (map cr_Time (ci_refs ci))"
  by (auto simp: BuildCommitIndex_def Let_def go_sort_key split: sum.splits)

lemma scan_line_own:
  "\<forall>e \<in> set (ls_events st). ev_Cluster e = name \<Longrightarrow>
   \<forall>e \<in> set (ls_events (scan_line ParseTime name pfx st raw)). ev_Cluster e = name"
  by (auto simp: scan_line_def Let_def split: if_splits option.splits)

lemma scan_log_own: "e \<in> set (ls_events (scan_log ParseTime name pfx out)) \<Longrightarrow> ev_Cluster e = name"
proof -
  have "\<forall>e \<in> set (ls_events st). ev_Cluster e = name \<Longrightarrow>
      \<forall>e \<in> set (ls_events (foldl (scan_line ParseTime name pfx) st ls)). ev_Cluster e = name" for st ls
  proof (induction ls arbitrary: st)
    case (Cons l ls)
    then show ?case using scan_line_own [of st name ParseTime pfx l] by simp
  qed simp
  from this [of scan_start] show "e \<in> set (ls_events (scan_log ParseTime name pfx out)) \<Longrightarrow> ev_Cluster e = name"
    by (simp add: scan_log_def scan_start_def)
qed

lemma set_kinds_clusters: "map ev_Cluster (set_kinds kindMap refs es) = map ev_Cluster es"
proof -
  have "map ev_Cluster (es[k := (es ! k)\<lparr>ev_Kind := x\<rparr>]) = map ev_Cluster es" for es k x
    by (cases "k < length es") (simp_all add: map_update list_update_same_conv list_update_beyond)
  note upd = this
  show ?thesis
    unfolding set_kinds_def by (induction refs arbitrary: es) (simp_all add: upd)
qed

lemma BuildChangeIndex_own:
  assumes "slice_sort srt" "BuildChangeIndex srt ParseTime git cutoff workDir name subDir days = Ok xi"
  shows "sorted (map ev_Timestamp (xi_events xi)) \<and> (\<forall>e \<in> set (xi_events xi). ev_Cluster e = name)"
proof -
  obtain scan kindMap pfx out where
    scan: "scan = scan_log ParseTime name pfx out" and
    xi: "xi_events xi = srt (\<lambda>a b. ev_Timestamp a < ev_Timestamp b) (set_kinds kindMap (ls_refs scan) (ls_events scan))"
    using assms(2) unfolding BuildChangeIndex_def Let_def by (auto simp: map_result_Ok_iff split: sum.splits)
  have "ev_Cluster ` set (set_kinds kindMap (ls_refs scan) (ls_events scan)) = ev_Cluster ` set (ls_events scan)"
    using set_kinds_clusters [of kindMap "ls_refs scan" "ls_events scan"] by (metis image_set)
  then have "\<forall>e \<in> set (set_kinds kindMap (ls_refs scan) (ls_events scan)). ev_Cluster e = name"
    using scan_log_own unfolding scan by (metis (no_types, lifting) imageE imageI)
  then show ?thesis
    using slice_sort.srt_set [OF assms(1)] slice_sort.srt_order [OF assms(1) strict_weak_key, of ev_Timestamp]
    by (simp add: xi in_order_key)
qed

subsection \<open>The methods keep the invariant\<close>

text \<open>An error with a text. The package \<open>os\<close> and \<open>fmt.Errorf\<close> only make such errors.\<close>

fun worded :: "error \<Rightarrow> bool" where
  "worded (ErrText m) \<longleftrightarrow> m \<noteq> []"
| "worded e \<longleftrightarrow> True"

definition senv_ok :: "('g, 'r) senv \<Rightarrow> bool" where
  "senv_ok env \<longleftrightarrow> slice_sort (se_sort env) \<and> (\<forall>n. se_lib_text env n \<noteq> []) \<and>
     (\<forall>w w' e. se_MkdirTemp env w = (w', Inl e) \<longrightarrow> worded e)"

lemma Error_text_worded: "worded e \<Longrightarrow> senv_ok env \<Longrightarrow> Error_text (se_lib_text env) e \<noteq> []"
  by (cases e) (auto simp: senv_ok_def)

lemma state_ok_setGit: "state_ok name (setGit gc d s) \<longleftrightarrow> state_ok name s"
  by (simp add: setGit_def state_ok_def)

lemma state_ok_recordPull: "state_ok name (recordPull env err s) \<longleftrightarrow> state_ok name s"
  by (simp add: recordPull_def state_ok_def Let_def split: option.split)

lemma state_ok_objects:
  assumes "rebuild_objects env w dir s = (s', res)" "state_ok name s"
  shows "state_ok name s' \<and> (res = Ok () \<or> (\<exists>e. res = Err e \<and> worded e))"
proof -
  obtain idx where b: "Build (se_Unmarshal env) (w_fs w) dir (cs_idx s) = (idx, res)" and s': "s' = s\<lparr>cs_idx := idx\<rparr>"
    using assms(1) by (auto simp: rebuild_objects_def split: prod.splits)
  have "res = Ok () \<or> (\<exists>e. res = Err e \<and> worded e)"
    using Build_error [OF b] by (auto simp: path_error_def)
  then show ?thesis using Build_cluster [OF b] assms(2) by (auto simp: s' state_ok_def)
qed

lemma state_ok_history:
  assumes "rebuild_history env w name days s = (s', res)" "state_ok name s" "senv_ok env"
  shows "state_ok name s'" and "res = Ok () \<Longrightarrow> indexed s'" and "res = Err e \<Longrightarrow> worded e"
    and "indexed s \<Longrightarrow> indexed s'" and "cs_gc s' = cs_gc s"
  using assms BuildCommitIndex_sorted BuildChangeIndex_own [where srt = "se_sort env"]
  by (auto simp: rebuild_history_def state_ok_def senv_ok_def indexed_def
      split: option.splits result.splits; blast)+

lemma cs_gc_setGit [simp]: "cs_gc (setGit gc d s) = Some gc"
  by (simp add: setGit_def)

lemma ready_setGit [simp]: "ready (setGit gc d s) = ready s"
  by (simp add: setGit_def ready_def)

lemma ready_recordPull: "ready (recordPull env err s) \<longleftrightarrow>
    (case err of None \<Rightarrow> True | Some e \<Rightarrow> Error_text (se_lib_text env) e = [])"
  by (simp add: recordPull_def ready_def Let_def split: option.split)

lemma cs_gc_recordPull [simp]: "cs_gc (recordPull env err s) = cs_gc s"
  by (simp add: recordPull_def Let_def split: option.split)

lemma indexed_recordPull [simp]: "indexed (recordPull env err s) = indexed s"
  by (simp add: recordPull_def indexed_def Let_def split: option.split)

lemma indexed_setGit: "indexed s \<Longrightarrow> indexed (setGit gc d s)"
  by (simp add: setGit_def indexed_def)

lemma rebuild_objects_frame:
  "rebuild_objects env w dir s = (s', res) \<Longrightarrow> ready s' = ready s \<and> indexed s' = indexed s \<and> cs_gc s' = cs_gc s"
  by (auto simp: rebuild_objects_def ready_def indexed_def split: prod.splits)

lemma rebuild_history_ready: "rebuild_history env w name days s = (s', res) \<Longrightarrow> ready s' = ready s"
  by (auto simp: rebuild_history_def ready_def split: option.splits result.splits)

subsection \<open>The invariant of the goroutine\<close>

definition pull_inv :: "string \<Rightarrow> ('g, 'r) puller \<Rightarrow> bool" where
  "pull_inv name p \<longleftrightarrow>
     state_ok name (pl_state p) \<and>
     (ready (pl_state p) \<longrightarrow> indexed (pl_state p)) \<and>
     (\<forall>err. pl_phase p = Recording err \<longrightarrow>
        (case err of None \<Rightarrow> indexed (pl_state p) | Some e \<Rightarrow> worded e)) \<and>
     (pl_gc p \<noteq> None \<or> pl_phase p \<in> {BuildingObjects, BuildingHistory} \<longrightarrow> cs_gc (pl_state p) \<noteq> None)"

lemma pull_inv_cong:
  "pl_state p' = pl_state p \<Longrightarrow> pl_phase p' = pl_phase p \<Longrightarrow> pl_gc p' = pl_gc p \<Longrightarrow>
   pull_inv name p' = pull_inv name p"
  by (simp add: pull_inv_def cong: option.case_cong)

lemma Clone_worded: "Clone git url branch token tokenFile dir depth w = (w', Err e) \<Longrightarrow> worded e"
  by (auto simp: Clone_def Let_def split: sum.splits prod.splits if_splits option.splits)

lemma pull_inv_start: "pull_inv name (pull_start (new_state name flds subDir) w)"
  by (simp add: pull_inv_def pull_start_def new_state_def state_ok_def New_def ready_def)

text \<open>The three shapes of a next state: after a clone, after a recorded error, and with nothing but the
  phase changed to one that promises nothing.\<close>

lemma pull_inv_cloned:
  assumes "pull_inv name p" "pl_state p' = setGit gc d (pl_state p)" "pl_phase p' = BuildingObjects"
  shows "pull_inv name p'"
  using assms by (auto simp: pull_inv_def state_ok_setGit indexed_setGit)

lemma pull_inv_failed:
  assumes "pull_inv name p" "senv_ok env" "worded e"
    "pl_state p' = recordPull env (Some e) (pl_state p)" "pl_phase p' = Waiting"
    "pl_gc p' = None \<or> pl_gc p' = pl_gc p"
  shows "pull_inv name p'"
  using assms Error_text_worded [OF assms(3,2)]
  by (auto simp: pull_inv_def state_ok_recordPull ready_recordPull cs_gc_recordPull)

lemma pull_inv_quiet:
  assumes "pull_inv name p" "pl_state p' = pl_state p" "pl_phase p' = Stopped \<or> (\<exists>m. pl_phase p' = Crashed m)"
    "pl_gc p' = pl_gc p"
  shows "pull_inv name p'"
  using assms by (auto simp: pull_inv_def)

lemma pull_inv_first:
  assumes "pull_inv (cl_Name c) p"
  shows "pull_inv (cl_Name c) (first_clone env c p)"
proof -
  obtain w1 d where m: "se_MkdirTemp env (pl_world p) = (w1, d)" by fastforce
  show ?thesis
  proof (cases d)
    case (Inl e)
    then show ?thesis using m by (simp add: first_clone_def pull_inv_quiet [OF assms])
  next
    case (Inr dir)
    obtain w2 r where "clone_into env c dir w1 = (w2, r)" by fastforce
    then show ?thesis
      using m Inr
      by (cases r) (simp_all add: first_clone_def pull_inv_quiet [OF assms] pull_inv_cloned [OF assms])
  qed
qed

lemma pull_inv_reclone:
  assumes "pull_inv (cl_Name c) p" "senv_ok env"
  shows "pull_inv (cl_Name c) (reclone env c p)"
proof -
  obtain w1 d where m: "se_MkdirTemp env (remove_dir (pl_workDir p) (pl_world p)) = (w1, d)" by fastforce
  show ?thesis
  proof (cases d)
    case (Inl e)
    then have "worded e" using m assms(2) by (auto simp: senv_ok_def)
    then show ?thesis using m Inl by (simp add: reclone_def pull_inv_failed [OF assms])
  next
    case (Inr dir)
    obtain w2 r where c: "clone_into env c dir w1 = (w2, r)" by fastforce
    show ?thesis
    proof (cases r)
      case (Err e)
      then have "worded e" using c Clone_worded by (fastforce simp: clone_into_def)
      then show ?thesis using m Inr c Err by (simp add: reclone_def pull_inv_failed [OF assms])
    qed (use m Inr c in
        \<open>simp_all add: reclone_def pull_inv_quiet [OF assms(1)] pull_inv_cloned [OF assms(1)]\<close>)
  qed
qed

lemma pull_inv_tick:
  assumes "pull_inv (cl_Name c) p" "senv_ok env"
  shows "pull_inv (cl_Name c) (on_tick env c p)"
proof (cases "pl_gc p")
  case None
  then show ?thesis by (simp add: on_tick_def pull_inv_quiet [OF assms(1)])
next
  case (Some gc)
  obtain w1 r where pull: "Pull (se_git env) gc (pl_world p) = (w1, r)" by fastforce
  show ?thesis
  proof (cases r)
    case (Ok u)
    then show ?thesis using assms Some pull by (simp add: on_tick_def pull_inv_def)
  next
    case (Err e)
    have "pull_inv (cl_Name c) (p\<lparr>pl_world := w1\<rparr>)" using assms(1) pull_inv_cong [of "p\<lparr>pl_world := w1\<rparr>" p] by simp
    then show ?thesis using Some pull Err pull_inv_reclone [OF _ assms(2)] by (simp add: on_tick_def)
  next
    case (Panic m)
    then show ?thesis using Some pull by (simp add: on_tick_def pull_inv_quiet [OF assms(1)])
  qed
qed

lemma pull_inv_objects:
  assumes "pull_inv (cl_Name c) p" "pl_phase p = BuildingObjects"
  shows "pull_inv (cl_Name c) (build_objects env c p)"
proof -
  obtain s res where r: "rebuild_objects env (pl_world p) (index_dir c p) (pl_state p) = (s, res)" by fastforce
  then show ?thesis
    using assms state_ok_objects [OF r, of "cl_Name c"] rebuild_objects_frame [OF r]
    by (auto simp: build_objects_def pull_inv_def)
qed

lemma pull_inv_history:
  assumes "pull_inv (cl_Name c) p" "pl_phase p = BuildingHistory" "senv_ok env"
  shows "pull_inv (cl_Name c) (build_history env c spec p)"
proof -
  obtain s res where r: "rebuild_history env (pl_world p) (cl_Name c) (ix_HistoryDays (ss_Index spec)) (pl_state p) = (s, res)" by fastforce
  then show ?thesis
    using assms state_ok_history [OF r _ assms(3)] rebuild_history_ready [OF r]
    by (cases res) (auto simp: build_history_def pull_inv_def)
qed

lemma pull_inv_record:
  assumes "pull_inv (cl_Name c) p" "pl_phase p = Recording err" "senv_ok env"
  shows "pull_inv (cl_Name c) (record_pull env spec err p)"
  using assms Error_text_worded [OF _ assms(3)]
  by (cases err) (auto simp: record_pull_def pull_inv_def state_ok_recordPull ready_recordPull)

lemma pull_inv_step:
  assumes "pull_step c spec env p p'" "pull_inv (cl_Name c) p" "senv_ok env"
  shows "pull_inv (cl_Name c) p'"
  using assms(1)
proof cases
  case step_done
  then show ?thesis by (simp add: stop_pulling_def pull_inv_quiet [OF assms(2)])
qed (use assms(2,3) in \<open>simp_all add: pull_inv_first pull_inv_objects pull_inv_history pull_inv_record pull_inv_tick\<close>)

lemma pull_reach_inv:
  assumes "pull_reach c spec envs start p" "pull_inv (cl_Name c) start" "\<And>env. env \<in> envs \<Longrightarrow> senv_ok env"
  shows "pull_inv (cl_Name c) p"
  using assms(1)
proof (induction rule: pull_reach.induct)
  case (reach_step p env p')
  then show ?case using pull_inv_step assms(3) by blast
qed (rule assms(2))

subsection \<open>What handlers see\<close>

text \<open>C2: at every moment of a run of the pull goroutine, whatever git, the file system and the clock
  answer, the indexes of the cluster hold entries of this cluster only, the commit and the
  change index are in ascending order of time, and a cluster that reports itself ready has a
  git client, a commit index and a change index.\<close>

theorem pull_reach_serves:
  assumes "pull_reach c spec envs (pull_start (new_state (cl_Name c) flds subDir) w) p"
    and "\<And>env. env \<in> envs \<Longrightarrow> senv_ok env"
  shows "state_ok (cl_Name c) (pl_state p) \<and> (ready (pl_state p) \<longrightarrow> indexed (pl_state p))"
  using pull_reach_inv [OF assms(1) pull_inv_start assms(2)] by (simp add: pull_inv_def)

text \<open>A world in which every clone brings one pod; \<open>up\<close> says whether the remote answers.\<close>

definition demo_git :: "bool \<Rightarrow> (unit, unit) go_git" where
  "demo_git up = \<lparr>
     git_PlainClone = (\<lambda>dir opts w.
       if up then (w\<lparr>w_fs := (w_fs w)\<lparr>fs_files := [(dir @ ''/c/core/v1/namespaces/ns1/pods/p1.yaml'', ''pod'')],
                                  fs_dirs := [dir, dir @ ''/c'']\<rparr>\<rparr>, Inr ())
       else (w, Inl (ErrText ''unreachable''))),
     git_PlainInit = (\<lambda>dir w. (w, Inr ())),
     git_SetHEAD = (\<lambda>r b w. (w, None)), git_CreateRemote = (\<lambda>r n us w. (w, None)),
     git_Head = (\<lambda>r w. None), git_Worktree = (\<lambda>r w. None), git_Status = (\<lambda>r w. Inr True),
     git_Pull = (\<lambda>r opts w. (w, if up then None else Some (ErrText ''unreachable''))),
     git_Add = (\<lambda>r p w. (w, None)), git_Commit = (\<lambda>r m n e w. (w, None)), git_Push = (\<lambda>r opts w. (w, None)),
     git_CommitObject = (\<lambda>r sha w. Inr viewer_commit)\<rparr>"

definition demo_senv :: "bool \<Rightarrow> string \<Rightarrow> (unit, unit) senv" where
  "demo_senv up dir = \<lparr>se_git = demo_git up, se_MkdirTemp = (\<lambda>w. (w, Inr dir)),
     se_git_log = (\<lambda>w d. Inr (show_log example_show_time example_log)),
     se_git_process = (\<lambda>w args d inp. Inr []), se_sort = go_sort, se_ParseTime = example_ParseTime,
     se_cutoff = (\<lambda>_. ''t''), se_Unmarshal = example_decoder,
     se_ParseDuration = (\<lambda>d. if d = ''10m'' then Inr 600000000000 else if d = ''0s'' then Inr 0 else Inl (ErrText ''bad'')), se_now = 7, se_lib_text = (\<lambda>n. ''lib'')\<rparr>"

definition demo_cluster :: ClusterConfig where
  "demo_cluster = \<lparr>cl_Name = ''prod'', cl_Git = \<lparr>git_Repo = ''r'', git_Branch = ''main'', git_SubDir = ''c'',
     git_Token = [], git_TokenFile = [], git_Author = \<lparr>au_Name = [], au_Email = []\<rparr>\<rparr>\<rparr>"

definition demo_spec :: ServerSpec where
  "demo_spec = \<lparr>ss_Addr = '':8080'', ss_PullInterval = ''10m'', ss_Clusters = [demo_cluster],
     ss_Index = \<lparr>ix_Fields = [], ix_HistoryDays = 30\<rparr>, ss_OIDC = None\<rparr>"

definition demo_world :: "unit world" where
  "demo_world = \<lparr>w_fs = \<lparr>fs_files = [], fs_dirs = [], fs_fault = (\<lambda>_ _. None)\<rparr>, w_git = ()\<rparr>"

definition demo_start :: "(unit, unit) puller" where
  "demo_start = pull_start (new_state ''prod'' [] ''c'') demo_world"

definition demo_ready :: "(unit, unit) puller" where
  "demo_ready =
     (let env = demo_senv True ''/w1''
      in record_pull env demo_spec None (build_history env demo_cluster demo_spec (build_objects env demo_cluster
           (first_clone env demo_cluster demo_start))))"

lemma demo_senv_ok: "senv_ok (demo_senv up dir)"
  by (simp add: senv_ok_def demo_senv_def sorts.slice_sort_axioms)

lemma demo_phases:
  "pl_phase (first_clone (demo_senv True ''/w1'') demo_cluster demo_start) = BuildingObjects"
  "pl_phase (build_objects (demo_senv True ''/w1'') demo_cluster
     (first_clone (demo_senv True ''/w1'') demo_cluster demo_start)) = BuildingHistory"
  "pl_phase (build_history (demo_senv True ''/w1'') demo_cluster demo_spec (build_objects (demo_senv True ''/w1'') demo_cluster
     (first_clone (demo_senv True ''/w1'') demo_cluster demo_start))) = Recording None"
  by code_simp+

lemma demo_reach: "pull_reach demo_cluster demo_spec {demo_senv True ''/w1''} demo_start demo_ready"
proof -
  let ?env = "demo_senv True ''/w1''"
  let ?reach = "pull_reach demo_cluster demo_spec {?env} demo_start"
  have "?reach (first_clone ?env demo_cluster demo_start)"
    by (rule reach_step [OF reach_start insertI1 step_first]) (simp add: demo_start_def pull_start_def)
  note this [THEN reach_step, OF insertI1 step_objects, OF demo_phases(1)]
  note this [THEN reach_step, OF insertI1 step_history, OF demo_phases(2)]
  note this [THEN reach_step, OF insertI1 step_record, OF demo_phases(3)]
  then show ?thesis by (simp add: demo_ready_def Let_def)
qed

theorem pull_reach_serves_witness:
  "ready (pl_state demo_ready) \<and> indexed (pl_state demo_ready) \<and> state_ok ''prod'' (pl_state demo_ready)"
proof -
  have r: "ready (pl_state demo_ready)" by code_simp
  have n: "cl_Name demo_cluster = ''prod''" by (simp add: demo_cluster_def)
  show ?thesis
    using pull_reach_serves [OF demo_reach [unfolded demo_start_def, folded n]] demo_senv_ok r
    by (simp add: n)
qed

subsection \<open>Failing clones\<close>

lemma on_tick_reclone:
  assumes "pl_gc p = Some gc" "Pull (se_git env) gc (pl_world p) = (w1, Err e1)"
    "se_MkdirTemp env (remove_dir (pl_workDir p) w1) = (w2, Inr dir)"
  shows "clone_into env c dir w2 = (w3, Err e2) \<Longrightarrow>
      on_tick env c p = p\<lparr>pl_world := w3, pl_workDir := dir, pl_gc := None,
        pl_state := recordPull env (Some e2) (pl_state p), pl_phase := Waiting\<rparr>"
    and "clone_into env c dir w2 = (w3, Ok gc') \<Longrightarrow>
      on_tick env c p = p\<lparr>pl_world := w3, pl_workDir := dir, pl_gc := Some gc',
        pl_state := setGit gc' dir (pl_state p), pl_phase := BuildingObjects\<rparr>"
  using assms by (simp_all add: on_tick_def reclone_def)

text \<open>C12: when a pull fails and the clone that should replace the repository fails as well, the
  cluster stops being ready, as intended; but the goroutine keeps a nil client, so the next
  tick, whatever the network is like then, ends the whole process with a panic instead of
  trying again. Only a shutdown before that tick avoids it.\<close>

theorem failed_reclone_crashes:
  assumes "pl_gc p = Some gc" "Pull (se_git env) gc (pl_world p) = (w1, Err e1)"
    "se_MkdirTemp env (remove_dir (pl_workDir p) w1) = (w2, Inr dir)"
    "clone_into env c dir w2 = (w3, Err e2)" "senv_ok env"
  shows "\<not> ready (pl_state (on_tick env c p)) \<and> pl_phase (on_tick env c p) = Waiting \<and>
    (\<forall>env' q. pull_step c spec env' (on_tick env c p) q \<longrightarrow>
       q = stop_pulling (on_tick env c p) \<or> pl_phase q = Crashed ''nil pointer dereference'')"
proof (intro conjI allI impI)
  note t = on_tick_reclone(1) [OF assms(1-4)]
  have "worded e2" using assms(4) Clone_worded by (fastforce simp: clone_into_def)
  then show "\<not> ready (pl_state (on_tick env c p))"
    using Error_text_worded [OF _ assms(5)] by (simp add: t ready_recordPull)
  show phase: "pl_phase (on_tick env c p) = Waiting" by (simp add: t)
  fix env' q
  assume "pull_step c spec env' (on_tick env c p) q"
  then show "q = stop_pulling (on_tick env c p) \<or> pl_phase q = Crashed ''nil pointer dereference''"
  proof (rule pull_stepE)
    assume "q = on_tick env' c (on_tick env c p)"
    then show ?thesis by (simp add: t on_tick_def [of env'])
  qed (simp_all add: phase)
qed

definition demo_down :: "(unit, unit) puller" where
  "demo_down = on_tick (demo_senv False ''/w2'') demo_cluster demo_ready"

theorem failed_reclone_crashes_witness:
  "\<not> ready (pl_state demo_down) \<and>
   pull_step demo_cluster demo_spec (demo_senv True ''/w3'') demo_down (on_tick (demo_senv True ''/w3'') demo_cluster demo_down) \<and>
   pl_phase (on_tick (demo_senv True ''/w3'') demo_cluster demo_down) = Crashed ''nil pointer dereference''"
proof -
  let ?env = "demo_senv False ''/w2''"
  have gc: "map_option (\<lambda>_. ()) (pl_gc demo_ready) = Some ()" by code_simp
  then obtain gc where gc: "pl_gc demo_ready = Some gc" by (cases "pl_gc demo_ready") auto
  have pull: "Pull (se_git ?env) gc (pl_world demo_ready) = (pl_world demo_ready, Err (ErrText ''unreachable''))"
    by (simp add: Pull_def demo_senv_def demo_git_def)
  have mk: "se_MkdirTemp ?env w = (w, Inr ''/w2'')" for w by (simp add: demo_senv_def)
  have cl: "clone_into ?env demo_cluster ''/w2'' w = (w, Err (ErrWrap ''git clone'' (ErrText ''unreachable'')))" for w
    by (simp add: clone_into_def Clone_def demo_senv_def demo_git_def)
  note f = failed_reclone_crashes [OF gc pull mk cl demo_senv_ok]
  have "pl_phase demo_down = Waiting" "\<not> ready (pl_state demo_down)"
    using f by (simp_all add: demo_down_def)
  then have s: "pull_step demo_cluster demo_spec (demo_senv True ''/w3'') demo_down
      (on_tick (demo_senv True ''/w3'') demo_cluster demo_down)"
    by (intro step_tick)
  have "pl_gc demo_down = None"
    using on_tick_reclone(1) [OF gc pull mk cl] by (simp add: demo_down_def)
  then have "on_tick (demo_senv True ''/w3'') demo_cluster demo_down \<noteq> stop_pulling demo_down"
    by (auto simp: on_tick_def stop_pulling_def dest: arg_cong [where f = pl_phase])
  then show ?thesis using f s by (auto simp: demo_down_def)
qed

text \<open>C22: a cluster whose first clone fails is given up: the goroutine ends, no later step exists, no
  pull is ever recorded and the cluster never becomes ready, so the health check fails for
  as long as the process runs, although the server does start.\<close>

theorem failed_first_clone_is_final:
  assumes "pl_phase p = Starting" "pl_state p = new_state name flds subDir"
    and "snd (se_MkdirTemp env (pl_world p)) = Inl e0 \<or>
         (\<exists>dir w1 w2 e. se_MkdirTemp env (pl_world p) = (w1, Inr dir) \<and> clone_into env c dir w1 = (w2, Err e))"
    and "pull_reach c spec envs (first_clone env c p) q"
  shows "q = first_clone env c p \<and> pl_initDone q \<and> cs_lastPullAt (pl_state q) = None \<and> \<not> ready (pl_state q)"
proof -
  have f: "pl_phase (first_clone env c p) = Stopped" "pl_initDone (first_clone env c p)"
    "pl_state (first_clone env c p) = new_state name flds subDir"
    using assms(2,3) by (auto simp: first_clone_def split: prod.split sum.split)
  have "q = first_clone env c p"
    using assms(4)
  proof (induction rule: pull_reach.induct)
    case (reach_step r env' r')
    then show ?case using f(1) by (auto elim: pull_stepE)
  qed simp
  with f show ?thesis by (simp add: new_state_def ready_def)
qed

theorem failed_first_clone_is_final_witness:
  "\<not> ready (pl_state (first_clone (demo_senv False ''/w1'') demo_cluster demo_start)) \<and>
   pl_initDone (first_clone (demo_senv False ''/w1'') demo_cluster demo_start)"
proof -
  let ?env = "demo_senv False ''/w1''" and ?w = "pl_world demo_start"
  have "se_MkdirTemp ?env ?w = (?w, Inr ''/w1'')" by (simp add: demo_senv_def)
  moreover have "clone_into ?env demo_cluster ''/w1'' ?w = (?w, Err (ErrWrap ''git clone'' (ErrText ''unreachable'')))"
    by (simp add: clone_into_def Clone_def demo_senv_def demo_git_def)
  ultimately show ?thesis
    using failed_first_clone_is_final [of demo_start "''prod''" "[]" "''c''" ?env "ErrText []" demo_cluster,
        OF _ _ _ reach_start]
    by (simp add: demo_start_def pull_start_def)
qed

text \<open>C23: a re-clone replaces the working directory before the index is built again. In between, a
  diff of a resource that was answered before the tick is answered with "not found", because
  the path in the old index does not lie in the new directory.\<close>

theorem reclone_window_hides_resources:
  assumes "pl_gc p = Some gc" "Pull (se_git env) gc (pl_world p) = (w1, Err e1)"
    "se_MkdirTemp env (remove_dir (pl_workDir p) w1) = (w2, Inr dir)"
    "clone_into env c dir w2 = (w3, Ok gc')"
    and "Get grp kind namespace name (cs_idx (pl_state p)) = Some meta"
    and "inside (cs_workDir (pl_state p)) (rm_FilePath meta)" "\<not> inside dir (rm_FilePath meta)"
    and "rm_FilePath meta \<noteq> cs_workDir (pl_state p) @ ''/''"
    and "\<And>sha. sha \<in> {fromSHA, toSHA} \<Longrightarrow>
      fileAt git w (pl_state p) (TrimPrefix (rm_FilePath meta) (cs_workDir (pl_state p) @ ''/'')) sha = Ok (blob sha)"
  shows "GetDiff (serve (as_querier git w) [(n, pl_state p)]) n grp kind namespace name fromSHA toSHA =
      Ok \<lparr>df_Before = blob fromSHA, df_After = blob toSHA\<rparr> \<and>
    GetDiff (serve (as_querier git' w') [(n, pl_state (on_tick env c p))]) n grp kind namespace name fromSHA toSHA =
      Err ErrNotFound"
proof -
  let ?s = "pl_state p" and ?file = "rm_FilePath meta"
  obtain t where t: "?file = cs_workDir ?s @ ''/'' @ t" "t \<noteq> []"
    using assms(6,8) by (auto simp: inside_def HasPrefix_iff)
  then have "relPath ?s ?file = t" by (simp add: relPath_def TrimPrefix_def HasPrefix_def)
  moreover have "TrimPrefix ?file (cs_workDir ?s @ ''/'') = t"
    unfolding t(1) using TrimPrefix_append [of "cs_workDir ?s @ ''/''" t] by simp
  moreover have "relPath (setGit gc' dir ?s) ?file = []"
    using assms(7) by (simp add: relPath_def setGit_def inside_def Let_def TrimPrefix_eq_iff)
  ultimately show ?thesis
    using assms(5,9) t(2) on_tick_reclone(2) [OF assms(1-4)]
    by (simp add: GetDiff_def serve_get as_querier_def diff_path_def) (simp add: setGit_def)
qed

text \<open>For clusters in such states, everything that a history page or a current snapshot returns
  carries the name of a configured cluster, and of the requested one if the request names
  one; a history page is in descending order of time.\<close>

theorem served_entries_name_their_cluster:
  assumes "list_all (\<lambda>(n, s). state_ok n s) cs" "slice_sort (qe_sort_events env)"
    and "queriers_ok (serve (as_querier git w) cs) cluster"
    and "GetHistory env (serve (as_querier git w) cs) cluster grp kind namespace name ct since until limit offset =
           Ok (page, totl)"
    and "snd (GetCurrentSnapshot env (serve (as_querier git w) cs) cluster grp kind namespace name [] sel limit offset) =
           Ok snap"
  shows "ev_Cluster ` set page \<union> rm_Cluster ` set (sr_Items snap) \<subseteq>
      {n \<in> set (map fst cs). cluster = [] \<or> n = cluster} \<and>
    sorted_wrt (\<lambda>a b. ev_Timestamp b \<le> ev_Timestamp a) page"
proof -
  let ?srv = "serve (as_querier git w) cs" and ?f = "request_filter since until grp kind namespace name ct"
  have inv: "list_all (\<lambda>(n, s). state_ok (in_cluster (cs_idx s)) s \<and> (in_cluster \<circ> cs_idx) s = n) cs"
    using assms(1) by (auto simp: list_all_iff state_ok_def)
  let ?evs = "history_list env ?srv cluster ?f"
  have page: "page_of ?evs offset limit = Ok page"
    using assms(4) by (auto simp: GetHistory_page [OF assms(3)] Let_def map_result_Ok_iff)
  have srt: "sorted_wrt (\<lambda>a b. ev_Timestamp b \<le> ev_Timestamp a) page"
    using page history_list_order [OF assms(2)]
    by (auto simp: page_of_def go_slice_def sorted_wrt_take_drop split: if_splits prod.splits)
  have "ev_Cluster e \<in> {n \<in> set (map fst cs). cluster = [] \<or> n = cluster}" if "e \<in> set page" for e
  proof -
    have "e \<in># mset ?evs" using page_of_subset [OF page] that by auto
    then obtain n where n: "n \<in> set (named ?srv cluster)" "e \<in> set (matching_events ?srv ?f n)"
      unfolding history_list_mset [OF assms(2)] by auto
    then show ?thesis using pulled.matching_own [OF inv n(2)] by (simp add: named_serve)
  qed
  moreover have "rm_Cluster r \<in> {n \<in> set (map fst cs). cluster = [] \<or> n = cluster}" if "r \<in> set (sr_Items snap)" for r
  proof -
    have ok: "list_all (\<lambda>n. gm_get (sv_clusters ?srv) n \<noteq> None) (resolve ?srv cluster)"
      unfolding list_all_iff
    proof
      fix n assume "n \<in> set (resolve ?srv cluster)"
      then have "n \<in> set (map fst cs)" by (simp only: resolve_serve)
      from serve_get_Some [OF this, of "as_querier git w"] show "gm_get (sv_clusters ?srv) n \<noteq> None" by force
    qed
    let ?all = "concat (map (listed grp kind namespace name sel ?srv) (resolve ?srv cluster))"
    have "page_of ?all offset limit = Ok (sr_Items snap)"
      using assms(5) by (auto simp: GetCurrentSnapshot_lists [OF ok] Let_def map_result_Ok_iff)
    then have "r \<in> set ?all" using page_of_subset that by blast
    then obtain n where n: "n \<in> set (resolve ?srv cluster)" "r \<in> set (listed grp kind namespace name sel ?srv n)"
      by auto
    then obtain cq where cq: "gm_get (sv_clusters ?srv) n = Some cq" "r \<in> set (List grp kind namespace sel (cq_Index cq))"
      by (cases "gm_get (sv_clusters ?srv) n") (auto simp: listed_def)
    then show ?thesis using pulled.listed_own [OF inv cq] n(1) by (simp add: resolve_serve)
  qed
  ultimately show ?thesis using srt by blast
qed

theorem served_entries_name_their_cluster_witness:
  "\<exists>page totl snap.
     GetHistory viewer_env (serve (as_querier (demo_git True) demo_world) [(''prod'', pl_state demo_ready)]) [] [] [] [] [] []
       None None 50 0 = Ok (page, totl) \<and>
     snd (GetCurrentSnapshot viewer_env (serve (as_querier (demo_git True) demo_world) [(''prod'', pl_state demo_ready)]) [] [] [] []
       [] [] [] 50 0) = Ok snap \<and> ev_Cluster ` set page \<union> rm_Cluster ` set (sr_Items snap) \<subseteq> {''prod''}"
proof -
  let ?srv = "serve (as_querier (demo_git True) demo_world) [(''prod'', pl_state demo_ready)]"
  have "pull_inv (cl_Name demo_cluster) demo_ready"
  proof (rule pull_reach_inv [OF demo_reach])
    show "pull_inv (cl_Name demo_cluster) demo_start"
      by (simp add: demo_start_def demo_cluster_def pull_inv_start)
  qed (auto simp: demo_senv_ok)
  then have ok: "list_all (\<lambda>(n, s). state_ok n s) [(''prod'', pl_state demo_ready)]"
    by (simp add: pull_inv_def demo_cluster_def)
  have len: "map_option (length \<circ> xi_events) (cs_changeIdx (pl_state demo_ready)) = Some 0" by code_simp
  have q: "queriers_ok ?srv []"
    using len by (auto simp: queriers_ok_def named_def serve_names serve_get as_querier_def split: option.splits)
  let ?evs = "history_list viewer_env ?srv [] (request_filter None None [] [] [] [] [])"
  have h: "GetHistory viewer_env ?srv [] [] [] [] [] [] None None 50 0 = Ok (take 50 ?evs, length ?evs)"
    using page_of_Ok [of 0 50 ?evs] by (simp add: GetHistory_page [OF q] Let_def goint_max_def)
  have g: "list_all (\<lambda>n. gm_get (sv_clusters ?srv) n \<noteq> None) (resolve ?srv [])"
    by (simp add: resolve_def serve_names serve_get)
  let ?all = "concat (map (listed [] [] [] [] [] ?srv) (resolve ?srv []))"
  have "length ?all \<le> length (in_resources (cs_idx (pl_state demo_ready)))"
    by (simp add: resolve_def serve_names listed_def serve_get as_querier_def List_def
        le_trans [OF length_filter_le])
  moreover have "length (in_resources (cs_idx (pl_state demo_ready))) = 1" by code_simp
  ultimately have "page_of ?all 0 50 = Ok (take 50 ?all)"
    using page_of_Ok [of 0 50 ?all] by (simp add: goint_max_def)
  then have s: "\<exists>snap. snd (GetCurrentSnapshot viewer_env ?srv [] [] [] [] [] [] [] 50 0) = Ok snap"
    by (simp add: GetCurrentSnapshot_lists [OF g] Let_def)
  then obtain snap where s: "snd (GetCurrentSnapshot viewer_env ?srv [] [] [] [] [] [] [] 50 0) = Ok snap" by blast
  have "slice_sort (qe_sort_events viewer_env)" by (simp add: viewer_env_def sorts.slice_sort_axioms)
  from served_entries_name_their_cluster [OF ok this q h s] h s show ?thesis by auto
qed

text \<open>The network fails during the pull and is back for the clone.\<close>

definition demo_flaky :: "(unit, unit) senv" where
  "demo_flaky = (demo_senv True ''/w2'')\<lparr>se_git := (demo_git True)\<lparr>git_Pull := (\<lambda>r opts w. (w, Some (ErrText ''reset'')))\<rparr>\<rparr>"

theorem reclone_window_hides_resources_witness:
  "GetDiff (serve (as_querier (demo_git True) demo_world) [(''prod'', pl_state demo_ready)]) ''prod'' ''core'' ''Pod'' ''ns1'' ''p1'' ''a'' ''b'' =
     Ok \<lparr>df_Before = ''pod'', df_After = ''pod''\<rparr> \<and>
   GetDiff (serve (as_querier (demo_git True) demo_world) [(''prod'', pl_state (on_tick demo_flaky demo_cluster demo_ready))])
     ''prod'' ''core'' ''Pod'' ''ns1'' ''p1'' ''a'' ''b'' = Err ErrNotFound"
proof -
  have "map_option (\<lambda>_. ()) (pl_gc demo_ready) = Some ()" by code_simp
  then obtain gc where gc: "pl_gc demo_ready = Some gc" by (cases "pl_gc demo_ready") auto
  let ?p = "demo_ready" and ?file = "''/w1/c/core/v1/namespaces/ns1/pods/p1.yaml''"
  have pull: "Pull (se_git demo_flaky) gc (pl_world ?p) = (pl_world ?p, Err (ErrText ''reset''))"
    by (simp add: Pull_def demo_flaky_def demo_git_def)
  have mk: "se_MkdirTemp demo_flaky w = (w, Inr ''/w2'')" for w by (simp add: demo_flaky_def demo_senv_def)
  obtain w3 gc' where cl: "clone_into demo_flaky demo_cluster ''/w2'' (remove_dir (pl_workDir ?p) (pl_world ?p)) = (w3, Ok gc')"
    by (simp add: clone_into_def Clone_def demo_flaky_def demo_git_def)
  have "map_option rm_FilePath (Get ''core'' ''Pod'' ''ns1'' ''p1'' (cs_idx (pl_state ?p))) = Some ?file" by code_simp
  then obtain meta where meta: "Get ''core'' ''Pod'' ''ns1'' ''p1'' (cs_idx (pl_state ?p)) = Some meta" "rm_FilePath meta = ?file"
    by auto
  have wd: "cs_workDir (pl_state ?p) = ''/w1''" "map_option (\<lambda>_. ()) (cs_gc (pl_state ?p)) = Some ()" by code_simp+
  have "fileAt (demo_git True) demo_world (pl_state ?p) (TrimPrefix ?file (cs_workDir (pl_state ?p) @ ''/'')) sha = Ok ''pod''" for sha
    using wd by (auto simp: fileAt_def FileAtCommit_def demo_git_def viewer_commit_def TrimPrefix_def HasPrefix_def
        split: option.splits)
  then show ?thesis
    using reclone_window_hides_resources [OF gc pull mk cl meta(1),
        where git = "demo_git True" and blob = "\<lambda>_. ''pod''" and w = demo_world and n = "''prod''"
          and fromSHA = "''a''" and toSHA = "''b''" and git' = "demo_git True" and w' = demo_world]
    by (simp add: meta(2) wd inside_def HasPrefix_def)
qed

end
