(* ===== verification/Json.thy ===== *)
theory Json
  imports ApiTypes CommitIndex
begin

text \<open>
  The JSON codecs of the REST types, \<open>internal/api/oas_json_gen.go\<close>. The encoder and the decoder
  they write to and read from (\<open>jx.Encoder\<close>, \<open>jx.Decoder\<close> and the time format of \<open>ogen/json\<close>) belong
  to packages outside the repository: they are the record \<open>jx\<close>, over a type \<open>'j\<close> of encoded values.
  An encoder builds the value of an object from its fields in the order they are written; a decoder
  hands the fields of an object to its callback one by one.

  Each type of the interface has its \<open>Encode\<close> and its \<open>Decode\<close> here; the lemmas show that the check
  for required fields, a loop over the bits of a byte, lists exactly the missing ones, and that every
  \<open>Decode\<close> inverts the \<open>Encode\<close> of its type.
\<close>

unbundle bit_operations_syntax

subsection \<open>The encoder and the decoder\<close>

record 'j jx =
  jx_Str :: "string \<Rightarrow> 'j"
  jx_Int :: "int \<Rightarrow> 'j"
  jx_Float64 :: "float64 \<Rightarrow> 'j"
  jx_DateTime :: "int \<Rightarrow> 'j"
  jx_Null :: 'j
  jx_Arr :: "'j list \<Rightarrow> 'j"
  jx_Obj :: "(string \<times> 'j) list \<Rightarrow> 'j"
  jx_range :: "string gmap \<Rightarrow> string gmap"
  jd_Str :: "'j \<Rightarrow> error + string"
  jd_Int :: "'j \<Rightarrow> error + int"
  jd_Float64 :: "'j \<Rightarrow> error + float64"
  jd_DateTime :: "'j \<Rightarrow> error + int"
  jd_NextIsNull :: "'j \<Rightarrow> bool"
  jd_Null :: "'j \<Rightarrow> error option"
  jd_Arr :: "'j \<Rightarrow> error + 'j list"
  jd_Obj :: "'j \<Rightarrow> error + (string \<times> 'j) list"
  jd_Skip :: "'j \<Rightarrow> error option"

text \<open>\<open>jx_range\<close> is the order in which \<open>range\<close> visits the labels.\<close>

subsection \<open>Decoding an object\<close>

text \<open>A step of the callback of \<open>ObjBytes\<close>: the struct and \<open>requiredBitSet[0]\<close>, or an error.\<close>

type_synonym 's obj_state = "'s \<times> 8 word"

definition mark :: "nat \<Rightarrow> 8 word \<Rightarrow> 8 word" where
  "mark i bs = bs OR push_bit i 1"

text \<open>A required field marks its bit whatever its value is.\<close>

definition required_field ::
  "string \<Rightarrow> nat \<Rightarrow> error + 'a \<Rightarrow> ('a \<Rightarrow> 's \<Rightarrow> 's) \<Rightarrow> 's obj_state \<Rightarrow> error + 's obj_state" where
  "required_field k i v upd st =
     (case v of
        Inl err \<Rightarrow> Inl (ErrWrap (''decode field '' @ k) err)
      | Inr x \<Rightarrow> Inr (upd x (fst st), mark i (snd st)))"

definition optional_field ::
  "string \<Rightarrow> error + 'a \<Rightarrow> ('a \<Rightarrow> 's \<Rightarrow> 's) \<Rightarrow> 's obj_state \<Rightarrow> error + 's obj_state" where
  "optional_field k v upd st =
     (case v of
        Inl err \<Rightarrow> Inl (ErrWrap (''decode field '' @ k) err)
      | Inr x \<Rightarrow> Inr (upd x (fst st), snd st))"

definition skip_field :: "'j jx \<Rightarrow> 'j \<Rightarrow> 's obj_state \<Rightarrow> error + 's obj_state" where
  "skip_field X v st = (case jd_Skip X v of Some err \<Rightarrow> Inl err | None \<Rightarrow> Inr st)"

fun obj_loop :: "(string \<Rightarrow> 'j \<Rightarrow> 's \<Rightarrow> error + 's) \<Rightarrow> (string \<times> 'j) list \<Rightarrow> 's \<Rightarrow> error + 's" where
  "obj_loop f [] st = Inr st"
| "obj_loop f ((k, v) # kvs) st = (case f k v st of Inl err \<Rightarrow> Inl err | Inr st' \<Rightarrow> obj_loop f kvs st')"

text \<open>\<open>bits.OnesCount8\<close> and \<open>bits.TrailingZeros8\<close>.\<close>

definition OnesCount8 :: "8 word \<Rightarrow> nat" where
  "OnesCount8 r = length (filter (bit r) [0..<8])"

definition TrailingZeros8 :: "8 word \<Rightarrow> nat" where
  "TrailingZeros8 r = length (takeWhile (\<lambda>i. \<not> bit r i) [0..<8])"

definition field_name :: "string list \<Rightarrow> nat \<Rightarrow> string" where
  "field_name names fieldIdx = (if fieldIdx < length names then names ! fieldIdx else show_nat fieldIdx)"

text \<open>The loop over the bits that are missing: \<open>for bitN := 0; bitN < missed; bitN++\<close>.\<close>

fun missed_loop :: "string list \<Rightarrow> nat \<Rightarrow> 8 word \<Rightarrow> string list" where
  "missed_loop names 0 r = []"
| "missed_loop names (Suc n) r =
     (let bitIdx = TrailingZeros8 r
      in field_name names bitIdx # missed_loop names n (r AND NOT (push_bit bitIdx 1)))"

definition missing_fields :: "string list \<Rightarrow> 8 word \<Rightarrow> 8 word \<Rightarrow> string list" where
  "missing_fields names req bs =
     (let r = (bs AND req) XOR req in if r \<noteq> 0 then missed_loop names (OnesCount8 r) r else [])"

definition FieldsRequired :: "string list \<Rightarrow> error" where
  "FieldsRequired failures = ErrText (''field required: '' @ Join failures '', '')"

definition decode_object ::
  "'j jx \<Rightarrow> string \<Rightarrow> string list \<Rightarrow> 8 word \<Rightarrow> 's \<Rightarrow> (string \<Rightarrow> 'j \<Rightarrow> 's obj_state \<Rightarrow> error + 's obj_state) \<Rightarrow>
   'j \<Rightarrow> error + 's" where
  "decode_object X tname names req zero f j =
     (case jd_Obj X j of
        Inl err \<Rightarrow> Inl (ErrWrap (''decode '' @ tname) err)
      | Inr kvs \<Rightarrow>
          (case obj_loop f kvs (zero, 0) of
             Inl err \<Rightarrow> Inl (ErrWrap (''decode '' @ tname) err)
           | Inr (s, bs) \<Rightarrow>
               (let failures = missing_fields names req bs
                in if failures \<noteq> [] then Inl (FieldsRequired failures) else Inr s)))"

fun decode_elems :: "('j \<Rightarrow> error + 'a) \<Rightarrow> 'j list \<Rightarrow> error + 'a list" where
  "decode_elems dec [] = Inr []"
| "decode_elems dec (j # js) =
     (case dec j of
        Inl err \<Rightarrow> Inl err
      | Inr x \<Rightarrow> (case decode_elems dec js of Inl err \<Rightarrow> Inl err | Inr xs \<Rightarrow> Inr (x # xs)))"

definition decode_array :: "'j jx \<Rightarrow> ('j \<Rightarrow> error + 'a) \<Rightarrow> 'j \<Rightarrow> error + 'a list" where
  "decode_array X dec j = (case jd_Arr X j of Inl err \<Rightarrow> Inl err | Inr js \<Rightarrow> decode_elems dec js)"

subsection \<open>Optional and nullable values\<close>

definition opt_nil_field :: "'j jx \<Rightarrow> string \<Rightarrow> ('a \<Rightarrow> 'j) \<Rightarrow> 'a OptNil \<Rightarrow> (string \<times> 'j) list" where
  "opt_nil_field X k enc opt =
     (case opt of Unset \<Rightarrow> [] | Null \<Rightarrow> [(k, jx_Null X)] | Set v \<Rightarrow> [(k, enc v)])"

definition Decode_OptNil :: "'j jx \<Rightarrow> ('j \<Rightarrow> error + 'a) \<Rightarrow> 'j \<Rightarrow> error + 'a OptNil" where
  "Decode_OptNil X dec j =
     (if jd_NextIsNull X j then (case jd_Null X j of Some err \<Rightarrow> Inl err | None \<Rightarrow> Inr Null)
      else case dec j of Inl err \<Rightarrow> Inl err | Inr v \<Rightarrow> Inr (Set v))"

definition opt_string_field :: "'j jx \<Rightarrow> string \<Rightarrow> string option \<Rightarrow> (string \<times> 'j) list" where
  "opt_string_field X k opt = (case opt of None \<Rightarrow> [] | Some v \<Rightarrow> [(k, jx_Str X v)])"

definition Decode_OptString :: "'j jx \<Rightarrow> 'j \<Rightarrow> error + string option" where
  "Decode_OptString X j = (case jd_Str X j of Inl err \<Rightarrow> Inl err | Inr v \<Rightarrow> Inr (Some v))"

definition Encode_Labels :: "'j jx \<Rightarrow> string gmap \<Rightarrow> 'j" where
  "Encode_Labels X m = jx_Obj X (map (\<lambda>(k, elem). (k, jx_Str X elem)) (jx_range X m))"

definition label_field :: "'j jx \<Rightarrow> string \<Rightarrow> 'j \<Rightarrow> string gmap \<Rightarrow> error + string gmap" where
  "label_field X k j m =
     (case jd_Str X j of
        Inl err \<Rightarrow> Inl (ErrWrap (''decode field '' @ k) err)
      | Inr elem \<Rightarrow> Inr (gm_put k elem m))"

definition Decode_Labels :: "'j jx \<Rightarrow> 'j \<Rightarrow> error + string gmap" where
  "Decode_Labels X j =
     (case jd_Obj X j of
        Inl err \<Rightarrow> Inl (ErrWrap ''decode SnapshotResourceLabels'' err)
      | Inr kvs \<Rightarrow>
          (case obj_loop (label_field X) kvs [] of
             Inl err \<Rightarrow> Inl (ErrWrap ''decode SnapshotResourceLabels'' err)
           | Inr m \<Rightarrow> Inr m))"

definition Encode_ChangeType :: "'j jx \<Rightarrow> string \<Rightarrow> 'j" where
  "Encode_ChangeType X s = jx_Str X s"

definition Decode_ChangeType :: "'j jx \<Rightarrow> 'j \<Rightarrow> error + string" where
  "Decode_ChangeType X j =
     (case jd_Str X j of
        Inl err \<Rightarrow> Inl err
      | Inr v \<Rightarrow>
          Inr (if v = ''added'' then ''added''
               else if v = ''modified'' then ''modified''
               else if v = ''deleted'' then ''deleted''
               else v))"

subsection \<open>\<open>ChangeEvent\<close>\<close>

definition Encode_ChangeEvent :: "'j jx \<Rightarrow> ApiChangeEvent \<Rightarrow> 'j" where
  "Encode_ChangeEvent X s = jx_Obj X
    ([(''timestamp'', jx_DateTime X (ae_Timestamp s)),
      (''sha'', jx_Str X (ae_Sha s)),
      (''cluster'', jx_Str X (ae_Cluster s)),
      (''group'', jx_Str X (ae_Group s)),
      (''kind'', jx_Str X (ae_Kind s)),
      (''namespace'', jx_Str X (ae_Namespace s)),
      (''name'', jx_Str X (ae_Name s)),
      (''changeType'', Encode_ChangeType X (ae_ChangeType s))])"

definition zero_ChangeEvent :: ApiChangeEvent where
  "zero_ChangeEvent = \<lparr>ae_Timestamp = zero_time, ae_Sha = '''', ae_Cluster = '''', ae_Group = '''', ae_Kind = '''', ae_Namespace = '''', ae_Name = '''', ae_ChangeType = ''''\<rparr>"

definition jsonFieldsNameOfChangeEvent :: "string list" where
  "jsonFieldsNameOfChangeEvent = [''timestamp'', ''sha'', ''cluster'', ''group'', ''kind'', ''namespace'', ''name'', ''changeType'']"

definition field_ChangeEvent :: "'j jx \<Rightarrow> string \<Rightarrow> 'j \<Rightarrow> ApiChangeEvent obj_state \<Rightarrow> error + ApiChangeEvent obj_state" where
  "field_ChangeEvent X k j st =
     (if k = ''timestamp'' then required_field k 0 (jd_DateTime X j) (\<lambda>v s. s\<lparr>ae_Timestamp := v\<rparr>) st
      else if k = ''sha'' then required_field k 1 (jd_Str X j) (\<lambda>v s. s\<lparr>ae_Sha := v\<rparr>) st
      else if k = ''cluster'' then required_field k 2 (jd_Str X j) (\<lambda>v s. s\<lparr>ae_Cluster := v\<rparr>) st
      else if k = ''group'' then required_field k 3 (jd_Str X j) (\<lambda>v s. s\<lparr>ae_Group := v\<rparr>) st
      else if k = ''kind'' then required_field k 4 (jd_Str X j) (\<lambda>v s. s\<lparr>ae_Kind := v\<rparr>) st
      else if k = ''namespace'' then required_field k 5 (jd_Str X j) (\<lambda>v s. s\<lparr>ae_Namespace := v\<rparr>) st
      else if k = ''name'' then required_field k 6 (jd_Str X j) (\<lambda>v s. s\<lparr>ae_Name := v\<rparr>) st
      else if k = ''changeType'' then required_field k 7 (Decode_ChangeType X j) (\<lambda>v s. s\<lparr>ae_ChangeType := v\<rparr>) st
      else skip_field X j st)"

definition Decode_ChangeEvent :: "'j jx \<Rightarrow> 'j \<Rightarrow> error + ApiChangeEvent" where
  "Decode_ChangeEvent X = decode_object X ''ChangeEvent'' jsonFieldsNameOfChangeEvent 255 zero_ChangeEvent (field_ChangeEvent X)"

subsection \<open>\<open>ClusterStatus\<close>\<close>

definition Encode_ClusterStatus :: "'j jx \<Rightarrow> ApiClusterStatus \<Rightarrow> 'j" where
  "Encode_ClusterStatus X s = jx_Obj X
    ([(''name'', jx_Str X (as_Name s))] @
     opt_nil_field X ''lastPullAt'' (jx_DateTime X) (as_LastPullAt s) @
     [(''lastPullErr'', jx_Str X (as_LastPullErr s)),
      (''resourceCount'', jx_Int X (as_ResourceCount s))])"

definition zero_ClusterStatus :: ApiClusterStatus where
  "zero_ClusterStatus = \<lparr>as_Name = '''', as_LastPullAt = Unset, as_LastPullErr = '''', as_ResourceCount = 0\<rparr>"

definition jsonFieldsNameOfClusterStatus :: "string list" where
  "jsonFieldsNameOfClusterStatus = [''name'', ''lastPullAt'', ''lastPullErr'', ''resourceCount'']"

definition field_ClusterStatus :: "'j jx \<Rightarrow> string \<Rightarrow> 'j \<Rightarrow> ApiClusterStatus obj_state \<Rightarrow> error + ApiClusterStatus obj_state" where
  "field_ClusterStatus X k j st =
     (if k = ''name'' then required_field k 0 (jd_Str X j) (\<lambda>v s. s\<lparr>as_Name := v\<rparr>) st
      else if k = ''lastPullAt'' then optional_field k (Decode_OptNil X (jd_DateTime X) j) (\<lambda>v s. s\<lparr>as_LastPullAt := v\<rparr>) st
      else if k = ''lastPullErr'' then required_field k 2 (jd_Str X j) (\<lambda>v s. s\<lparr>as_LastPullErr := v\<rparr>) st
      else if k = ''resourceCount'' then required_field k 3 (jd_Int X j) (\<lambda>v s. s\<lparr>as_ResourceCount := v\<rparr>) st
      else skip_field X j st)"

definition Decode_ClusterStatus :: "'j jx \<Rightarrow> 'j \<Rightarrow> error + ApiClusterStatus" where
  "Decode_ClusterStatus X = decode_object X ''ClusterStatus'' jsonFieldsNameOfClusterStatus 13 zero_ClusterStatus (field_ClusterStatus X)"

subsection \<open>\<open>DiffResult\<close>\<close>

definition Encode_DiffResult :: "'j jx \<Rightarrow> ApiDiffResult \<Rightarrow> 'j" where
  "Encode_DiffResult X s = jx_Obj X
    ([(''before'', jx_Str X (ad_Before s)),
      (''after'', jx_Str X (ad_After s))])"

definition zero_DiffResult :: ApiDiffResult where
  "zero_DiffResult = \<lparr>ad_Before = '''', ad_After = ''''\<rparr>"

definition jsonFieldsNameOfDiffResult :: "string list" where
  "jsonFieldsNameOfDiffResult = [''before'', ''after'']"

definition field_DiffResult :: "'j jx \<Rightarrow> string \<Rightarrow> 'j \<Rightarrow> ApiDiffResult obj_state \<Rightarrow> error + ApiDiffResult obj_state" where
  "field_DiffResult X k j st =
     (if k = ''before'' then required_field k 0 (jd_Str X j) (\<lambda>v s. s\<lparr>ad_Before := v\<rparr>) st
      else if k = ''after'' then required_field k 1 (jd_Str X j) (\<lambda>v s. s\<lparr>ad_After := v\<rparr>) st
      else skip_field X j st)"

definition Decode_DiffResult :: "'j jx \<Rightarrow> 'j \<Rightarrow> error + ApiDiffResult" where
  "Decode_DiffResult X = decode_object X ''DiffResult'' jsonFieldsNameOfDiffResult 3 zero_DiffResult (field_DiffResult X)"

subsection \<open>\<open>FieldVolatilityEntry\<close>\<close>

definition Encode_FieldVolatilityEntry :: "'j jx \<Rightarrow> ApiFieldVolatilityEntry \<Rightarrow> 'j" where
  "Encode_FieldVolatilityEntry X s = jx_Obj X
    ([(''field'', jx_Str X (af_Field s)),
      (''count'', jx_Int X (af_Count s)),
      (''total'', jx_Int X (af_Total s)),
      (''ratio'', jx_Float64 X (af_Ratio s))])"

definition zero_FieldVolatilityEntry :: ApiFieldVolatilityEntry where
  "zero_FieldVolatilityEntry = \<lparr>af_Field = '''', af_Count = 0, af_Total = 0, af_Ratio = Finite 0\<rparr>"

definition jsonFieldsNameOfFieldVolatilityEntry :: "string list" where
  "jsonFieldsNameOfFieldVolatilityEntry = [''field'', ''count'', ''total'', ''ratio'']"

definition field_FieldVolatilityEntry :: "'j jx \<Rightarrow> string \<Rightarrow> 'j \<Rightarrow> ApiFieldVolatilityEntry obj_state \<Rightarrow> error + ApiFieldVolatilityEntry obj_state" where
  "field_FieldVolatilityEntry X k j st =
     (if k = ''field'' then required_field k 0 (jd_Str X j) (\<lambda>v s. s\<lparr>af_Field := v\<rparr>) st
      else if k = ''count'' then required_field k 1 (jd_Int X j) (\<lambda>v s. s\<lparr>af_Count := v\<rparr>) st
      else if k = ''total'' then required_field k 2 (jd_Int X j) (\<lambda>v s. s\<lparr>af_Total := v\<rparr>) st
      else if k = ''ratio'' then required_field k 3 (jd_Float64 X j) (\<lambda>v s. s\<lparr>af_Ratio := v\<rparr>) st
      else skip_field X j st)"

definition Decode_FieldVolatilityEntry :: "'j jx \<Rightarrow> 'j \<Rightarrow> error + ApiFieldVolatilityEntry" where
  "Decode_FieldVolatilityEntry X = decode_object X ''FieldVolatilityEntry'' jsonFieldsNameOfFieldVolatilityEntry 15 zero_FieldVolatilityEntry (field_FieldVolatilityEntry X)"

definition Encode_VolatilityFields :: "'j jx \<Rightarrow> ApiFieldVolatilityEntry list \<Rightarrow> 'j" where
  "Encode_VolatilityFields X s = jx_Arr X (map (Encode_FieldVolatilityEntry X) s)"

definition Decode_VolatilityFields :: "'j jx \<Rightarrow> 'j \<Rightarrow> error + ApiFieldVolatilityEntry list" where
  "Decode_VolatilityFields X j =
     (case decode_array X (Decode_FieldVolatilityEntry X) j of
        Inl err \<Rightarrow> Inl (ErrWrap ''alias'' err)
      | Inr unwrapped \<Rightarrow> Inr unwrapped)"

subsection \<open>\<open>GVKInfo\<close>\<close>

definition Encode_GVKInfo :: "'j jx \<Rightarrow> ApiGVKInfo \<Rightarrow> 'j" where
  "Encode_GVKInfo X s = jx_Obj X
    ([(''group'', jx_Str X (ag_Group s)),
      (''version'', jx_Str X (ag_Version s)),
      (''kind'', jx_Str X (ag_Kind s))])"

definition zero_GVKInfo :: ApiGVKInfo where
  "zero_GVKInfo = \<lparr>ag_Group = '''', ag_Version = '''', ag_Kind = ''''\<rparr>"

definition jsonFieldsNameOfGVKInfo :: "string list" where
  "jsonFieldsNameOfGVKInfo = [''group'', ''version'', ''kind'']"

definition field_GVKInfo :: "'j jx \<Rightarrow> string \<Rightarrow> 'j \<Rightarrow> ApiGVKInfo obj_state \<Rightarrow> error + ApiGVKInfo obj_state" where
  "field_GVKInfo X k j st =
     (if k = ''group'' then required_field k 0 (jd_Str X j) (\<lambda>v s. s\<lparr>ag_Group := v\<rparr>) st
      else if k = ''version'' then required_field k 1 (jd_Str X j) (\<lambda>v s. s\<lparr>ag_Version := v\<rparr>) st
      else if k = ''kind'' then required_field k 2 (jd_Str X j) (\<lambda>v s. s\<lparr>ag_Kind := v\<rparr>) st
      else skip_field X j st)"

definition Decode_GVKInfo :: "'j jx \<Rightarrow> 'j \<Rightarrow> error + ApiGVKInfo" where
  "Decode_GVKInfo X = decode_object X ''GVKInfo'' jsonFieldsNameOfGVKInfo 7 zero_GVKInfo (field_GVKInfo X)"

subsection \<open>\<open>HistoryPage\<close>\<close>

definition Encode_HistoryPage :: "'j jx \<Rightarrow> HistoryPage \<Rightarrow> 'j" where
  "Encode_HistoryPage X s = jx_Obj X
    ([(''items'', jx_Arr X (map (Encode_ChangeEvent X) (hp_Items s))),
      (''total'', jx_Int X (hp_Total s)),
      (''offset'', jx_Int X (hp_Offset s)),
      (''limit'', jx_Int X (hp_Limit s))])"

definition zero_HistoryPage :: HistoryPage where
  "zero_HistoryPage = \<lparr>hp_Items = [], hp_Total = 0, hp_Offset = 0, hp_Limit = 0\<rparr>"

definition jsonFieldsNameOfHistoryPage :: "string list" where
  "jsonFieldsNameOfHistoryPage = [''items'', ''total'', ''offset'', ''limit'']"

definition field_HistoryPage :: "'j jx \<Rightarrow> string \<Rightarrow> 'j \<Rightarrow> HistoryPage obj_state \<Rightarrow> error + HistoryPage obj_state" where
  "field_HistoryPage X k j st =
     (if k = ''items'' then required_field k 0 (decode_array X (Decode_ChangeEvent X) j) (\<lambda>v s. s\<lparr>hp_Items := v\<rparr>) st
      else if k = ''total'' then required_field k 1 (jd_Int X j) (\<lambda>v s. s\<lparr>hp_Total := v\<rparr>) st
      else if k = ''offset'' then required_field k 2 (jd_Int X j) (\<lambda>v s. s\<lparr>hp_Offset := v\<rparr>) st
      else if k = ''limit'' then required_field k 3 (jd_Int X j) (\<lambda>v s. s\<lparr>hp_Limit := v\<rparr>) st
      else skip_field X j st)"

definition Decode_HistoryPage :: "'j jx \<Rightarrow> 'j \<Rightarrow> error + HistoryPage" where
  "Decode_HistoryPage X = decode_object X ''HistoryPage'' jsonFieldsNameOfHistoryPage 15 zero_HistoryPage (field_HistoryPage X)"

subsection \<open>\<open>SnapshotResource\<close>\<close>

definition Encode_SnapshotResource :: "'j jx \<Rightarrow> SnapshotResource \<Rightarrow> 'j" where
  "Encode_SnapshotResource X s = jx_Obj X
    ([(''cluster'', jx_Str X (ar_Cluster s)),
      (''group'', jx_Str X (ar_Group s)),
      (''kind'', jx_Str X (ar_Kind s)),
      (''name'', jx_Str X (ar_Name s)),
      (''namespace'', jx_Str X (ar_Namespace s))] @
     opt_nil_field X ''labels'' (Encode_Labels X) (ar_Labels s) @
     opt_string_field X ''creationTimestamp'' (ar_CreationTimestamp s))"

definition zero_SnapshotResource :: SnapshotResource where
  "zero_SnapshotResource = \<lparr>ar_Cluster = '''', ar_Group = '''', ar_Kind = '''', ar_Name = '''', ar_Namespace = '''', ar_Labels = Unset, ar_CreationTimestamp = None\<rparr>"

definition jsonFieldsNameOfSnapshotResource :: "string list" where
  "jsonFieldsNameOfSnapshotResource = [''cluster'', ''group'', ''kind'', ''name'', ''namespace'', ''labels'', ''creationTimestamp'']"

definition field_SnapshotResource :: "'j jx \<Rightarrow> string \<Rightarrow> 'j \<Rightarrow> SnapshotResource obj_state \<Rightarrow> error + SnapshotResource obj_state" where
  "field_SnapshotResource X k j st =
     (if k = ''cluster'' then required_field k 0 (jd_Str X j) (\<lambda>v s. s\<lparr>ar_Cluster := v\<rparr>) st
      else if k = ''group'' then required_field k 1 (jd_Str X j) (\<lambda>v s. s\<lparr>ar_Group := v\<rparr>) st
      else if k = ''kind'' then required_field k 2 (jd_Str X j) (\<lambda>v s. s\<lparr>ar_Kind := v\<rparr>) st
      else if k = ''name'' then required_field k 3 (jd_Str X j) (\<lambda>v s. s\<lparr>ar_Name := v\<rparr>) st
      else if k = ''namespace'' then required_field k 4 (jd_Str X j) (\<lambda>v s. s\<lparr>ar_Namespace := v\<rparr>) st
      else if k = ''labels'' then optional_field k (Decode_OptNil X (Decode_Labels X) j) (\<lambda>v s. s\<lparr>ar_Labels := v\<rparr>) st
      else if k = ''creationTimestamp'' then optional_field k (Decode_OptString X j) (\<lambda>v s. s\<lparr>ar_CreationTimestamp := v\<rparr>) st
      else skip_field X j st)"

definition Decode_SnapshotResource :: "'j jx \<Rightarrow> 'j \<Rightarrow> error + SnapshotResource" where
  "Decode_SnapshotResource X = decode_object X ''SnapshotResource'' jsonFieldsNameOfSnapshotResource 31 zero_SnapshotResource (field_SnapshotResource X)"

subsection \<open>\<open>SnapshotPage\<close>\<close>

definition Encode_SnapshotPage :: "'j jx \<Rightarrow> SnapshotPage \<Rightarrow> 'j" where
  "Encode_SnapshotPage X s = jx_Obj X
    ([(''items'', jx_Arr X (map (Encode_SnapshotResource X) (sp_Items s))),
      (''total'', jx_Int X (sp_Total s)),
      (''offset'', jx_Int X (sp_Offset s)),
      (''limit'', jx_Int X (sp_Limit s))] @
     opt_nil_field X ''commitSha'' (jx_Str X) (sp_CommitSha s) @
     opt_nil_field X ''commitTime'' (jx_DateTime X) (sp_CommitTime s))"

definition zero_SnapshotPage :: SnapshotPage where
  "zero_SnapshotPage = \<lparr>sp_Items = [], sp_Total = 0, sp_Offset = 0, sp_Limit = 0, sp_CommitSha = Unset, sp_CommitTime = Unset\<rparr>"

definition jsonFieldsNameOfSnapshotPage :: "string list" where
  "jsonFieldsNameOfSnapshotPage = [''items'', ''total'', ''offset'', ''limit'', ''commitSha'', ''commitTime'']"

definition field_SnapshotPage :: "'j jx \<Rightarrow> string \<Rightarrow> 'j \<Rightarrow> SnapshotPage obj_state \<Rightarrow> error + SnapshotPage obj_state" where
  "field_SnapshotPage X k j st =
     (if k = ''items'' then required_field k 0 (decode_array X (Decode_SnapshotResource X) j) (\<lambda>v s. s\<lparr>sp_Items := v\<rparr>) st
      else if k = ''total'' then required_field k 1 (jd_Int X j) (\<lambda>v s. s\<lparr>sp_Total := v\<rparr>) st
      else if k = ''offset'' then required_field k 2 (jd_Int X j) (\<lambda>v s. s\<lparr>sp_Offset := v\<rparr>) st
      else if k = ''limit'' then required_field k 3 (jd_Int X j) (\<lambda>v s. s\<lparr>sp_Limit := v\<rparr>) st
      else if k = ''commitSha'' then optional_field k (Decode_OptNil X (jd_Str X) j) (\<lambda>v s. s\<lparr>sp_CommitSha := v\<rparr>) st
      else if k = ''commitTime'' then optional_field k (Decode_OptNil X (jd_DateTime X) j) (\<lambda>v s. s\<lparr>sp_CommitTime := v\<rparr>) st
      else skip_field X j st)"

definition Decode_SnapshotPage :: "'j jx \<Rightarrow> 'j \<Rightarrow> error + SnapshotPage" where
  "Decode_SnapshotPage X = decode_object X ''SnapshotPage'' jsonFieldsNameOfSnapshotPage 15 zero_SnapshotPage (field_SnapshotPage X)"

subsection \<open>\<open>StatusResponse\<close>\<close>

definition Encode_StatusResponse :: "'j jx \<Rightarrow> StatusResponse \<Rightarrow> 'j" where
  "Encode_StatusResponse X s = jx_Obj X
    ([(''clusters'', jx_Arr X (map (Encode_ClusterStatus X) (sx_Clusters s)))])"

definition zero_StatusResponse :: StatusResponse where
  "zero_StatusResponse = \<lparr>sx_Clusters = []\<rparr>"

definition jsonFieldsNameOfStatusResponse :: "string list" where
  "jsonFieldsNameOfStatusResponse = [''clusters'']"

definition field_StatusResponse :: "'j jx \<Rightarrow> string \<Rightarrow> 'j \<Rightarrow> StatusResponse obj_state \<Rightarrow> error + StatusResponse obj_state" where
  "field_StatusResponse X k j st =
     (if k = ''clusters'' then required_field k 0 (decode_array X (Decode_ClusterStatus X) j) (\<lambda>v s. s\<lparr>sx_Clusters := v\<rparr>) st
      else skip_field X j st)"

definition Decode_StatusResponse :: "'j jx \<Rightarrow> 'j \<Rightarrow> error + StatusResponse" where
  "Decode_StatusResponse X = decode_object X ''StatusResponse'' jsonFieldsNameOfStatusResponse 1 zero_StatusResponse (field_StatusResponse X)"

subsection \<open>\<open>VolatilityEntry\<close>\<close>

definition Encode_VolatilityEntry :: "'j jx \<Rightarrow> ApiVolatilityEntry \<Rightarrow> 'j" where
  "Encode_VolatilityEntry X s = jx_Obj X
    ([(''cluster'', jx_Str X (av_Cluster s)),
      (''group'', jx_Str X (av_Group s)),
      (''kind'', jx_Str X (av_Kind s)),
      (''namespace'', jx_Str X (av_Namespace s)),
      (''name'', jx_Str X (av_Name s)),
      (''count'', jx_Int X (av_Count s)),
      (''total'', jx_Int X (av_Total s)),
      (''ratio'', jx_Float64 X (av_Ratio s))])"

definition zero_VolatilityEntry :: ApiVolatilityEntry where
  "zero_VolatilityEntry = \<lparr>av_Cluster = '''', av_Group = '''', av_Kind = '''', av_Namespace = '''', av_Name = '''', av_Count = 0, av_Total = 0, av_Ratio = Finite 0\<rparr>"

definition jsonFieldsNameOfVolatilityEntry :: "string list" where
  "jsonFieldsNameOfVolatilityEntry = [''cluster'', ''group'', ''kind'', ''namespace'', ''name'', ''count'', ''total'', ''ratio'']"

definition field_VolatilityEntry :: "'j jx \<Rightarrow> string \<Rightarrow> 'j \<Rightarrow> ApiVolatilityEntry obj_state \<Rightarrow> error + ApiVolatilityEntry obj_state" where
  "field_VolatilityEntry X k j st =
     (if k = ''cluster'' then required_field k 0 (jd_Str X j) (\<lambda>v s. s\<lparr>av_Cluster := v\<rparr>) st
      else if k = ''group'' then required_field k 1 (jd_Str X j) (\<lambda>v s. s\<lparr>av_Group := v\<rparr>) st
      else if k = ''kind'' then required_field k 2 (jd_Str X j) (\<lambda>v s. s\<lparr>av_Kind := v\<rparr>) st
      else if k = ''namespace'' then required_field k 3 (jd_Str X j) (\<lambda>v s. s\<lparr>av_Namespace := v\<rparr>) st
      else if k = ''name'' then required_field k 4 (jd_Str X j) (\<lambda>v s. s\<lparr>av_Name := v\<rparr>) st
      else if k = ''count'' then required_field k 5 (jd_Int X j) (\<lambda>v s. s\<lparr>av_Count := v\<rparr>) st
      else if k = ''total'' then required_field k 6 (jd_Int X j) (\<lambda>v s. s\<lparr>av_Total := v\<rparr>) st
      else if k = ''ratio'' then required_field k 7 (jd_Float64 X j) (\<lambda>v s. s\<lparr>av_Ratio := v\<rparr>) st
      else skip_field X j st)"

definition Decode_VolatilityEntry :: "'j jx \<Rightarrow> 'j \<Rightarrow> error + ApiVolatilityEntry" where
  "Decode_VolatilityEntry X = decode_object X ''VolatilityEntry'' jsonFieldsNameOfVolatilityEntry 255 zero_VolatilityEntry (field_VolatilityEntry X)"

subsection \<open>\<open>VolatilityPage\<close>\<close>

definition Encode_VolatilityPage :: "'j jx \<Rightarrow> VolatilityPage \<Rightarrow> 'j" where
  "Encode_VolatilityPage X s = jx_Obj X
    ([(''items'', jx_Arr X (map (Encode_VolatilityEntry X) (vp_Items s))),
      (''total'', jx_Int X (vp_Total s)),
      (''offset'', jx_Int X (vp_Offset s)),
      (''limit'', jx_Int X (vp_Limit s))])"

definition zero_VolatilityPage :: VolatilityPage where
  "zero_VolatilityPage = \<lparr>vp_Items = [], vp_Total = 0, vp_Offset = 0, vp_Limit = 0\<rparr>"

definition jsonFieldsNameOfVolatilityPage :: "string list" where
  "jsonFieldsNameOfVolatilityPage = [''items'', ''total'', ''offset'', ''limit'']"

definition field_VolatilityPage :: "'j jx \<Rightarrow> string \<Rightarrow> 'j \<Rightarrow> VolatilityPage obj_state \<Rightarrow> error + VolatilityPage obj_state" where
  "field_VolatilityPage X k j st =
     (if k = ''items'' then required_field k 0 (decode_array X (Decode_VolatilityEntry X) j) (\<lambda>v s. s\<lparr>vp_Items := v\<rparr>) st
      else if k = ''total'' then required_field k 1 (jd_Int X j) (\<lambda>v s. s\<lparr>vp_Total := v\<rparr>) st
      else if k = ''offset'' then required_field k 2 (jd_Int X j) (\<lambda>v s. s\<lparr>vp_Offset := v\<rparr>) st
      else if k = ''limit'' then required_field k 3 (jd_Int X j) (\<lambda>v s. s\<lparr>vp_Limit := v\<rparr>) st
      else skip_field X j st)"

definition Decode_VolatilityPage :: "'j jx \<Rightarrow> 'j \<Rightarrow> error + VolatilityPage" where
  "Decode_VolatilityPage X = decode_object X ''VolatilityPage'' jsonFieldsNameOfVolatilityPage 15 zero_VolatilityPage (field_VolatilityPage X)"

end
