(* ===== verification/Params.thy ===== *)
theory Params
  imports ApiTypes
begin

text \<open>
  \<open>internal/api/oas_parameters_gen.go\<close>: how the query of a request becomes the parameter struct of
  its operation, and how the parameters travel through a middleware. The query decoder
  (\<open>ogen/uri\<close>),
      the conversions (\<open>ogen/conv\<close>) and the float check (\<open>ogen/validate\<close>) belong to
  packages outside the repository and are the record \<open>param_lib\<close>.
\<close>

record uri_query =
  q_HasParam :: "string \<Rightarrow> error option"
  q_DecodeValue :: "string \<Rightarrow> error + string"

record param_lib =
  pm_ToString :: "string \<Rightarrow> error + string"
  pm_ToInt :: "string \<Rightarrow> error + int"
  pm_ToFloat64 :: "string \<Rightarrow> error + float64"
  pm_ToDateTime :: "string \<Rightarrow> error + int"
  pm_ValidateFloat :: "float64 \<Rightarrow> error option"

subsection \<open>One parameter\<close>

fun ebind :: "error + 'a \<Rightarrow> ('a \<Rightarrow> error + 'b) \<Rightarrow> error + 'b" where
  "ebind (Inl err) f = Inl err"
| "ebind (Inr x) f = f x"

text \<open>\<open>ogenerrors.DecodeParamError\<close>: the name of the parameter and the error.\<close>

definition DecodeParamError :: "string \<Rightarrow> error \<Rightarrow> error" where
  "DecodeParamError name err = ErrWrap (''query: '' @ name) err"

definition param_error :: "string \<Rightarrow> error + 'a \<Rightarrow> error + 'a" where
  "param_error name v = (case v of Inl err \<Rightarrow> Inl (DecodeParamError name err) | Inr x \<Rightarrow> Inr x)"

definition no_check :: "'a \<Rightarrow> error option" where
  "no_check v = None"

text \<open>
  A parameter that is absent leaves what the struct holds (nothing, or the default that was set
  before); one that is present must decode, convert and validate.
\<close>

definition optional_param ::
  "uri_query \<Rightarrow> string \<Rightarrow> (string \<Rightarrow> error + 'a) \<Rightarrow> ('a \<Rightarrow> error option) \<Rightarrow> 'a option \<Rightarrow> error + 'a option" where
  "optional_param q name convert check dflt =
     (case q_HasParam q name of
        Some _ \<Rightarrow> Inr dflt
      | None \<Rightarrow>
          param_error name
            (ebind (q_DecodeValue q name) (\<lambda>val.
               ebind (convert val) (\<lambda>c.
                 case check c of Some err \<Rightarrow> Inl err | None \<Rightarrow> Inr (Some c)))))"

definition required_param ::
  "uri_query \<Rightarrow> string \<Rightarrow> (string \<Rightarrow> error + 'a) \<Rightarrow> error + 'a" where
  "required_param q name convert =
     param_error name
       (case q_HasParam q name of
          Some err \<Rightarrow> Inl err
        | None \<Rightarrow> ebind (q_DecodeValue q name) convert)"

subsection \<open>The operations\<close>

text \<open>
  The generated code decodes every parameter in a closure of its own, after setting its default; so
  there is one definition for each of them, composed in the order of the code.
\<close>

definition GetDiff_cluster :: "param_lib \<Rightarrow> uri_query \<Rightarrow> error + string" where
  "GetDiff_cluster L q = required_param q ''cluster'' (pm_ToString L)"

definition GetDiff_group :: "param_lib \<Rightarrow> uri_query \<Rightarrow> error + string" where
  "GetDiff_group L q = required_param q ''group'' (pm_ToString L)"

definition GetDiff_kind :: "param_lib \<Rightarrow> uri_query \<Rightarrow> error + string" where
  "GetDiff_kind L q = required_param q ''kind'' (pm_ToString L)"

definition GetDiff_namespace :: "param_lib \<Rightarrow> uri_query \<Rightarrow> error + string option" where
  "GetDiff_namespace L q = optional_param q ''namespace'' (pm_ToString L) no_check None"

definition GetDiff_name :: "param_lib \<Rightarrow> uri_query \<Rightarrow> error + string" where
  "GetDiff_name L q = required_param q ''name'' (pm_ToString L)"

definition GetDiff_from :: "param_lib \<Rightarrow> uri_query \<Rightarrow> error + string" where
  "GetDiff_from L q = required_param q ''from'' (pm_ToString L)"

definition GetDiff_to :: "param_lib \<Rightarrow> uri_query \<Rightarrow> error + string" where
  "GetDiff_to L q = required_param q ''to'' (pm_ToString L)"

lemmas GetDiff_params =
  GetDiff_cluster_def GetDiff_group_def GetDiff_kind_def GetDiff_namespace_def
  GetDiff_name_def GetDiff_from_def GetDiff_to_def

definition decodeGetDiffParams :: "param_lib \<Rightarrow> uri_query \<Rightarrow> error + GetDiffParams" where
  "decodeGetDiffParams L q =
     ebind (GetDiff_cluster L q) (\<lambda>cluster.
     ebind (GetDiff_group L q) (\<lambda>grp.
     ebind (GetDiff_kind L q) (\<lambda>kind.
     ebind (GetDiff_namespace L q) (\<lambda>namespace.
     ebind (GetDiff_name L q) (\<lambda>name.
     ebind (GetDiff_from L q) (\<lambda>fromSHA.
     ebind (GetDiff_to L q) (\<lambda>toSHA.
     Inr \<lparr>dp_Cluster = cluster, dp_Group = grp, dp_Kind = kind, dp_Namespace = namespace, dp_Name = name,
         dp_From = fromSHA, dp_To = toSHA\<rparr>)))))))"

definition GetHistory_since :: "param_lib \<Rightarrow> uri_query \<Rightarrow> error + int option" where
  "GetHistory_since L q = optional_param q ''since'' (pm_ToDateTime L) no_check None"

definition GetHistory_until :: "param_lib \<Rightarrow> uri_query \<Rightarrow> error + int option" where
  "GetHistory_until L q = optional_param q ''until'' (pm_ToDateTime L) no_check None"

definition GetHistory_cluster :: "param_lib \<Rightarrow> uri_query \<Rightarrow> error + string option" where
  "GetHistory_cluster L q = optional_param q ''cluster'' (pm_ToString L) no_check None"

definition GetHistory_group :: "param_lib \<Rightarrow> uri_query \<Rightarrow> error + string option" where
  "GetHistory_group L q = optional_param q ''group'' (pm_ToString L) no_check None"

definition GetHistory_kind :: "param_lib \<Rightarrow> uri_query \<Rightarrow> error + string option" where
  "GetHistory_kind L q = optional_param q ''kind'' (pm_ToString L) no_check None"

definition GetHistory_namespace :: "param_lib \<Rightarrow> uri_query \<Rightarrow> error + string option" where
  "GetHistory_namespace L q = optional_param q ''namespace'' (pm_ToString L) no_check None"

definition GetHistory_name :: "param_lib \<Rightarrow> uri_query \<Rightarrow> error + string option" where
  "GetHistory_name L q = optional_param q ''name'' (pm_ToString L) no_check None"

definition GetHistory_changeType :: "param_lib \<Rightarrow> uri_query \<Rightarrow> error + string option" where
  "GetHistory_changeType L q = optional_param q ''changeType'' (pm_ToString L) Validate_ChangeType None"

definition GetHistory_limit :: "param_lib \<Rightarrow> uri_query \<Rightarrow> error + int option" where
  "GetHistory_limit L q = optional_param q ''limit'' (pm_ToInt L) no_check (Some 50)"

definition GetHistory_offset :: "param_lib \<Rightarrow> uri_query \<Rightarrow> error + int option" where
  "GetHistory_offset L q = optional_param q ''offset'' (pm_ToInt L) no_check (Some 0)"

lemmas GetHistory_params =
  GetHistory_since_def GetHistory_until_def GetHistory_cluster_def GetHistory_group_def
  GetHistory_kind_def GetHistory_namespace_def GetHistory_name_def GetHistory_changeType_def
  GetHistory_limit_def GetHistory_offset_def

definition decodeGetHistoryParams :: "param_lib \<Rightarrow> uri_query \<Rightarrow> error + GetHistoryParams" where
  "decodeGetHistoryParams L q =
     ebind (GetHistory_since L q) (\<lambda>since.
     ebind (GetHistory_until L q) (\<lambda>untl.
     ebind (GetHistory_cluster L q) (\<lambda>cluster.
     ebind (GetHistory_group L q) (\<lambda>grp.
     ebind (GetHistory_kind L q) (\<lambda>kind.
     ebind (GetHistory_namespace L q) (\<lambda>namespace.
     ebind (GetHistory_name L q) (\<lambda>name.
     ebind (GetHistory_changeType L q) (\<lambda>changeType.
     ebind (GetHistory_limit L q) (\<lambda>lim.
     ebind (GetHistory_offset L q) (\<lambda>off.
     Inr \<lparr>yp_Since = since, yp_Until = untl, yp_Cluster = cluster, yp_Group = grp, yp_Kind = kind,
         yp_Namespace = namespace, yp_Name = name, yp_ChangeType = changeType, yp_Limit = lim,
         yp_Offset = off\<rparr>))))))))))"

definition GetResource_cluster :: "param_lib \<Rightarrow> uri_query \<Rightarrow> error + string" where
  "GetResource_cluster L q = required_param q ''cluster'' (pm_ToString L)"

definition GetResource_group :: "param_lib \<Rightarrow> uri_query \<Rightarrow> error + string" where
  "GetResource_group L q = required_param q ''group'' (pm_ToString L)"

definition GetResource_kind :: "param_lib \<Rightarrow> uri_query \<Rightarrow> error + string" where
  "GetResource_kind L q = required_param q ''kind'' (pm_ToString L)"

definition GetResource_namespace :: "param_lib \<Rightarrow> uri_query \<Rightarrow> error + string option" where
  "GetResource_namespace L q = optional_param q ''namespace'' (pm_ToString L) no_check None"

definition GetResource_name :: "param_lib \<Rightarrow> uri_query \<Rightarrow> error + string" where
  "GetResource_name L q = required_param q ''name'' (pm_ToString L)"

lemmas GetResource_params =
  GetResource_cluster_def GetResource_group_def GetResource_kind_def GetResource_namespace_def
  GetResource_name_def

definition decodeGetResourceParams :: "param_lib \<Rightarrow> uri_query \<Rightarrow> error + GetResourceParams" where
  "decodeGetResourceParams L q =
     ebind (GetResource_cluster L q) (\<lambda>cluster.
     ebind (GetResource_group L q) (\<lambda>grp.
     ebind (GetResource_kind L q) (\<lambda>kind.
     ebind (GetResource_namespace L q) (\<lambda>namespace.
     ebind (GetResource_name L q) (\<lambda>name.
     Inr \<lparr>rp_Cluster = cluster, rp_Group = grp, rp_Kind = kind, rp_Namespace = namespace,
         rp_Name = name\<rparr>)))))"

definition GetSnapshot_datetime :: "param_lib \<Rightarrow> uri_query \<Rightarrow> error + int option" where
  "GetSnapshot_datetime L q = optional_param q ''datetime'' (pm_ToDateTime L) no_check None"

definition GetSnapshot_cluster :: "param_lib \<Rightarrow> uri_query \<Rightarrow> error + string option" where
  "GetSnapshot_cluster L q = optional_param q ''cluster'' (pm_ToString L) no_check None"

definition GetSnapshot_group :: "param_lib \<Rightarrow> uri_query \<Rightarrow> error + string option" where
  "GetSnapshot_group L q = optional_param q ''group'' (pm_ToString L) no_check None"

definition GetSnapshot_kind :: "param_lib \<Rightarrow> uri_query \<Rightarrow> error + string option" where
  "GetSnapshot_kind L q = optional_param q ''kind'' (pm_ToString L) no_check None"

definition GetSnapshot_namespace :: "param_lib \<Rightarrow> uri_query \<Rightarrow> error + string option" where
  "GetSnapshot_namespace L q = optional_param q ''namespace'' (pm_ToString L) no_check None"

definition GetSnapshot_name :: "param_lib \<Rightarrow> uri_query \<Rightarrow> error + string option" where
  "GetSnapshot_name L q = optional_param q ''name'' (pm_ToString L) no_check None"

definition GetSnapshot_cel :: "param_lib \<Rightarrow> uri_query \<Rightarrow> error + string option" where
  "GetSnapshot_cel L q = optional_param q ''cel'' (pm_ToString L) no_check None"

definition GetSnapshot_limit :: "param_lib \<Rightarrow> uri_query \<Rightarrow> error + int option" where
  "GetSnapshot_limit L q = optional_param q ''limit'' (pm_ToInt L) no_check (Some 50)"

definition GetSnapshot_offset :: "param_lib \<Rightarrow> uri_query \<Rightarrow> error + int option" where
  "GetSnapshot_offset L q = optional_param q ''offset'' (pm_ToInt L) no_check (Some 0)"

lemmas GetSnapshot_params =
  GetSnapshot_datetime_def GetSnapshot_cluster_def GetSnapshot_group_def GetSnapshot_kind_def
  GetSnapshot_namespace_def GetSnapshot_name_def GetSnapshot_cel_def GetSnapshot_limit_def
  GetSnapshot_offset_def

definition decodeGetSnapshotParams :: "param_lib \<Rightarrow> uri_query \<Rightarrow> error + GetSnapshotParams" where
  "decodeGetSnapshotParams L q =
     ebind (GetSnapshot_datetime L q) (\<lambda>datetime.
     ebind (GetSnapshot_cluster L q) (\<lambda>cluster.
     ebind (GetSnapshot_group L q) (\<lambda>grp.
     ebind (GetSnapshot_kind L q) (\<lambda>kind.
     ebind (GetSnapshot_namespace L q) (\<lambda>namespace.
     ebind (GetSnapshot_name L q) (\<lambda>name.
     ebind (GetSnapshot_cel L q) (\<lambda>cel.
     ebind (GetSnapshot_limit L q) (\<lambda>lim.
     ebind (GetSnapshot_offset L q) (\<lambda>off.
     Inr \<lparr>np_Datetime = datetime, np_Cluster = cluster, np_Group = grp, np_Kind = kind,
         np_Namespace = namespace, np_Name = name, np_Cel = cel, np_Limit = lim, np_Offset = off\<rparr>)))))))))"

definition GetVolatility_cluster :: "param_lib \<Rightarrow> uri_query \<Rightarrow> error + string option" where
  "GetVolatility_cluster L q = optional_param q ''cluster'' (pm_ToString L) no_check None"

definition GetVolatility_group :: "param_lib \<Rightarrow> uri_query \<Rightarrow> error + string option" where
  "GetVolatility_group L q = optional_param q ''group'' (pm_ToString L) no_check None"

definition GetVolatility_kind :: "param_lib \<Rightarrow> uri_query \<Rightarrow> error + string option" where
  "GetVolatility_kind L q = optional_param q ''kind'' (pm_ToString L) no_check None"

definition GetVolatility_namespace :: "param_lib \<Rightarrow> uri_query \<Rightarrow> error + string option" where
  "GetVolatility_namespace L q = optional_param q ''namespace'' (pm_ToString L) no_check None"

definition GetVolatility_name :: "param_lib \<Rightarrow> uri_query \<Rightarrow> error + string option" where
  "GetVolatility_name L q = optional_param q ''name'' (pm_ToString L) no_check None"

definition GetVolatility_commits :: "param_lib \<Rightarrow> uri_query \<Rightarrow> error + int option" where
  "GetVolatility_commits L q = optional_param q ''commits'' (pm_ToInt L) no_check (Some 50)"

definition GetVolatility_threshold :: "param_lib \<Rightarrow> uri_query \<Rightarrow> error + float64 option" where
  "GetVolatility_threshold L q = optional_param q ''threshold'' (pm_ToFloat64 L) (pm_ValidateFloat L) (Some (Finite 0))"

definition GetVolatility_limit :: "param_lib \<Rightarrow> uri_query \<Rightarrow> error + int option" where
  "GetVolatility_limit L q = optional_param q ''limit'' (pm_ToInt L) no_check (Some 50)"

definition GetVolatility_offset :: "param_lib \<Rightarrow> uri_query \<Rightarrow> error + int option" where
  "GetVolatility_offset L q = optional_param q ''offset'' (pm_ToInt L) no_check (Some 0)"

lemmas GetVolatility_params =
  GetVolatility_cluster_def GetVolatility_group_def GetVolatility_kind_def GetVolatility_namespace_def
  GetVolatility_name_def GetVolatility_commits_def GetVolatility_threshold_def GetVolatility_limit_def
  GetVolatility_offset_def

definition decodeGetVolatilityParams :: "param_lib \<Rightarrow> uri_query \<Rightarrow> error + GetVolatilityParams" where
  "decodeGetVolatilityParams L q =
     ebind (GetVolatility_cluster L q) (\<lambda>cluster.
     ebind (GetVolatility_group L q) (\<lambda>grp.
     ebind (GetVolatility_kind L q) (\<lambda>kind.
     ebind (GetVolatility_namespace L q) (\<lambda>namespace.
     ebind (GetVolatility_name L q) (\<lambda>name.
     ebind (GetVolatility_commits L q) (\<lambda>commits.
     ebind (GetVolatility_threshold L q) (\<lambda>threshold.
     ebind (GetVolatility_limit L q) (\<lambda>lim.
     ebind (GetVolatility_offset L q) (\<lambda>off.
     Inr \<lparr>op_Cluster = cluster, op_Group = grp, op_Kind = kind, op_Namespace = namespace, op_Name = name,
         op_Commits = commits, op_Threshold = threshold, op_Limit = lim, op_Offset = off\<rparr>)))))))))"

definition GetVolatilityFields_cluster :: "param_lib \<Rightarrow> uri_query \<Rightarrow> error + string option" where
  "GetVolatilityFields_cluster L q = optional_param q ''cluster'' (pm_ToString L) no_check None"

definition GetVolatilityFields_group :: "param_lib \<Rightarrow> uri_query \<Rightarrow> error + string" where
  "GetVolatilityFields_group L q = required_param q ''group'' (pm_ToString L)"

definition GetVolatilityFields_kind :: "param_lib \<Rightarrow> uri_query \<Rightarrow> error + string" where
  "GetVolatilityFields_kind L q = required_param q ''kind'' (pm_ToString L)"

definition GetVolatilityFields_namespace :: "param_lib \<Rightarrow> uri_query \<Rightarrow> error + string option" where
  "GetVolatilityFields_namespace L q = optional_param q ''namespace'' (pm_ToString L) no_check None"

definition GetVolatilityFields_name :: "param_lib \<Rightarrow> uri_query \<Rightarrow> error + string option" where
  "GetVolatilityFields_name L q = optional_param q ''name'' (pm_ToString L) no_check None"

definition GetVolatilityFields_commits :: "param_lib \<Rightarrow> uri_query \<Rightarrow> error + int option" where
  "GetVolatilityFields_commits L q = optional_param q ''commits'' (pm_ToInt L) no_check (Some 50)"

lemmas GetVolatilityFields_params =
  GetVolatilityFields_cluster_def GetVolatilityFields_group_def GetVolatilityFields_kind_def GetVolatilityFields_namespace_def
  GetVolatilityFields_name_def GetVolatilityFields_commits_def

definition decodeGetVolatilityFieldsParams :: "param_lib \<Rightarrow> uri_query \<Rightarrow> error + GetVolatilityFieldsParams" where
  "decodeGetVolatilityFieldsParams L q =
     ebind (GetVolatilityFields_cluster L q) (\<lambda>cluster.
     ebind (GetVolatilityFields_group L q) (\<lambda>grp.
     ebind (GetVolatilityFields_kind L q) (\<lambda>kind.
     ebind (GetVolatilityFields_namespace L q) (\<lambda>namespace.
     ebind (GetVolatilityFields_name L q) (\<lambda>name.
     ebind (GetVolatilityFields_commits L q) (\<lambda>commits.
     Inr \<lparr>fp_Cluster = cluster, fp_Group = grp, fp_Kind = kind, fp_Namespace = namespace, fp_Name = name,
         fp_Commits = commits\<rparr>))))))"

definition decodeListGVKsParams :: "param_lib \<Rightarrow> uri_query \<Rightarrow> error + ListGVKsParams" where
  "decodeListGVKsParams L q =
     ebind (optional_param q ''cluster'' (pm_ToString L) no_check None) (\<lambda>cluster.
     ebind (optional_param q ''namespace'' (pm_ToString L) no_check None) (\<lambda>namespace.
     Inr \<lparr>gp_Cluster = cluster, gp_Namespace = namespace\<rparr>))"

definition decodeListNamespacesParams :: "param_lib \<Rightarrow> uri_query \<Rightarrow> error + ListNamespacesParams" where
  "decodeListNamespacesParams L q =
     ebind (optional_param q ''cluster'' (pm_ToString L) no_check None) (\<lambda>cluster.
     Inr \<lparr>lp_Cluster = cluster\<rparr>)"

subsection \<open>Parameters of a middleware\<close>

text \<open>
  \<open>middleware.Parameters\<close>: a map from the parameters' keys to dynamic values. Packing is the literal
  of the request handler, unpacking the function \<open>unpackXParams\<close> with its type assertions (a failed
  one panics); a key that is absent leaves the zero value.
\<close>

datatype packed = PStr string | POptStr "string option" | POptInt "int option" | POptTime "int option"
  | POptFloat "float64 option" | POptChangeType "string option"

fun assert_str :: "packed option \<Rightarrow> string result" where
  "assert_str (Some (PStr s)) = Ok s"
| "assert_str None = Ok []"
| "assert_str _ = Panic ''interface conversion''"

fun assert_opt_str :: "packed option \<Rightarrow> string option result" where
  "assert_opt_str (Some (POptStr s)) = Ok s"
| "assert_opt_str None = Ok None"
| "assert_opt_str _ = Panic ''interface conversion''"

fun assert_opt_int :: "packed option \<Rightarrow> int option result" where
  "assert_opt_int (Some (POptInt s)) = Ok s"
| "assert_opt_int None = Ok None"
| "assert_opt_int _ = Panic ''interface conversion''"

fun assert_opt_time :: "packed option \<Rightarrow> int option result" where
  "assert_opt_time (Some (POptTime s)) = Ok s"
| "assert_opt_time None = Ok None"
| "assert_opt_time _ = Panic ''interface conversion''"

fun assert_opt_float :: "packed option \<Rightarrow> float64 option result" where
  "assert_opt_float (Some (POptFloat s)) = Ok s"
| "assert_opt_float None = Ok None"
| "assert_opt_float _ = Panic ''interface conversion''"

fun assert_opt_change_type :: "packed option \<Rightarrow> string option result" where
  "assert_opt_change_type (Some (POptChangeType s)) = Ok s"
| "assert_opt_change_type None = Ok None"
| "assert_opt_change_type _ = Panic ''interface conversion''"

definition packGetDiffParams :: "GetDiffParams \<Rightarrow> packed gmap" where
  "packGetDiffParams params = [(''cluster'', PStr (dp_Cluster params)), (''group'', PStr (dp_Group params)),
      (''kind'', PStr (dp_Kind params)), (''namespace'', POptStr (dp_Namespace params)), (''name'',
      PStr (dp_Name params)), (''from'', PStr (dp_From params)), (''to'', PStr (dp_To params))]"

definition unpackGetDiffParams :: "packed gmap \<Rightarrow> GetDiffParams result" where
  "unpackGetDiffParams m =
     rbind (assert_str (gm_get m ''cluster'')) (\<lambda>cluster.
     rbind (assert_str (gm_get m ''group'')) (\<lambda>grp.
     rbind (assert_str (gm_get m ''kind'')) (\<lambda>kind.
     rbind (assert_opt_str (gm_get m ''namespace'')) (\<lambda>namespace.
     rbind (assert_str (gm_get m ''name'')) (\<lambda>name.
     rbind (assert_str (gm_get m ''from'')) (\<lambda>fromSHA.
     rbind (assert_str (gm_get m ''to'')) (\<lambda>toSHA.
     Ok \<lparr>dp_Cluster = cluster, dp_Group = grp, dp_Kind = kind, dp_Namespace = namespace, dp_Name = name,
         dp_From = fromSHA, dp_To = toSHA\<rparr>)))))))"

definition packGetHistoryParams :: "GetHistoryParams \<Rightarrow> packed gmap" where
  "packGetHistoryParams params = [(''since'', POptTime (yp_Since params)), (''until'', POptTime (yp_Until params)),
      (''cluster'', POptStr (yp_Cluster params)), (''group'', POptStr (yp_Group params)), (''kind'',
      POptStr (yp_Kind params)), (''namespace'', POptStr (yp_Namespace params)), (''name'',
      POptStr (yp_Name params)), (''changeType'', POptChangeType (yp_ChangeType params)), (''limit'',
      POptInt (yp_Limit params)), (''offset'', POptInt (yp_Offset params))]"

definition unpackGetHistoryParams :: "packed gmap \<Rightarrow> GetHistoryParams result" where
  "unpackGetHistoryParams m =
     rbind (assert_opt_time (gm_get m ''since'')) (\<lambda>since.
     rbind (assert_opt_time (gm_get m ''until'')) (\<lambda>untl.
     rbind (assert_opt_str (gm_get m ''cluster'')) (\<lambda>cluster.
     rbind (assert_opt_str (gm_get m ''group'')) (\<lambda>grp.
     rbind (assert_opt_str (gm_get m ''kind'')) (\<lambda>kind.
     rbind (assert_opt_str (gm_get m ''namespace'')) (\<lambda>namespace.
     rbind (assert_opt_str (gm_get m ''name'')) (\<lambda>name.
     rbind (assert_opt_change_type (gm_get m ''changeType'')) (\<lambda>changeType.
     rbind (assert_opt_int (gm_get m ''limit'')) (\<lambda>lim.
     rbind (assert_opt_int (gm_get m ''offset'')) (\<lambda>off.
     Ok \<lparr>yp_Since = since, yp_Until = untl, yp_Cluster = cluster, yp_Group = grp, yp_Kind = kind,
         yp_Namespace = namespace, yp_Name = name, yp_ChangeType = changeType, yp_Limit = lim,
         yp_Offset = off\<rparr>))))))))))"

definition packGetResourceParams :: "GetResourceParams \<Rightarrow> packed gmap" where
  "packGetResourceParams params = [(''cluster'', PStr (rp_Cluster params)), (''group'', PStr (rp_Group params)),
      (''kind'', PStr (rp_Kind params)), (''namespace'', POptStr (rp_Namespace params)), (''name'',
      PStr (rp_Name params))]"

definition unpackGetResourceParams :: "packed gmap \<Rightarrow> GetResourceParams result" where
  "unpackGetResourceParams m =
     rbind (assert_str (gm_get m ''cluster'')) (\<lambda>cluster.
     rbind (assert_str (gm_get m ''group'')) (\<lambda>grp.
     rbind (assert_str (gm_get m ''kind'')) (\<lambda>kind.
     rbind (assert_opt_str (gm_get m ''namespace'')) (\<lambda>namespace.
     rbind (assert_str (gm_get m ''name'')) (\<lambda>name.
     Ok \<lparr>rp_Cluster = cluster, rp_Group = grp, rp_Kind = kind, rp_Namespace = namespace,
         rp_Name = name\<rparr>)))))"

definition packGetSnapshotParams :: "GetSnapshotParams \<Rightarrow> packed gmap" where
  "packGetSnapshotParams params = [(''datetime'', POptTime (np_Datetime params)), (''cluster'',
      POptStr (np_Cluster params)), (''group'', POptStr (np_Group params)), (''kind'', POptStr (np_Kind params)),
      (''namespace'', POptStr (np_Namespace params)), (''name'', POptStr (np_Name params)), (''cel'',
      POptStr (np_Cel params)), (''limit'', POptInt (np_Limit params)), (''offset'', POptInt (np_Offset params))]"

definition unpackGetSnapshotParams :: "packed gmap \<Rightarrow> GetSnapshotParams result" where
  "unpackGetSnapshotParams m =
     rbind (assert_opt_time (gm_get m ''datetime'')) (\<lambda>datetime.
     rbind (assert_opt_str (gm_get m ''cluster'')) (\<lambda>cluster.
     rbind (assert_opt_str (gm_get m ''group'')) (\<lambda>grp.
     rbind (assert_opt_str (gm_get m ''kind'')) (\<lambda>kind.
     rbind (assert_opt_str (gm_get m ''namespace'')) (\<lambda>namespace.
     rbind (assert_opt_str (gm_get m ''name'')) (\<lambda>name.
     rbind (assert_opt_str (gm_get m ''cel'')) (\<lambda>cel.
     rbind (assert_opt_int (gm_get m ''limit'')) (\<lambda>lim.
     rbind (assert_opt_int (gm_get m ''offset'')) (\<lambda>off.
     Ok \<lparr>np_Datetime = datetime, np_Cluster = cluster, np_Group = grp, np_Kind = kind,
         np_Namespace = namespace, np_Name = name, np_Cel = cel, np_Limit = lim, np_Offset = off\<rparr>)))))))))"

definition packGetVolatilityParams :: "GetVolatilityParams \<Rightarrow> packed gmap" where
  "packGetVolatilityParams params = [(''cluster'', POptStr (op_Cluster params)), (''group'',
      POptStr (op_Group params)), (''kind'', POptStr (op_Kind params)), (''namespace'',
      POptStr (op_Namespace params)), (''name'', POptStr (op_Name params)), (''commits'',
      POptInt (op_Commits params)), (''threshold'', POptFloat (op_Threshold params)), (''limit'',
      POptInt (op_Limit params)), (''offset'', POptInt (op_Offset params))]"

definition unpackGetVolatilityParams :: "packed gmap \<Rightarrow> GetVolatilityParams result" where
  "unpackGetVolatilityParams m =
     rbind (assert_opt_str (gm_get m ''cluster'')) (\<lambda>cluster.
     rbind (assert_opt_str (gm_get m ''group'')) (\<lambda>grp.
     rbind (assert_opt_str (gm_get m ''kind'')) (\<lambda>kind.
     rbind (assert_opt_str (gm_get m ''namespace'')) (\<lambda>namespace.
     rbind (assert_opt_str (gm_get m ''name'')) (\<lambda>name.
     rbind (assert_opt_int (gm_get m ''commits'')) (\<lambda>commits.
     rbind (assert_opt_float (gm_get m ''threshold'')) (\<lambda>threshold.
     rbind (assert_opt_int (gm_get m ''limit'')) (\<lambda>lim.
     rbind (assert_opt_int (gm_get m ''offset'')) (\<lambda>off.
     Ok \<lparr>op_Cluster = cluster, op_Group = grp, op_Kind = kind, op_Namespace = namespace, op_Name = name,
         op_Commits = commits, op_Threshold = threshold, op_Limit = lim, op_Offset = off\<rparr>)))))))))"

definition packGetVolatilityFieldsParams :: "GetVolatilityFieldsParams \<Rightarrow> packed gmap" where
  "packGetVolatilityFieldsParams params = [(''cluster'', POptStr (fp_Cluster params)), (''group'',
      PStr (fp_Group params)), (''kind'', PStr (fp_Kind params)), (''namespace'', POptStr (fp_Namespace params)),
      (''name'', POptStr (fp_Name params)), (''commits'', POptInt (fp_Commits params))]"

definition unpackGetVolatilityFieldsParams :: "packed gmap \<Rightarrow> GetVolatilityFieldsParams result" where
  "unpackGetVolatilityFieldsParams m =
     rbind (assert_opt_str (gm_get m ''cluster'')) (\<lambda>cluster.
     rbind (assert_str (gm_get m ''group'')) (\<lambda>grp.
     rbind (assert_str (gm_get m ''kind'')) (\<lambda>kind.
     rbind (assert_opt_str (gm_get m ''namespace'')) (\<lambda>namespace.
     rbind (assert_opt_str (gm_get m ''name'')) (\<lambda>name.
     rbind (assert_opt_int (gm_get m ''commits'')) (\<lambda>commits.
     Ok \<lparr>fp_Cluster = cluster, fp_Group = grp, fp_Kind = kind, fp_Namespace = namespace, fp_Name = name,
         fp_Commits = commits\<rparr>))))))"

definition packListGVKsParams :: "ListGVKsParams \<Rightarrow> packed gmap" where
  "packListGVKsParams params = [(''cluster'', POptStr (gp_Cluster params)), (''namespace'',
      POptStr (gp_Namespace params))]"

definition unpackListGVKsParams :: "packed gmap \<Rightarrow> ListGVKsParams result" where
  "unpackListGVKsParams m =
     rbind (assert_opt_str (gm_get m ''cluster'')) (\<lambda>cluster.
     rbind (assert_opt_str (gm_get m ''namespace'')) (\<lambda>namespace.
     Ok \<lparr>gp_Cluster = cluster, gp_Namespace = namespace\<rparr>))"

definition packListNamespacesParams :: "ListNamespacesParams \<Rightarrow> packed gmap" where
  "packListNamespacesParams params = [(''cluster'', POptStr (lp_Cluster params))]"

definition unpackListNamespacesParams :: "packed gmap \<Rightarrow> ListNamespacesParams result" where
  "unpackListNamespacesParams m =
     rbind (assert_opt_str (gm_get m ''cluster'')) (\<lambda>cluster.
     Ok \<lparr>lp_Cluster = cluster\<rparr>)"

text \<open>What a middleware hands on is what it was given.\<close>

lemma unpack_pack:
  "unpackGetDiffParams (packGetDiffParams p0) = Ok p0"
  "unpackGetHistoryParams (packGetHistoryParams p1) = Ok p1"
  "unpackGetResourceParams (packGetResourceParams p2) = Ok p2"
  "unpackGetSnapshotParams (packGetSnapshotParams p3) = Ok p3"
  "unpackGetVolatilityParams (packGetVolatilityParams p4) = Ok p4"
  "unpackGetVolatilityFieldsParams (packGetVolatilityFieldsParams p5) = Ok p5"
  "unpackListGVKsParams (packListGVKsParams p6) = Ok p6"
  "unpackListNamespacesParams (packListNamespacesParams p7) = Ok p7"
  by (simp_all add: unpackGetDiffParams_def packGetDiffParams_def unpackGetHistoryParams_def packGetHistoryParams_def unpackGetResourceParams_def packGetResourceParams_def unpackGetSnapshotParams_def packGetSnapshotParams_def
      unpackGetVolatilityParams_def packGetVolatilityParams_def unpackGetVolatilityFieldsParams_def packGetVolatilityFieldsParams_def unpackListGVKsParams_def packListGVKsParams_def unpackListNamespacesParams_def packListNamespacesParams_def gm_get_def)

end
