(* ===== verification/Wire.thy ===== *)
theory Wire
  imports Json Params
begin

text \<open>
  Responses on the wire: \<open>internal/api/oas_response_encoders_gen.go\<close> (what the server writes for the
  answer of a handler), \<open>oas_response_decoders_gen.go\<close> (what the client makes of it) and the validators
  of \<open>oas_validators_gen.go\<close> that the client runs. A list of the model is never Go's nil slice: the
  decoders allocate, and the nil checks of the validators cannot fail. Writing to the connection
  succeeds; the spans are left out. The text form of JSON, \<open>mime.ParseMediaType\<close> and the float check
  are the record \<open>wire_lib\<close>: \<open>wl_DecodeBytes\<close> is the decoder on a buffer, \<open>wl_AtEnd\<close> whether nothing
  follows the first value.
\<close>

record response =
  rs_Status :: nat
  rs_Header :: "string gmap"
  rs_Body :: string

record 'j wire_lib =
  wl_jx :: "'j jx"
  wl_WriteTo :: "'j \<Rightarrow> string"
  wl_DecodeBytes :: "string \<Rightarrow> 'j"
  wl_AtEnd :: "string \<Rightarrow> bool"
  wl_ParseMediaType :: "string \<Rightarrow> error + string"
  wl_ValidateFloat :: "float64 \<Rightarrow> error option"

subsection \<open>Encoding\<close>

definition json_type :: string where
  "json_type = ''application/json; charset=utf-8''"

definition text_type :: string where
  "text_type = ''text/plain; charset=utf-8''"

definition status_only :: "nat \<Rightarrow> response" where
  "status_only code = \<lparr>rs_Status = code, rs_Header = [], rs_Body = []\<rparr>"

definition json_ok :: "'j wire_lib \<Rightarrow> 'j \<Rightarrow> response" where
  "json_ok W j = \<lparr>rs_Status = 200, rs_Header = [(''Content-Type'', json_type)], rs_Body = wl_WriteTo W j\<rparr>"

fun encodeGetDiffResponse :: "'j wire_lib \<Rightarrow> GetDiffRes \<Rightarrow> response" where
  "encodeGetDiffResponse W (DiffOK res) = json_ok W (Encode_DiffResult (wl_jx W) res)"
| "encodeGetDiffResponse W GetDiffBadRequest = status_only 400"
| "encodeGetDiffResponse W GetDiffNotFound = status_only 404"

definition encodeGetHistoryResponse :: "'j wire_lib \<Rightarrow> HistoryPage \<Rightarrow> response" where
  "encodeGetHistoryResponse W res = json_ok W (Encode_HistoryPage (wl_jx W) res)"

fun encodeGetResourceResponse :: "GetResourceRes \<Rightarrow> response" where
  "encodeGetResourceResponse (GetResourceOK data) =
     \<lparr>rs_Status = 200, rs_Header = [(''Content-Type'', text_type)], rs_Body = data\<rparr>"
| "encodeGetResourceResponse GetResourceNotFound = status_only 404"

fun encodeGetSnapshotResponse :: "'j wire_lib \<Rightarrow> GetSnapshotRes \<Rightarrow> response" where
  "encodeGetSnapshotResponse W (SnapshotOK res) = json_ok W (Encode_SnapshotPage (wl_jx W) res)"
| "encodeGetSnapshotResponse W GetSnapshotBadRequest = status_only 400"

definition encodeGetStatusResponse :: "'j wire_lib \<Rightarrow> StatusResponse \<Rightarrow> response" where
  "encodeGetStatusResponse W res = json_ok W (Encode_StatusResponse (wl_jx W) res)"

definition encodeGetVolatilityResponse :: "'j wire_lib \<Rightarrow> VolatilityPage \<Rightarrow> response" where
  "encodeGetVolatilityResponse W res = json_ok W (Encode_VolatilityPage (wl_jx W) res)"

fun encodeGetVolatilityFieldsResponse :: "'j wire_lib \<Rightarrow> GetVolatilityFieldsRes \<Rightarrow> response" where
  "encodeGetVolatilityFieldsResponse W (GetVolatilityFieldsOK res) =
     json_ok W (Encode_VolatilityFields (wl_jx W) res)"
| "encodeGetVolatilityFieldsResponse W GetVolatilityFieldsBadRequest = status_only 400"

fun encodeHealthzResponse :: "HealthzRes \<Rightarrow> response" where
  "encodeHealthzResponse HealthzOK = status_only 200"
| "encodeHealthzResponse HealthzServiceUnavailable = status_only 503"

definition encodeListClustersResponse :: "'j wire_lib \<Rightarrow> string list \<Rightarrow> response" where
  "encodeListClustersResponse W res = json_ok W (jx_Arr (wl_jx W) (map (jx_Str (wl_jx W)) res))"

definition encodeListGVKsResponse :: "'j wire_lib \<Rightarrow> ApiGVKInfo list \<Rightarrow> response" where
  "encodeListGVKsResponse W res = json_ok W (jx_Arr (wl_jx W) (map (Encode_GVKInfo (wl_jx W)) res))"

definition encodeListNamespacesResponse :: "'j wire_lib \<Rightarrow> string list \<Rightarrow> response" where
  "encodeListNamespacesResponse W res = json_ok W (jx_Arr (wl_jx W) (map (jx_Str (wl_jx W)) res))"

subsection \<open>Validating\<close>

text \<open>\<open>validate.Error\<close>: the fields that failed, each with its error.\<close>

definition FieldsInvalid :: "(string \<times> error) list \<Rightarrow> error" where
  "FieldsInvalid failures = ErrText (''invalid: '' @ Join (map fst failures) '', '')"

definition invalid_if :: "(string \<times> error) list \<Rightarrow> error option" where
  "invalid_if failures = (if length failures > 0 then Some (FieldsInvalid failures) else None)"

definition failure_of :: "string \<Rightarrow> error option \<Rightarrow> (string \<times> error) list" where
  "failure_of name v = (case v of Some err \<Rightarrow> [(name, err)] | None \<Rightarrow> [])"

fun elem_failures :: "('a \<Rightarrow> error option) \<Rightarrow> nat \<Rightarrow> 'a list \<Rightarrow> (string \<times> error) list" where
  "elem_failures v i [] = []"
| "elem_failures v i (x # xs) = failure_of (''['' @ show_nat i @ '']'') (v x) @ elem_failures v (Suc i) xs"

definition Validate_ChangeEvent :: "ApiChangeEvent \<Rightarrow> error option" where
  "Validate_ChangeEvent s = invalid_if (failure_of ''changeType'' (Validate_ChangeType (ae_ChangeType s)))"

definition validate_ratio :: "'j wire_lib \<Rightarrow> float64 \<Rightarrow> error option" where
  "validate_ratio W r =
     invalid_if (failure_of ''ratio'' (map_option (ErrWrap ''float'') (wl_ValidateFloat W r)))"

definition Validate_FieldVolatilityEntry :: "'j wire_lib \<Rightarrow> ApiFieldVolatilityEntry \<Rightarrow> error option" where
  "Validate_FieldVolatilityEntry W s = validate_ratio W (af_Ratio s)"

definition Validate_VolatilityEntry :: "'j wire_lib \<Rightarrow> ApiVolatilityEntry \<Rightarrow> error option" where
  "Validate_VolatilityEntry W s = validate_ratio W (av_Ratio s)"

definition Validate_VolatilityFields :: "'j wire_lib \<Rightarrow> ApiFieldVolatilityEntry list \<Rightarrow> error option" where
  "Validate_VolatilityFields W s = invalid_if (elem_failures (Validate_FieldVolatilityEntry W) 0 s)"

definition Validate_HistoryPage :: "HistoryPage \<Rightarrow> error option" where
  "Validate_HistoryPage s =
     invalid_if (failure_of ''items'' (invalid_if (elem_failures Validate_ChangeEvent 0 (hp_Items s))))"

definition Validate_VolatilityPage :: "'j wire_lib \<Rightarrow> VolatilityPage \<Rightarrow> error option" where
  "Validate_VolatilityPage W s =
     invalid_if (failure_of ''items'' (invalid_if (elem_failures (Validate_VolatilityEntry W) 0 (vp_Items s))))"

subsection \<open>Decoding\<close>

definition header :: "string \<Rightarrow> response \<Rightarrow> string" where
  "header name resp = (case gm_get (rs_Header resp) name of Some v \<Rightarrow> v | None \<Rightarrow> [])"

definition InvalidContentType :: "string \<Rightarrow> error" where
  "InvalidContentType ct = ErrText (''unexpected Content-Type: '' @ ct)"

definition UnexpectedStatus :: "response \<Rightarrow> error" where
  "UnexpectedStatus resp = ErrText (''unexpected status code: '' @ show_nat (rs_Status resp))"

definition decode_json ::
  "'j wire_lib \<Rightarrow> ('j \<Rightarrow> error + 'a) \<Rightarrow> ('a \<Rightarrow> error option) \<Rightarrow> response \<Rightarrow> error + 'a" where
  "decode_json W dec validate resp =
     (case wl_ParseMediaType W (header ''Content-Type'' resp) of
        Inl err \<Rightarrow> Inl (ErrWrap ''parse media type'' err)
      | Inr ct \<Rightarrow>
          if ct = ''application/json'' then
            (case dec (wl_DecodeBytes W (rs_Body resp)) of
               Inl err \<Rightarrow> Inl (ErrWrap ''decode application/json'' err)
             | Inr res \<Rightarrow>
                 if \<not> wl_AtEnd W (rs_Body resp)
                 then Inl (ErrWrap ''decode application/json'' (ErrText ''unexpected trailing data''))
                 else (case validate res of
                         Some err \<Rightarrow> Inl (ErrWrap ''validate'' err)
                       | None \<Rightarrow> Inr res))
          else Inl (InvalidContentType ct))"

definition decodeGetDiffResponse :: "'j wire_lib \<Rightarrow> response \<Rightarrow> error + GetDiffRes" where
  "decodeGetDiffResponse W resp =
     (if rs_Status resp = 200 then
        map_sum id DiffOK (decode_json W (Decode_DiffResult (wl_jx W)) no_check resp)
      else if rs_Status resp = 400 then Inr GetDiffBadRequest
      else if rs_Status resp = 404 then Inr GetDiffNotFound
      else Inl (UnexpectedStatus resp))"

definition decodeGetHistoryResponse :: "'j wire_lib \<Rightarrow> response \<Rightarrow> error + HistoryPage" where
  "decodeGetHistoryResponse W resp =
     (if rs_Status resp = 200 then decode_json W (Decode_HistoryPage (wl_jx W)) Validate_HistoryPage resp
      else Inl (UnexpectedStatus resp))"

definition decodeGetResourceResponse :: "'j wire_lib \<Rightarrow> response \<Rightarrow> error + GetResourceRes" where
  "decodeGetResourceResponse W resp =
     (if rs_Status resp = 200 then
        (case wl_ParseMediaType W (header ''Content-Type'' resp) of
           Inl err \<Rightarrow> Inl (ErrWrap ''parse media type'' err)
         | Inr ct \<Rightarrow>
             if ct = ''text/plain'' then Inr (GetResourceOK (rs_Body resp)) else Inl (InvalidContentType ct))
      else if rs_Status resp = 404 then Inr GetResourceNotFound
      else Inl (UnexpectedStatus resp))"

definition decodeGetSnapshotResponse :: "'j wire_lib \<Rightarrow> response \<Rightarrow> error + GetSnapshotRes" where
  "decodeGetSnapshotResponse W resp =
     (if rs_Status resp = 200 then
        map_sum id SnapshotOK (decode_json W (Decode_SnapshotPage (wl_jx W)) no_check resp)
      else if rs_Status resp = 400 then Inr GetSnapshotBadRequest
      else Inl (UnexpectedStatus resp))"

definition decodeGetStatusResponse :: "'j wire_lib \<Rightarrow> response \<Rightarrow> error + StatusResponse" where
  "decodeGetStatusResponse W resp =
     (if rs_Status resp = 200 then decode_json W (Decode_StatusResponse (wl_jx W)) no_check resp
      else Inl (UnexpectedStatus resp))"

definition decodeGetVolatilityResponse :: "'j wire_lib \<Rightarrow> response \<Rightarrow> error + VolatilityPage" where
  "decodeGetVolatilityResponse W resp =
     (if rs_Status resp = 200 then
        decode_json W (Decode_VolatilityPage (wl_jx W)) (Validate_VolatilityPage W) resp
      else Inl (UnexpectedStatus resp))"

definition decodeGetVolatilityFieldsResponse :: "'j wire_lib \<Rightarrow> response \<Rightarrow> error + GetVolatilityFieldsRes" where
  "decodeGetVolatilityFieldsResponse W resp =
     (if rs_Status resp = 200 then
        map_sum id GetVolatilityFieldsOK
          (decode_json W (Decode_VolatilityFields (wl_jx W)) (Validate_VolatilityFields W) resp)
      else if rs_Status resp = 400 then Inr GetVolatilityFieldsBadRequest
      else Inl (UnexpectedStatus resp))"

definition decodeHealthzResponse :: "response \<Rightarrow> error + HealthzRes" where
  "decodeHealthzResponse resp =
     (if rs_Status resp = 200 then Inr HealthzOK
      else if rs_Status resp = 503 then Inr HealthzServiceUnavailable
      else Inl (UnexpectedStatus resp))"

definition decodeListClustersResponse :: "'j wire_lib \<Rightarrow> response \<Rightarrow> error + string list" where
  "decodeListClustersResponse W resp =
     (if rs_Status resp = 200 then
        decode_json W (decode_array (wl_jx W) (jd_Str (wl_jx W))) no_check resp
      else Inl (UnexpectedStatus resp))"

definition decodeListGVKsResponse :: "'j wire_lib \<Rightarrow> response \<Rightarrow> error + ApiGVKInfo list" where
  "decodeListGVKsResponse W resp =
     (if rs_Status resp = 200 then
        decode_json W (decode_array (wl_jx W) (Decode_GVKInfo (wl_jx W))) no_check resp
      else Inl (UnexpectedStatus resp))"

definition decodeListNamespacesResponse :: "'j wire_lib \<Rightarrow> response \<Rightarrow> error + string list" where
  "decodeListNamespacesResponse W resp =
     (if rs_Status resp = 200 then
        decode_json W (decode_array (wl_jx W) (jd_Str (wl_jx W))) no_check resp
      else Inl (UnexpectedStatus resp))"

end
