(* ===== verification/Router.thy ===== *)
theory Router
  imports GoStrings
begin

text \<open>
  The HTTP router of the API, \<open>internal/api/oas_router_gen.go\<close>, with the refusals of
  \<open>internal/api/oas_cfg_gen.go\<close>. Both \<open>ServeHTTP\<close> and \<open>FindPath\<close> walk the same prefix tree, which
  the generator has unrolled twice: here too there are two groups of definitions, one per
  function, each with one definition per subtree. \<open>uri.NormalizeEscapedPath\<close> belongs to a package
  outside the repository and is the argument \<open>nep\<close>.

  The claims compare both walks with a flat table of the eleven paths.
\<close>

subsection \<open>Operations and routes\<close>

datatype operation =
    GetDiffOperation
  | GetHistoryOperation
  | GetResourceOperation
  | GetSnapshotOperation
  | GetStatusOperation
  | GetVolatilityOperation
  | GetVolatilityFieldsOperation
  | HealthzOperation
  | ListClustersOperation
  | ListGVKsOperation
  | ListNamespacesOperation

fun operation_name :: "operation \<Rightarrow> string" where
  "operation_name GetDiffOperation = ''GetDiff''"
| "operation_name GetHistoryOperation = ''GetHistory''"
| "operation_name GetResourceOperation = ''GetResource''"
| "operation_name GetSnapshotOperation = ''GetSnapshot''"
| "operation_name GetStatusOperation = ''GetStatus''"
| "operation_name GetVolatilityOperation = ''GetVolatility''"
| "operation_name GetVolatilityFieldsOperation = ''GetVolatilityFields''"
| "operation_name HealthzOperation = ''Healthz''"
| "operation_name ListClustersOperation = ''ListClusters''"
| "operation_name ListGVKsOperation = ''ListGVKs''"
| "operation_name ListNamespacesOperation = ''ListNamespaces''"

record Route =
  rt_name :: string
  rt_summary :: string
  rt_operationID :: string
  rt_operationGroup :: string
  rt_pathPattern :: string
  rt_count :: int

definition no_route :: Route where
  "no_route = \<lparr>rt_name = '''', rt_summary = '''', rt_operationID = '''', rt_operationGroup = '''',
     rt_pathPattern = '''', rt_count = 0\<rparr>"

text \<open>The part of \<open>url.URL\<close> the router reads.\<close>

record URL =
  u_Path :: string
  u_RawPath :: string

subsection \<open>Prefixes\<close>

text \<open>\<open>if l := len(p); len(elem) \<ge> l && elem[0:l] == p { elem = elem[l:] } else { break }\<close>\<close>

definition cut :: "string \<Rightarrow> string \<Rightarrow> string option" where
  "cut p elem = (if length p \<le> length elem \<and> take (length p) elem = p
     then Some (drop (length p) elem) else None)"

lemma cut_eq_Some_iff: "cut p elem = Some rest \<longleftrightarrow> elem = p @ rest"
proof
  assume "cut p elem = Some rest"
  then have "take (length p) elem = p" "drop (length p) elem = rest"
    by (auto simp: cut_def split: if_splits)
  then show "elem = p @ rest" by (metis append_take_drop_id)
qed (simp add: cut_def)

lemma cut_append [simp]: "cut p (p @ rest) = Some rest"
  by (simp add: cut_eq_Some_iff)

lemma cut_self [simp]: "cut p p = Some []"
  using cut_append [of p "[]"] by simp

lemma cut_eq_None_iff: "cut p elem = None \<longleftrightarrow> (\<forall>rest. elem \<noteq> p @ rest)"
  using cut_eq_Some_iff [of p elem] by (cases "cut p elem") auto

definition cutPrefix :: "string \<Rightarrow> string \<Rightarrow> string \<times> bool" where
  "cutPrefix cfg_prefix path =
     (if cfg_prefix = '''' then (path, True)
      else case cut cfg_prefix path of None \<Rightarrow> ('''', False) | Some rest \<Rightarrow> (rest, True))"

lemma cutPrefix_cases:
  "cutPrefix p path = (case cut p path of None \<Rightarrow> ('''', False) | Some rest \<Rightarrow> (rest, True))"
  by (simp add: cutPrefix_def cut_def)

subsection \<open>\<open>ServeHTTP\<close>\<close>

text \<open>
  A request is handed to the handler of an operation (with \<open>elemIsEscaped\<close>), refused with the
  methods that are allowed, or answered by the not-found handler. Inside the walk \<open>None\<close> is a
  \<open>break\<close>: it leads to \<open>s.notFound\<close> after the outer switch.
\<close>

datatype routed = Handle operation bool | NotAllowed string | NotFound

definition serve_method :: "operation \<Rightarrow> string \<Rightarrow> bool \<Rightarrow> routed" where
  "serve_method op meth esc = (if meth = ''GET'' then Handle op esc else NotAllowed ''GET'')"

definition serve_leaf :: "string \<Rightarrow> operation \<Rightarrow> string \<Rightarrow> bool \<Rightarrow> string \<Rightarrow> routed option" where
  "serve_leaf p op meth esc elem = (case cut p elem of
       None \<Rightarrow> None
     | Some rest \<Rightarrow> if rest = [] then Some (serve_method op meth esc) else None)"

definition serve_s :: "string \<Rightarrow> bool \<Rightarrow> string \<Rightarrow> routed option" where
  "serve_s meth esc elem = (case cut ''s'' elem of
       None \<Rightarrow> None
     | Some [] \<Rightarrow> None
     | Some (c # rest) \<Rightarrow>
         if c = CHR ''n'' then serve_leaf ''napshot'' GetSnapshotOperation meth esc (c # rest)
         else if c = CHR ''t'' then serve_leaf ''tatus'' GetStatusOperation meth esc (c # rest)
         else None)"

definition serve_volatility :: "string \<Rightarrow> bool \<Rightarrow> string \<Rightarrow> routed option" where
  "serve_volatility meth esc elem = (case cut ''volatility'' elem of
       None \<Rightarrow> None
     | Some [] \<Rightarrow> Some (serve_method GetVolatilityOperation meth esc)
     | Some (c # rest) \<Rightarrow>
         if c = CHR ''/'' then serve_leaf ''/fields'' GetVolatilityFieldsOperation meth esc (c # rest)
         else None)"

definition serve_api :: "string \<Rightarrow> bool \<Rightarrow> string \<Rightarrow> routed option" where
  "serve_api meth esc elem = (case cut ''api/'' elem of
       None \<Rightarrow> None
     | Some [] \<Rightarrow> None
     | Some (c # rest) \<Rightarrow>
         if c = CHR ''c'' then serve_leaf ''clusters'' ListClustersOperation meth esc (c # rest)
         else if c = CHR ''d'' then serve_leaf ''diff'' GetDiffOperation meth esc (c # rest)
         else if c = CHR ''g'' then serve_leaf ''gvks'' ListGVKsOperation meth esc (c # rest)
         else if c = CHR ''h'' then serve_leaf ''history'' GetHistoryOperation meth esc (c # rest)
         else if c = CHR ''n'' then serve_leaf ''namespaces'' ListNamespacesOperation meth esc (c # rest)
         else if c = CHR ''r'' then serve_leaf ''resource'' GetResourceOperation meth esc (c # rest)
         else if c = CHR ''s'' then serve_s meth esc (c # rest)
         else if c = CHR ''v'' then serve_volatility meth esc (c # rest)
         else None)"

definition serve_slash :: "string \<Rightarrow> bool \<Rightarrow> string \<Rightarrow> routed option" where
  "serve_slash meth esc elem = (case cut ''/'' elem of
       None \<Rightarrow> None
     | Some [] \<Rightarrow> None
     | Some (c # rest) \<Rightarrow>
         if c = CHR ''a'' then serve_api meth esc (c # rest)
         else if c = CHR ''h'' then serve_leaf ''healthz'' HealthzOperation meth esc (c # rest)
         else None)"

definition request_path :: "(string \<Rightarrow> string option) \<Rightarrow> URL \<Rightarrow> string \<times> bool" where
  "request_path nep u =
     (if u_RawPath u \<noteq> '''' then
        (case nep (u_RawPath u) of
           Some normalized \<Rightarrow> (normalized, CHR ''%'' \<in> set normalized)
         | None \<Rightarrow> (u_Path u, False))
      else (u_Path u, False))"

definition ServeHTTP :: "(string \<Rightarrow> string option) \<Rightarrow> string \<Rightarrow> string \<Rightarrow> URL \<Rightarrow> routed" where
  "ServeHTTP nep cfg_prefix meth u =
     (let (path, elemIsEscaped) = request_path nep u;
          (elem, ok) = cutPrefix cfg_prefix path
      in if \<not> ok \<or> elem = [] then NotFound
         else case elem of
             [] \<Rightarrow> NotFound
           | c # _ \<Rightarrow>
               if c = CHR ''/'' then
                 (case serve_slash meth elemIsEscaped elem of Some a \<Rightarrow> a | None \<Rightarrow> NotFound)
               else NotFound)"

subsection \<open>\<open>FindPath\<close>\<close>

text \<open>
  \<open>FindPath\<close> returns the route and whether there is one; inside the walk \<open>None\<close> is a \<open>break\<close> and
  \<open>Some None\<close> the early \<open>return\<close> for another method. The deferred unescaping ranges over
  \<open>r.args[:r.count]\<close>, which is empty because no path of this API has a parameter.
\<close>

definition route_of :: "operation \<Rightarrow> string \<Rightarrow> string \<Rightarrow> Route" where
  "route_of op operationID pathPattern =
     \<lparr>rt_name = operation_name op, rt_summary = '''', rt_operationID = operationID,
      rt_operationGroup = '''', rt_pathPattern = pathPattern, rt_count = 0\<rparr>"

definition find_method :: "Route \<Rightarrow> string \<Rightarrow> Route option" where
  "find_method r meth = (if meth = ''GET'' then Some r else None)"

definition find_leaf :: "string \<Rightarrow> Route \<Rightarrow> string \<Rightarrow> string \<Rightarrow> Route option option" where
  "find_leaf p r meth elem = (case cut p elem of
       None \<Rightarrow> None
     | Some rest \<Rightarrow> if rest = [] then Some (find_method r meth) else None)"

definition find_s :: "string \<Rightarrow> string \<Rightarrow> Route option option" where
  "find_s meth elem = (case cut ''s'' elem of
       None \<Rightarrow> None
     | Some [] \<Rightarrow> None
     | Some (c # rest) \<Rightarrow>
         if c = CHR ''n'' then
           find_leaf ''napshot'' (route_of GetSnapshotOperation ''GetSnapshot'' ''/api/snapshot'') meth (c # rest)
         else if c = CHR ''t'' then
           find_leaf ''tatus'' (route_of GetStatusOperation ''GetStatus'' ''/api/status'') meth (c # rest)
         else None)"

definition find_volatility :: "string \<Rightarrow> string \<Rightarrow> Route option option" where
  "find_volatility meth elem = (case cut ''volatility'' elem of
       None \<Rightarrow> None
     | Some [] \<Rightarrow>
         Some (find_method (route_of GetVolatilityOperation ''GetVolatility'' ''/api/volatility'') meth)
     | Some (c # rest) \<Rightarrow>
         if c = CHR ''/'' then
           find_leaf ''/fields''
             (route_of GetVolatilityFieldsOperation ''GetVolatilityFields'' ''/api/volatility/fields'') meth (c # rest)
         else None)"

definition find_api :: "string \<Rightarrow> string \<Rightarrow> Route option option" where
  "find_api meth elem = (case cut ''api/'' elem of
       None \<Rightarrow> None
     | Some [] \<Rightarrow> None
     | Some (c # rest) \<Rightarrow>
         if c = CHR ''c'' then
           find_leaf ''clusters'' (route_of ListClustersOperation ''ListClusters'' ''/api/clusters'') meth (c # rest)
         else if c = CHR ''d'' then
           find_leaf ''diff'' (route_of GetDiffOperation ''GetDiff'' ''/api/diff'') meth (c # rest)
         else if c = CHR ''g'' then
           find_leaf ''gvks'' (route_of ListGVKsOperation ''ListGVKs'' ''/api/gvks'') meth (c # rest)
         else if c = CHR ''h'' then
           find_leaf ''history'' (route_of GetHistoryOperation ''GetHistory'' ''/api/history'') meth (c # rest)
         else if c = CHR ''n'' then
           find_leaf ''namespaces'' (route_of ListNamespacesOperation ''ListNamespaces'' ''/api/namespaces'') meth (c # rest)
         else if c = CHR ''r'' then
           find_leaf ''resource'' (route_of GetResourceOperation ''GetResource'' ''/api/resource'') meth (c # rest)
         else if c = CHR ''s'' then find_s meth (c # rest)
         else if c = CHR ''v'' then find_volatility meth (c # rest)
         else None)"

definition find_slash :: "string \<Rightarrow> string \<Rightarrow> Route option option" where
  "find_slash meth elem = (case cut ''/'' elem of
       None \<Rightarrow> None
     | Some [] \<Rightarrow> None
     | Some (c # rest) \<Rightarrow>
         if c = CHR ''a'' then find_api meth (c # rest)
         else if c = CHR ''h'' then
           find_leaf ''healthz'' (route_of HealthzOperation ''Healthz'' ''/healthz'') meth (c # rest)
         else None)"

definition FindPath :: "(string \<Rightarrow> string option) \<Rightarrow> string \<Rightarrow> string \<Rightarrow> URL \<Rightarrow> Route \<times> bool" where
  "FindPath nep cfg_prefix meth u =
     (let path = (if u_RawPath u \<noteq> '''' then
            (case nep (u_RawPath u) of Some normalized \<Rightarrow> normalized | None \<Rightarrow> u_Path u)
          else u_Path u);
          (elem, ok) = cutPrefix cfg_prefix path
      in if \<not> ok then (no_route, False)
         else case elem of
             [] \<Rightarrow> (no_route, False)
           | c # _ \<Rightarrow>
               if c = CHR ''/'' then
                 (case find_slash meth elem of
                    Some (Some r) \<Rightarrow> (r, True) | _ \<Rightarrow> (no_route, False))
               else (no_route, False))"

definition FindRoute :: "(string \<Rightarrow> string option) \<Rightarrow> string \<Rightarrow> string \<Rightarrow> string \<Rightarrow> Route \<times> bool" where
  "FindRoute nep cfg_prefix meth path = FindPath nep cfg_prefix meth \<lparr>u_Path = path, u_RawPath = ''''\<rparr>"

subsection \<open>Refusals\<close>

text \<open>
  The answer to a method that is not allowed, \<open>notAllowed\<close> with the parameters every route of this
  API passes (no allowed headers, no \<open>Accept-Post\<close>, no \<open>Accept-Patch\<close>) on a server configured
  without a \<open>MethodNotAllowed\<close> handler: the status and the headers that are set.
\<close>

definition notAllowed :: "string \<Rightarrow> string \<Rightarrow> nat \<times> (string \<times> string) list" where
  "notAllowed meth allowedMethods =
     (if meth = ''OPTIONS'' then (204, [(''Access-Control-Allow-Methods'', allowedMethods)])
      else (405, [(''Allow'', allowedMethods)]))"

subsection \<open>The table of routes\<close>

text \<open>The path of each operation, as the OpenAPI document gives it.\<close>

fun operation_path :: "operation \<Rightarrow> string" where
  "operation_path GetDiffOperation = ''/api/diff''"
| "operation_path GetHistoryOperation = ''/api/history''"
| "operation_path GetResourceOperation = ''/api/resource''"
| "operation_path GetSnapshotOperation = ''/api/snapshot''"
| "operation_path GetStatusOperation = ''/api/status''"
| "operation_path GetVolatilityOperation = ''/api/volatility''"
| "operation_path GetVolatilityFieldsOperation = ''/api/volatility/fields''"
| "operation_path HealthzOperation = ''/healthz''"
| "operation_path ListClustersOperation = ''/api/clusters''"
| "operation_path ListGVKsOperation = ''/api/gvks''"
| "operation_path ListNamespacesOperation = ''/api/namespaces''"

lemma operation_path_inject: "operation_path op = operation_path op' \<longleftrightarrow> op = op'"
  by (cases op; cases op'; simp)

text \<open>
  Both walks invert level by level: each subtree accepts the rests of the paths below it, and a
  leaf its own text. The generic lemma on one switch does the work: \<open>cut\<close> has left a rest that
  begins with the letter of the case.
\<close>

lemma serve_leaf_iff:
  "serve_leaf p op meth esc elem = Some a \<longleftrightarrow> elem = p \<and> a = serve_method op meth esc"
  by (auto simp: serve_leaf_def cut_eq_Some_iff split: option.splits)

lemma find_leaf_iff:
  "find_leaf p r meth elem = Some a \<longleftrightarrow> elem = p \<and> a = find_method r meth"
  by (auto simp: find_leaf_def cut_eq_Some_iff split: option.splits)

lemma cut_switch:
  "(case cut p elem of None \<Rightarrow> None | Some [] \<Rightarrow> x | Some (c # rest) \<Rightarrow> f c rest) = Some a \<longleftrightarrow>
     (elem = p \<and> x = Some a) \<or> (\<exists>c rest. elem = p @ c # rest \<and> f c rest = Some a)"
proof (cases "cut p elem")
  case None
  then have "elem \<noteq> p @ rest" for rest by (simp add: cut_eq_None_iff)
  then show ?thesis using None append_Nil2 [of p] by force
next
  case (Some rest)
  then have "elem = p @ rest" by (simp add: cut_eq_Some_iff)
  then show ?thesis by (cases rest) auto
qed

lemma serve_s_iff:
  "serve_s meth esc elem = Some a \<longleftrightarrow>
     elem = ''snapshot'' \<and> a = serve_method GetSnapshotOperation meth esc \<or>
     elem = ''status'' \<and> a = serve_method GetStatusOperation meth esc"
  unfolding serve_s_def cut_switch by (auto simp: serve_leaf_iff split: if_splits)

lemma serve_volatility_iff:
  "serve_volatility meth esc elem = Some a \<longleftrightarrow>
     elem = ''volatility'' \<and> a = serve_method GetVolatilityOperation meth esc \<or>
     elem = ''volatility/fields'' \<and> a = serve_method GetVolatilityFieldsOperation meth esc"
  unfolding serve_volatility_def cut_switch by (auto simp: serve_leaf_iff split: if_splits)

lemma find_s_iff:
  "find_s meth elem = Some a \<longleftrightarrow>
     elem = ''snapshot'' \<and>
       a = find_method (route_of GetSnapshotOperation ''GetSnapshot'' ''/api/snapshot'') meth \<or>
     elem = ''status'' \<and>
       a = find_method (route_of GetStatusOperation ''GetStatus'' ''/api/status'') meth"
  unfolding find_s_def cut_switch by (auto simp: find_leaf_iff split: if_splits)

lemma find_volatility_iff:
  "find_volatility meth elem = Some a \<longleftrightarrow>
     elem = ''volatility'' \<and>
       a = find_method (route_of GetVolatilityOperation ''GetVolatility'' ''/api/volatility'') meth \<or>
     elem = ''volatility/fields'' \<and>
       a = find_method (route_of GetVolatilityFieldsOperation ''GetVolatilityFields''
         ''/api/volatility/fields'') meth"
  unfolding find_volatility_def cut_switch by (auto simp: find_leaf_iff split: if_splits)

lemmas serve_defs = serve_leaf_def serve_s_def serve_volatility_def serve_api_def serve_slash_def

lemmas find_defs = find_leaf_def find_s_def find_volatility_def find_api_def find_slash_def

text \<open>The witness of each branch: the operation whose path was read.\<close>

lemmas some_operation =
  exI [of _ ListClustersOperation] exI [of _ GetDiffOperation] exI [of _ ListGVKsOperation]
  exI [of _ GetHistoryOperation] exI [of _ ListNamespacesOperation] exI [of _ GetResourceOperation]
  exI [of _ GetSnapshotOperation] exI [of _ GetStatusOperation] exI [of _ GetVolatilityOperation]
  exI [of _ GetVolatilityFieldsOperation] exI [of _ HealthzOperation]

abbreviation table_route :: "operation \<Rightarrow> Route" where
  "table_route op \<equiv> route_of op (operation_name op) (operation_path op)"

lemma serve_api_Some:
  "serve_api meth esc elem = Some a \<Longrightarrow>
     \<exists>op. CHR ''/'' # elem = operation_path op \<and> a = serve_method op meth esc"
  unfolding serve_api_def cut_switch
  by (auto simp: serve_leaf_iff serve_s_iff serve_volatility_iff split: if_splits intro: some_operation)

lemma serve_slash_iff:
  "serve_slash meth esc elem = Some a \<longleftrightarrow>
     (\<exists>op. elem = operation_path op \<and> a = serve_method op meth esc)"
proof
  show "serve_slash meth esc elem = Some a \<Longrightarrow>
      \<exists>op. elem = operation_path op \<and> a = serve_method op meth esc"
    unfolding serve_slash_def cut_switch
    by (auto simp: serve_leaf_iff split: if_splits dest!: serve_api_Some intro: some_operation)
next
  have "serve_slash meth esc (operation_path op) = Some (serve_method op meth esc)" for op
    by (cases op) (simp_all add: serve_defs cut_def)
  then show "\<exists>op. elem = operation_path op \<and> a = serve_method op meth esc \<Longrightarrow>
      serve_slash meth esc elem = Some a"
    by auto
qed

lemma find_api_Some:
  "find_api meth elem = Some a \<Longrightarrow>
     \<exists>op. CHR ''/'' # elem = operation_path op \<and> a = find_method (table_route op) meth"
  unfolding find_api_def cut_switch
  by (auto simp: find_leaf_iff find_s_iff find_volatility_iff split: if_splits intro: some_operation)

lemma find_slash_iff:
  "find_slash meth elem = Some a \<longleftrightarrow>
     (\<exists>op. elem = operation_path op \<and> a = find_method (table_route op) meth)"
proof
  show "find_slash meth elem = Some a \<Longrightarrow>
      \<exists>op. elem = operation_path op \<and> a = find_method (table_route op) meth"
    unfolding find_slash_def cut_switch
    by (auto simp: find_leaf_iff split: if_splits dest!: find_api_Some intro: some_operation)
next
  have "find_slash meth (operation_path op) = Some (find_method (table_route op) meth)" for op
    by (cases op) (simp_all add: find_defs cut_def)
  then show "\<exists>op. elem = operation_path op \<and> a = find_method (table_route op) meth \<Longrightarrow>
      find_slash meth elem = Some a"
    by auto
qed

lemma path_head: "operation_path op = c # rest \<Longrightarrow> c = CHR ''/''"
  by (cases op) auto

lemma no_slash: "elem = [] \<or> hd elem \<noteq> CHR ''/'' \<Longrightarrow> cut ''/'' elem = None"
  by (cases elem) (auto simp: cut_def)

text \<open>Both functions behind the prefix of the server.\<close>

lemma ServeHTTP_walk:
  "ServeHTTP nep p meth u =
     (case serve_slash meth (snd (request_path nep u)) (fst (cutPrefix p (fst (request_path nep u)))) of
        Some a \<Rightarrow> a | None \<Rightarrow> NotFound)"
proof -
  have none: "serve_slash meth e elem = None" if "elem = [] \<or> hd elem \<noteq> CHR ''/''" for e elem
    using that no_slash [of elem] by (simp add: serve_slash_def)
  show ?thesis
    using none unfolding ServeHTTP_def cutPrefix_cases
    by (auto simp: Let_def split: prod.splits option.splits list.splits)
qed

lemma FindPath_walk:
  "FindPath nep p meth u =
     (case find_slash meth (fst (cutPrefix p (fst (request_path nep u)))) of
        Some (Some r) \<Rightarrow> (r, True) | _ \<Rightarrow> (no_route, False))"
proof -
  have path: "(if u_RawPath u \<noteq> '''' then
      (case nep (u_RawPath u) of Some normalized \<Rightarrow> normalized | None \<Rightarrow> u_Path u)
      else u_Path u) = fst (request_path nep u)"
    by (simp add: request_path_def split: option.splits)
  have none: "find_slash meth elem = None" if "elem = [] \<or> hd elem \<noteq> CHR ''/''" for elem
    using that no_slash [of elem] by (simp add: find_slash_def)
  show ?thesis
    using none unfolding FindPath_def path cutPrefix_cases
    by (auto simp: Let_def split: prod.splits option.splits list.splits)
qed

lemma operation_path_nonempty [simp]: "operation_path op \<noteq> []" "[] \<noteq> operation_path op"
  by (cases op; simp)+

lemma cutPrefix_path: "fst (cutPrefix p path) = operation_path op \<longleftrightarrow> path = p @ operation_path op"
proof (cases "cut p path")
  case None
  then have "path \<noteq> p @ rest" for rest by (simp add: cut_eq_None_iff)
  then show ?thesis using None by (simp add: cutPrefix_cases)
next
  case (Some rest)
  then have "path = p @ rest" by (simp add: cut_eq_Some_iff)
  then show ?thesis by (simp add: cutPrefix_cases)
qed

lemma routed_to:
  "(case w of Some a \<Rightarrow> a | None \<Rightarrow> NotFound) = Handle op esc \<longleftrightarrow> w = Some (Handle op esc)"
  "(case w of Some a \<Rightarrow> a | None \<Rightarrow> NotFound) = NotAllowed m \<longleftrightarrow> w = Some (NotAllowed m)"
  by (cases w; auto)+

lemma found_by:
  "(case w of Some (Some r) \<Rightarrow> (r, True) | _ \<Rightarrow> (no_route, False)) = (r', True) \<longleftrightarrow> w = Some (Some r')"
  by (auto split: option.splits)

lemmas walk_iff = routed_to found_by serve_slash_iff find_slash_iff cutPrefix_path

lemma find_method_Some: "find_method r meth = Some r' \<longleftrightarrow> meth = ''GET'' \<and> r' = r"
  by (auto simp: find_method_def)

text \<open>C16: A request reaches the handler of an operation exactly when its method is GET and its path is
  the prefix of the server followed by the path of that operation; it is refused with the allowed
  methods exactly when its path is one of the table and its method another. Every other request is
  not found.\<close>

theorem ServeHTTP_table:
  "(ServeHTTP nep p meth u = Handle op esc \<longleftrightarrow>
      meth = ''GET'' \<and> request_path nep u = (p @ operation_path op, esc)) \<and>
   (ServeHTTP nep p meth u = NotAllowed allowed \<longleftrightarrow>
      meth \<noteq> ''GET'' \<and> allowed = ''GET'' \<and> (\<exists>op. fst (request_path nep u) = p @ operation_path op))"
  unfolding ServeHTTP_walk walk_iff
  by (cases "request_path nep u") (auto simp: serve_method_def operation_path_inject split: if_splits)

text \<open>C32: \<open>FindPath\<close>, the second copy of the routing tree, agrees with \<open>ServeHTTP\<close>: it finds a route
  exactly when a request with the same method and URL reaches a handler, and the route names that
  operation and its path.\<close>

theorem FindPath_agrees:
  "FindPath nep p meth u = (r, True) \<longleftrightarrow>
     (\<exists>op esc. ServeHTTP nep p meth u = Handle op esc \<and>
        r = \<lparr>rt_name = operation_name op, rt_summary = '''', rt_operationID = operation_name op,
              rt_operationGroup = '''', rt_pathPattern = operation_path op, rt_count = 0\<rparr>)"
  unfolding FindPath_walk ServeHTTP_walk walk_iff
  by (auto simp: serve_method_def find_method_Some find_method_def route_of_def split: if_splits)

end
