(* ===== verification/Handlers.thy ===== *)
theory Handlers
  imports ClusterState
begin

text \<open>
  \<open>cmd/server/handler.go\<close>: the REST handlers over the query server. A handler returns a response of
  the interface type of its operation, an error (which the generated server reports), or panics.
  Only \<open>GetSnapshot\<close> changes anything: the program cache inside the indexes of the query server.
\<close>

record 'r apiHandler =
  ah_states :: "'r ClusterState gmap"
  ah_clusterNames :: "string list"
  ah_q :: Server

subsection \<open>Conversions\<close>

definition toSnapshotResource :: "ResourceMeta \<Rightarrow> SnapshotResource" where
  "toSnapshotResource r =
     \<lparr>ar_Cluster = rm_Cluster r, ar_Group = rm_Group r, ar_Kind = rm_Kind r, ar_Name = rm_Name r,
      ar_Namespace = rm_Namespace r,
      ar_Labels = (case rm_Labels r of None \<Rightarrow> Null | Some labels \<Rightarrow> Set labels),
      ar_CreationTimestamp = (if rm_CreationTimestamp r \<noteq> '''' then Some (rm_CreationTimestamp r) else None)\<rparr>"

definition toSnapshotResources :: "ResourceMeta list \<Rightarrow> SnapshotResource list" where
  "toSnapshotResources resources = map toSnapshotResource resources"

definition toAPIChangeEvent :: "ChangeEvent \<Rightarrow> ApiChangeEvent" where
  "toAPIChangeEvent e =
     \<lparr>ae_Timestamp = ev_Timestamp e, ae_Sha = ev_SHA e, ae_Cluster = ev_Cluster e, ae_Group = ev_Group e,
      ae_Kind = ev_Kind e, ae_Namespace = ev_Namespace e, ae_Name = ev_Name e,
      ae_ChangeType = ev_ChangeType e\<rparr>"

definition toAPIVolatilityEntry :: "VolatilityResult \<Rightarrow> ApiVolatilityEntry" where
  "toAPIVolatilityEntry r =
     \<lparr>av_Cluster = vr_Cluster r, av_Group = vr_Group r, av_Kind = vr_Kind r, av_Namespace = vr_Namespace r,
      av_Name = vr_Name r, av_Count = int (vr_Count r), av_Total = int (vr_Total r),
      av_Ratio = Finite (vr_Ratio r)\<rparr>"

definition toAPIFieldEntry :: "FieldVolatilityResult \<Rightarrow> ApiFieldVolatilityEntry" where
  "toAPIFieldEntry r =
     \<lparr>af_Field = fr_Field r, af_Count = int (fr_Count r), af_Total = int (fr_Total r),
      af_Ratio = Finite (fr_Ratio r)\<rparr>"

subsection \<open>Health and status\<close>

definition Healthz :: "'r apiHandler \<Rightarrow> HealthzRes result" where
  "Healthz h =
     (if \<exists>(name, st) \<in> set (ah_states h). \<not> ready st then Ok HealthzServiceUnavailable else Ok HealthzOK)"

definition api_status :: "string \<Rightarrow> 'r ClusterState \<Rightarrow> ApiClusterStatus" where
  "api_status name st =
     (let s = status st
      in \<lparr>as_Name = name,
          as_LastPullAt = (case st_LastPullAt s of Some t \<Rightarrow> Set t | None \<Rightarrow> Null),
          as_LastPullErr = st_LastPullErr s,
          as_ResourceCount = int (st_ResourceCount s)\<rparr>)"

definition GetStatus :: "'r apiHandler \<Rightarrow> StatusResponse result" where
  "GetStatus h =
     map_result (\<lambda>clusters. \<lparr>sx_Clusters = clusters\<rparr>)
       (gather
          (\<lambda>name. case gm_get (ah_states h) name of
               None \<Rightarrow> Panic ''nil pointer dereference''
             | Some st \<Rightarrow> Ok [api_status name st])
          (ah_clusterNames h))"

subsection \<open>Lists and one resource\<close>

definition api_ListClusters :: "'r apiHandler \<Rightarrow> string list result" where
  "api_ListClusters h = Ok (ListClusters (ah_q h))"

definition api_ListGVKs :: "'r apiHandler \<Rightarrow> ListGVKsParams \<Rightarrow> ApiGVKInfo list result" where
  "api_ListGVKs h params =
     map_result (map (\<lambda>g. \<lparr>ag_Group = gk_Group g, ag_Version = gk_Version g, ag_Kind = gk_Kind g\<rparr>))
       (ListGVKs (ah_q h) (Or (gp_Cluster params) '''') (Or (gp_Namespace params) ''''))"

definition api_ListNamespaces :: "'r apiHandler \<Rightarrow> ListNamespacesParams \<Rightarrow> string list result" where
  "api_ListNamespaces h params = ListNamespaces (ah_q h) (Or (lp_Cluster params) '''')"

definition api_GetResource :: "query_env \<Rightarrow> 'r apiHandler \<Rightarrow> GetResourceParams \<Rightarrow> GetResourceRes result" where
  "api_GetResource env h params =
     (case GetResource env (ah_q h) (rp_Cluster params) (rp_Group params) (rp_Kind params)
             (Or (rp_Namespace params) '''') (rp_Name params) of
        Ok data \<Rightarrow> Ok (GetResourceOK data)
      | Err err \<Rightarrow>
          if errors_Is err ErrClusterNotFound \<or> errors_Is err ErrNotFound then Ok GetResourceNotFound
          else Err err
      | Panic m \<Rightarrow> Panic m)"

definition api_GetDiff :: "'r apiHandler \<Rightarrow> GetDiffParams \<Rightarrow> GetDiffRes result" where
  "api_GetDiff h params =
     (case GetDiff (ah_q h) (dp_Cluster params) (dp_Group params) (dp_Kind params)
             (Or (dp_Namespace params) '''') (dp_Name params) (dp_From params) (dp_To params) of
        Ok res \<Rightarrow> Ok (DiffOK \<lparr>ad_Before = df_Before res, ad_After = df_After res\<rparr>)
      | Err err \<Rightarrow>
          if errors_Is err ErrClusterNotFound \<or> errors_Is err ErrNotFound then Ok GetDiffNotFound
          else Ok GetDiffBadRequest
      | Panic m \<Rightarrow> Panic m)"

subsection \<open>Snapshots\<close>

text \<open>\<open>limit := params.Limit.Or(50); if limit <= 0 { limit = 50 }\<close>, which three handlers share.\<close>

definition page_limit :: "int option \<Rightarrow> int" where
  "page_limit l = (let limit = Or l 50 in if limit \<le> 0 then 50 else limit)"

definition historical_page :: "int \<Rightarrow> int \<Rightarrow> SnapshotResult \<Rightarrow> SnapshotPage" where
  "historical_page offset limit res =
     \<lparr>sp_Items = toSnapshotResources (sr_Items res), sp_Total = int (sr_Total res), sp_Offset = offset,
      sp_Limit = limit,
      sp_CommitSha = (if sr_CommitSHA res \<noteq> '''' then Set (sr_CommitSHA res) else Null),
      sp_CommitTime = (if sr_CommitSHA res \<noteq> '''' then Set (sr_CommitTime res) else Null)\<rparr>"

definition current_page :: "int \<Rightarrow> int \<Rightarrow> SnapshotResult \<Rightarrow> SnapshotPage" where
  "current_page offset limit res =
     \<lparr>sp_Items = toSnapshotResources (sr_Items res), sp_Total = int (sr_Total res), sp_Offset = offset,
      sp_Limit = limit, sp_CommitSha = Null, sp_CommitTime = Null\<rparr>"

definition api_GetSnapshot ::
  "query_env \<Rightarrow> 'r apiHandler \<Rightarrow> GetSnapshotParams \<Rightarrow> 'r apiHandler \<times> GetSnapshotRes result" where
  "api_GetSnapshot env h params =
     (let cluster = Or (np_Cluster params) '''';
          grp = Or (np_Group params) '''';
          kind = Or (np_Kind params) '''';
          ns = Or (np_Namespace params) '''';
          name = Or (np_Name params) '''';
          cel = Or (np_Cel params) '''';
          limit = page_limit (np_Limit params);
          offset = Or (np_Offset params) 0
      in case np_Datetime params of
           Some t \<Rightarrow>
             (h, if cel \<noteq> '''' then Ok GetSnapshotBadRequest
                 else map_result (\<lambda>res. SnapshotOK (historical_page offset limit res))
                        (GetHistoricalSnapshot env (ah_q h) t cluster grp kind ns name limit offset))
         | None \<Rightarrow>
             (case GetCurrentSnapshot env (ah_q h) cluster grp kind ns name cel [] limit offset of
                (q, res) \<Rightarrow>
                  (h\<lparr>ah_q := q\<rparr>,
                   case res of
                     Ok r \<Rightarrow> Ok (SnapshotOK (current_page offset limit r))
                   | Err _ \<Rightarrow> Ok GetSnapshotBadRequest
                   | Panic m \<Rightarrow> Panic m)))"

subsection \<open>History and volatility\<close>

definition api_GetHistory :: "query_env \<Rightarrow> 'r apiHandler \<Rightarrow> GetHistoryParams \<Rightarrow> HistoryPage result" where
  "api_GetHistory env h params =
     (let limit = page_limit (yp_Limit params);
          offset = Or (yp_Offset params) 0;
          changeType = (case yp_ChangeType params of Some ct \<Rightarrow> ct | None \<Rightarrow> '''')
      in map_result
           (\<lambda>(events, totl). \<lparr>hp_Items = map toAPIChangeEvent events, hp_Total = int totl,
                              hp_Offset = offset, hp_Limit = limit\<rparr>)
           (GetHistory env (ah_q h) (Or (yp_Cluster params) '''') (Or (yp_Group params) '''')
              (Or (yp_Kind params) '''') (Or (yp_Namespace params) '''') (Or (yp_Name params) '''')
              changeType (yp_Since params) (yp_Until params) limit offset))"

definition api_GetVolatility :: "query_env \<Rightarrow> 'r apiHandler \<Rightarrow> GetVolatilityParams \<Rightarrow> VolatilityPage result" where
  "api_GetVolatility env h params =
     (let limit = page_limit (op_Limit params);
          offset = Or (op_Offset params) 0
      in map_result
           (\<lambda>(results, totl). \<lparr>vp_Items = map toAPIVolatilityEntry results, vp_Total = int totl,
                               vp_Offset = offset, vp_Limit = limit\<rparr>)
           (GetVolatility env (ah_q h) (Or (op_Cluster params) '''') (Or (op_Group params) '''')
              (Or (op_Kind params) '''') (Or (op_Namespace params) '''') (Or (op_Name params) '''')
              (Or (op_Commits params) 50) (Or (op_Threshold params) (Finite 0)) limit offset))"

definition api_GetVolatilityFields ::
  "query_env \<Rightarrow> 'r apiHandler \<Rightarrow> GetVolatilityFieldsParams \<Rightarrow> GetVolatilityFieldsRes result" where
  "api_GetVolatilityFields env h params =
     map_result (\<lambda>results. GetVolatilityFieldsOK (map toAPIFieldEntry results))
       (GetVolatilityFields env (ah_q h) (Or (fp_Cluster params) '''') (fp_Group params) (fp_Kind params)
          (Or (fp_Namespace params) '''') (Or (fp_Name params) '''') (Or (fp_Commits params) 50) 0)"

subsection \<open>Label selectors\<close>

text \<open>\<open>parseLabelSelector\<close>, which no handler calls: the nil map is \<open>None\<close>.\<close>

definition add_label :: "string gmap \<Rightarrow> string \<Rightarrow> string gmap" where
  "add_label m part =
     (let part = TrimSpace part
      in if part = '''' then m
         else case Cut part (CHR ''='') of (k, v, _) \<Rightarrow> gm_put (TrimSpace k) (TrimSpace v) m)"

definition parseLabelSelector :: "string \<Rightarrow> string gmap option" where
  "parseLabelSelector s =
     (if s = '''' then None else Some (foldl add_label [] (Split s (CHR '',''))))"

end
