(* ===== verification/ApiServer.thy ===== *)
theory ApiServer
  imports Handlers Wire Router
begin

text \<open>
  The generated HTTP server around the handlers: \<open>internal/api/oas_handlers_gen.go\<close> (decode the
  parameters, call the handler, encode its answer or report its error) behind the router. What is
  used of packages outside the repository is the record \<open>server_lib\<close>; traces and metrics are left out.
  The server is the one \<open>cmd/server/main.go\<close> builds: no middleware, and \<open>sl_Prefix\<close> for the paths.
  A panic of a handler is a panic of the request.
\<close>

record request =
  rq_Method :: string
  rq_URL :: URL
  rq_RawQuery :: string

text \<open>The errors that reach \<open>s.cfg.ErrorHandler\<close>.\<close>

datatype api_error = DecodeParamsError operation error | HandlerError error

record 'j server_lib =
  sl_wire :: "'j wire_lib"
  sl_params :: param_lib
  sl_NewQueryDecoder :: "string \<Rightarrow> uri_query"
  sl_NormalizeEscapedPath :: "string \<Rightarrow> string option"
  sl_ErrorHandler :: "api_error \<Rightarrow> response"
  sl_NotFound :: response
  sl_Prefix :: string

subsection \<open>One request\<close>

definition respond :: "'j server_lib \<Rightarrow> ('a \<Rightarrow> response) \<Rightarrow> 'a result \<Rightarrow> response result" where
  "respond lib encode res =
     (case res of
        Ok response \<Rightarrow> Ok (encode response)
      | Err err \<Rightarrow> Ok (sl_ErrorHandler lib (HandlerError err))
      | Panic m \<Rightarrow> Panic m)"

definition with_params ::
  "'j server_lib \<Rightarrow> operation \<Rightarrow> (param_lib \<Rightarrow> uri_query \<Rightarrow> error + 'p) \<Rightarrow> request \<Rightarrow> 's \<Rightarrow>
   ('p \<Rightarrow> 's \<times> response result) \<Rightarrow> 's \<times> response result" where
  "with_params lib op decode r h run =
     (case decode (sl_params lib) (sl_NewQueryDecoder lib (rq_RawQuery r)) of
        Inl err \<Rightarrow> (h, Ok (sl_ErrorHandler lib (DecodeParamsError op err)))
      | Inr params \<Rightarrow> run params)"

text \<open>The request handlers, each with its decoder, its handler and its encoder.\<close>

definition handleGetDiffRequest ::
  "'j server_lib \<Rightarrow> query_env \<Rightarrow> request \<Rightarrow> 'r apiHandler \<Rightarrow> 'r apiHandler \<times> response result" where
  "handleGetDiffRequest lib env r h =
     with_params lib GetDiffOperation decodeGetDiffParams r h
       (\<lambda>params. (h, respond lib (encodeGetDiffResponse (sl_wire lib)) (api_GetDiff h params)))"

definition handleGetHistoryRequest ::
  "'j server_lib \<Rightarrow> query_env \<Rightarrow> request \<Rightarrow> 'r apiHandler \<Rightarrow> 'r apiHandler \<times> response result" where
  "handleGetHistoryRequest lib env r h =
     with_params lib GetHistoryOperation decodeGetHistoryParams r h
       (\<lambda>params. (h, respond lib (encodeGetHistoryResponse (sl_wire lib)) (api_GetHistory env h params)))"

definition handleGetResourceRequest ::
  "'j server_lib \<Rightarrow> query_env \<Rightarrow> request \<Rightarrow> 'r apiHandler \<Rightarrow> 'r apiHandler \<times> response result" where
  "handleGetResourceRequest lib env r h =
     with_params lib GetResourceOperation decodeGetResourceParams r h
       (\<lambda>params. (h, respond lib encodeGetResourceResponse (api_GetResource env h params)))"

definition handleGetVolatilityRequest ::
  "'j server_lib \<Rightarrow> query_env \<Rightarrow> request \<Rightarrow> 'r apiHandler \<Rightarrow> 'r apiHandler \<times> response result" where
  "handleGetVolatilityRequest lib env r h =
     with_params lib GetVolatilityOperation decodeGetVolatilityParams r h
       (\<lambda>params. (h, respond lib (encodeGetVolatilityResponse (sl_wire lib)) (api_GetVolatility env h params)))"

definition handleGetVolatilityFieldsRequest ::
  "'j server_lib \<Rightarrow> query_env \<Rightarrow> request \<Rightarrow> 'r apiHandler \<Rightarrow> 'r apiHandler \<times> response result" where
  "handleGetVolatilityFieldsRequest lib env r h =
     with_params lib GetVolatilityFieldsOperation decodeGetVolatilityFieldsParams r h
       (\<lambda>params. (h, respond lib (encodeGetVolatilityFieldsResponse (sl_wire lib)) (api_GetVolatilityFields env h params)))"

definition handleListGVKsRequest ::
  "'j server_lib \<Rightarrow> query_env \<Rightarrow> request \<Rightarrow> 'r apiHandler \<Rightarrow> 'r apiHandler \<times> response result" where
  "handleListGVKsRequest lib env r h =
     with_params lib ListGVKsOperation decodeListGVKsParams r h
       (\<lambda>params. (h, respond lib (encodeListGVKsResponse (sl_wire lib)) (api_ListGVKs h params)))"

definition handleListNamespacesRequest ::
  "'j server_lib \<Rightarrow> query_env \<Rightarrow> request \<Rightarrow> 'r apiHandler \<Rightarrow> 'r apiHandler \<times> response result" where
  "handleListNamespacesRequest lib env r h =
     with_params lib ListNamespacesOperation decodeListNamespacesParams r h
       (\<lambda>params. (h, respond lib (encodeListNamespacesResponse (sl_wire lib)) (api_ListNamespaces h params)))"

definition handleGetSnapshotRequest ::
  "'j server_lib \<Rightarrow> query_env \<Rightarrow> request \<Rightarrow> 'r apiHandler \<Rightarrow> 'r apiHandler \<times> response result" where
  "handleGetSnapshotRequest lib env r h =
     with_params lib GetSnapshotOperation decodeGetSnapshotParams r h
       (\<lambda>params. case api_GetSnapshot env h params of
          (h', res) \<Rightarrow> (h', respond lib (encodeGetSnapshotResponse (sl_wire lib)) res))"

definition handleGetStatusRequest ::
  "'j server_lib \<Rightarrow> 'r apiHandler \<Rightarrow> 'r apiHandler \<times> response result" where
  "handleGetStatusRequest lib h = (h, respond lib (encodeGetStatusResponse (sl_wire lib)) (GetStatus h))"

definition handleHealthzRequest ::
  "'j server_lib \<Rightarrow> 'r apiHandler \<Rightarrow> 'r apiHandler \<times> response result" where
  "handleHealthzRequest lib h = (h, respond lib encodeHealthzResponse (Healthz h))"

definition handleListClustersRequest ::
  "'j server_lib \<Rightarrow> 'r apiHandler \<Rightarrow> 'r apiHandler \<times> response result" where
  "handleListClustersRequest lib h = (h, respond lib (encodeListClustersResponse (sl_wire lib)) (api_ListClusters h))"

text \<open>\<open>Server.ServeHTTP\<close>: the router, then the handler of the operation.\<close>

fun handle_operation ::
  "'j server_lib \<Rightarrow> query_env \<Rightarrow> request \<Rightarrow> 'r apiHandler \<Rightarrow> operation \<Rightarrow> 'r apiHandler \<times> response result" where
  "handle_operation lib env r h GetDiffOperation = handleGetDiffRequest lib env r h"
| "handle_operation lib env r h GetHistoryOperation = handleGetHistoryRequest lib env r h"
| "handle_operation lib env r h GetResourceOperation = handleGetResourceRequest lib env r h"
| "handle_operation lib env r h GetSnapshotOperation = handleGetSnapshotRequest lib env r h"
| "handle_operation lib env r h GetStatusOperation = handleGetStatusRequest lib h"
| "handle_operation lib env r h GetVolatilityOperation = handleGetVolatilityRequest lib env r h"
| "handle_operation lib env r h GetVolatilityFieldsOperation = handleGetVolatilityFieldsRequest lib env r h"
| "handle_operation lib env r h HealthzOperation = handleHealthzRequest lib h"
| "handle_operation lib env r h ListClustersOperation = handleListClustersRequest lib h"
| "handle_operation lib env r h ListGVKsOperation = handleListGVKsRequest lib env r h"
| "handle_operation lib env r h ListNamespacesOperation = handleListNamespacesRequest lib env r h"

definition serve_request ::
  "'j server_lib \<Rightarrow> query_env \<Rightarrow> request \<Rightarrow> 'r apiHandler \<Rightarrow> 'r apiHandler \<times> response result" where
  "serve_request lib env r h =
     (case ServeHTTP (sl_NormalizeEscapedPath lib) (sl_Prefix lib) (rq_Method r) (rq_URL r) of
        NotFound \<Rightarrow> (h, Ok (sl_NotFound lib))
      | NotAllowed allowed \<Rightarrow>
          (case notAllowed (rq_Method r) allowed of
             (code, headers) \<Rightarrow> (h, Ok \<lparr>rs_Status = code, rs_Header = headers, rs_Body = []\<rparr>))
      | Handle op _ \<Rightarrow> handle_operation lib env r h op)"

end
