(* ===== verification/ApiClient.thy ===== *)
theory ApiClient
  imports Wire Router ApiServer
begin

text \<open>
  The generated client, \<open>internal/api/oas_client_gen.go\<close>: build the URL and the query of an operation,
  send the request, decode the response. What is used of packages outside the repository is the record
  \<open>client_lib\<close>; the \<open>http.Client\<close> is the argument \<open>send\<close>, which may change the state \<open>'s\<close> of whoever
  answers. Traces and metrics are left out.
\<close>

record 'j client_lib =
  kl_wire :: "'j wire_lib"
  kl_AddPathParts :: "string \<Rightarrow> string \<Rightarrow> URL"
  kl_StringToString :: "string \<Rightarrow> string"
  kl_IntToString :: "int \<Rightarrow> string"
  kl_Float64ToString :: "float64 \<Rightarrow> string"
  kl_DateTimeToString :: "int \<Rightarrow> string"
  kl_EncodeQuery :: "(string \<times> string) list \<Rightarrow> error + string"
  kl_NewRequest :: "string \<Rightarrow> URL \<Rightarrow> string \<Rightarrow> error + request"
  kl_serverPath :: string

type_synonym 's transport = "request \<Rightarrow> 's \<Rightarrow> 's \<times> (error + response)"

subsection \<open>Sending\<close>

text \<open>A parameter that is not set encodes no value.\<close>

definition optional_query :: "string \<Rightarrow> ('a \<Rightarrow> string) \<Rightarrow> 'a option \<Rightarrow> (string \<times> string) list" where
  "optional_query name convert v = (case v of Some val \<Rightarrow> [(name, convert val)] | None \<Rightarrow> [])"

definition wrap_error :: "string \<Rightarrow> error + 'a \<Rightarrow> error + 'a" where
  "wrap_error m v = map_sum (ErrWrap m) id v"

definition send_request ::
  "'j client_lib \<Rightarrow> 's transport \<Rightarrow> string \<Rightarrow> (string \<times> string) list \<Rightarrow> (response \<Rightarrow> error + 'a) \<Rightarrow> 's \<Rightarrow>
   's \<times> (error + 'a)" where
  "send_request lib send path query decode s =
     (case wrap_error ''encode query'' (kl_EncodeQuery lib query) of
        Inl err \<Rightarrow> (s, Inl err)
      | Inr rawQuery \<Rightarrow>
          (case wrap_error ''create request''
                  (kl_NewRequest lib ''GET'' (kl_AddPathParts lib (kl_serverPath lib) path) rawQuery) of
             Inl err \<Rightarrow> (s, Inl err)
           | Inr r \<Rightarrow>
               (case send r s of
                  (s', Inl err) \<Rightarrow> (s', Inl (ErrWrap ''do request'' err))
                | (s', Inr resp) \<Rightarrow> (s', wrap_error ''decode response'' (decode resp)))))"

text \<open>Without parameters nothing is encoded: the query is that of the server URL, which has none.\<close>

definition send_plain ::
  "'j client_lib \<Rightarrow> 's transport \<Rightarrow> string \<Rightarrow> (response \<Rightarrow> error + 'a) \<Rightarrow> 's \<Rightarrow> 's \<times> (error + 'a)" where
  "send_plain lib send path decode s =
     (case wrap_error ''create request''
             (kl_NewRequest lib ''GET'' (kl_AddPathParts lib (kl_serverPath lib) path) []) of
        Inl err \<Rightarrow> (s, Inl err)
      | Inr r \<Rightarrow>
          (case send r s of
             (s', Inl err) \<Rightarrow> (s', Inl (ErrWrap ''do request'' err))
           | (s', Inr resp) \<Rightarrow> (s', wrap_error ''decode response'' (decode resp))))"

subsection \<open>The operations\<close>

definition queryGetDiff :: "'j client_lib \<Rightarrow> GetDiffParams \<Rightarrow> (string \<times> string) list" where
  "queryGetDiff lib params =
      [(''cluster'', kl_StringToString lib (dp_Cluster params)),
        (''group'', kl_StringToString lib (dp_Group params)),
        (''kind'', kl_StringToString lib (dp_Kind params))] @
      optional_query ''namespace'' (kl_StringToString lib) (dp_Namespace params) @
      [(''name'', kl_StringToString lib (dp_Name params)),
        (''from'', kl_StringToString lib (dp_From params)),
        (''to'', kl_StringToString lib (dp_To params))]"

definition sendGetDiff ::
  "'j client_lib \<Rightarrow> 's transport \<Rightarrow> GetDiffParams \<Rightarrow> 's \<Rightarrow> 's \<times> (error + GetDiffRes)" where
  "sendGetDiff lib send params s =
     send_request lib send ''/api/diff'' (queryGetDiff lib params) (decodeGetDiffResponse (kl_wire lib)) s"

definition queryGetHistory :: "'j client_lib \<Rightarrow> GetHistoryParams \<Rightarrow> (string \<times> string) list" where
  "queryGetHistory lib params =
      optional_query ''since'' (kl_DateTimeToString lib) (yp_Since params) @
      optional_query ''until'' (kl_DateTimeToString lib) (yp_Until params) @
      optional_query ''cluster'' (kl_StringToString lib) (yp_Cluster params) @
      optional_query ''group'' (kl_StringToString lib) (yp_Group params) @
      optional_query ''kind'' (kl_StringToString lib) (yp_Kind params) @
      optional_query ''namespace'' (kl_StringToString lib) (yp_Namespace params) @
      optional_query ''name'' (kl_StringToString lib) (yp_Name params) @
      optional_query ''changeType'' (kl_StringToString lib) (yp_ChangeType params) @
      optional_query ''limit'' (kl_IntToString lib) (yp_Limit params) @
      optional_query ''offset'' (kl_IntToString lib) (yp_Offset params)"

definition sendGetHistory ::
  "'j client_lib \<Rightarrow> 's transport \<Rightarrow> GetHistoryParams \<Rightarrow> 's \<Rightarrow> 's \<times> (error + HistoryPage)" where
  "sendGetHistory lib send params s =
     send_request lib send ''/api/history'' (queryGetHistory lib params) (decodeGetHistoryResponse (kl_wire lib)) s"

definition queryGetResource :: "'j client_lib \<Rightarrow> GetResourceParams \<Rightarrow> (string \<times> string) list" where
  "queryGetResource lib params =
      [(''cluster'', kl_StringToString lib (rp_Cluster params)),
        (''group'', kl_StringToString lib (rp_Group params)),
        (''kind'', kl_StringToString lib (rp_Kind params))] @
      optional_query ''namespace'' (kl_StringToString lib) (rp_Namespace params) @
      [(''name'', kl_StringToString lib (rp_Name params))]"

definition sendGetResource ::
  "'j client_lib \<Rightarrow> 's transport \<Rightarrow> GetResourceParams \<Rightarrow> 's \<Rightarrow> 's \<times> (error + GetResourceRes)" where
  "sendGetResource lib send params s =
     send_request lib send ''/api/resource'' (queryGetResource lib params) (decodeGetResourceResponse (kl_wire lib)) s"

definition queryGetSnapshot :: "'j client_lib \<Rightarrow> GetSnapshotParams \<Rightarrow> (string \<times> string) list" where
  "queryGetSnapshot lib params =
      optional_query ''datetime'' (kl_DateTimeToString lib) (np_Datetime params) @
      optional_query ''cluster'' (kl_StringToString lib) (np_Cluster params) @
      optional_query ''group'' (kl_StringToString lib) (np_Group params) @
      optional_query ''kind'' (kl_StringToString lib) (np_Kind params) @
      optional_query ''namespace'' (kl_StringToString lib) (np_Namespace params) @
      optional_query ''name'' (kl_StringToString lib) (np_Name params) @
      optional_query ''cel'' (kl_StringToString lib) (np_Cel params) @
      optional_query ''limit'' (kl_IntToString lib) (np_Limit params) @
      optional_query ''offset'' (kl_IntToString lib) (np_Offset params)"

definition sendGetSnapshot ::
  "'j client_lib \<Rightarrow> 's transport \<Rightarrow> GetSnapshotParams \<Rightarrow> 's \<Rightarrow> 's \<times> (error + GetSnapshotRes)" where
  "sendGetSnapshot lib send params s =
     send_request lib send ''/api/snapshot'' (queryGetSnapshot lib params) (decodeGetSnapshotResponse (kl_wire lib)) s"

definition sendGetStatus :: "'j client_lib \<Rightarrow> 's transport \<Rightarrow> 's \<Rightarrow> 's \<times> (error + StatusResponse)" where
  "sendGetStatus lib send s = send_plain lib send ''/api/status'' (decodeGetStatusResponse (kl_wire lib)) s"

definition queryGetVolatility :: "'j client_lib \<Rightarrow> GetVolatilityParams \<Rightarrow> (string \<times> string) list" where
  "queryGetVolatility lib params =
      optional_query ''cluster'' (kl_StringToString lib) (op_Cluster params) @
      optional_query ''group'' (kl_StringToString lib) (op_Group params) @
      optional_query ''kind'' (kl_StringToString lib) (op_Kind params) @
      optional_query ''namespace'' (kl_StringToString lib) (op_Namespace params) @
      optional_query ''name'' (kl_StringToString lib) (op_Name params) @
      optional_query ''commits'' (kl_IntToString lib) (op_Commits params) @
      optional_query ''threshold'' (kl_Float64ToString lib) (op_Threshold params) @
      optional_query ''limit'' (kl_IntToString lib) (op_Limit params) @
      optional_query ''offset'' (kl_IntToString lib) (op_Offset params)"

definition sendGetVolatility ::
  "'j client_lib \<Rightarrow> 's transport \<Rightarrow> GetVolatilityParams \<Rightarrow> 's \<Rightarrow> 's \<times> (error + VolatilityPage)" where
  "sendGetVolatility lib send params s =
     send_request lib send ''/api/volatility'' (queryGetVolatility lib params) (decodeGetVolatilityResponse (kl_wire lib)) s"

definition queryGetVolatilityFields :: "'j client_lib \<Rightarrow> GetVolatilityFieldsParams \<Rightarrow> (string \<times> string) list" where
  "queryGetVolatilityFields lib params =
      optional_query ''cluster'' (kl_StringToString lib) (fp_Cluster params) @
      [(''group'', kl_StringToString lib (fp_Group params)),
        (''kind'', kl_StringToString lib (fp_Kind params))] @
      optional_query ''namespace'' (kl_StringToString lib) (fp_Namespace params) @
      optional_query ''name'' (kl_StringToString lib) (fp_Name params) @
      optional_query ''commits'' (kl_IntToString lib) (fp_Commits params)"

definition sendGetVolatilityFields ::
  "'j client_lib \<Rightarrow> 's transport \<Rightarrow> GetVolatilityFieldsParams \<Rightarrow> 's \<Rightarrow> 's \<times> (error + GetVolatilityFieldsRes)" where
  "sendGetVolatilityFields lib send params s =
     send_request lib send ''/api/volatility/fields'' (queryGetVolatilityFields lib params) (decodeGetVolatilityFieldsResponse (kl_wire lib)) s"

definition sendHealthz :: "'j client_lib \<Rightarrow> 's transport \<Rightarrow> 's \<Rightarrow> 's \<times> (error + HealthzRes)" where
  "sendHealthz lib send s = send_plain lib send ''/healthz'' decodeHealthzResponse s"

definition sendListClusters :: "'j client_lib \<Rightarrow> 's transport \<Rightarrow> 's \<Rightarrow> 's \<times> (error + string list)" where
  "sendListClusters lib send s = send_plain lib send ''/api/clusters'' (decodeListClustersResponse (kl_wire lib)) s"

definition queryListGVKs :: "'j client_lib \<Rightarrow> ListGVKsParams \<Rightarrow> (string \<times> string) list" where
  "queryListGVKs lib params =
      optional_query ''cluster'' (kl_StringToString lib) (gp_Cluster params) @
      optional_query ''namespace'' (kl_StringToString lib) (gp_Namespace params)"

definition sendListGVKs ::
  "'j client_lib \<Rightarrow> 's transport \<Rightarrow> ListGVKsParams \<Rightarrow> 's \<Rightarrow> 's \<times> (error + ApiGVKInfo list)" where
  "sendListGVKs lib send params s =
     send_request lib send ''/api/gvks'' (queryListGVKs lib params) (decodeListGVKsResponse (kl_wire lib)) s"

definition queryListNamespaces :: "'j client_lib \<Rightarrow> ListNamespacesParams \<Rightarrow> (string \<times> string) list" where
  "queryListNamespaces lib params =
      optional_query ''cluster'' (kl_StringToString lib) (lp_Cluster params)"

definition sendListNamespaces ::
  "'j client_lib \<Rightarrow> 's transport \<Rightarrow> ListNamespacesParams \<Rightarrow> 's \<Rightarrow> 's \<times> (error + string list)" where
  "sendListNamespaces lib send params s =
     send_request lib send ''/api/namespaces'' (queryListNamespaces lib params) (decodeListNamespacesResponse (kl_wire lib)) s"

end
