(* ===== verification/JsonFacts.thy ===== *)
theory JsonFacts
  imports Json GoFloat
begin

text \<open>
  The JSON codecs of the REST types: the bit loop of the required-field check lists exactly the
  missing fields in order, and every \<open>Decode\<close> inverts its \<open>Encode\<close>.
\<close>

unbundle bit_operations_syntax

subsection \<open>The required-field check\<close>

lemma take_drop_filter:
  assumes "filter P xs = x # rest" "distinct xs"
  shows "length (takeWhile (\<lambda>y. \<not> P y) xs) < length xs"
    and "xs ! length (takeWhile (\<lambda>y. \<not> P y) xs) = x"
    and "filter (\<lambda>y. P y \<and> y \<noteq> x) xs = rest"
proof -
  obtain us vs where xs: "xs = us @ x # vs" "\<forall>u\<in>set us. \<not> P u" "P x" "rest = filter P vs"
    using assms(1) by (auto simp: filter_eq_Cons_iff)
  then have tw: "takeWhile (\<lambda>y. \<not> P y) xs = us" by simp
  show "length (takeWhile (\<lambda>y. \<not> P y) xs) < length xs"
    and "xs ! length (takeWhile (\<lambda>y. \<not> P y) xs) = x"
    unfolding tw using xs by simp_all
  have "x \<notin> set vs" using assms(2) xs by simp
  then have "filter (\<lambda>y. P y \<and> y \<noteq> x) vs = filter P vs"
    by (intro filter_cong) auto
  moreover have "filter (\<lambda>y. P y \<and> y \<noteq> x) us = []"
    using xs(2) by (simp add: filter_empty_conv)
  ultimately show "filter (\<lambda>y. P y \<and> y \<noteq> x) xs = rest"
    using xs by simp
qed

lemma missed_loop_filter:
  "filter (bit r) [0..<8] = is \<Longrightarrow> missed_loop names (length is) r = map (field_name names) is"
proof (induction "is" arbitrary: r)
  case (Cons i rest)
  note found = take_drop_filter [OF Cons.prems]
  have tz: "TrailingZeros8 r = i"
    using found(1,2) unfolding TrailingZeros8_def by simp
  have i: "i < 8" using Cons.prems by (metis Cons_eq_filterD atLeastLessThan_iff set_upt in_set_conv_decomp)
  have "bit (r AND NOT (push_bit i 1)) k \<longleftrightarrow> bit r k \<and> k \<noteq> i" if "k < 8" for k
    using that i by (auto simp: bit_simps)
  then have "filter (bit (r AND NOT (push_bit i 1))) [0..<8] = filter (\<lambda>k. bit r k \<and> k \<noteq> i) [0..<8]"
    by (intro filter_cong) auto
  also have "\<dots> = rest" using found(3) by simp
  finally show ?case using Cons.IH tz by (simp add: Let_def)
qed simp

lemma missing_fields_filter:
  "missing_fields names req bs =
     map (field_name names) (filter (\<lambda>i. bit req i \<and> \<not> bit bs i) [0..<8])"
proof -
  let ?r = "(bs AND req) XOR req"
  have bits: "filter (bit ?r) [0..<8] = filter (\<lambda>i. bit req i \<and> \<not> bit bs i) [0..<8]"
    by (intro filter_cong) (auto simp: bit_simps)
  show ?thesis
  proof (cases "?r = 0")
    case True
    then have "filter (bit ?r) [0..<8] = []" by simp
    then show ?thesis using True bits by (simp add: missing_fields_def Let_def)
  next
    case False
    then show ?thesis
      using missed_loop_filter [OF refl, where r = ?r and names = names] bits
      by (simp add: missing_fields_def Let_def OnesCount8_def)
  qed
qed

lemma bit_mark [simp]: "bit (mark i bs) k \<longleftrightarrow> k < 8 \<and> k = i \<or> bit bs k"
  by (auto simp: mark_def bit_simps)

lemma bits_8: "[0..<8] = [0, 1, 2, 3, 4, 5, 6, 7 :: nat]"
  by (simp add: upt_conv_Cons)

subsection \<open>What the encoder and the decoder promise\<close>

text \<open>
  A decoder reads back what the encoder wrote: texts of a set \<open>txt\<close> that holds all ASCII texts (Go
  strings that are not UTF-8 have no JSON form), 64-bit integers, floats that are numbers of 53 bits,
  instants of a set \<open>tms\<close> (the wire format keeps seconds), arrays and objects. A value that is not
  null does not look like one, and \<open>range\<close> visits every entry of a map once.
\<close>

definition is_ascii :: "string \<Rightarrow> bool" where
  "is_ascii s \<longleftrightarrow> (\<forall>c\<in>set s. of_char c < (128 :: nat))"

definition jx_ok :: "(string \<Rightarrow> bool) \<Rightarrow> (int \<Rightarrow> bool) \<Rightarrow> 'j jx \<Rightarrow> bool" where
  "jx_ok txt tms X \<longleftrightarrow>
     (\<forall>s. is_ascii s \<longrightarrow> txt s) \<and>
     (\<forall>s. txt s \<longrightarrow> jd_Str X (jx_Str X s) = Inr s \<and> \<not> jd_NextIsNull X (jx_Str X s)) \<and>
     (\<forall>n. is_goint n \<longrightarrow> jd_Int X (jx_Int X n) = Inr n) \<and>
     (\<forall>q. float64_of q = q \<longrightarrow> jd_Float64 X (jx_Float64 X (Finite q)) = Inr (Finite q)) \<and>
     (\<forall>t. tms t \<longrightarrow> jd_DateTime X (jx_DateTime X t) = Inr t \<and> \<not> jd_NextIsNull X (jx_DateTime X t)) \<and>
     jd_NextIsNull X (jx_Null X) \<and> jd_Null X (jx_Null X) = None \<and>
     (\<forall>js. jd_Arr X (jx_Arr X js) = Inr js) \<and>
     (\<forall>kvs. (\<forall>k\<in>fst ` set kvs. txt k) \<longrightarrow>
        jd_Obj X (jx_Obj X kvs) = Inr kvs \<and> \<not> jd_NextIsNull X (jx_Obj X kvs)) \<and>
     (\<forall>m. mset (jx_range X m) = mset m)"

text \<open>The values that have a JSON form.\<close>

fun ok_float :: "float64 \<Rightarrow> bool" where
  "ok_float (Finite q) \<longleftrightarrow> float64_of q = q"
| "ok_float _ \<longleftrightarrow> False"

definition ok_OptNil :: "('a \<Rightarrow> bool) \<Rightarrow> 'a OptNil \<Rightarrow> bool" where
  "ok_OptNil P opt \<longleftrightarrow> (case opt of Set v \<Rightarrow> P v | _ \<Rightarrow> True)"

definition ok_Labels :: "(string \<Rightarrow> bool) \<Rightarrow> string gmap \<Rightarrow> bool" where
  "ok_Labels txt m \<longleftrightarrow> gm_wf m \<and> (\<forall>(k, v)\<in>set m. txt k \<and> txt v)"

definition ok_ChangeEvent :: "(string \<Rightarrow> bool) \<Rightarrow> (int \<Rightarrow> bool) \<Rightarrow> ApiChangeEvent \<Rightarrow> bool" where
  "ok_ChangeEvent txt tms e \<longleftrightarrow> tms (ae_Timestamp e) \<and> txt (ae_Sha e) \<and> txt (ae_Cluster e) \<and>
     txt (ae_Group e) \<and> txt (ae_Kind e) \<and> txt (ae_Namespace e) \<and> txt (ae_Name e) \<and> txt (ae_ChangeType e)"

definition ok_HistoryPage :: "(string \<Rightarrow> bool) \<Rightarrow> (int \<Rightarrow> bool) \<Rightarrow> HistoryPage \<Rightarrow> bool" where
  "ok_HistoryPage txt tms p \<longleftrightarrow> (\<forall>e\<in>set (hp_Items p). ok_ChangeEvent txt tms e) \<and>
     is_goint (hp_Total p) \<and> is_goint (hp_Offset p) \<and> is_goint (hp_Limit p)"

definition ok_ClusterStatus :: "(string \<Rightarrow> bool) \<Rightarrow> (int \<Rightarrow> bool) \<Rightarrow> ApiClusterStatus \<Rightarrow> bool" where
  "ok_ClusterStatus txt tms s \<longleftrightarrow> txt (as_Name s) \<and> ok_OptNil tms (as_LastPullAt s) \<and>
     txt (as_LastPullErr s) \<and> is_goint (as_ResourceCount s)"

definition ok_SnapshotResource :: "(string \<Rightarrow> bool) \<Rightarrow> SnapshotResource \<Rightarrow> bool" where
  "ok_SnapshotResource txt r \<longleftrightarrow> txt (ar_Cluster r) \<and> txt (ar_Group r) \<and> txt (ar_Kind r) \<and>
     txt (ar_Name r) \<and> txt (ar_Namespace r) \<and> ok_OptNil (ok_Labels txt) (ar_Labels r) \<and>
     (case ar_CreationTimestamp r of Some v \<Rightarrow> txt v | None \<Rightarrow> True)"

definition ok_SnapshotPage :: "(string \<Rightarrow> bool) \<Rightarrow> (int \<Rightarrow> bool) \<Rightarrow> SnapshotPage \<Rightarrow> bool" where
  "ok_SnapshotPage txt tms p \<longleftrightarrow> (\<forall>r\<in>set (sp_Items p). ok_SnapshotResource txt r) \<and>
     is_goint (sp_Total p) \<and> is_goint (sp_Offset p) \<and> is_goint (sp_Limit p) \<and>
     ok_OptNil txt (sp_CommitSha p) \<and> ok_OptNil tms (sp_CommitTime p)"

definition ok_VolatilityEntry :: "(string \<Rightarrow> bool) \<Rightarrow> ApiVolatilityEntry \<Rightarrow> bool" where
  "ok_VolatilityEntry txt e \<longleftrightarrow> txt (av_Cluster e) \<and> txt (av_Group e) \<and> txt (av_Kind e) \<and>
     txt (av_Namespace e) \<and> txt (av_Name e) \<and> is_goint (av_Count e) \<and> is_goint (av_Total e) \<and>
     ok_float (av_Ratio e)"

definition ok_VolatilityPage :: "(string \<Rightarrow> bool) \<Rightarrow> VolatilityPage \<Rightarrow> bool" where
  "ok_VolatilityPage txt p \<longleftrightarrow> (\<forall>e\<in>set (vp_Items p). ok_VolatilityEntry txt e) \<and>
     is_goint (vp_Total p) \<and> is_goint (vp_Offset p) \<and> is_goint (vp_Limit p)"

definition ok_FieldEntry :: "(string \<Rightarrow> bool) \<Rightarrow> ApiFieldVolatilityEntry \<Rightarrow> bool" where
  "ok_FieldEntry txt e \<longleftrightarrow> txt (af_Field e) \<and> is_goint (af_Count e) \<and> is_goint (af_Total e) \<and>
     ok_float (af_Ratio e)"

definition ok_DiffResult :: "(string \<Rightarrow> bool) \<Rightarrow> ApiDiffResult \<Rightarrow> bool" where
  "ok_DiffResult txt d \<longleftrightarrow> txt (ad_Before d) \<and> txt (ad_After d)"

definition ok_GVKInfo :: "(string \<Rightarrow> bool) \<Rightarrow> ApiGVKInfo \<Rightarrow> bool" where
  "ok_GVKInfo txt g \<longleftrightarrow> txt (ag_Group g) \<and> txt (ag_Version g) \<and> txt (ag_Kind g)"

text \<open>A decoded label map lists its entries in the order in which the encoder ranged over them.\<close>

definition ordered :: "'j jx \<Rightarrow> SnapshotResource \<Rightarrow> SnapshotResource" where
  "ordered X r = r\<lparr>ar_Labels := map_OptNil (jx_range X) (ar_Labels r)\<rparr>"

definition ordered_page :: "'j jx \<Rightarrow> SnapshotPage \<Rightarrow> SnapshotPage" where
  "ordered_page X p = p\<lparr>sp_Items := map (ordered X) (sp_Items p)\<rparr>"

subsection \<open>Reading back\<close>

named_theorems codec

lemma jx_laws:
  assumes "jx_ok txt tms X"
  shows "\<And>s. is_ascii s \<Longrightarrow> txt s"
    and "\<And>s. txt s \<Longrightarrow> jd_Str X (jx_Str X s) = Inr s" "\<And>s. txt s \<Longrightarrow> \<not> jd_NextIsNull X (jx_Str X s)"
    and "\<And>n. is_goint n \<Longrightarrow> jd_Int X (jx_Int X n) = Inr n"
    and "\<And>x. ok_float x \<Longrightarrow> jd_Float64 X (jx_Float64 X x) = Inr x"
    and "\<And>t. tms t \<Longrightarrow> jd_DateTime X (jx_DateTime X t) = Inr t"
        "\<And>t. tms t \<Longrightarrow> \<not> jd_NextIsNull X (jx_DateTime X t)"
    and "jd_NextIsNull X (jx_Null X)" "jd_Null X (jx_Null X) = None"
    and "\<And>js. jd_Arr X (jx_Arr X js) = Inr js"
    and "\<And>kvs. \<forall>k\<in>fst ` set kvs. txt k \<Longrightarrow> jd_Obj X (jx_Obj X kvs) = Inr kvs"
        "\<And>kvs. \<forall>k\<in>fst ` set kvs. txt k \<Longrightarrow> \<not> jd_NextIsNull X (jx_Obj X kvs)"
    and "\<And>m. mset (jx_range X m) = mset m"
  using assms by (auto simp: jx_ok_def elim!: ok_float.elims(2))

lemma decode_elems_map:
  assumes "\<And>x. x \<in> set xs \<Longrightarrow> dec (enc x) = Inr (g x)"
  shows "decode_elems dec (map enc xs) = Inr (map g xs)"
  using assms by (induction xs) auto

lemma obj_loop_append:
  "obj_loop f (kvs @ kvs') st =
     (case obj_loop f kvs st of Inl err \<Rightarrow> Inl err | Inr st' \<Rightarrow> obj_loop f kvs' st')"
  by (induction f kvs st rule: obj_loop.induct) (auto split: sum.splits)

lemma Decode_OptNil_Null: "jx_ok txt tms X \<Longrightarrow> Decode_OptNil X dec (jx_Null X) = Inr Null"
  by (simp add: Decode_OptNil_def jx_laws)

lemma Decode_OptNil_Set:
  "\<not> jd_NextIsNull X j \<Longrightarrow> dec j = Inr v \<Longrightarrow> Decode_OptNil X dec j = Inr (Set v)"
  by (simp add: Decode_OptNil_def)

lemma missing_none:
  "(\<forall>i\<in>set [0..<8]. bit req i \<longrightarrow> bit bs i) \<Longrightarrow> missing_fields names req bs = []"
  by (simp add: missing_fields_filter filter_empty_conv)

text \<open>The labels.\<close>

lemma labels_loop:
  assumes "jx_ok txt tms X" "gm_wf (m' @ m)" "\<forall>(k, v)\<in>set m. txt v"
  shows "obj_loop (label_field X) (map (\<lambda>(k, elem). (k, jx_Str X elem)) m) m' = Inr (m' @ m)"
  using assms(2,3)
proof (induction m arbitrary: m')
  case (Cons kv m)
  obtain k v where kv: "kv = (k, v)" by (cases kv)
  have "k \<notin> set (gm_keys m')" using Cons.prems(1) kv by (auto simp: gm_wf_def gm_keys_def)
  then have "gm_put k v m' = m' @ [(k, v)]"
    by (induction m' rule: gm_put.induct) (auto simp: gm_keys_def)
  then show ?case
    using Cons.IH [of "m' @ [(k, v)]"] Cons.prems kv jx_laws(2) [OF assms(1)]
    by (simp add: label_field_def)
qed simp

lemma Decode_Labels_Encode:
  assumes X: "jx_ok txt tms X" and m: "ok_Labels txt m"
  shows "Decode_Labels X (Encode_Labels X m) = Inr (jx_range X m)"
    and "\<not> jd_NextIsNull X (Encode_Labels X m)"
proof -
  have same: "mset (jx_range X m) = mset m" by (rule jx_laws(13) [OF X])
  then have set: "set (jx_range X m) = set m" by (metis set_mset_mset)
  have "mset (map fst (jx_range X m)) = mset (map fst m)" using same by simp
  then have wf: "gm_wf (jx_range X m)"
    using m by (metis gm_wf_def ok_Labels_def gm_keys_def mset_eq_imp_distinct_iff)
  have keys: "\<forall>k\<in>fst ` set (map (\<lambda>(k, elem). (k, jx_Str X elem)) (jx_range X m)). txt k"
    using m set by (auto simp: ok_Labels_def)
  show "\<not> jd_NextIsNull X (Encode_Labels X m)"
    unfolding Encode_Labels_def by (rule jx_laws(12) [OF X keys])
  have "\<forall>(k, v)\<in>set (jx_range X m). txt v" using m set by (auto simp: ok_Labels_def)
  then show "Decode_Labels X (Encode_Labels X m) = Inr (jx_range X m)"
    using labels_loop [OF X, of "[]" "jx_range X m"] wf
    by (simp add: Decode_Labels_def Encode_Labels_def jx_laws(11) [OF X keys])
qed

text \<open>The structs: their fields are texts, and after the loop no required bit is missing.\<close>

lemmas struct_defs = decode_object_def required_field_def optional_field_def opt_nil_field_def
  opt_string_field_def decode_array_def

lemma Decode_ChangeEvent_Encode [codec]:
  assumes X: "jx_ok txt tms X" and e: "ok_ChangeEvent txt tms e"
  shows "Decode_ChangeEvent X (Encode_ChangeEvent X e) = Inr e"
  using e unfolding ok_ChangeEvent_def
  by (simp add: Decode_ChangeEvent_def Encode_ChangeEvent_def struct_defs jx_laws [OF X] is_ascii_def
      field_ChangeEvent_def Encode_ChangeType_def Decode_ChangeType_def missing_none bits_8 zero_ChangeEvent_def)

lemma Decode_DiffResult_Encode [codec]:
  assumes X: "jx_ok txt tms X" and ok: "ok_DiffResult txt d"
  shows "Decode_DiffResult X (Encode_DiffResult X d) = Inr d"
  using ok unfolding ok_DiffResult_def
  by (simp add: Decode_DiffResult_def Encode_DiffResult_def struct_defs jx_laws [OF X] is_ascii_def
      field_DiffResult_def missing_none bits_8 zero_DiffResult_def)

lemma Decode_GVKInfo_Encode [codec]:
  assumes X: "jx_ok txt tms X" and ok: "ok_GVKInfo txt g"
  shows "Decode_GVKInfo X (Encode_GVKInfo X g) = Inr g"
  using ok unfolding ok_GVKInfo_def
  by (simp add: Decode_GVKInfo_def Encode_GVKInfo_def struct_defs jx_laws [OF X] is_ascii_def
      field_GVKInfo_def missing_none bits_8 zero_GVKInfo_def)

lemma Decode_FieldVolatilityEntry_Encode [codec]:
  assumes X: "jx_ok txt tms X" and ok: "ok_FieldEntry txt e"
  shows "Decode_FieldVolatilityEntry X (Encode_FieldVolatilityEntry X e) = Inr e"
  using ok unfolding ok_FieldEntry_def
  by (simp add: Decode_FieldVolatilityEntry_def Encode_FieldVolatilityEntry_def struct_defs jx_laws [OF X] is_ascii_def
      field_FieldVolatilityEntry_def missing_none bits_8 zero_FieldVolatilityEntry_def)

lemma Decode_VolatilityEntry_Encode [codec]:
  assumes X: "jx_ok txt tms X" and ok: "ok_VolatilityEntry txt e"
  shows "Decode_VolatilityEntry X (Encode_VolatilityEntry X e) = Inr e"
  using ok unfolding ok_VolatilityEntry_def
  by (simp add: Decode_VolatilityEntry_def Encode_VolatilityEntry_def struct_defs jx_laws [OF X] is_ascii_def
      field_VolatilityEntry_def missing_none bits_8 zero_VolatilityEntry_def)

lemma Decode_VolatilityFields_Encode [codec]:
  assumes X: "jx_ok txt tms X" and ok: "\<forall>e\<in>set es. ok_FieldEntry txt e"
  shows "Decode_VolatilityFields X (Encode_VolatilityFields X es) = Inr es"
proof -
  have "decode_elems (Decode_FieldVolatilityEntry X) (map (Encode_FieldVolatilityEntry X) es) = Inr (map id es)"
    using ok by (intro decode_elems_map) (simp add: Decode_FieldVolatilityEntry_Encode [OF X])
  then show ?thesis
    by (simp add: Decode_VolatilityFields_def Encode_VolatilityFields_def decode_array_def jx_laws [OF X])
qed

lemma Decode_HistoryPage_Encode [codec]:
  assumes X: "jx_ok txt tms X" and ok: "ok_HistoryPage txt tms p"
  shows "Decode_HistoryPage X (Encode_HistoryPage X p) = Inr p"
proof -
  have "decode_elems (Decode_ChangeEvent X) (map (Encode_ChangeEvent X) (hp_Items p)) = Inr (map id (hp_Items p))"
    using ok by (intro decode_elems_map) (simp add: ok_HistoryPage_def Decode_ChangeEvent_Encode [OF X])
  then show ?thesis
    using ok unfolding ok_HistoryPage_def
    by (simp add: Decode_HistoryPage_def Encode_HistoryPage_def struct_defs jx_laws [OF X] is_ascii_def
      field_HistoryPage_def missing_none bits_8 zero_HistoryPage_def)
qed

lemma Decode_VolatilityPage_Encode [codec]:
  assumes X: "jx_ok txt tms X" and ok: "ok_VolatilityPage txt p"
  shows "Decode_VolatilityPage X (Encode_VolatilityPage X p) = Inr p"
proof -
  have "decode_elems (Decode_VolatilityEntry X) (map (Encode_VolatilityEntry X) (vp_Items p)) = Inr (map id (vp_Items p))"
    using ok by (intro decode_elems_map) (simp add: ok_VolatilityPage_def Decode_VolatilityEntry_Encode [OF X])
  then show ?thesis
    using ok unfolding ok_VolatilityPage_def
    by (simp add: Decode_VolatilityPage_def Encode_VolatilityPage_def struct_defs jx_laws [OF X] is_ascii_def
      field_VolatilityPage_def missing_none bits_8 zero_VolatilityPage_def)
qed

text \<open>With nullable fields there is one case for each of their three values.\<close>

lemma Decode_ClusterStatus_Encode [codec]:
  assumes X: "jx_ok txt tms X" and ok: "ok_ClusterStatus txt tms s"
  shows "Decode_ClusterStatus X (Encode_ClusterStatus X s) = Inr s"
  using ok unfolding ok_ClusterStatus_def ok_OptNil_def
  by (cases "as_LastPullAt s")
    (simp_all add: Decode_ClusterStatus_def Encode_ClusterStatus_def struct_defs jx_laws [OF X] is_ascii_def
      field_ClusterStatus_def missing_none bits_8 zero_ClusterStatus_def Decode_OptNil_def)

lemma Decode_StatusResponse_Encode [codec]:
  assumes X: "jx_ok txt tms X" and ok: "\<forall>c\<in>set (sx_Clusters s). ok_ClusterStatus txt tms c"
  shows "Decode_StatusResponse X (Encode_StatusResponse X s) = Inr s"
proof -
  have "decode_elems (Decode_ClusterStatus X) (map (Encode_ClusterStatus X) (sx_Clusters s)) =
      Inr (map id (sx_Clusters s))"
    using ok by (intro decode_elems_map) (simp add: Decode_ClusterStatus_Encode [OF X])
  then show ?thesis
    by (simp add: Decode_StatusResponse_def Encode_StatusResponse_def struct_defs jx_laws [OF X] is_ascii_def
        field_StatusResponse_def missing_none bits_8 zero_StatusResponse_def)
qed

lemma Decode_SnapshotResource_Encode [codec]:
  assumes X: "jx_ok txt tms X" and ok: "ok_SnapshotResource txt r"
  shows "Decode_SnapshotResource X (Encode_SnapshotResource X r) = Inr (ordered X r)"
  using ok unfolding ok_SnapshotResource_def ok_OptNil_def
  by (cases "ar_Labels r"; cases "ar_CreationTimestamp r")
    (simp_all add: Decode_SnapshotResource_def Encode_SnapshotResource_def struct_defs jx_laws [OF X] is_ascii_def
      field_SnapshotResource_def missing_none bits_8 zero_SnapshotResource_def Decode_OptNil_def
      Decode_Labels_Encode [OF X] Decode_OptString_def ordered_def)

lemma Decode_SnapshotPage_Encode [codec]:
  assumes X: "jx_ok txt tms X" and ok: "ok_SnapshotPage txt tms p"
  shows "Decode_SnapshotPage X (Encode_SnapshotPage X p) = Inr (ordered_page X p)"
proof -
  have "decode_elems (Decode_SnapshotResource X) (map (Encode_SnapshotResource X) (sp_Items p)) =
      Inr (map (ordered X) (sp_Items p))"
    using ok by (intro decode_elems_map) (simp add: ok_SnapshotPage_def Decode_SnapshotResource_Encode [OF X])
  then show ?thesis
    using ok unfolding ok_SnapshotPage_def ok_OptNil_def
    by (cases "sp_CommitSha p"; cases "sp_CommitTime p")
      (simp_all add: Decode_SnapshotPage_def Encode_SnapshotPage_def struct_defs jx_laws [OF X] is_ascii_def
        field_SnapshotPage_def missing_none bits_8 zero_SnapshotPage_def Decode_OptNil_def ordered_page_def)
qed

end
