(* ===== verification/ApiExample.thy ===== *)
theory ApiExample
  imports ApiClient JsonFacts QueryFacts "HOL-Library.Countable"
begin

text \<open>
  An instance of what the REST interface takes from packages outside the repository, for the examples:
  JSON values are trees, and whatever has to become a text is written in unary through the numbering
  of its countable type.
\<close>

instance float64 :: countable
  by countable_datatype

datatype json = JNull | JStr string | JInt int | JFloat float64 | JTime int | JArr "json list"
  | JObj "(string \<times> json) list"

instance json :: countable
  by countable_datatype

definition unary :: "'a::countable \<Rightarrow> string" where
  "unary x = replicate (to_nat x) (CHR ''1'')"

definition of_unary :: "string \<Rightarrow> 'a::countable" where
  "of_unary s = from_nat (length s)"

lemma of_unary_unary [simp]: "of_unary (unary x) = x"
  by (simp add: unary_def of_unary_def)

definition json_error :: error where
  "json_error = ErrText ''unexpected token''"

definition tree_jx :: "json jx" where
  "tree_jx =
     \<lparr>jx_Str = JStr, jx_Int = JInt, jx_Float64 = JFloat, jx_DateTime = JTime, jx_Null = JNull,
      jx_Arr = JArr, jx_Obj = JObj, jx_range = rev,
      jd_Str = (\<lambda>j. case j of JStr s \<Rightarrow> Inr s | _ \<Rightarrow> Inl json_error),
      jd_Int = (\<lambda>j. case j of JInt n \<Rightarrow> Inr n | _ \<Rightarrow> Inl json_error),
      jd_Float64 = (\<lambda>j. case j of JFloat x \<Rightarrow> Inr x | _ \<Rightarrow> Inl json_error),
      jd_DateTime = (\<lambda>j. case j of JTime t \<Rightarrow> Inr t | _ \<Rightarrow> Inl json_error),
      jd_NextIsNull = (\<lambda>j. j = JNull),
      jd_Null = (\<lambda>j. if j = JNull then None else Some json_error),
      jd_Arr = (\<lambda>j. case j of JArr js \<Rightarrow> Inr js | _ \<Rightarrow> Inl json_error),
      jd_Obj = (\<lambda>j. case j of JObj kvs \<Rightarrow> Inr kvs | _ \<Rightarrow> Inl json_error),
      jd_Skip = (\<lambda>_. None)\<rparr>"

lemma tree_jx_ok: "jx_ok (\<lambda>_. True) (\<lambda>_. True) tree_jx"
  by (simp add: jx_ok_def tree_jx_def)

definition example_wire :: "json wire_lib" where
  "example_wire =
     \<lparr>wl_jx = tree_jx, wl_WriteTo = unary, wl_DecodeBytes = of_unary, wl_AtEnd = (\<lambda>_. True),
      wl_ParseMediaType = (\<lambda>ct. Inr (takeWhile (\<lambda>c. c \<noteq> CHR '';'') ct)),
      wl_ValidateFloat = (\<lambda>x. case x of Finite _ \<Rightarrow> None | _ \<Rightarrow> Some (ErrText ''float''))\<rparr>"

definition query_of :: "string \<Rightarrow> uri_query" where
  "query_of raw =
     \<lparr>q_HasParam = (\<lambda>name. if map_of (of_unary raw) name = (None :: string option)
                           then Some (ErrText ''query parameter not set'') else None),
      q_DecodeValue = (\<lambda>name. Inr (the (map_of (of_unary raw) name)))\<rparr>"

definition example_params :: param_lib where
  "example_params =
     \<lparr>pm_ToString = Inr, pm_ToInt = (\<lambda>s. Inr (of_unary s)), pm_ToFloat64 = (\<lambda>s. Inr (of_unary s)),
      pm_ToDateTime = (\<lambda>s. Inr (of_unary s)),
      pm_ValidateFloat = (\<lambda>x. case x of Finite _ \<Rightarrow> None | _ \<Rightarrow> Some (ErrText ''float''))\<rparr>"

definition example_server_lib :: "json server_lib" where
  "example_server_lib =
     \<lparr>sl_wire = example_wire, sl_params = example_params, sl_NewQueryDecoder = query_of,
      sl_NormalizeEscapedPath = (\<lambda>_. None),
      sl_ErrorHandler = (\<lambda>e. case e of DecodeParamsError _ _ \<Rightarrow> status_only 400 | HandlerError _ \<Rightarrow> status_only 500),
      sl_NotFound = status_only 404, sl_Prefix = []\<rparr>"

definition example_client_lib :: "json client_lib" where
  "example_client_lib =
     \<lparr>kl_wire = example_wire, kl_AddPathParts = (\<lambda>base path. \<lparr>u_Path = base @ path, u_RawPath = []\<rparr>),
      kl_StringToString = id, kl_IntToString = unary, kl_Float64ToString = unary,
      kl_DateTimeToString = unary, kl_EncodeQuery = (\<lambda>kvs. Inr (unary kvs)),
      kl_NewRequest = (\<lambda>m u raw. Inr \<lparr>rq_Method = m, rq_URL = u, rq_RawQuery = raw\<rparr>),
      kl_serverPath = []\<rparr>"

end
