(* ===== verification/ApiFacts.thy ===== *)
theory ApiFacts
  imports ApiExample
begin

text \<open>
  The generated client and the generated server, put together: what a client call returns is what the
  handler answered. The lemmas follow a request: the query names each parameter once, the server reads
  the parameters back (with the defaults it sets), the router finds the operation, and the response is
  decoded to the handler's value.
\<close>

subsection \<open>What the libraries on both sides promise\<close>

definition reads :: "uri_query \<Rightarrow> (string \<times> string) list \<Rightarrow> bool" where
  "reads q kvs \<longleftrightarrow>
     (\<forall>name. case map_of kvs name of
        Some v \<Rightarrow> q_HasParam q name = None \<and> q_DecodeValue q name = Inr v
      | None \<Rightarrow> q_HasParam q name \<noteq> None)"

text \<open>A JSON text is read back as a whole, and the media type and the float check do their work.\<close>

definition wire_ok :: "(string \<Rightarrow> bool) \<Rightarrow> (int \<Rightarrow> bool) \<Rightarrow> 'j wire_lib \<Rightarrow> bool" where
  "wire_ok txt tms W \<longleftrightarrow> jx_ok txt tms (wl_jx W) \<and>
     (\<forall>j. wl_DecodeBytes W (wl_WriteTo W j) = j \<and> wl_AtEnd W (wl_WriteTo W j)) \<and>
     wl_ParseMediaType W json_type = Inr ''application/json'' \<and>
     wl_ParseMediaType W text_type = Inr ''text/plain'' \<and>
     (\<forall>x. ok_float x \<longrightarrow> wl_ValidateFloat W x = None)"

text \<open>
  Both sides use the same formats; a query that names every parameter once is read back; a request
  keeps its method, URL and query, and the server's prefix is the path of the client's base URL.
\<close>

definition http_ok ::
  "(string \<Rightarrow> bool) \<Rightarrow> (int \<Rightarrow> bool) \<Rightarrow> 'j client_lib \<Rightarrow> 'j server_lib \<Rightarrow> bool" where
  "http_ok txt tms C S \<longleftrightarrow>
     wire_ok txt tms (sl_wire S) \<and> kl_wire C = sl_wire S \<and> sl_Prefix S = kl_serverPath C \<and>
     (\<forall>kvs. distinct (map fst kvs) \<longrightarrow>
        (\<exists>raw. kl_EncodeQuery C kvs = Inr raw \<and> reads (sl_NewQueryDecoder S raw) kvs)) \<and>
     (\<forall>base path. kl_AddPathParts C base path = \<lparr>u_Path = base @ path, u_RawPath = []\<rparr>) \<and>
     (\<forall>m u raw. kl_NewRequest C m u raw = Inr \<lparr>rq_Method = m, rq_URL = u, rq_RawQuery = raw\<rparr>) \<and>
     (\<forall>s. pm_ToString (sl_params S) (kl_StringToString C s) = Inr s) \<and>
     (\<forall>n. is_goint n \<longrightarrow> pm_ToInt (sl_params S) (kl_IntToString C n) = Inr n) \<and>
     (\<forall>x. ok_float x \<longrightarrow> pm_ToFloat64 (sl_params S) (kl_Float64ToString C x) = Inr x \<and>
        pm_ValidateFloat (sl_params S) x = None) \<and>
     (\<forall>t. tms t \<longrightarrow> pm_ToDateTime (sl_params S) (kl_DateTimeToString C t) = Inr t)"

lemma http_laws:
  assumes "http_ok txt tms C S"
  shows "wire_ok txt tms (sl_wire S)" and "kl_wire C = sl_wire S" and "sl_Prefix S = kl_serverPath C"
    and "\<And>base path. kl_AddPathParts C base path = \<lparr>u_Path = base @ path, u_RawPath = []\<rparr>"
    and "\<And>m u raw. kl_NewRequest C m u raw = Inr \<lparr>rq_Method = m, rq_URL = u, rq_RawQuery = raw\<rparr>"
    and "\<And>s. pm_ToString (sl_params S) (kl_StringToString C s) = Inr s"
    and "\<And>n. is_goint n \<Longrightarrow> pm_ToInt (sl_params S) (kl_IntToString C n) = Inr n"
    and "\<And>x. ok_float x \<Longrightarrow> pm_ToFloat64 (sl_params S) (kl_Float64ToString C x) = Inr x"
        "\<And>x. ok_float x \<Longrightarrow> pm_ValidateFloat (sl_params S) x = None"
    and "\<And>t. tms t \<Longrightarrow> pm_ToDateTime (sl_params S) (kl_DateTimeToString C t) = Inr t"
  using assms by (auto simp: http_ok_def)

lemma http_query:
  assumes "http_ok txt tms C S" "distinct (map fst kvs)"
  obtains raw where "kl_EncodeQuery C kvs = Inr raw" "reads (sl_NewQueryDecoder S raw) kvs"
  using assms by (auto simp: http_ok_def)

subsection \<open>The query\<close>

lemma map_of_optional:
  "m \<noteq> n \<Longrightarrow> map_of (optional_query n c v @ rest) m = map_of rest m"
  "map_of rest n = None \<Longrightarrow> map_of (optional_query n c v @ rest) n = map_option c v"
  "m \<noteq> n \<Longrightarrow> map_of (optional_query n c v) m = None"
  "map_of (optional_query n c v) n = map_option c v"
  by (cases v; simp add: optional_query_def)+

lemma fst_optional: "m \<noteq> n \<Longrightarrow> m \<notin> fst ` set (optional_query n c v)"
  by (cases v) (simp_all add: optional_query_def)

lemma distinct_optional:
  "n \<notin> fst ` set rest \<Longrightarrow> distinct (map fst rest) \<Longrightarrow> distinct (map fst (optional_query n c v @ rest))"
  "distinct (map fst (optional_query n c v))"
  by (auto simp: optional_query_def split: option.splits)

text \<open>A parameter read from a query that holds it, or does not. \<open>param_value\<close> is what an optional
  parameter becomes, by what the query has under its name.\<close>

definition param_value ::
  "string \<Rightarrow> (string \<Rightarrow> error + 'a) \<Rightarrow> ('a \<Rightarrow> error option) \<Rightarrow> 'a option \<Rightarrow> string option \<Rightarrow> error + 'a option" where
  "param_value name convert check dflt w =
     (case w of
        None \<Rightarrow> Inr dflt
      | Some val \<Rightarrow>
          param_error name
            (ebind (convert val) (\<lambda>c. case check c of Some err \<Rightarrow> Inl err | None \<Rightarrow> Inr (Some c))))"

lemma reads_optional:
  assumes "reads q kvs"
  shows "optional_param q name convert check dflt = param_value name convert check dflt (map_of kvs name)"
  using assms [unfolded reads_def, rule_format, of name]
  by (auto simp: optional_param_def param_value_def split: option.splits)

lemma reads_required:
  assumes "reads q kvs" "map_of kvs name \<noteq> None"
  shows "required_param q name convert = param_error name (convert (the (map_of kvs name)))"
  using assms(1) [unfolded reads_def, rule_format, of name] assms(2)
  by (auto simp: required_param_def)

lemma param_value_sent:
  assumes "\<And>x. v = Some x \<Longrightarrow> convert (c x) = Inr x" "\<And>x. v = Some x \<Longrightarrow> check x = None"
  shows "param_value name convert check dflt (map_option c v) = Inr (if v = None then dflt else v)"
  using assms by (cases v) (auto simp: param_value_def param_error_def)

lemma if_sent: "(if v = None then None else v) = v"
  by simp

lemma or_default: "(if v = None then Some d else v) = Some (Or v d)"
  by (cases v) auto

lemma param_error_Inr: "param_error name (Inr x) = Inr x"
  by (simp add: param_error_def)

lemmas param_simps = map_of_optional if_sent param_value_sent or_default no_check_def param_error_Inr

lemma Or_Some_Or: "Or (Some (Or v d)) d' = Or v d"
  by simp

subsection \<open>The way through the server\<close>

text \<open>A transport that hands the request to the server; a panic of the handler ends the connection.\<close>

definition in_process :: "'j server_lib \<Rightarrow> query_env \<Rightarrow> 'r apiHandler transport" where
  "in_process S env r h =
     (case serve_request S env r h of
        (h', Ok resp) \<Rightarrow> (h', Inr resp)
      | (h', Err err) \<Rightarrow> (h', Inl err)
      | (h', Panic m) \<Rightarrow> (h', Inl (ErrText ''EOF'')))"

lemma route_sent:
  assumes "http_ok txt tms C S"
  shows "ServeHTTP (sl_NormalizeEscapedPath S) (sl_Prefix S) ''GET''
    (kl_AddPathParts C (kl_serverPath C) (operation_path op)) = Handle op False"
  unfolding ServeHTTP_walk walk_iff using http_laws(3,4) [OF assms]
  by (auto simp: serve_method_def request_path_def)

lemma routed:
  assumes "http_ok txt tms C S"
  shows "serve_request S env
       \<lparr>rq_Method = ''GET'', rq_URL = kl_AddPathParts C (kl_serverPath C) (operation_path op), rq_RawQuery = raw\<rparr> h =
     handle_operation S env
       \<lparr>rq_Method = ''GET'', rq_URL = kl_AddPathParts C (kl_serverPath C) (operation_path op), rq_RawQuery = raw\<rparr> h op"
  by (simp add: serve_request_def route_sent [OF assms])

lemma decode_json_ok:
  assumes "wire_ok txt tms W" "dec j = Inr x" "validate x = None"
  shows "decode_json W dec validate (json_ok W j) = Inr x"
  using assms by (simp add: decode_json_def json_ok_def header_def gm_get_def wire_ok_def)

lemma sent:
  assumes libs: "http_ok txt tms C S" and kvs: "distinct (map fst kvs)"
    and handled: "\<And>r. reads (sl_NewQueryDecoder S (rq_RawQuery r)) kvs \<Longrightarrow>
      handle_operation S env r h op = (h', Ok resp)"
    and decoded: "decode resp = Inr x"
  shows "send_request C (in_process S env) (operation_path op) kvs decode h = (h', Inr x)"
proof -
  obtain raw where raw: "kl_EncodeQuery C kvs = Inr raw" "reads (sl_NewQueryDecoder S raw) kvs"
    by (rule http_query [OF libs kvs])
  have "serve_request S env
      \<lparr>rq_Method = ''GET'', rq_URL = kl_AddPathParts C (kl_serverPath C) (operation_path op), rq_RawQuery = raw\<rparr> h =
      (h', Ok resp)"
    unfolding routed [OF libs] using raw(2) by (simp add: handled)
  then show ?thesis
    using raw(1) decoded
    by (simp add: send_request_def wrap_error_def in_process_def http_laws(5) [OF libs])
qed

subsection \<open>The parameters of each operation\<close>

text \<open>The instants, integers and floats that the parameters hold, and the struct the server reads: the
  parameters with the defaults filled in.\<close>

definition params_ok_GetSnapshot :: "(int \<Rightarrow> bool) \<Rightarrow> GetSnapshotParams \<Rightarrow> bool" where
  "params_ok_GetSnapshot tms p \<longleftrightarrow> (\<forall>t. np_Datetime p = Some t \<longrightarrow> tms t) \<and>
     (\<forall>n. np_Limit p = Some n \<longrightarrow> is_goint n) \<and>
     (\<forall>n. np_Offset p = Some n \<longrightarrow> is_goint n)"

lemma distinct_GetSnapshot: "distinct (map fst (queryGetSnapshot C params))"
  unfolding queryGetSnapshot_def
  by (intro distinct_optional) (simp_all add: image_Un fst_optional)

lemma decode_GetSnapshot:
  assumes libs: "http_ok txt tms C S" and ok: "params_ok_GetSnapshot tms params"
    and q: "reads q (queryGetSnapshot C params)"
  shows "decodeGetSnapshotParams (sl_params S) q =
    Inr (params\<lparr>np_Limit := Some (Or (np_Limit params) 50), np_Offset := Some (Or (np_Offset params) 0)\<rparr>)"
  using ok unfolding decodeGetSnapshotParams_def GetSnapshot_params reads_optional [OF q] params_ok_GetSnapshot_def
  by (simp add: queryGetSnapshot_def param_simps http_laws [OF libs] del: map_of_append)

definition params_ok_GetHistory :: "(int \<Rightarrow> bool) \<Rightarrow> GetHistoryParams \<Rightarrow> bool" where
  "params_ok_GetHistory tms p \<longleftrightarrow> (\<forall>t. yp_Since p = Some t \<longrightarrow> tms t) \<and>
     (\<forall>t. yp_Until p = Some t \<longrightarrow> tms t) \<and>
     (\<forall>ct. yp_ChangeType p = Some ct \<longrightarrow> Validate_ChangeType ct = None) \<and>
     (\<forall>n. yp_Limit p = Some n \<longrightarrow> is_goint n) \<and>
     (\<forall>n. yp_Offset p = Some n \<longrightarrow> is_goint n)"

lemma distinct_GetHistory: "distinct (map fst (queryGetHistory C params))"
  unfolding queryGetHistory_def
  by (intro distinct_optional) (simp_all add: image_Un fst_optional)

lemma decode_GetHistory:
  assumes libs: "http_ok txt tms C S" and ok: "params_ok_GetHistory tms params"
    and q: "reads q (queryGetHistory C params)"
  shows "decodeGetHistoryParams (sl_params S) q =
    Inr (params\<lparr>yp_Limit := Some (Or (yp_Limit params) 50), yp_Offset := Some (Or (yp_Offset params) 0)\<rparr>)"
  using ok unfolding decodeGetHistoryParams_def GetHistory_params reads_optional [OF q] params_ok_GetHistory_def
  by (simp add: queryGetHistory_def param_simps http_laws [OF libs] del: map_of_append)

definition params_ok_GetVolatility :: "(int \<Rightarrow> bool) \<Rightarrow> GetVolatilityParams \<Rightarrow> bool" where
  "params_ok_GetVolatility tms p \<longleftrightarrow> (\<forall>n. op_Commits p = Some n \<longrightarrow> is_goint n) \<and>
     (\<forall>x. op_Threshold p = Some x \<longrightarrow> ok_float x) \<and>
     (\<forall>n. op_Limit p = Some n \<longrightarrow> is_goint n) \<and>
     (\<forall>n. op_Offset p = Some n \<longrightarrow> is_goint n)"

lemma distinct_GetVolatility: "distinct (map fst (queryGetVolatility C params))"
  unfolding queryGetVolatility_def
  by (intro distinct_optional) (simp_all add: image_Un fst_optional)

lemma decode_GetVolatility:
  assumes libs: "http_ok txt tms C S" and ok: "params_ok_GetVolatility tms params"
    and q: "reads q (queryGetVolatility C params)"
  shows "decodeGetVolatilityParams (sl_params S) q =
    Inr (params\<lparr>op_Commits := Some (Or (op_Commits params) 50), op_Threshold := Some (Or (op_Threshold params) (Finite 0)), op_Limit := Some (Or (op_Limit params) 50), op_Offset := Some (Or (op_Offset params) 0)\<rparr>)"
  using ok unfolding decodeGetVolatilityParams_def GetVolatility_params reads_optional [OF q] params_ok_GetVolatility_def
  by (simp add: queryGetVolatility_def param_simps http_laws [OF libs] del: map_of_append)

definition params_ok_GetVolatilityFields :: "(int \<Rightarrow> bool) \<Rightarrow> GetVolatilityFieldsParams \<Rightarrow> bool" where
  "params_ok_GetVolatilityFields tms p \<longleftrightarrow> (\<forall>n. fp_Commits p = Some n \<longrightarrow> is_goint n)"

lemma distinct_GetVolatilityFields: "distinct (map fst (queryGetVolatilityFields C params))"
  unfolding queryGetVolatilityFields_def
  by (auto simp: optional_query_def split: option.splits)

lemma decode_GetVolatilityFields:
  assumes libs: "http_ok txt tms C S" and ok: "params_ok_GetVolatilityFields tms params"
    and q: "reads q (queryGetVolatilityFields C params)"
  shows "decodeGetVolatilityFieldsParams (sl_params S) q =
    Inr (params\<lparr>fp_Commits := Some (Or (fp_Commits params) 50)\<rparr>)"
  using ok unfolding decodeGetVolatilityFieldsParams_def GetVolatilityFields_params reads_optional [OF q] params_ok_GetVolatilityFields_def
  by (simp add: reads_required [OF q] queryGetVolatilityFields_def param_simps http_laws [OF libs] del: map_of_append)

lemma distinct_GetDiff: "distinct (map fst (queryGetDiff C params))"
  unfolding queryGetDiff_def
  by (auto simp: optional_query_def split: option.splits)

lemma decode_GetDiff:
  assumes libs: "http_ok txt tms C S"
    and q: "reads q (queryGetDiff C params)"
  shows "decodeGetDiffParams (sl_params S) q =
    Inr (params)"
  unfolding decodeGetDiffParams_def GetDiff_params reads_optional [OF q]
  by (simp add: reads_required [OF q] queryGetDiff_def param_simps http_laws [OF libs] del: map_of_append)

lemma distinct_GetResource: "distinct (map fst (queryGetResource C params))"
  unfolding queryGetResource_def
  by (auto simp: optional_query_def split: option.splits)

lemma decode_GetResource:
  assumes libs: "http_ok txt tms C S"
    and q: "reads q (queryGetResource C params)"
  shows "decodeGetResourceParams (sl_params S) q =
    Inr (params)"
  unfolding decodeGetResourceParams_def GetResource_params reads_optional [OF q]
  by (simp add: reads_required [OF q] queryGetResource_def param_simps http_laws [OF libs] del: map_of_append)

lemma distinct_ListGVKs: "distinct (map fst (queryListGVKs C params))"
  unfolding queryListGVKs_def
  by (intro distinct_optional) (simp_all add: image_Un fst_optional)

lemma decode_ListGVKs:
  assumes libs: "http_ok txt tms C S"
    and q: "reads q (queryListGVKs C params)"
  shows "decodeListGVKsParams (sl_params S) q =
    Inr (params)"
  unfolding decodeListGVKsParams_def reads_optional [OF q]
  by (simp add: queryListGVKs_def param_simps http_laws [OF libs] del: map_of_append)

lemma distinct_ListNamespaces: "distinct (map fst (queryListNamespaces C params))"
  unfolding queryListNamespaces_def
  by (rule distinct_optional(2))

lemma decode_ListNamespaces:
  assumes libs: "http_ok txt tms C S"
    and q: "reads q (queryListNamespaces C params)"
  shows "decodeListNamespacesParams (sl_params S) q =
    Inr (params)"
  unfolding decodeListNamespacesParams_def reads_optional [OF q]
  by (simp add: queryListNamespaces_def param_simps http_laws [OF libs] del: map_of_append)

subsection \<open>Calls\<close>

text \<open>Each call with parameters is one instance of \<open>sent\<close>: the handler sees the same values, because
  the defaults of the server are those of the handlers.\<close>

lemma json_answers:
  assumes "http_ok txt tms C S" "dec j = Inr x" "validate x = None"
  shows "decode_json (kl_wire C) dec validate (json_ok (sl_wire S) j) = Inr x"
  unfolding http_laws(2) [OF assms(1)]
  by (rule decode_json_ok [OF http_laws(1) [OF assms(1)]]) (rule assms(2), rule assms(3))

lemma jx_of_http: "http_ok txt tms C S \<Longrightarrow> jx_ok txt tms (wl_jx (sl_wire S))"
  using http_laws(1) by (auto simp: wire_ok_def)

text \<open>What the client returns for a snapshot: the labels of each resource in the order of the encoder.\<close>

fun client_snapshot :: "'j jx \<Rightarrow> GetSnapshotRes \<Rightarrow> GetSnapshotRes" where
  "client_snapshot X (SnapshotOK p) = SnapshotOK (ordered_page X p)"
| "client_snapshot X GetSnapshotBadRequest = GetSnapshotBadRequest"

lemma snapshot_answers:
  assumes "http_ok txt tms C S" "\<And>p. res = SnapshotOK p \<Longrightarrow> ok_SnapshotPage txt tms p"
  shows "decodeGetSnapshotResponse (kl_wire C) (encodeGetSnapshotResponse (sl_wire S) res) =
    Inr (client_snapshot (wl_jx (sl_wire S)) res)"
proof (cases res)
  case (SnapshotOK p)
  have "decode_json (kl_wire C) (Decode_SnapshotPage (wl_jx (kl_wire C))) no_check
      (json_ok (sl_wire S) (Encode_SnapshotPage (wl_jx (sl_wire S)) p)) = Inr (ordered_page (wl_jx (sl_wire S)) p)"
    using assms(2) [OF SnapshotOK] http_laws(2) [OF assms(1)]
    by (intro json_answers [OF assms(1)])
      (simp_all add: no_check_def Decode_SnapshotPage_Encode [OF jx_of_http [OF assms(1)]])
  then show ?thesis using SnapshotOK by (simp add: decodeGetSnapshotResponse_def json_ok_def)
qed (simp add: decodeGetSnapshotResponse_def status_only_def)

lemma history_answers:
  assumes "http_ok txt tms C S" "ok_HistoryPage txt tms p"
    and "\<forall>e\<in>set (hp_Items p). ae_ChangeType e \<in> set change_types"
  shows "decodeGetHistoryResponse (kl_wire C) (encodeGetHistoryResponse (sl_wire S) p) = Inr p"
proof -
  have "elem_failures Validate_ChangeEvent i es = []"
    if "\<forall>e\<in>set es. ae_ChangeType e \<in> set change_types" for i es
    using that by (induction Validate_ChangeEvent i es rule: elem_failures.induct)
      (auto simp: failure_of_def Validate_ChangeEvent_def invalid_if_def
        Validate_ChangeType_None [THEN iffD2])
  then have "Validate_HistoryPage p = None"
    using assms(3) by (simp add: Validate_HistoryPage_def invalid_if_def failure_of_def)
  then have "decode_json (kl_wire C) (Decode_HistoryPage (wl_jx (kl_wire C))) Validate_HistoryPage
      (json_ok (sl_wire S) (Encode_HistoryPage (wl_jx (sl_wire S)) p)) = Inr p"
    using assms(2) http_laws(2) [OF assms(1)]
    by (intro json_answers [OF assms(1)])
      (simp_all add: Decode_HistoryPage_Encode [OF jx_of_http [OF assms(1)]])
  then show ?thesis by (simp add: decodeGetHistoryResponse_def encodeGetHistoryResponse_def json_ok_def)
qed

text \<open>C14: A snapshot asked through the generated client is the one the handler answers: the router, the
  parameter decoding with its defaults, and the JSON form in both directions change nothing (but the
  order of the label maps). The handler sees the state of the server and may fill its program caches.\<close>

theorem client_snapshot_is_handlers:
  assumes "http_ok txt tms C S" and "params_ok_GetSnapshot tms params"
    and "api_GetSnapshot env h params = (h', Ok res)"
    and "\<And>p. res = SnapshotOK p \<Longrightarrow> ok_SnapshotPage txt tms p"
  shows "sendGetSnapshot C (in_process S env) params h =
    (h', Inr (client_snapshot (wl_jx (sl_wire S)) res))"
proof -
  let ?p = "params\<lparr>np_Limit := Some (Or (np_Limit params) 50), np_Offset := Some (Or (np_Offset params) 0)\<rparr>"
  have "api_GetSnapshot env h ?p = api_GetSnapshot env h params"
    by (simp add: api_GetSnapshot_def page_limit_def Let_def)
  then have handled: "handle_operation S env r h GetSnapshotOperation = (h', Ok (encodeGetSnapshotResponse (sl_wire S) res))"
    if "reads (sl_NewQueryDecoder S (rq_RawQuery r)) (queryGetSnapshot C params)" for r
    using decode_GetSnapshot [OF assms(1,2) that] assms(3)
    by (simp add: handleGetSnapshotRequest_def with_params_def respond_def)
  have "send_request C (in_process S env) (operation_path GetSnapshotOperation) (queryGetSnapshot C params)
      (decodeGetSnapshotResponse (kl_wire C)) h = (h', Inr (client_snapshot (wl_jx (sl_wire S)) res))"
    by (rule sent [OF assms(1) distinct_GetSnapshot], erule handled) (rule snapshot_answers [OF assms(1,4)])
  then show ?thesis by (simp add: sendGetSnapshot_def)
qed

text \<open>C15: The history asked through the generated client is the page the handler answers.\<close>

theorem client_history_is_handlers:
  assumes "http_ok txt tms C S" and "params_ok_GetHistory tms params"
    and "api_GetHistory env h params = Ok p" and "ok_HistoryPage txt tms p"
    and "\<forall>e\<in>set (hp_Items p). ae_ChangeType e \<in> set change_types"
  shows "sendGetHistory C (in_process S env) params h = (h, Inr p)"
proof -
  let ?p = "params\<lparr>yp_Limit := Some (Or (yp_Limit params) 50), yp_Offset := Some (Or (yp_Offset params) 0)\<rparr>"
  have "api_GetHistory env h ?p = api_GetHistory env h params"
    by (simp add: api_GetHistory_def page_limit_def Let_def)
  then have handled: "handle_operation S env r h GetHistoryOperation = (h, Ok (encodeGetHistoryResponse (sl_wire S) p))"
    if "reads (sl_NewQueryDecoder S (rq_RawQuery r)) (queryGetHistory C params)" for r
    using decode_GetHistory [OF assms(1,2) that] assms(3)
    by (simp add: handleGetHistoryRequest_def with_params_def respond_def)
  have "send_request C (in_process S env) (operation_path GetHistoryOperation) (queryGetHistory C params)
      (decodeGetHistoryResponse (kl_wire C)) h = (h, Inr (p))"
    by (rule sent [OF assms(1) distinct_GetHistory], erule handled) (rule history_answers [OF assms(1,4,5)])
  then show ?thesis by (simp add: sendGetHistory_def)
qed

subsection \<open>Requests that fail\<close>

lemma page_of_negative: "offset < 0 \<Longrightarrow> page_of xs offset limit = Panic ''slice bounds out of range''"
  by (simp add: page_of_def paginate_def Let_def go_slice_def split: if_splits)

lemma history_routed:
  assumes "rq_Method r = ''GET''" "request_path (sl_NormalizeEscapedPath S) (rq_URL r) = (sl_Prefix S @ ''/api/history'', esc)"
  shows "ServeHTTP (sl_NormalizeEscapedPath S) (sl_Prefix S) (rq_Method r) (rq_URL r) = Handle GetHistoryOperation esc"
  unfolding ServeHTTP_walk walk_iff using assms
  by (auto intro!: exI [of _ GetHistoryOperation] simp: serve_method_def)

lemma negative_offset_history:
  assumes "Or (yp_Offset params) 0 < 0" "queriers_ok (ah_q h) (Or (yp_Cluster params) [])"
  shows "api_GetHistory env h params = Panic ''slice bounds out of range''"
  by (simp add: api_GetHistory_def GetHistory_page [OF assms(2)] Let_def page_of_negative [OF assms(1)])

text \<open>No bound is checked on the way: a history request whose offset parameter is negative passes
  the parameter decoder, whatever else it asks for, and panics in the slice of the page.\<close>

theorem negative_offset_panics:
  assumes "rq_Method r = ''GET''" "request_path (sl_NormalizeEscapedPath S) (rq_URL r) = (sl_Prefix S @ ''/api/history'', esc)"
    and "decodeGetHistoryParams (sl_params S) (sl_NewQueryDecoder S (rq_RawQuery r)) = Inr params"
    and "Or (yp_Offset params) 0 < 0"
    and "queriers_ok (ah_q h) (Or (yp_Cluster params) [])"
  shows "serve_request S env r h = (h, Panic ''slice bounds out of range'')"
  using assms(3) history_routed [OF assms(1,2)] negative_offset_history [OF assms(4,5)]
  by (simp add: serve_request_def handleGetHistoryRequest_def with_params_def respond_def)

text \<open>The handlers do not agree on a cluster that is not configured: asking for a resource or a diff
  is answered 404, while the kinds, the namespaces, the snapshots (now, or at a time) and the history of
  such a cluster are empty successes.\<close>

theorem unknown_cluster_answers:
  assumes "c \<noteq> []" "gm_get (sv_clusters (ah_q h)) c = None" "c \<notin> set (sv_clusterNames (ah_q h))"
    and "slice_sort (qe_sort_events env)"
  shows "api_GetResource env h (rp\<lparr>rp_Cluster := c\<rparr>) = Ok GetResourceNotFound \<and>
    api_GetDiff h (dp\<lparr>dp_Cluster := c\<rparr>) = Ok GetDiffNotFound \<and>
    api_ListGVKs h (gp\<lparr>gp_Cluster := Some c\<rparr>) = Ok [] \<and>
    api_ListNamespaces h \<lparr>lp_Cluster = Some c\<rparr> = Ok [] \<and>
    api_GetSnapshot env h (np\<lparr>np_Cluster := Some c, np_Cel := None, np_Limit := None, np_Offset := None\<rparr>) =
      (h, Ok (SnapshotOK \<lparr>sp_Items = [], sp_Total = 0, sp_Offset = 0, sp_Limit = 50,
                          sp_CommitSha = Null, sp_CommitTime = Null\<rparr>)) \<and>
    api_GetHistory env h (yp\<lparr>yp_Cluster := Some c, yp_Limit := None, yp_Offset := None\<rparr>) =
      Ok \<lparr>hp_Items = [], hp_Total = 0, hp_Offset = 0, hp_Limit = 50\<rparr>"
proof -
  have none: "named (ah_q h) c = []" "resolve (ah_q h) c = []"
    using assms(1-3) by (auto simp: named_def resolve_def filter_empty_conv)
  have empty: "go_sort lt [] = []" "sort_Strings [] = []" for lt :: "GVKInfo \<Rightarrow> GVKInfo \<Rightarrow> bool"
    by (simp_all add: sort_Strings_def go_sort_def)
  have "mset (qe_sort_events env lt []) = mset []" for lt
    using assms(4) by (simp add: slice_sort_def)
  then have sort: "qe_sort_events env lt [] = []" for lt by simp
  show ?thesis
    using assms(1,2) none
    by (simp add: empty page_of_Ok goint_max_def api_GetResource_def GetResource_def api_GetDiff_def GetDiff_def api_ListGVKs_def ListGVKs_def
        api_ListNamespaces_def ListNamespaces_def api_GetSnapshot_def page_limit_def Let_def
        GetHistoricalSnapshot_def GetCurrentSnapshot_def historical_page_def current_page_def
        toSnapshotResources_def api_GetHistory_def GetHistory_def sort split: option.splits)
qed

subsection \<open>Missing fields\<close>

lemma obj_loop_bits:
  assumes step: "\<And>k j st st' i. f k j st = Inr st' \<Longrightarrow> bit (snd st') i \<longleftrightarrow> bit (snd st) i \<or> P k i"
    and loop: "obj_loop f kvs st = Inr st'"
  shows "bit (snd st') i \<longleftrightarrow> bit (snd st) i \<or> (\<exists>k\<in>fst ` set kvs. P k i)"
  using loop
proof (induction kvs arbitrary: st)
  case (Cons kv kvs)
  obtain k v where kv: "kv = (k, v)" by (cases kv)
  from Cons.prems obtain st1 where st1: "f k v st = Inr st1" "obj_loop f kvs st1 = Inr st'"
    by (auto simp: kv split: sum.splits)
  show ?case using Cons.IH [OF st1(2)] step [OF st1(1), of i] by (auto simp: kv)
qed simp

lemma field_SnapshotPage_bits:
  "field_SnapshotPage X k j st = Inr st' \<Longrightarrow>
     bit (snd st') i \<longleftrightarrow> bit (snd st) i \<or> i < 4 \<and> k = jsonFieldsNameOfSnapshotPage ! i"
  by (auto simp: field_SnapshotPage_def required_field_def optional_field_def skip_field_def
      jsonFieldsNameOfSnapshotPage_def less_Suc_eq numeral_eq_Suc nth_Cons' split: if_splits sum.splits option.splits)

text \<open>C33: A snapshot page whose fields all decode is accepted exactly when its four required fields are
  there, in any order and among any others; if not, the error lists the missing ones in the order of the
  struct. The byte of the code, its mask and the loop over its bits compute just that.\<close>

theorem Decode_SnapshotPage_missing:
  assumes "jd_Obj X j = Inr kvs"
    and "obj_loop (field_SnapshotPage X) kvs (zero_SnapshotPage, 0) = Inr (s, bs)"
  shows "Decode_SnapshotPage X j =
    (let missing = filter (\<lambda>name. name \<notin> fst ` set kvs) [''items'', ''total'', ''offset'', ''limit'']
     in if missing = [] then Inr s else Inl (FieldsRequired missing))"
proof -
  have "bit bs i \<longleftrightarrow> i < 4 \<and> jsonFieldsNameOfSnapshotPage ! i \<in> fst ` set kvs" for i
  proof -
    have "bit (snd (s, bs)) i \<longleftrightarrow> bit (snd (zero_SnapshotPage, 0 :: 8 word)) i \<or>
        (\<exists>k\<in>fst ` set kvs. i < 4 \<and> k = jsonFieldsNameOfSnapshotPage ! i)"
      by (rule obj_loop_bits [OF _ assms(2)]) (rule field_SnapshotPage_bits)
    then show ?thesis by auto
  qed
  then have "missing_fields jsonFieldsNameOfSnapshotPage 15 bs =
      filter (\<lambda>name. name \<notin> fst ` set kvs) [''items'', ''total'', ''offset'', ''limit'']"
    unfolding missing_fields_filter bits_8
    by (simp add: field_name_def jsonFieldsNameOfSnapshotPage_def)
  then show ?thesis
    using assms by (simp add: Decode_SnapshotPage_def decode_object_def Let_def)
qed

subsection \<open>Examples\<close>

lemma example_wire_ok: "wire_ok (\<lambda>_. True) (\<lambda>_. True) example_wire"
  by (auto simp: wire_ok_def example_wire_def tree_jx_ok json_type_def text_type_def elim!: ok_float.elims(2))

lemma example_http_ok: "http_ok (\<lambda>_. True) (\<lambda>_. True) example_client_lib example_server_lib"
proof -
  note example_wire_ok
  moreover have "reads (query_of (unary kvs)) kvs" for kvs
    by (auto simp: reads_def query_of_def split: option.splits)
  ultimately show ?thesis
    by (auto simp: http_ok_def example_client_lib_def example_server_lib_def example_params_def
        elim!: ok_float.elims(2))
qed

definition example_handler :: "unit apiHandler" where
  "example_handler = \<lparr>ah_states = [], ah_clusterNames = [], ah_q = viewer_server\<rparr>"

definition history_request :: GetHistoryParams where
  "history_request = \<lparr>yp_Since = None, yp_Until = None, yp_Cluster = None, yp_Group = Some ''apps'',
     yp_Kind = None, yp_Namespace = None, yp_Name = Some ''x'', yp_ChangeType = None, yp_Limit = None,
     yp_Offset = Some 1\<rparr>"

definition history_answer :: HistoryPage where
  "history_answer = \<lparr>hp_Items =
       [\<lparr>ae_Timestamp = 1, ae_Sha = ''a'', ae_Cluster = ''prod'', ae_Group = ''apps'', ae_Kind = ''Deployment'',
         ae_Namespace = ''ns'', ae_Name = ''x'', ae_ChangeType = ''modified''\<rparr>],
     hp_Total = 2, hp_Offset = 1, hp_Limit = 50\<rparr>"

definition snapshot_request :: GetSnapshotParams where
  "snapshot_request = \<lparr>np_Datetime = Some 100, np_Cluster = None, np_Group = None, np_Kind = None,
     np_Namespace = None, np_Name = None, np_Cel = None, np_Limit = Some (- 3), np_Offset = None\<rparr>"

definition snapshot_answer :: SnapshotPage where
  "snapshot_answer = \<lparr>sp_Items = map (\<lambda>c.
       \<lparr>ar_Cluster = c, ar_Group = ''core'', ar_Kind = ''Pod'', ar_Name = ''p1'', ar_Namespace = ''ns1'',
        ar_Labels = Null, ar_CreationTimestamp = None\<rparr>) [''prod'', ''dev''],
     sp_Total = 2, sp_Offset = 0, sp_Limit = 50, sp_CommitSha = Set ''b'', sp_CommitTime = Set 5\<rparr>"

lemma example_snapshot:
  "api_GetSnapshot viewer_env example_handler snapshot_request = (example_handler, Ok (SnapshotOK snapshot_answer))"
proof -
  have "snd (api_GetSnapshot viewer_env example_handler snapshot_request) = Ok (SnapshotOK snapshot_answer)"
    by code_simp
  moreover have "fst (api_GetSnapshot viewer_env example_handler snapshot_request) = example_handler"
    by (simp add: api_GetSnapshot_def snapshot_request_def Let_def)
  ultimately show ?thesis by (simp add: prod_eq_iff)
qed

theorem client_snapshot_is_handlers_witness:
  "sendGetSnapshot example_client_lib (in_process example_server_lib viewer_env) snapshot_request example_handler =
     (example_handler, Inr (SnapshotOK snapshot_answer))"
proof -
  have "params_ok_GetSnapshot (\<lambda>_. True) snapshot_request"
    by (simp add: params_ok_GetSnapshot_def snapshot_request_def is_goint_def goint_min_def goint_max_def)
  moreover have "ok_SnapshotPage (\<lambda>_. True) (\<lambda>_. True) snapshot_answer"
    by (simp add: ok_SnapshotPage_def ok_SnapshotResource_def ok_OptNil_def snapshot_answer_def is_goint_def
        goint_min_def goint_max_def)
  moreover have "ordered_page X snapshot_answer = snapshot_answer" for X :: "json jx"
    by (simp add: ordered_page_def ordered_def snapshot_answer_def)
  ultimately show ?thesis
    using client_snapshot_is_handlers [OF example_http_ok, of snapshot_request viewer_env example_handler
        example_handler "SnapshotOK snapshot_answer"] example_snapshot by simp
qed

theorem client_history_is_handlers_witness:
  "sendGetHistory example_client_lib (in_process example_server_lib viewer_env) history_request example_handler =
     (example_handler, Inr history_answer)"
proof (rule client_history_is_handlers [OF example_http_ok])
  show "params_ok_GetHistory (\<lambda>_. True) history_request"
    by (simp add: params_ok_GetHistory_def history_request_def is_goint_def goint_min_def goint_max_def)
  show "api_GetHistory viewer_env example_handler history_request = Ok history_answer"
    by code_simp
qed (simp_all add: history_answer_def ok_HistoryPage_def ok_ChangeEvent_def is_goint_def goint_min_def
    goint_max_def change_types_def)

theorem negative_offset_panics_witness:
  "serve_request example_server_lib viewer_env
     \<lparr>rq_Method = ''GET'', rq_URL = \<lparr>u_Path = ''/api/history'', u_RawPath = []\<rparr>,
      rq_RawQuery = unary [(''offset'', unary (- 1 :: int))]\<rparr> example_handler =
     (example_handler, Panic ''slice bounds out of range'')"
proof -
  let ?q = "\<lparr>yp_Since = None, yp_Until = None, yp_Cluster = None, yp_Group = None, yp_Kind = None,
     yp_Namespace = None, yp_Name = None, yp_ChangeType = None, yp_Limit = Some 50, yp_Offset = Some (- 1)\<rparr>"
  have "decodeGetHistoryParams (sl_params example_server_lib)
      (sl_NewQueryDecoder example_server_lib (unary [(''offset'', unary (- 1 :: int))])) = Inr ?q"
    by (simp add: decodeGetHistoryParams_def GetHistory_params example_server_lib_def query_of_def example_params_def
        optional_param_def param_error_def no_check_def)
  then show ?thesis
    using negative_offset_panics [where S = example_server_lib and esc = False and params = ?q and
        h = example_handler and env = viewer_env and
        r = "\<lparr>rq_Method = ''GET'', rq_URL = \<lparr>u_Path = ''/api/history'', u_RawPath = []\<rparr>,
          rq_RawQuery = unary [(''offset'', unary (- 1 :: int))]\<rparr>"] viewer_queriers_ok
    by (simp add: request_path_def example_handler_def example_server_lib_def)
qed

theorem unknown_cluster_answers_witness:
  "api_GetResource viewer_env example_handler
      \<lparr>rp_Cluster = ''lab'', rp_Group = [], rp_Kind = ''Pod'', rp_Namespace = None, rp_Name = ''p1''\<rparr> =
     Ok GetResourceNotFound \<and>
   api_ListGVKs example_handler \<lparr>gp_Cluster = Some ''lab'', gp_Namespace = None\<rparr> = Ok []"
proof -
  have "slice_sort (qe_sort_events viewer_env)"
    by (simp add: viewer_env_def sorts.slice_sort_axioms)
  moreover have "gm_get (sv_clusters (ah_q example_handler)) ''lab'' = None"
    "''lab'' \<notin> set (sv_clusterNames (ah_q example_handler))"
    by (simp_all add: example_handler_def viewer_server_def NewServer_def gm_get_def)
  ultimately show ?thesis
    using unknown_cluster_answers [of "''lab''" example_handler viewer_env
        "\<lparr>rp_Cluster = [], rp_Group = [], rp_Kind = ''Pod'', rp_Namespace = None, rp_Name = ''p1''\<rparr>"
        undefined "\<lparr>gp_Cluster = None, gp_Namespace = None\<rparr>"] by simp
qed

theorem Decode_SnapshotPage_missing_witness:
  "Decode_SnapshotPage tree_jx (JObj [(''limit'', JInt 5), (''next'', JNull), (''items'', JArr [])]) =
     Inl (FieldsRequired [''total'', ''offset''])"
proof -
  let ?kvs = "[(''limit'', JInt 5), (''next'', JNull), (''items'', JArr [])]"
  obtain st where "obj_loop (field_SnapshotPage tree_jx) ?kvs (zero_SnapshotPage, 0) = Inr st"
    by (simp add: field_SnapshotPage_def required_field_def skip_field_def decode_array_def tree_jx_def)
  then show ?thesis
    using Decode_SnapshotPage_missing [of tree_jx "JObj ?kvs" ?kvs "fst st" "snd st"]
    by (simp add: tree_jx_def)
qed

subsection \<open>What the client accepts\<close>

lemma failure_of_Nil: "failure_of name v = [] \<longleftrightarrow> v = None"
  by (simp add: failure_of_def split: option.split)

lemma invalid_if_None: "invalid_if fs = None \<longleftrightarrow> fs = []"
  by (simp add: invalid_if_def)

lemma elem_failures_Nil: "elem_failures v i xs = [] \<longleftrightarrow> list_all (\<lambda>x. v x = None) xs"
  by (induction xs arbitrary: i) (simp_all add: failure_of_Nil)

lemmas validated = invalid_if_None failure_of_Nil elem_failures_Nil Validate_ChangeType_None

lemma send_request_Inr:
  "snd (send_request C send path query decode s) = Inr x \<Longrightarrow> \<exists>resp. decode resp = Inr x"
  by (auto simp: send_request_def wrap_error_def map_sum_def split: sum.splits prod.splits)

lemma decode_json_Inr: "decode_json W dec validate resp = Inr x \<Longrightarrow> validate x = None"
  by (auto simp: decode_json_def split: sum.splits if_splits option.splits)

lemma ebind_Inr: "ebind v f = Inr y \<longleftrightarrow> (\<exists>x. v = Inr x \<and> f x = Inr y)"
  by (cases v) simp_all

lemma optional_param_checked:
  "optional_param q name convert check None = Inr (Some v) \<Longrightarrow> check v = None"
  by (auto simp: optional_param_def param_error_def ebind_Inr split: sum.splits option.splits)

text \<open>C35: Whatever answers at the other end, the values that pass the generated code have their types. A
  history page the client accepts holds only the three change types, a volatility page only ratios
  that the float check accepts; a history request the server accepts asks for one of the three change types or for none.\<close>

theorem accepted_values_are_typed:
  "(snd (sendGetHistory C send hp s) = Inr page \<longrightarrow> ae_ChangeType ` set (hp_Items page) \<subseteq> set change_types) \<and>
   (snd (sendGetVolatility C send' vp s') = Inr vpage \<longrightarrow>
      (\<forall>e \<in> set (vp_Items vpage). wl_ValidateFloat (kl_wire C) (av_Ratio e) = None)) \<and>
   (decodeGetHistoryParams L q = Inr params \<longrightarrow> set_option (yp_ChangeType params) \<subseteq> set change_types)"
proof (intro conjI impI)
  assume "snd (sendGetHistory C send hp s) = Inr page"
  then obtain resp where "decodeGetHistoryResponse (kl_wire C) resp = Inr page"
    using send_request_Inr unfolding sendGetHistory_def by metis
  then show "ae_ChangeType ` set (hp_Items page) \<subseteq> set change_types"
    by (auto simp: decodeGetHistoryResponse_def Validate_HistoryPage_def Validate_ChangeEvent_def validated list_all_iff
        dest!: decode_json_Inr split: if_splits)
next
  assume "snd (sendGetVolatility C send' vp s') = Inr vpage"
  then obtain resp where "decodeGetVolatilityResponse (kl_wire C) resp = Inr vpage"
    using send_request_Inr unfolding sendGetVolatility_def by metis
  then show "\<forall>e \<in> set (vp_Items vpage). wl_ValidateFloat (kl_wire C) (av_Ratio e) = None"
    by (auto simp: decodeGetVolatilityResponse_def Validate_VolatilityPage_def Validate_VolatilityEntry_def
        validate_ratio_def validated list_all_iff dest!: decode_json_Inr split: if_splits)
next
  assume "decodeGetHistoryParams L q = Inr params"
  then have "optional_param q ''changeType'' (pm_ToString L) Validate_ChangeType None = Inr (yp_ChangeType params)"
    by (auto simp: decodeGetHistoryParams_def GetHistory_params ebind_Inr)
  then show "set_option (yp_ChangeType params) \<subseteq> set change_types"
    using optional_param_checked by (cases "yp_ChangeType params") (fastforce simp: Validate_ChangeType_None)+
qed

text \<open>Three values that pass: a history page, a volatility page and the change type of a request.\<close>

definition always :: "response \<Rightarrow> unit transport" where
  "always resp = (\<lambda>r s. (s, Inr resp))"

lemma send_always:
  "send_request example_client_lib (always resp) path query decode s = (s, wrap_error ''decode response'' (decode resp))"
  by (simp add: send_request_def wrap_error_def always_def example_client_lib_def)

definition volatility_answer :: VolatilityPage where
  "volatility_answer = \<lparr>vp_Items =
       [\<lparr>av_Cluster = ''prod'', av_Group = ''apps'', av_Kind = ''Deployment'', av_Namespace = ''ns'', av_Name = ''x'',
         av_Count = 2, av_Total = 2, av_Ratio = Finite 1\<rparr>],
     vp_Total = 1, vp_Offset = 0, vp_Limit = 50\<rparr>"

definition volatility_request :: GetVolatilityParams where
  "volatility_request = \<lparr>op_Cluster = None, op_Group = None, op_Kind = None, op_Namespace = None, op_Name = None,
     op_Commits = None, op_Threshold = None, op_Limit = None, op_Offset = None\<rparr>"

lemma always_history:
  "sendGetHistory example_client_lib (always (encodeGetHistoryResponse example_wire history_answer)) history_request () =
     ((), Inr history_answer)"
proof -
  have "decodeGetHistoryResponse (kl_wire example_client_lib)
      (encodeGetHistoryResponse (sl_wire example_server_lib) history_answer) = Inr history_answer"
    by (rule history_answers [OF example_http_ok])
      (simp_all add: history_answer_def ok_HistoryPage_def ok_ChangeEvent_def is_goint_def goint_min_def
        goint_max_def change_types_def)
  then show ?thesis by (simp add: sendGetHistory_def send_always wrap_error_def example_server_lib_def)
qed

lemma always_volatility:
  "sendGetVolatility example_client_lib (always (encodeGetVolatilityResponse example_wire volatility_answer))
     volatility_request () =
     ((), Inr volatility_answer)"
proof -
  have "Decode_VolatilityPage tree_jx (Encode_VolatilityPage tree_jx volatility_answer) = Inr volatility_answer"
    by (rule Decode_VolatilityPage_Encode [OF tree_jx_ok])
      (simp add: volatility_answer_def ok_VolatilityPage_def ok_VolatilityEntry_def is_goint_def goint_min_def goint_max_def
        float64_of_exact)
  then have "decode_json example_wire (Decode_VolatilityPage tree_jx) (Validate_VolatilityPage example_wire)
      (json_ok example_wire (Encode_VolatilityPage tree_jx volatility_answer)) = Inr volatility_answer"
    by (intro decode_json_ok [OF example_wire_ok])
      (simp_all add: example_wire_def volatility_answer_def Validate_VolatilityPage_def
        Validate_VolatilityEntry_def validate_ratio_def validated)
  moreover have "kl_wire example_client_lib = example_wire" "wl_jx example_wire = tree_jx"
    by (simp_all add: example_client_lib_def example_wire_def)
  ultimately show ?thesis
    by (simp add: sendGetVolatility_def send_always wrap_error_def decodeGetVolatilityResponse_def
        encodeGetVolatilityResponse_def) (simp add: json_ok_def)
qed

theorem accepted_values_are_typed_witness:
  "ae_ChangeType ` set (hp_Items history_answer) \<subseteq> {''added'', ''modified'', ''deleted''} \<and>
   map (\<lambda>e. wl_ValidateFloat example_wire (av_Ratio e)) (vp_Items volatility_answer) = [None] \<and>
   set_option (Some ''added'') \<subseteq> set change_types"
proof -
  let ?q = "\<lparr>yp_Since = None, yp_Until = None, yp_Cluster = None, yp_Group = None, yp_Kind = None,
     yp_Namespace = None, yp_Name = None, yp_ChangeType = Some ''added'', yp_Limit = Some 50, yp_Offset = Some 0\<rparr>"
  have "decodeGetHistoryParams example_params (query_of (unary [(''changeType'', ''added'')])) = Inr ?q"
    by (simp add: decodeGetHistoryParams_def GetHistory_params query_of_def example_params_def optional_param_def param_error_def
        no_check_def Validate_ChangeType_def)
  then show ?thesis
    using always_history always_volatility
      accepted_values_are_typed [where C = example_client_lib and page = history_answer and vpage = volatility_answer and
        hp = history_request and vp = volatility_request and s = "()" and s' = "()" and L = example_params and params = ?q and
        send = "always (encodeGetHistoryResponse example_wire history_answer)" and
        send' = "always (encodeGetVolatilityResponse example_wire volatility_answer)" and
        q = "query_of (unary [(''changeType'', ''added'')])"]
    by (simp add: change_types_def example_client_lib_def volatility_answer_def)
qed

end
