(* ===== verification/ApiConfig.thy ===== *)
theory ApiConfig
  imports ApiFacts
begin

text \<open>
  How the generated server and client are put together: the configurations and options of
  \<open>internal/api/oas_cfg_gen.go\<close>, \<open>NewServer\<close> of \<open>oas_server_gen.go\<close> and \<open>NewClient\<close> of
  \<open>oas_client_gen.go\<close>. An option is a function on the configuration, applied in the order it is given.
  The OpenTelemetry objects belong to packages outside the repository: they are values of a type \<open>'o\<close>, and
  what creates them is the record \<open>otel_lib\<close>. A middleware is a value of \<open>'w\<close>, an HTTP client one of \<open>'c\<close>.
\<close>

subsection \<open>OpenTelemetry\<close>

record 'o otelConfig =
  ot_TracerProvider :: "'o option"
  ot_Tracer :: "'o option"
  ot_MeterProvider :: "'o option"
  ot_Meter :: "'o option"
  ot_Attributes :: "(string \<times> string) list"

record 'o otel_lib =
  ol_GetTracerProvider :: 'o
  ol_GetMeterProvider :: 'o
  ol_Tracer :: "'o \<Rightarrow> 'o"
  ol_Meter :: "'o \<Rightarrow> 'o"
  ol_ServerRequestCountCounter :: "'o option \<Rightarrow> error + 'o"
  ol_ServerErrorsCountCounter :: "'o option \<Rightarrow> error + 'o"
  ol_ServerDurationHistogram :: "'o option \<Rightarrow> error + 'o"
  ol_ClientRequestCountCounter :: "'o option \<Rightarrow> error + 'o"
  ol_ClientErrorsCountCounter :: "'o option \<Rightarrow> error + 'o"
  ol_ClientDurationHistogram :: "'o option \<Rightarrow> error + 'o"

definition no_otel :: "'o otelConfig" where
  "no_otel = \<lparr>ot_TracerProvider = None, ot_Tracer = None, ot_MeterProvider = None, ot_Meter = None, ot_Attributes = []\<rparr>"

definition initOTEL :: "'o otel_lib \<Rightarrow> 'o otelConfig \<Rightarrow> 'o otelConfig" where
  "initOTEL T cfg =
     (let tp = (case ot_TracerProvider cfg of None \<Rightarrow> ol_GetTracerProvider T | Some p \<Rightarrow> p);
          mp = (case ot_MeterProvider cfg of None \<Rightarrow> ol_GetMeterProvider T | Some p \<Rightarrow> p)
      in cfg\<lparr>ot_TracerProvider := Some tp, ot_Tracer := Some (ol_Tracer T tp),
             ot_MeterProvider := Some mp, ot_Meter := Some (ol_Meter T mp)\<rparr>)"

text \<open>The options both sides have; a nil provider changes nothing.\<close>

definition WithTracerProvider :: "'o option \<Rightarrow> 'o otelConfig \<Rightarrow> 'o otelConfig" where
  "WithTracerProvider provider cfg =
     (case provider of Some p \<Rightarrow> cfg\<lparr>ot_TracerProvider := Some p\<rparr> | None \<Rightarrow> cfg)"

definition WithMeterProvider :: "'o option \<Rightarrow> 'o otelConfig \<Rightarrow> 'o otelConfig" where
  "WithMeterProvider provider cfg =
     (case provider of Some p \<Rightarrow> cfg\<lparr>ot_MeterProvider := Some p\<rparr> | None \<Rightarrow> cfg)"

definition WithAttributes :: "(string \<times> string) list \<Rightarrow> 'o otelConfig \<Rightarrow> 'o otelConfig" where
  "WithAttributes attributes cfg = cfg\<lparr>ot_Attributes := attributes\<rparr>"

subsection \<open>The server\<close>

text \<open>The configured handlers are what they answer to a request.\<close>

record ('o, 'w) serverConfig =
  sg_otel :: "'o otelConfig"
  sg_NotFound :: "request \<Rightarrow> response"
  sg_MethodNotAllowed :: "(request \<Rightarrow> string \<Rightarrow> response) option"
  sg_ErrorHandler :: "request \<Rightarrow> api_error \<Rightarrow> response"
  sg_Prefix :: string
  sg_Middleware :: "'w option"
  sg_MaxMultipartMemory :: int

type_synonym ('o, 'w) ServerOption = "('o, 'w) serverConfig \<Rightarrow> ('o, 'w) serverConfig"

definition applyServer_otel :: "('o otelConfig \<Rightarrow> 'o otelConfig) \<Rightarrow> ('o, 'w) ServerOption" where
  "applyServer_otel f cfg = cfg\<lparr>sg_otel := f (sg_otel cfg)\<rparr>"

definition WithNotFound :: "(request \<Rightarrow> response) option \<Rightarrow> ('o, 'w) ServerOption" where
  "WithNotFound notFound cfg = (case notFound of Some f \<Rightarrow> cfg\<lparr>sg_NotFound := f\<rparr> | None \<Rightarrow> cfg)"

definition WithMethodNotAllowed :: "(request \<Rightarrow> string \<Rightarrow> response) option \<Rightarrow> ('o, 'w) ServerOption" where
  "WithMethodNotAllowed methodNotAllowed cfg =
     (case methodNotAllowed of Some f \<Rightarrow> cfg\<lparr>sg_MethodNotAllowed := Some f\<rparr> | None \<Rightarrow> cfg)"

definition WithErrorHandler :: "(request \<Rightarrow> api_error \<Rightarrow> response) option \<Rightarrow> ('o, 'w) ServerOption" where
  "WithErrorHandler h cfg = (case h of Some f \<Rightarrow> cfg\<lparr>sg_ErrorHandler := f\<rparr> | None \<Rightarrow> cfg)"

definition WithPathPrefix :: "string \<Rightarrow> ('o, 'w) ServerOption" where
  "WithPathPrefix pfx cfg = cfg\<lparr>sg_Prefix := pfx\<rparr>"

definition WithMiddleware :: "('w list \<Rightarrow> 'w) \<Rightarrow> 'w list \<Rightarrow> ('o, 'w) ServerOption" where
  "WithMiddleware ChainMiddlewares m cfg =
     cfg\<lparr>sg_Middleware := (case m of [] \<Rightarrow> None | [x] \<Rightarrow> Some x | _ \<Rightarrow> Some (ChainMiddlewares m))\<rparr>"

definition WithMaxMultipartMemory :: "int \<Rightarrow> ('o, 'w) ServerOption" where
  "WithMaxMultipartMemory n cfg = (if n > 0 then cfg\<lparr>sg_MaxMultipartMemory := n\<rparr> else cfg)"

definition newServerConfig ::
  "'o otel_lib \<Rightarrow> (request \<Rightarrow> response) \<Rightarrow> (request \<Rightarrow> api_error \<Rightarrow> response) \<Rightarrow> ('o, 'w) ServerOption list \<Rightarrow>
   ('o, 'w) serverConfig" where
  "newServerConfig T http_NotFound DefaultErrorHandler opts =
     applyServer_otel (initOTEL T)
       (foldl (\<lambda>cfg opt. opt cfg)
          \<lparr>sg_otel = no_otel, sg_NotFound = http_NotFound, sg_MethodNotAllowed = None,
           sg_ErrorHandler = DefaultErrorHandler, sg_Prefix = [], sg_Middleware = None,
           sg_MaxMultipartMemory = push_bit 20 32\<rparr> opts)"

record ('o, 'w) baseServer =
  gs_cfg :: "('o, 'w) serverConfig"
  gs_requests :: 'o
  gs_errors :: 'o
  gs_duration :: 'o

definition serverConfig_baseServer ::
  "'o otel_lib \<Rightarrow> ('o, 'w) serverConfig \<Rightarrow> error + ('o, 'w) baseServer" where
  "serverConfig_baseServer T cfg =
     (let m = ot_Meter (sg_otel cfg)
      in ebind (ol_ServerRequestCountCounter T m) (\<lambda>requests.
         ebind (ol_ServerErrorsCountCounter T m) (\<lambda>errors.
         ebind (ol_ServerDurationHistogram T m) (\<lambda>duration.
           Inr \<lparr>gs_cfg = cfg, gs_requests = requests, gs_errors = errors, gs_duration = duration\<rparr>))))"

record ('o, 'w, 'h) api_server =
  as_h :: 'h
  as_base :: "('o, 'w) baseServer"

definition newAPIServer ::
  "'o otel_lib \<Rightarrow> (request \<Rightarrow> response) \<Rightarrow> (request \<Rightarrow> api_error \<Rightarrow> response) \<Rightarrow> 'h \<Rightarrow> ('o, 'w) ServerOption list \<Rightarrow>
   error + ('o, 'w, 'h) api_server" where
  "newAPIServer T http_NotFound DefaultErrorHandler h opts =
     ebind (serverConfig_baseServer T (newServerConfig T http_NotFound DefaultErrorHandler opts)) (\<lambda>s.
       Inr \<lparr>as_h = h, as_base = s\<rparr>)"

text \<open>The library of a configured server, as a request sees it.\<close>

definition configured_server :: "('o, 'w) serverConfig \<Rightarrow> request \<Rightarrow> 'j server_lib \<Rightarrow> 'j server_lib" where
  "configured_server cfg r lib =
     lib\<lparr>sl_NotFound := sg_NotFound cfg r, sl_ErrorHandler := sg_ErrorHandler cfg r, sl_Prefix := sg_Prefix cfg\<rparr>"

subsection \<open>The client\<close>

record ('o, 'c) clientConfig =
  cg_otel :: "'o otelConfig"
  cg_Client :: 'c

type_synonym ('o, 'c) ClientOption = "('o, 'c) clientConfig \<Rightarrow> ('o, 'c) clientConfig"

definition applyClient_otel :: "('o otelConfig \<Rightarrow> 'o otelConfig) \<Rightarrow> ('o, 'c) ClientOption" where
  "applyClient_otel f cfg = cfg\<lparr>cg_otel := f (cg_otel cfg)\<rparr>"

definition WithClient :: "'c option \<Rightarrow> ('o, 'c) ClientOption" where
  "WithClient client cfg = (case client of Some c \<Rightarrow> cfg\<lparr>cg_Client := c\<rparr> | None \<Rightarrow> cfg)"

definition newClientConfig ::
  "'o otel_lib \<Rightarrow> 'c \<Rightarrow> ('o, 'c) ClientOption list \<Rightarrow> ('o, 'c) clientConfig" where
  "newClientConfig T DefaultClient opts =
     applyClient_otel (initOTEL T)
       (foldl (\<lambda>cfg opt. opt cfg) \<lparr>cg_otel = no_otel, cg_Client = DefaultClient\<rparr> opts)"

record ('o, 'c) baseClient =
  gc_cfg :: "('o, 'c) clientConfig"
  gc_requests :: 'o
  gc_errors :: 'o
  gc_duration :: 'o

definition clientConfig_baseClient ::
  "'o otel_lib \<Rightarrow> ('o, 'c) clientConfig \<Rightarrow> error + ('o, 'c) baseClient" where
  "clientConfig_baseClient T cfg =
     (let m = ot_Meter (cg_otel cfg)
      in ebind (ol_ClientRequestCountCounter T m) (\<lambda>requests.
         ebind (ol_ClientErrorsCountCounter T m) (\<lambda>errors.
         ebind (ol_ClientDurationHistogram T m) (\<lambda>duration.
           Inr \<lparr>gc_cfg = cfg, gc_requests = requests, gc_errors = errors, gc_duration = duration\<rparr>))))"

definition trimTrailingSlashes :: "URL \<Rightarrow> URL" where
  "trimTrailingSlashes u =
     u\<lparr>u_Path := TrimRightBy (\<lambda>c. c = SLASH) (u_Path u), u_RawPath := TrimRightBy (\<lambda>c. c = SLASH) (u_RawPath u)\<rparr>"

record ('o, 'c) api_client =
  ac_serverURL :: URL
  ac_base :: "('o, 'c) baseClient"

definition NewClient ::
  "'o otel_lib \<Rightarrow> 'c \<Rightarrow> (string \<Rightarrow> error + URL) \<Rightarrow> string \<Rightarrow> ('o, 'c) ClientOption list \<Rightarrow>
   error + ('o, 'c) api_client" where
  "NewClient T DefaultClient Parse serverURL opts =
     ebind (Parse serverURL) (\<lambda>u.
     ebind (clientConfig_baseClient T (newClientConfig T DefaultClient opts)) (\<lambda>c.
       Inr \<lparr>ac_serverURL = trimTrailingSlashes u, ac_base = c\<rparr>))"

text \<open>\<open>WithServerURL\<close> puts another URL into the context of a call.\<close>

definition requestURL :: "URL option \<Rightarrow> ('o, 'c) api_client \<Rightarrow> URL" where
  "requestURL override c = (case override of None \<Rightarrow> ac_serverURL c | Some u \<Rightarrow> u)"

definition configured_client :: "URL option \<Rightarrow> ('o, 'c) api_client \<Rightarrow> 'j client_lib \<Rightarrow> 'j client_lib" where
  "configured_client override c lib = lib\<lparr>kl_serverPath := u_Path (requestURL override c)\<rparr>"

subsection \<open>What a configuration means\<close>

text \<open>Options without a value change nothing, and of several values the last one holds.\<close>

lemma newServerConfig_snoc:
  "sg_Prefix (newServerConfig T nf eh (opts @ [WithPathPrefix p])) = p"
  "newServerConfig T nf eh (opts @ [WithNotFound None]) = newServerConfig T nf eh opts"
  "newServerConfig T nf eh (opts @ [WithErrorHandler None]) = newServerConfig T nf eh opts"
  "newServerConfig T nf eh (opts @ [WithMethodNotAllowed None]) = newServerConfig T nf eh opts"
  by (simp_all add: newServerConfig_def applyServer_otel_def WithPathPrefix_def WithNotFound_def WithErrorHandler_def
      WithMethodNotAllowed_def)

text \<open>The server that \<open>cmd/server/main.go\<close> creates, without options: its paths have no prefix, no middleware
  wraps its handlers, and a refused method is answered by \<open>notAllowed\<close> itself.\<close>

lemma newAPIServer_plain:
  assumes "newAPIServer T nf eh h [] = Inr s"
  shows "sg_Prefix (gs_cfg (as_base s)) = []" "sg_Middleware (gs_cfg (as_base s)) = None"
    "sg_MethodNotAllowed (gs_cfg (as_base s)) = None"
    "configured_server (gs_cfg (as_base s)) r lib = lib\<lparr>sl_NotFound := nf r, sl_ErrorHandler := eh r, sl_Prefix := []\<rparr>"
  using assms
  by (auto simp: newAPIServer_def serverConfig_baseServer_def newServerConfig_def applyServer_otel_def
      configured_server_def ebind_Inr Let_def)

lemma TrimRight_slashes:
  "TrimRightBy (\<lambda>c. c = SLASH) s = [] \<or> last (TrimRightBy (\<lambda>c. c = SLASH) s) \<noteq> SLASH"
  unfolding TrimRightBy_def
  by (metis (mono_tags, lifting) dropWhile_eq_Nil_conv hd_dropWhile last_rev rev_is_Nil_conv)

text \<open>A client for a base URL, however many slashes follow it, asks the paths that a server with this
  base as its prefix has.\<close>

theorem client_of_base_url:
  assumes "NewClient T dc Parse serverURL copts = Inr c"
    and "Parse serverURL = Inr \<lparr>u_Path = base @ replicate n SLASH, u_RawPath = raw\<rparr>"
    and "base = [] \<or> last base \<noteq> SLASH"
    and "newAPIServer T' nf eh h (sopts @ [WithPathPrefix base]) = Inr s"
    and "\<And>b p. kl_AddPathParts C b p = \<lparr>u_Path = b @ p, u_RawPath = []\<rparr>"
  shows "let C' = configured_client None c C; S' = configured_server (gs_cfg (as_base s)) r S in
    kl_serverPath C' = base \<and> sl_Prefix S' = kl_serverPath C' \<and>
    ServeHTTP nep (sl_Prefix S') ''GET'' (kl_AddPathParts C' (kl_serverPath C') (operation_path op)) = Handle op False"
proof -
  have "dropWhile (\<lambda>c. c = SLASH) (replicate n SLASH @ xs) = dropWhile (\<lambda>c. c = SLASH) xs" for xs
    by (induction n) simp_all
  then have "TrimRightBy (\<lambda>c. c = SLASH) (base @ replicate n SLASH) = TrimRightBy (\<lambda>c. c = SLASH) base"
    by (simp add: TrimRightBy_def)
  then have "TrimRightBy (\<lambda>c. c = SLASH) (base @ replicate n SLASH) = base"
    using assms(3) TrimRightBy_id by metis
  then have "u_Path (ac_serverURL c) = base"
    using assms(1,2) by (auto simp: NewClient_def trimTrailingSlashes_def ebind_Inr)
  moreover have "sg_Prefix (gs_cfg (as_base s)) = base"
    using assms(4) by (auto simp: newAPIServer_def serverConfig_baseServer_def newServerConfig_snoc ebind_Inr Let_def)
  moreover have "ServeHTTP nep base ''GET'' \<lparr>u_Path = base @ operation_path op, u_RawPath = []\<rparr> = Handle op False"
    unfolding ServeHTTP_walk walk_iff by (simp add: serve_method_def request_path_def)
  ultimately show ?thesis
    using assms(5) by (simp add: configured_client_def configured_server_def requestURL_def)
qed

end
