(* ===== verification/ApiHandler.thy ===== *)
theory ApiHandler
  imports ApiServer
begin

text \<open>
  The interface \<open>Handler\<close> of \<open>internal/api/oas_server_gen.go\<close>: one method per operation. The state
  of a handler is a type of its own; a method may change it. The program's instance is \<open>apiHandler\<close> of
  \<open>cmd/server/handler.go\<close>; \<open>oas_unimplemented_gen.go\<close> has a second one.
\<close>

record 's handler =
  hd_GetDiff :: "GetDiffParams \<Rightarrow> 's \<Rightarrow> 's \<times> GetDiffRes result"
  hd_GetHistory :: "GetHistoryParams \<Rightarrow> 's \<Rightarrow> 's \<times> HistoryPage result"
  hd_GetResource :: "GetResourceParams \<Rightarrow> 's \<Rightarrow> 's \<times> GetResourceRes result"
  hd_GetSnapshot :: "GetSnapshotParams \<Rightarrow> 's \<Rightarrow> 's \<times> GetSnapshotRes result"
  hd_GetStatus :: "'s \<Rightarrow> 's \<times> StatusResponse result"
  hd_GetVolatility :: "GetVolatilityParams \<Rightarrow> 's \<Rightarrow> 's \<times> VolatilityPage result"
  hd_GetVolatilityFields :: "GetVolatilityFieldsParams \<Rightarrow> 's \<Rightarrow> 's \<times> GetVolatilityFieldsRes result"
  hd_Healthz :: "'s \<Rightarrow> 's \<times> HealthzRes result"
  hd_ListClusters :: "'s \<Rightarrow> 's \<times> string list result"
  hd_ListGVKs :: "ListGVKsParams \<Rightarrow> 's \<Rightarrow> 's \<times> ApiGVKInfo list result"
  hd_ListNamespaces :: "ListNamespacesParams \<Rightarrow> 's \<Rightarrow> 's \<times> string list result"

text \<open>\<open>var _ api.Handler = (*apiHandler)(nil)\<close>: only a snapshot query changes the handler (its CEL cache).\<close>

definition rest_handler :: "query_env \<Rightarrow> 'r apiHandler handler" where
  "rest_handler env =
     \<lparr>hd_GetDiff = (\<lambda>params h. (h, api_GetDiff h params)),
      hd_GetHistory = (\<lambda>params h. (h, api_GetHistory env h params)),
      hd_GetResource = (\<lambda>params h. (h, api_GetResource env h params)),
      hd_GetSnapshot = (\<lambda>params h. api_GetSnapshot env h params),
      hd_GetStatus = (\<lambda>h. (h, GetStatus h)),
      hd_GetVolatility = (\<lambda>params h. (h, api_GetVolatility env h params)),
      hd_GetVolatilityFields = (\<lambda>params h. (h, api_GetVolatilityFields env h params)),
      hd_Healthz = (\<lambda>h. (h, Healthz h)),
      hd_ListClusters = (\<lambda>h. (h, api_ListClusters h)),
      hd_ListGVKs = (\<lambda>params h. (h, api_ListGVKs h params)),
      hd_ListNamespaces = (\<lambda>params h. (h, api_ListNamespaces h params))\<rparr>"

text \<open>\<open>ht.ErrNotImplemented\<close> belongs to ogen. The methods of the no-op handler have no state.\<close>

definition ErrNotImplemented :: error where
  "ErrNotImplemented = ErrLib ''not implemented''"

definition UnimplementedHandler :: "'s handler" where
  "UnimplementedHandler =
     \<lparr>hd_GetDiff = (\<lambda>params h. (h, Err ErrNotImplemented)),
      hd_GetHistory = (\<lambda>params h. (h, Err ErrNotImplemented)),
      hd_GetResource = (\<lambda>params h. (h, Err ErrNotImplemented)),
      hd_GetSnapshot = (\<lambda>params h. (h, Err ErrNotImplemented)),
      hd_GetStatus = (\<lambda>h. (h, Err ErrNotImplemented)),
      hd_GetVolatility = (\<lambda>params h. (h, Err ErrNotImplemented)),
      hd_GetVolatilityFields = (\<lambda>params h. (h, Err ErrNotImplemented)),
      hd_Healthz = (\<lambda>h. (h, Err ErrNotImplemented)),
      hd_ListClusters = (\<lambda>h. (h, Err ErrNotImplemented)),
      hd_ListGVKs = (\<lambda>params h. (h, Err ErrNotImplemented)),
      hd_ListNamespaces = (\<lambda>params h. (h, Err ErrNotImplemented))\<rparr>"

lemma rest_handler_simps [simp]:
  "hd_GetDiff (rest_handler env) p1 h = (h, api_GetDiff h p1)"
  "hd_GetHistory (rest_handler env) p2 h = (h, api_GetHistory env h p2)"
  "hd_GetResource (rest_handler env) p3 h = (h, api_GetResource env h p3)"
  "hd_GetSnapshot (rest_handler env) p4 h = api_GetSnapshot env h p4"
  "hd_GetStatus (rest_handler env) h = (h, GetStatus h)"
  "hd_GetVolatility (rest_handler env) p6 h = (h, api_GetVolatility env h p6)"
  "hd_GetVolatilityFields (rest_handler env) p7 h = (h, api_GetVolatilityFields env h p7)"
  "hd_Healthz (rest_handler env) h = (h, Healthz h)"
  "hd_ListClusters (rest_handler env) h = (h, api_ListClusters h)"
  "hd_ListGVKs (rest_handler env) p10 h = (h, api_ListGVKs h p10)"
  "hd_ListNamespaces (rest_handler env) p11 h = (h, api_ListNamespaces h p11)"
  by (simp_all add: rest_handler_def)

end
