(* ===== verification/Telemetry.thy ===== *)
theory Telemetry
  imports ApiConfig ApiHandler
begin

text \<open>
  What the generated server reports of a request: the span, the counters and the histogram around every
  \<open>handleXRequest\<close> of \<open>internal/api/oas_handlers_gen.go\<close>, with the middleware that may sit between the
  parameters and the handler, and \<open>oas_labeler_gen.go\<close>. The OpenTelemetry objects belong to packages outside
  the repository; what the code does to them is the list of calls it makes, in the order in which they are
  made (deferred calls run last to first). \<open>middleware.HookMiddleware\<close> belongs to ogen: its
  instances are the record \<open>hooks\<close>.
\<close>

subsection \<open>Calls\<close>

datatype attribute =
    OperationID string
  | HTTPRequestMethod string
  | HTTPRoute string
  | URLTemplate string
  | HTTPResponseStatusCode nat
  | ConfigAttribute string string

datatype span_kind = SpanKindServer | SpanKindClient

datatype status_code = StatusOk | StatusError

datatype (discs_sels) 'e otel_call =
    SpanStart string "attribute list" span_kind
  | SpanSetAttributes attribute
  | SpanSetStatus status_code string
  | SpanRecordError 'e
  | SpanEnd
  | RequestsAdd "attribute list"
  | ErrorsAdd "attribute list"
  | DurationRecord rat "attribute list"

text \<open>What the reports of one request use: the order of an attribute set, the texts of the status codes, the
  time the request takes and the outcome of writing a body.\<close>

record telemetry_env =
  te_ToSlice :: "attribute list \<Rightarrow> attribute list"
  te_StatusText :: "nat \<Rightarrow> string"
  te_Since :: int
  te_Write :: "string \<Rightarrow> error option"

definition config_attributes :: "'o otelConfig \<Rightarrow> attribute list" where
  "config_attributes cfg = map (\<lambda>(k, v). ConfigAttribute k v) (ot_Attributes cfg)"

text \<open>\<open>float64(elapsedDuration) / float64(time.Millisecond)\<close>.\<close>

definition milliseconds :: "int \<Rightarrow> rat" where
  "milliseconds elapsed = float64_of (float64_of (of_int elapsed) / 1000000)"

subsection \<open>The labeler\<close>

text \<open>A context is what it holds for the key of the labeler.\<close>

type_synonym Labeler = "attribute list"

definition Labeler_Add :: "attribute list \<Rightarrow> Labeler \<Rightarrow> Labeler" where
  "Labeler_Add attrs l = l @ attrs"

definition AttributeSet :: "telemetry_env \<Rightarrow> Labeler \<Rightarrow> attribute list" where
  "AttributeSet T l = te_ToSlice T l"

definition LabelerFromContext :: "Labeler option \<Rightarrow> Labeler \<times> bool" where
  "LabelerFromContext ctx = (case ctx of Some l \<Rightarrow> (l, True) | None \<Rightarrow> ([], False))"

definition contextWithLabeler :: "Labeler option \<Rightarrow> Labeler \<Rightarrow> Labeler option" where
  "contextWithLabeler ctx l = Some l"

subsection \<open>The response writer\<close>

text \<open>The connection takes the first response; the recorder remembers the last status.\<close>

record codeRecorder =
  cr_status :: nat
  cr_ResponseWriter :: "response option"

definition new_recorder :: codeRecorder where
  "new_recorder = \<lparr>cr_status = 0, cr_ResponseWriter = None\<rparr>"

definition WriteHeader :: "response \<Rightarrow> codeRecorder \<Rightarrow> codeRecorder" where
  "WriteHeader resp c =
     \<lparr>cr_status = rs_Status resp,
      cr_ResponseWriter = (case cr_ResponseWriter c of None \<Rightarrow> Some resp | Some first \<Rightarrow> Some first)\<rparr>"

definition Unwrap :: "codeRecorder \<Rightarrow> response option" where
  "Unwrap c = cr_ResponseWriter c"

subsection \<open>Reports\<close>

text \<open>The closure \<open>recordError\<close> and the deferred stopwatch.\<close>

definition with_status :: "telemetry_env \<Rightarrow> Labeler \<Rightarrow> nat \<Rightarrow> attribute list" where
  "with_status T l code = AttributeSet T l @ (if code \<noteq> 0 then [HTTPResponseStatusCode code] else [])"

definition recordError :: "telemetry_env \<Rightarrow> Labeler \<Rightarrow> nat \<Rightarrow> string \<Rightarrow> 'e \<Rightarrow> 'e otel_call list" where
  "recordError T l code stage err =
     [SpanRecordError err] @
     (if code < 100 \<or> code \<ge> 500 then [SpanSetStatus StatusError stage] else []) @
     [ErrorsAdd (with_status T l code)]"

definition stopwatch :: "telemetry_env \<Rightarrow> Labeler \<Rightarrow> nat \<Rightarrow> 'e otel_call list" where
  "stopwatch T l code =
     (if code \<noteq> 0 then [SpanSetAttributes (HTTPResponseStatusCode code)] else []) @
     [RequestsAdd (with_status T l code), DurationRecord (milliseconds (te_Since T)) (with_status T l code)]"

text \<open>What an encoder sets once it has written the header.\<close>

definition encode_status :: "telemetry_env \<Rightarrow> response \<Rightarrow> 'e otel_call list" where
  "encode_status T resp =
     [SpanSetStatus (if rs_Status resp = 200 then StatusOk else StatusError) (te_StatusText T (rs_Status resp))]"

definition encode_failure :: "telemetry_env \<Rightarrow> response \<Rightarrow> error option" where
  "encode_failure T resp =
     (if rs_Body resp = [] then None else map_option (ErrWrap ''write'') (te_Write T (rs_Body resp)))"

definition ErrInternalServerErrorResponse :: error where
  "ErrInternalServerErrorResponse = ErrLib ''internal server error response''"

text \<open>A request handler: the parameters are decoded, the handler is called, its answer is encoded; each of
  the three may fail, and the handler may panic.\<close>

definition handle_observed ::
  "telemetry_env \<Rightarrow> attribute list \<Rightarrow> 'j server_lib \<Rightarrow> operation \<Rightarrow> string \<Rightarrow> error + 'p \<Rightarrow>
   ('p \<Rightarrow> 's \<Rightarrow> 's \<times> 'a result) \<Rightarrow> ('a \<Rightarrow> response) \<Rightarrow> 's \<Rightarrow> 's \<times> api_error otel_call list \<times> response result" where
  "handle_observed T cfgAttrs lib op route decoded run encode h =
     (let otelAttrs = [OperationID (operation_name op), HTTPRequestMethod ''GET'', HTTPRoute route] @ cfgAttrs;
          labeler = fst (LabelerFromContext (contextWithLabeler None otelAttrs));
          report = (\<lambda>calls w. [SpanStart (operation_name op) otelAttrs SpanKindServer] @ calls @
                              stopwatch T labeler (cr_status w) @ [SpanEnd]);
          fail = (\<lambda>h calls w stage err.
                    let w = WriteHeader (sl_ErrorHandler lib err) w
                    in (h, report (calls @ recordError T labeler (cr_status w) stage err) w, Ok (the (Unwrap w))))
      in case decoded of
           Inl err \<Rightarrow> fail h [] new_recorder ''DecodeParams'' (DecodeParamsError op err)
         | Inr params \<Rightarrow>
             (case run params h of
                (h', Panic m) \<Rightarrow> (h', report [] new_recorder, Panic m)
              | (h', Err err) \<Rightarrow> fail h' [] new_recorder ''Internal'' (HandlerError err)
              | (h', Ok response) \<Rightarrow>
                  (let w = WriteHeader (encode response) new_recorder
                   in case encode_failure T (encode response) of
                        None \<Rightarrow> (h', report (encode_status T (encode response)) w, Ok (the (Unwrap w)))
                      | Some err \<Rightarrow>
                          if errors_Is err ErrInternalServerErrorResponse
                          then (h', report (encode_status T (encode response) @
                                  recordError T labeler (cr_status w) ''EncodeResponse'' (HandlerError err)) w, Ok (the (Unwrap w)))
                          else fail h' (encode_status T (encode response)) w ''EncodeResponse'' (HandlerError err))))"

subsection \<open>Middleware\<close>

text \<open>The instances of \<open>middleware.HookMiddleware\<close>: a middleware, the packed parameters and how to unpack them,
  and the call of the handler. Without parameters there is nothing to unpack.\<close>

type_synonym ('w, 'p, 's, 'a) hook =
  "'w \<Rightarrow> packed gmap \<Rightarrow> (packed gmap \<Rightarrow> 'p result) \<Rightarrow> ('p \<Rightarrow> 's \<Rightarrow> 's \<times> 'a result) \<Rightarrow> 's \<Rightarrow> 's \<times> 'a result"

type_synonym ('w, 's, 'a) plain_hook = "'w \<Rightarrow> ('s \<Rightarrow> 's \<times> 'a result) \<Rightarrow> 's \<Rightarrow> 's \<times> 'a result"

record ('w, 's) hooks =
  hk_GetDiff :: "('w, GetDiffParams, 's, GetDiffRes) hook"
  hk_GetHistory :: "('w, GetHistoryParams, 's, HistoryPage) hook"
  hk_GetResource :: "('w, GetResourceParams, 's, GetResourceRes) hook"
  hk_GetSnapshot :: "('w, GetSnapshotParams, 's, GetSnapshotRes) hook"
  hk_GetStatus :: "('w, 's, StatusResponse) plain_hook"
  hk_GetVolatility :: "('w, GetVolatilityParams, 's, VolatilityPage) hook"
  hk_GetVolatilityFields :: "('w, GetVolatilityFieldsParams, 's, GetVolatilityFieldsRes) hook"
  hk_Healthz :: "('w, 's, HealthzRes) plain_hook"
  hk_ListClusters :: "('w, 's, string list) plain_hook"
  hk_ListGVKs :: "('w, ListGVKsParams, 's, ApiGVKInfo list) hook"
  hk_ListNamespaces :: "('w, ListNamespacesParams, 's, string list) hook"

definition hooked ::
  "'w option \<Rightarrow> ('w, 'p, 's, 'a) hook \<Rightarrow> ('p \<Rightarrow> packed gmap) \<Rightarrow> (packed gmap \<Rightarrow> 'p result) \<Rightarrow>
   ('p \<Rightarrow> 's \<Rightarrow> 's \<times> 'a result) \<Rightarrow> 'p \<Rightarrow> 's \<Rightarrow> 's \<times> 'a result" where
  "hooked mw hook pack unpack call params h =
     (case mw of Some m \<Rightarrow> hook m (pack params) unpack call h | None \<Rightarrow> call params h)"

definition hooked_plain ::
  "'w option \<Rightarrow> ('w, 's, 'a) plain_hook \<Rightarrow> ('s \<Rightarrow> 's \<times> 'a result) \<Rightarrow> unit \<Rightarrow> 's \<Rightarrow> 's \<times> 'a result" where
  "hooked_plain mw hook call u h = (case mw of Some m \<Rightarrow> hook m call h | None \<Rightarrow> call h)"

subsection \<open>The operations\<close>

type_synonym ('o, 'w, 'j, 's) observed_handler =
  "telemetry_env \<Rightarrow> ('o, 'w) serverConfig \<Rightarrow> ('w, 's) hooks \<Rightarrow> 'j server_lib \<Rightarrow> 's handler \<Rightarrow> request \<Rightarrow>
   's \<Rightarrow> 's \<times> api_error otel_call list \<times> response result"

definition observeGetDiff :: "('o, 'w, 'j, 's) observed_handler" where
  "observeGetDiff T cfg hk lib H r =
     handle_observed T (config_attributes (sg_otel cfg)) lib GetDiffOperation ''/api/diff''
       (decodeGetDiffParams (sl_params lib) (sl_NewQueryDecoder lib (rq_RawQuery r)))
       (hooked (sg_Middleware cfg) (hk_GetDiff hk) packGetDiffParams unpackGetDiffParams
          (hd_GetDiff H))
       (encodeGetDiffResponse (sl_wire lib))"

definition observeGetHistory :: "('o, 'w, 'j, 's) observed_handler" where
  "observeGetHistory T cfg hk lib H r =
     handle_observed T (config_attributes (sg_otel cfg)) lib GetHistoryOperation ''/api/history''
       (decodeGetHistoryParams (sl_params lib) (sl_NewQueryDecoder lib (rq_RawQuery r)))
       (hooked (sg_Middleware cfg) (hk_GetHistory hk) packGetHistoryParams unpackGetHistoryParams
          (hd_GetHistory H))
       (encodeGetHistoryResponse (sl_wire lib))"

definition observeGetResource :: "('o, 'w, 'j, 's) observed_handler" where
  "observeGetResource T cfg hk lib H r =
     handle_observed T (config_attributes (sg_otel cfg)) lib GetResourceOperation ''/api/resource''
       (decodeGetResourceParams (sl_params lib) (sl_NewQueryDecoder lib (rq_RawQuery r)))
       (hooked (sg_Middleware cfg) (hk_GetResource hk) packGetResourceParams unpackGetResourceParams
          (hd_GetResource H))
       encodeGetResourceResponse"

definition observeGetSnapshot :: "('o, 'w, 'j, 's) observed_handler" where
  "observeGetSnapshot T cfg hk lib H r =
     handle_observed T (config_attributes (sg_otel cfg)) lib GetSnapshotOperation ''/api/snapshot''
       (decodeGetSnapshotParams (sl_params lib) (sl_NewQueryDecoder lib (rq_RawQuery r)))
       (hooked (sg_Middleware cfg) (hk_GetSnapshot hk) packGetSnapshotParams unpackGetSnapshotParams
          (hd_GetSnapshot H))
       (encodeGetSnapshotResponse (sl_wire lib))"

definition observeGetStatus :: "('o, 'w, 'j, 's) observed_handler" where
  "observeGetStatus T cfg hk lib H r =
     handle_observed T (config_attributes (sg_otel cfg)) lib GetStatusOperation ''/api/status''
       (Inr ())
       (hooked_plain (sg_Middleware cfg) (hk_GetStatus hk)
          (hd_GetStatus H))
       (encodeGetStatusResponse (sl_wire lib))"

definition observeGetVolatility :: "('o, 'w, 'j, 's) observed_handler" where
  "observeGetVolatility T cfg hk lib H r =
     handle_observed T (config_attributes (sg_otel cfg)) lib GetVolatilityOperation ''/api/volatility''
       (decodeGetVolatilityParams (sl_params lib) (sl_NewQueryDecoder lib (rq_RawQuery r)))
       (hooked (sg_Middleware cfg) (hk_GetVolatility hk) packGetVolatilityParams unpackGetVolatilityParams
          (hd_GetVolatility H))
       (encodeGetVolatilityResponse (sl_wire lib))"

definition observeGetVolatilityFields :: "('o, 'w, 'j, 's) observed_handler" where
  "observeGetVolatilityFields T cfg hk lib H r =
     handle_observed T (config_attributes (sg_otel cfg)) lib GetVolatilityFieldsOperation ''/api/volatility/fields''
       (decodeGetVolatilityFieldsParams (sl_params lib) (sl_NewQueryDecoder lib (rq_RawQuery r)))
       (hooked (sg_Middleware cfg) (hk_GetVolatilityFields hk) packGetVolatilityFieldsParams unpackGetVolatilityFieldsParams
          (hd_GetVolatilityFields H))
       (encodeGetVolatilityFieldsResponse (sl_wire lib))"

definition observeHealthz :: "('o, 'w, 'j, 's) observed_handler" where
  "observeHealthz T cfg hk lib H r =
     handle_observed T (config_attributes (sg_otel cfg)) lib HealthzOperation ''/healthz''
       (Inr ())
       (hooked_plain (sg_Middleware cfg) (hk_Healthz hk)
          (hd_Healthz H))
       encodeHealthzResponse"

definition observeListClusters :: "('o, 'w, 'j, 's) observed_handler" where
  "observeListClusters T cfg hk lib H r =
     handle_observed T (config_attributes (sg_otel cfg)) lib ListClustersOperation ''/api/clusters''
       (Inr ())
       (hooked_plain (sg_Middleware cfg) (hk_ListClusters hk)
          (hd_ListClusters H))
       (encodeListClustersResponse (sl_wire lib))"

definition observeListGVKs :: "('o, 'w, 'j, 's) observed_handler" where
  "observeListGVKs T cfg hk lib H r =
     handle_observed T (config_attributes (sg_otel cfg)) lib ListGVKsOperation ''/api/gvks''
       (decodeListGVKsParams (sl_params lib) (sl_NewQueryDecoder lib (rq_RawQuery r)))
       (hooked (sg_Middleware cfg) (hk_ListGVKs hk) packListGVKsParams unpackListGVKsParams
          (hd_ListGVKs H))
       (encodeListGVKsResponse (sl_wire lib))"

definition observeListNamespaces :: "('o, 'w, 'j, 's) observed_handler" where
  "observeListNamespaces T cfg hk lib H r =
     handle_observed T (config_attributes (sg_otel cfg)) lib ListNamespacesOperation ''/api/namespaces''
       (decodeListNamespacesParams (sl_params lib) (sl_NewQueryDecoder lib (rq_RawQuery r)))
       (hooked (sg_Middleware cfg) (hk_ListNamespaces hk) packListNamespacesParams unpackListNamespacesParams
          (hd_ListNamespaces H))
       (encodeListNamespacesResponse (sl_wire lib))"

fun observe_operation ::
  "telemetry_env \<Rightarrow> ('o, 'w) serverConfig \<Rightarrow> ('w, 's) hooks \<Rightarrow> 'j server_lib \<Rightarrow> 's handler \<Rightarrow> request \<Rightarrow>
   operation \<Rightarrow> 's \<Rightarrow> 's \<times> api_error otel_call list \<times> response result" where
  "observe_operation T cfg hk lib H r GetDiffOperation = observeGetDiff T cfg hk lib H r"
| "observe_operation T cfg hk lib H r GetHistoryOperation = observeGetHistory T cfg hk lib H r"
| "observe_operation T cfg hk lib H r GetResourceOperation = observeGetResource T cfg hk lib H r"
| "observe_operation T cfg hk lib H r GetSnapshotOperation = observeGetSnapshot T cfg hk lib H r"
| "observe_operation T cfg hk lib H r GetStatusOperation = observeGetStatus T cfg hk lib H r"
| "observe_operation T cfg hk lib H r GetVolatilityOperation = observeGetVolatility T cfg hk lib H r"
| "observe_operation T cfg hk lib H r GetVolatilityFieldsOperation = observeGetVolatilityFields T cfg hk lib H r"
| "observe_operation T cfg hk lib H r HealthzOperation = observeHealthz T cfg hk lib H r"
| "observe_operation T cfg hk lib H r ListClustersOperation = observeListClusters T cfg hk lib H r"
| "observe_operation T cfg hk lib H r ListGVKsOperation = observeListGVKs T cfg hk lib H r"
| "observe_operation T cfg hk lib H r ListNamespacesOperation = observeListNamespaces T cfg hk lib H r"

text \<open>The whole server: a request that is refused or not found by the router is not reported at all.\<close>

definition observe_request ::
  "telemetry_env \<Rightarrow> ('o, 'w) serverConfig \<Rightarrow> ('w, 's) hooks \<Rightarrow> 'j server_lib \<Rightarrow> 's handler \<Rightarrow> request \<Rightarrow>
   's \<Rightarrow> 's \<times> api_error otel_call list \<times> response result" where
  "observe_request T cfg hk lib H r h =
     (case ServeHTTP (sl_NormalizeEscapedPath lib) (sl_Prefix lib) (rq_Method r) (rq_URL r) of
        NotFound \<Rightarrow> (h, [], Ok (sl_NotFound lib))
      | NotAllowed allowed \<Rightarrow>
          (case notAllowed (rq_Method r) allowed of
             (code, headers) \<Rightarrow> (h, [], Ok \<lparr>rs_Status = code, rs_Header = headers, rs_Body = []\<rparr>))
      | Handle op _ \<Rightarrow> observe_operation T cfg hk lib H r op h)"

text \<open>Requests one after the other; what is outside the handler may have changed in between.\<close>

fun observe_all ::
  "('o, 'w) serverConfig \<Rightarrow> ('w, 's) hooks \<Rightarrow> 'j server_lib \<Rightarrow> (telemetry_env \<times> 's handler \<times> request) list \<Rightarrow>
   's \<Rightarrow> api_error otel_call list \<times> response result list" where
  "observe_all cfg hk lib [] h = ([], [])"
| "observe_all cfg hk lib ((T, H, r) # rs) h =
     (case observe_request T cfg hk lib H r h of
        (h', calls, res) \<Rightarrow>
          (case observe_all cfg hk lib rs h' of (calls', ress) \<Rightarrow> (calls @ calls', res # ress)))"

end
