(* ===== verification/TelemetryFacts.thy ===== *)
theory TelemetryFacts
  imports Telemetry
begin

text \<open>
  What the reports are worth: they never change an answer, every request that reaches an operation is
  counted exactly once, and a request whose handler panics is not counted as an error.
\<close>

subsection \<open>A middleware that passes everything on\<close>

definition passes_on ::
  "(packed gmap \<Rightarrow> (packed gmap \<Rightarrow> 'p result) \<Rightarrow> ('p \<Rightarrow> 's \<Rightarrow> 's \<times> 'a result) \<Rightarrow> 's \<Rightarrow> 's \<times> 'a result) \<Rightarrow> bool" where
  "passes_on hook \<longleftrightarrow> (\<forall>packed unpack call h p. unpack packed = Ok p \<longrightarrow> hook packed unpack call h = call p h)"

definition transparent :: "('w, 's) hooks \<Rightarrow> 'w \<Rightarrow> bool" where
  "transparent hk m \<longleftrightarrow>
     passes_on (hk_GetDiff hk m) \<and>
     passes_on (hk_GetHistory hk m) \<and>
     passes_on (hk_GetResource hk m) \<and>
     passes_on (hk_GetSnapshot hk m) \<and>
     (\<forall>call h. hk_GetStatus hk m call h = call h) \<and>
     passes_on (hk_GetVolatility hk m) \<and>
     passes_on (hk_GetVolatilityFields hk m) \<and>
     (\<forall>call h. hk_Healthz hk m call h = call h) \<and>
     (\<forall>call h. hk_ListClusters hk m call h = call h) \<and>
     passes_on (hk_ListGVKs hk m) \<and>
     passes_on (hk_ListNamespaces hk m)"

text \<open>A server without a middleware, or with one that only looks.\<close>

definition unhooked :: "('o, 'w) serverConfig \<Rightarrow> ('w, 's) hooks \<Rightarrow> bool" where
  "unhooked cfg hk \<longleftrightarrow> (\<forall>m. sg_Middleware cfg = Some m \<longrightarrow> transparent hk m)"

lemma hooked_passes:
  assumes "\<And>m. mw = Some m \<Longrightarrow> passes_on (hook m)" "unpack (pack params) = Ok params"
  shows "hooked mw hook pack unpack call params h = call params h"
  using assms by (cases mw) (simp_all add: hooked_def passes_on_def)

lemma hooked_plain_passes:
  "(\<And>m call h. mw = Some m \<Longrightarrow> hook m call h = call h) \<Longrightarrow> hooked_plain mw hook call u h = call h"
  by (cases mw) (simp_all add: hooked_plain_def)

lemma unhooked_calls:
  assumes "unhooked cfg hk"
  shows "hooked (sg_Middleware cfg) (hk_GetDiff hk) packGetDiffParams unpackGetDiffParams call0 p0 h = call0 p0 h"
    and "hooked (sg_Middleware cfg) (hk_GetHistory hk) packGetHistoryParams unpackGetHistoryParams call1 p1 h = call1 p1 h"
    and "hooked (sg_Middleware cfg) (hk_GetResource hk) packGetResourceParams unpackGetResourceParams call2 p2 h = call2 p2 h"
    and "hooked (sg_Middleware cfg) (hk_GetSnapshot hk) packGetSnapshotParams unpackGetSnapshotParams call3 p3 h = call3 p3 h"
    and "hooked_plain (sg_Middleware cfg) (hk_GetStatus hk) call4 u4 h = call4 h"
    and "hooked (sg_Middleware cfg) (hk_GetVolatility hk) packGetVolatilityParams unpackGetVolatilityParams call5 p5 h = call5 p5 h"
    and "hooked (sg_Middleware cfg) (hk_GetVolatilityFields hk) packGetVolatilityFieldsParams unpackGetVolatilityFieldsParams call6 p6 h = call6 p6 h"
    and "hooked_plain (sg_Middleware cfg) (hk_Healthz hk) call7 u7 h = call7 h"
    and "hooked_plain (sg_Middleware cfg) (hk_ListClusters hk) call8 u8 h = call8 h"
    and "hooked (sg_Middleware cfg) (hk_ListGVKs hk) packListGVKsParams unpackListGVKsParams call9 p9 h = call9 p9 h"
    and "hooked (sg_Middleware cfg) (hk_ListNamespaces hk) packListNamespacesParams unpackListNamespacesParams call10 p10 h = call10 p10 h"
  using assms
  by (auto simp: unhooked_def transparent_def unpack_pack intro!: hooked_passes hooked_plain_passes)

subsection \<open>Reports do not change answers\<close>

definition connected :: "telemetry_env \<Rightarrow> bool" where
  "connected T \<longleftrightarrow> (\<forall>body. te_Write T body = None)"

lemma handle_observed_answer:
  assumes "connected T"
  shows "fst (handle_observed T A lib op route decoded run encode h) =
      (case decoded of Inl _ \<Rightarrow> h | Inr p \<Rightarrow> fst (run p h))"
    and "snd (snd (handle_observed T A lib op route decoded run encode h)) =
      (case decoded of Inl err \<Rightarrow> Ok (sl_ErrorHandler lib (DecodeParamsError op err))
                     | Inr p \<Rightarrow> respond lib encode (snd (run p h)))"
  using assms
  by (auto simp: handle_observed_def Let_def connected_def encode_failure_def WriteHeader_def new_recorder_def
      Unwrap_def respond_def split: sum.splits prod.splits result.splits)

lemma observe_operation_answer:
  assumes "unhooked cfg hk" "connected T"
  shows "fst (observe_operation T cfg hk lib (rest_handler env) r op h) = fst (handle_operation lib env r h op)"
    and "snd (snd (observe_operation T cfg hk lib (rest_handler env) r op h)) = snd (handle_operation lib env r h op)"
  by (cases op; simp add: observeGetDiff_def observeGetHistory_def observeGetResource_def observeGetSnapshot_def observeGetStatus_def observeGetVolatility_def observeGetVolatilityFields_def observeHealthz_def observeListClusters_def observeListGVKs_def observeListNamespaces_def
      handleGetDiffRequest_def handleGetHistoryRequest_def handleGetResourceRequest_def handleGetSnapshotRequest_def handleGetStatusRequest_def handleGetVolatilityRequest_def handleGetVolatilityFieldsRequest_def handleHealthzRequest_def handleListClustersRequest_def handleListGVKsRequest_def handleListNamespacesRequest_def
      with_params_def handle_observed_answer [OF assms(2)] unhooked_calls [OF assms(1)] split: sum.split prod.split)+

lemma observed_answer:
  assumes "unhooked cfg hk" "connected T" "observe_request T cfg hk lib (rest_handler env) r h = (h', calls, res)"
  shows "serve_request lib env r h = (h', res)"
proof -
  have "(fst (observe_request T cfg hk lib (rest_handler env) r h), snd (snd (observe_request T cfg hk lib (rest_handler env) r h))) = serve_request lib env r h"
    using observe_operation_answer [OF assms(1,2)]
    by (auto simp: observe_request_def serve_request_def prod_eq_iff split: routed.split prod.split)
  then show ?thesis using assms(3) by simp
qed

text \<open>C36: With all the reports and the middleware hooks around them, the request handlers still answer what the
  plain ones answer and leave the same state, for every request, if there is no middleware (as in
  this program) or one that passes everything on, and if the connection takes what is written.\<close>

theorem observed_server_refines:
  assumes "unhooked cfg hk" "connected T" "observe_request T cfg hk lib (rest_handler env) r h = (h', calls, res)"
  shows "serve_request lib env r h = (h', res)"
  by (rule observed_answer [OF assms])

subsection \<open>What is counted\<close>

text \<open>How often a kind of call is made.\<close>

definition tally :: "('e otel_call \<Rightarrow> bool) \<Rightarrow> 'e otel_call list \<Rightarrow> nat" where
  "tally P calls = length (filter P calls)"

lemma tally_simps [simp]:
  "tally P [] = 0" "tally P (c # cs) = (if P c then 1 else 0) + tally P cs" "tally P (cs @ ds) = tally P cs + tally P ds"
  by (simp_all add: tally_def)

fun panics :: "'a result \<Rightarrow> bool" where
  "panics (Panic m) \<longleftrightarrow> True"
| "panics _ \<longleftrightarrow> False"

text \<open>A request that reaches an operation.\<close>

definition routed_to :: "'j server_lib \<Rightarrow> request \<Rightarrow> bool" where
  "routed_to lib r \<longleftrightarrow>
     (\<exists>op esc. ServeHTTP (sl_NormalizeEscapedPath lib) (sl_Prefix lib) (rq_Method r) (rq_URL r) = Handle op esc)"

definition once :: "api_error otel_call list \<times> response result \<Rightarrow> bool" where
  "once = (\<lambda>(calls, res). tally is_SpanStart calls = 1 \<and> tally (\<lambda>c. c = SpanEnd) calls = 1 \<and>
     tally is_RequestsAdd calls = 1 \<and> tally is_DurationRecord calls = 1 \<and>
     tally is_ErrorsAdd calls + (if panics res then 1 else 0) \<le> 1)"

lemma handle_observed_once: "once (snd (handle_observed T A lib op route decoded run encode h))"
  by (auto simp: once_def handle_observed_def Let_def recordError_def stopwatch_def encode_status_def
      split: sum.splits prod.splits result.splits option.splits)

lemma observe_operation_once: "once (snd (observe_operation T cfg hk lib H r op h))"
  by (cases op) (simp_all add: handle_observed_once observeGetDiff_def observeGetHistory_def observeGetResource_def observeGetSnapshot_def observeGetStatus_def observeGetVolatility_def observeGetVolatilityFields_def observeHealthz_def observeListClusters_def observeListGVKs_def observeListNamespaces_def)

lemma observe_request_counts:
  assumes "observe_request T cfg hk lib H r h = (h', calls, res)"
  shows "if routed_to lib r then once (calls, res) else calls = [] \<and> \<not> panics res"
proof (cases "routed_to lib r")
  case True
  then obtain op esc where "ServeHTTP (sl_NormalizeEscapedPath lib) (sl_Prefix lib) (rq_Method r) (rq_URL r) = Handle op esc"
    by (auto simp: routed_to_def)
  then show ?thesis
    using True assms observe_operation_once [of T cfg hk lib H r op h] by (simp add: observe_request_def)
next
  case False
  then show ?thesis
    using assms by (auto simp: observe_request_def routed_to_def split: routed.splits prod.splits)
qed

text \<open>C37: In every sequence of requests, whatever fails, the request counter and the histogram get one entry for
  each request that reaches an operation, and every span that is started is ended. A request counts as an
  error at most once, and never if its handler panics; requests that the router refuses or does not
  find leave no trace.\<close>

theorem observed_requests_are_counted:
  "let (calls, answers) = observe_all cfg hk lib rs h; n = length (filter (\<lambda>(T, H, r). routed_to lib r) rs) in
     tally is_RequestsAdd calls = n \<and> tally is_DurationRecord calls = n \<and>
     tally is_SpanStart calls = n \<and> tally (\<lambda>c. c = SpanEnd) calls = n \<and>
     tally is_ErrorsAdd calls + length (filter panics answers) \<le> n"
proof (induction cfg hk lib rs h rule: observe_all.induct)
  case (2 cfg hk lib T H r rs h)
  obtain h' cs res where req: "observe_request T cfg hk lib H r h = (h', cs, res)" by (metis prod.exhaust)
  show ?case
    using "2.IH" [OF req [symmetric] refl] req observe_request_counts [OF req]
    by (auto simp: once_def Let_def split: if_splits prod.splits)
qed simp

subsection \<open>The no-op handler\<close>

lemma unimplemented_simps [simp]:
  "hd_GetDiff UnimplementedHandler p1 h = (h, Err ErrNotImplemented)"
  "hd_GetHistory UnimplementedHandler p2 h = (h, Err ErrNotImplemented)"
  "hd_GetResource UnimplementedHandler p3 h = (h, Err ErrNotImplemented)"
  "hd_GetSnapshot UnimplementedHandler p4 h = (h, Err ErrNotImplemented)"
  "hd_GetStatus UnimplementedHandler h = (h, Err ErrNotImplemented)"
  "hd_GetVolatility UnimplementedHandler p6 h = (h, Err ErrNotImplemented)"
  "hd_GetVolatilityFields UnimplementedHandler p7 h = (h, Err ErrNotImplemented)"
  "hd_Healthz UnimplementedHandler h = (h, Err ErrNotImplemented)"
  "hd_ListClusters UnimplementedHandler h = (h, Err ErrNotImplemented)"
  "hd_ListGVKs UnimplementedHandler p10 h = (h, Err ErrNotImplemented)"
  "hd_ListNamespaces UnimplementedHandler p11 h = (h, Err ErrNotImplemented)"
  by (simp_all add: UnimplementedHandler_def)

text \<open>What a request handler does whose handler fails for all parameters.\<close>

definition failed_with :: "api_error set \<Rightarrow> 'j server_lib \<Rightarrow> 's \<Rightarrow> 's \<times> api_error otel_call list \<times> response result \<Rightarrow> bool" where
  "failed_with errs lib h = (\<lambda>(h', calls, res).
     h' = h \<and> tally is_ErrorsAdd calls = 1 \<and> res \<in> (\<lambda>err. Ok (sl_ErrorHandler lib err)) ` errs)"

lemma handle_observed_fails:
  assumes "\<And>p. run p h = (h, Err err)"
  shows "failed_with (insert (HandlerError err) (range (DecodeParamsError op))) lib h
    (handle_observed T A lib op route decoded run encode h)"
  by (auto simp: failed_with_def handle_observed_def Let_def assms recordError_def stopwatch_def
      WriteHeader_def new_recorder_def Unwrap_def split: sum.split)

text \<open>A server over the no-op handler sends everything that is routed to the error handler and counts it as an error.\<close>

lemma unimplemented_fails:
  assumes "unhooked cfg hk"
  shows "failed_with (insert (HandlerError ErrNotImplemented) (range (DecodeParamsError op))) lib h
    (observe_operation T cfg hk lib UnimplementedHandler r op h)"
  by (cases op; simp only: observe_operation.simps observeGetDiff_def observeGetHistory_def observeGetResource_def
      observeGetSnapshot_def observeGetStatus_def observeGetVolatility_def observeGetVolatilityFields_def observeHealthz_def
      observeListClusters_def observeListGVKs_def observeListNamespaces_def;
      rule handle_observed_fails; simp add: unhooked_calls [OF assms])

subsection \<open>Panics\<close>

lemma handle_observed_panic:
  "run params h = (h', Panic m) \<Longrightarrow>
   handle_observed T A lib op route (Inr params) run encode h =
     (h', (let attrs = [OperationID (operation_name op), HTTPRequestMethod ''GET'', HTTPRoute route] @ A
           in [SpanStart (operation_name op) attrs SpanKindServer, RequestsAdd (te_ToSlice T attrs),
               DurationRecord (milliseconds (te_Since T)) (te_ToSlice T attrs), SpanEnd]), Panic m)"
  by (simp add: handle_observed_def Let_def stopwatch_def with_status_def AttributeSet_def new_recorder_def
      LabelerFromContext_def contextWithLabeler_def)

text \<open>C38: A history request whose offset is negative passes the parameter decoder, whatever else it asks for, and
  panics in the slice of the page; and nobody who watches the metrics sees it: the request is counted
  like a success without a status code, the error counter stays as it is, and the span ends without
  an error.\<close>

theorem panicking_request_is_no_error:
  assumes "unhooked cfg hk" and "rq_Method r = ''GET''"
    and "request_path (sl_NormalizeEscapedPath S) (rq_URL r) = (sl_Prefix S @ ''/api/history'', esc)"
    and "decodeGetHistoryParams (sl_params S) (sl_NewQueryDecoder S (rq_RawQuery r)) = Inr params"
    and "Or (yp_Offset params) 0 < 0" and "queriers_ok (ah_q h) (Or (yp_Cluster params) [])"
  shows "observe_request T cfg hk S (rest_handler env) r h =
    (h, (let attrs = [OperationID ''GetHistory'', HTTPRequestMethod ''GET'', HTTPRoute ''/api/history''] @
                     config_attributes (sg_otel cfg)
         in [SpanStart ''GetHistory'' attrs SpanKindServer, RequestsAdd (te_ToSlice T attrs),
             DurationRecord (milliseconds (te_Since T)) (te_ToSlice T attrs), SpanEnd]),
     Panic ''slice bounds out of range'')"
proof -
  have "observeGetHistory T cfg hk S (rest_handler env) r h = observe_request T cfg hk S (rest_handler env) r h"
    by (simp add: observe_request_def history_routed [OF assms(2,3)])
  moreover let ?run = "hooked (sg_Middleware cfg) (hk_GetHistory hk) packGetHistoryParams unpackGetHistoryParams
      (hd_GetHistory (rest_handler env))"
  have run: "?run params h = (h, Panic ''slice bounds out of range'')"
    by (simp add: unhooked_calls [OF assms(1)] negative_offset_history [OF assms(5,6)])
  ultimately show ?thesis
    by (simp add: observeGetHistory_def assms(4) handle_observed_panic [where run = ?run, OF run])
qed

subsection \<open>Examples\<close>

text \<open>A server with a middleware that hands everything on, on a connection that works.\<close>

definition hand_on :: "('w, 'p, 's, 'a) hook" where
  "hand_on m packed unpack call h =
     (case unpack packed of Ok p \<Rightarrow> call p h | Err e \<Rightarrow> (h, Err e) | Panic e \<Rightarrow> (h, Panic e))"

definition example_hooks :: "(unit, 's) hooks" where
  "example_hooks = \<lparr>hk_GetDiff = hand_on,
     hk_GetHistory = hand_on,
     hk_GetResource = hand_on,
     hk_GetSnapshot = hand_on,
     hk_GetStatus = (\<lambda>m call h. call h),
     hk_GetVolatility = hand_on,
     hk_GetVolatilityFields = hand_on,
     hk_Healthz = (\<lambda>m call h. call h),
     hk_ListClusters = (\<lambda>m call h. call h),
     hk_ListGVKs = hand_on,
     hk_ListNamespaces = hand_on\<rparr>"

definition example_serverConfig :: "(unit, unit) serverConfig" where
  "example_serverConfig =
     \<lparr>sg_otel = no_otel\<lparr>ot_Attributes := [(''env'', ''test'')]\<rparr>, sg_NotFound = (\<lambda>_. status_only 404), sg_MethodNotAllowed = None,
      sg_ErrorHandler = (\<lambda>_ _. status_only 500), sg_Prefix = [], sg_Middleware = Some (), sg_MaxMultipartMemory = 0\<rparr>"

definition example_telemetry :: telemetry_env where
  "example_telemetry =
     \<lparr>te_ToSlice = id, te_StatusText = (\<lambda>code. show_nat code), te_Since = 2000000, te_Write = (\<lambda>_. None)\<rparr>"

lemma example_unhooked: "unhooked example_serverConfig example_hooks"
  by (simp add: unhooked_def transparent_def passes_on_def example_hooks_def hand_on_def)

lemma example_connected: "connected example_telemetry"
  by (simp add: connected_def example_telemetry_def)

definition clusters_request :: request where
  "clusters_request = \<lparr>rq_Method = ''GET'', rq_URL = \<lparr>u_Path = ''/api/clusters'', u_RawPath = []\<rparr>, rq_RawQuery = []\<rparr>"

definition missing_request :: request where
  "missing_request = \<lparr>rq_Method = ''GET'', rq_URL = \<lparr>u_Path = ''/api/kinds'', u_RawPath = []\<rparr>, rq_RawQuery = []\<rparr>"

definition offset_request :: request where
  "offset_request = \<lparr>rq_Method = ''GET'', rq_URL = \<lparr>u_Path = ''/api/history'', u_RawPath = []\<rparr>,
     rq_RawQuery = unary [(''offset'', unary (- 1 :: int))]\<rparr>"

theorem observed_server_refines_witness:
  "\<exists>calls. observe_request example_telemetry example_serverConfig example_hooks example_server_lib (rest_handler viewer_env) clusters_request
       example_handler =
     (example_handler, calls, Ok (encodeListClustersResponse example_wire [''prod'', ''dev''])) \<and>
   serve_request example_server_lib viewer_env clusters_request example_handler =
     (example_handler, Ok (encodeListClustersResponse example_wire [''prod'', ''dev'']))"
proof -
  obtain h' calls res where o: "observe_request example_telemetry example_serverConfig example_hooks example_server_lib
      (rest_handler viewer_env) clusters_request example_handler = (h', calls, res)"
    by (metis prod.exhaust)
  have "ServeHTTP (sl_NormalizeEscapedPath example_server_lib) (sl_Prefix example_server_lib) (rq_Method clusters_request)
      (rq_URL clusters_request) = Handle ListClustersOperation False"
    by code_simp
  then have "serve_request example_server_lib viewer_env clusters_request example_handler =
      (example_handler, Ok (encodeListClustersResponse example_wire [''prod'', ''dev'']))"
    by (simp add: serve_request_def handleListClustersRequest_def respond_def api_ListClusters_def ListClusters_def
        example_handler_def viewer_server_def NewServer_def example_server_lib_def)
  then show ?thesis
    using o observed_server_refines [OF example_unhooked example_connected o] by simp
qed

theorem panicking_request_is_no_error_witness:
  "observe_request example_telemetry example_serverConfig example_hooks example_server_lib (rest_handler viewer_env) offset_request
     example_handler =
   (example_handler, (let attrs = [OperationID ''GetHistory'', HTTPRequestMethod ''GET'', HTTPRoute ''/api/history'',
                                   ConfigAttribute ''env'' ''test'']
      in [SpanStart ''GetHistory'' attrs SpanKindServer, RequestsAdd attrs, DurationRecord (milliseconds 2000000) attrs,
          SpanEnd]),
    Panic ''slice bounds out of range'')"
proof -
  let ?q = "\<lparr>yp_Since = None, yp_Until = None, yp_Cluster = None, yp_Group = None, yp_Kind = None,
     yp_Namespace = None, yp_Name = None, yp_ChangeType = None, yp_Limit = Some 50, yp_Offset = Some (- 1)\<rparr>"
  have "decodeGetHistoryParams (sl_params example_server_lib)
      (sl_NewQueryDecoder example_server_lib (rq_RawQuery offset_request)) = Inr ?q"
    by (simp add: decodeGetHistoryParams_def GetHistory_params example_server_lib_def query_of_def example_params_def
        optional_param_def param_error_def no_check_def offset_request_def)
  then show ?thesis
    using panicking_request_is_no_error [where T = example_telemetry and S = example_server_lib and esc = False and
        params = ?q and h = example_handler and env = viewer_env and r = offset_request, OF example_unhooked]
      viewer_queriers_ok
    by (simp add: request_path_def example_handler_def example_server_lib_def offset_request_def config_attributes_def
        example_serverConfig_def no_otel_def example_telemetry_def)
qed

end
