(* ===== verification/ClientTelemetry.thy ===== *)
theory ClientTelemetry
  imports TelemetryFacts
begin

text \<open>
  What the generated client reports of a call, around every \<open>sendX\<close> of \<open>internal/api/oas_client_gen.go\<close>: the
  request counter, a span, and, if the call fails, an error with the stage in which it failed. The
  last section puts the reports of both sides together.
\<close>

subsection \<open>Stages\<close>

text \<open>A call as in theory ApiClient, with the value of the variable \<open>stage\<close> at its end. An operation without
  parameters encodes no query.\<close>

definition send_staged ::
  "'j client_lib \<Rightarrow> 's transport \<Rightarrow> string \<Rightarrow> (string \<times> string) list option \<Rightarrow> (response \<Rightarrow> error + 'a) \<Rightarrow> 's \<Rightarrow>
   's \<times> string \<times> (error + 'a)" where
  "send_staged lib send path query decode s =
     (case (case query of Some kvs \<Rightarrow> wrap_error ''encode query'' (kl_EncodeQuery lib kvs) | None \<Rightarrow> Inr []) of
        Inl err \<Rightarrow> (s, ''EncodeQueryParams'', Inl err)
      | Inr rawQuery \<Rightarrow>
          (case wrap_error ''create request''
                  (kl_NewRequest lib ''GET'' (kl_AddPathParts lib (kl_serverPath lib) path) rawQuery) of
             Inl err \<Rightarrow> (s, ''EncodeRequest'', Inl err)
           | Inr r \<Rightarrow>
               (case send r s of
                  (s', Inl err) \<Rightarrow> (s', ''SendRequest'', Inl (ErrWrap ''do request'' err))
                | (s', Inr resp) \<Rightarrow> (s', ''DecodeResponse'', wrap_error ''decode response'' (decode resp)))))"

definition observe_call ::
  "telemetry_env \<Rightarrow> attribute list \<Rightarrow> operation \<Rightarrow> string \<Rightarrow> ('s \<Rightarrow> 's \<times> string \<times> (error + 'a)) \<Rightarrow> 's \<Rightarrow>
   's \<times> error otel_call list \<times> (error + 'a)" where
  "observe_call T cfgAttrs op template call s =
     (let otelAttrs = [OperationID (operation_name op), HTTPRequestMethod ''GET'', URLTemplate template] @ cfgAttrs
      in case call s of
           (s', stage, res) \<Rightarrow>
             (s', [RequestsAdd otelAttrs, SpanStart (operation_name op) otelAttrs SpanKindClient] @
                  (case res of
                     Inl err \<Rightarrow> [SpanRecordError err, SpanSetStatus StatusError stage, ErrorsAdd otelAttrs]
                   | Inr _ \<Rightarrow> []) @
                  [SpanEnd, DurationRecord (milliseconds (te_Since T)) otelAttrs], res))"

subsection \<open>The operations\<close>

type_synonym ('s, 'a) observed_call = "'s \<Rightarrow> 's \<times> error otel_call list \<times> (error + 'a)"

definition observed_sendGetDiff ::
  "telemetry_env \<Rightarrow> ('o, 'c) clientConfig \<Rightarrow> 'j client_lib \<Rightarrow> 's transport \<Rightarrow> GetDiffParams \<Rightarrow> ('s, GetDiffRes) observed_call" where
  "observed_sendGetDiff T cfg lib send params s =
     observe_call T (config_attributes (cg_otel cfg)) GetDiffOperation ''/api/diff''
       (send_staged lib send ''/api/diff'' (Some (queryGetDiff lib params)) (decodeGetDiffResponse (kl_wire lib))) s"

definition observed_sendGetHistory ::
  "telemetry_env \<Rightarrow> ('o, 'c) clientConfig \<Rightarrow> 'j client_lib \<Rightarrow> 's transport \<Rightarrow> GetHistoryParams \<Rightarrow> ('s, HistoryPage) observed_call" where
  "observed_sendGetHistory T cfg lib send params s =
     observe_call T (config_attributes (cg_otel cfg)) GetHistoryOperation ''/api/history''
       (send_staged lib send ''/api/history'' (Some (queryGetHistory lib params)) (decodeGetHistoryResponse (kl_wire lib))) s"

definition observed_sendGetResource ::
  "telemetry_env \<Rightarrow> ('o, 'c) clientConfig \<Rightarrow> 'j client_lib \<Rightarrow> 's transport \<Rightarrow> GetResourceParams \<Rightarrow> ('s, GetResourceRes) observed_call" where
  "observed_sendGetResource T cfg lib send params s =
     observe_call T (config_attributes (cg_otel cfg)) GetResourceOperation ''/api/resource''
       (send_staged lib send ''/api/resource'' (Some (queryGetResource lib params)) (decodeGetResourceResponse (kl_wire lib))) s"

definition observed_sendGetSnapshot ::
  "telemetry_env \<Rightarrow> ('o, 'c) clientConfig \<Rightarrow> 'j client_lib \<Rightarrow> 's transport \<Rightarrow> GetSnapshotParams \<Rightarrow> ('s, GetSnapshotRes) observed_call" where
  "observed_sendGetSnapshot T cfg lib send params s =
     observe_call T (config_attributes (cg_otel cfg)) GetSnapshotOperation ''/api/snapshot''
       (send_staged lib send ''/api/snapshot'' (Some (queryGetSnapshot lib params)) (decodeGetSnapshotResponse (kl_wire lib))) s"

definition observed_sendGetStatus ::
  "telemetry_env \<Rightarrow> ('o, 'c) clientConfig \<Rightarrow> 'j client_lib \<Rightarrow> 's transport \<Rightarrow> ('s, StatusResponse) observed_call" where
  "observed_sendGetStatus T cfg lib send s =
     observe_call T (config_attributes (cg_otel cfg)) GetStatusOperation ''/api/status''
       (send_staged lib send ''/api/status'' None (decodeGetStatusResponse (kl_wire lib))) s"

definition observed_sendGetVolatility ::
  "telemetry_env \<Rightarrow> ('o, 'c) clientConfig \<Rightarrow> 'j client_lib \<Rightarrow> 's transport \<Rightarrow> GetVolatilityParams \<Rightarrow> ('s, VolatilityPage) observed_call" where
  "observed_sendGetVolatility T cfg lib send params s =
     observe_call T (config_attributes (cg_otel cfg)) GetVolatilityOperation ''/api/volatility''
       (send_staged lib send ''/api/volatility'' (Some (queryGetVolatility lib params)) (decodeGetVolatilityResponse (kl_wire lib))) s"

definition observed_sendGetVolatilityFields ::
  "telemetry_env \<Rightarrow> ('o, 'c) clientConfig \<Rightarrow> 'j client_lib \<Rightarrow> 's transport \<Rightarrow> GetVolatilityFieldsParams \<Rightarrow> ('s, GetVolatilityFieldsRes) observed_call" where
  "observed_sendGetVolatilityFields T cfg lib send params s =
     observe_call T (config_attributes (cg_otel cfg)) GetVolatilityFieldsOperation ''/api/volatility/fields''
       (send_staged lib send ''/api/volatility/fields'' (Some (queryGetVolatilityFields lib params)) (decodeGetVolatilityFieldsResponse (kl_wire lib))) s"

definition observed_sendHealthz ::
  "telemetry_env \<Rightarrow> ('o, 'c) clientConfig \<Rightarrow> 'j client_lib \<Rightarrow> 's transport \<Rightarrow> ('s, HealthzRes) observed_call" where
  "observed_sendHealthz T cfg lib send s =
     observe_call T (config_attributes (cg_otel cfg)) HealthzOperation ''/healthz''
       (send_staged lib send ''/healthz'' None decodeHealthzResponse) s"

definition observed_sendListClusters ::
  "telemetry_env \<Rightarrow> ('o, 'c) clientConfig \<Rightarrow> 'j client_lib \<Rightarrow> 's transport \<Rightarrow> ('s, string list) observed_call" where
  "observed_sendListClusters T cfg lib send s =
     observe_call T (config_attributes (cg_otel cfg)) ListClustersOperation ''/api/clusters''
       (send_staged lib send ''/api/clusters'' None (decodeListClustersResponse (kl_wire lib))) s"

definition observed_sendListGVKs ::
  "telemetry_env \<Rightarrow> ('o, 'c) clientConfig \<Rightarrow> 'j client_lib \<Rightarrow> 's transport \<Rightarrow> ListGVKsParams \<Rightarrow> ('s, ApiGVKInfo list) observed_call" where
  "observed_sendListGVKs T cfg lib send params s =
     observe_call T (config_attributes (cg_otel cfg)) ListGVKsOperation ''/api/gvks''
       (send_staged lib send ''/api/gvks'' (Some (queryListGVKs lib params)) (decodeListGVKsResponse (kl_wire lib))) s"

definition observed_sendListNamespaces ::
  "telemetry_env \<Rightarrow> ('o, 'c) clientConfig \<Rightarrow> 'j client_lib \<Rightarrow> 's transport \<Rightarrow> ListNamespacesParams \<Rightarrow> ('s, string list) observed_call" where
  "observed_sendListNamespaces T cfg lib send params s =
     observe_call T (config_attributes (cg_otel cfg)) ListNamespacesOperation ''/api/namespaces''
       (send_staged lib send ''/api/namespaces'' (Some (queryListNamespaces lib params)) (decodeListNamespacesResponse (kl_wire lib))) s"

subsection \<open>Reports do not change results\<close>

lemma send_staged_request:
  "(case send_staged lib send path (Some kvs) decode s of (s', _, res) \<Rightarrow> (s', res)) =
   send_request lib send path kvs decode s"
  by (auto simp: send_staged_def send_request_def split: sum.split prod.split)

lemma send_staged_plain:
  "(case send_staged lib send path None decode s of (s', _, res) \<Rightarrow> (s', res)) = send_plain lib send path decode s"
  by (auto simp: send_staged_def send_plain_def split: sum.split prod.split)

lemma observe_call_result:
  "(case observe_call T A op template call s of (s', _, res) \<Rightarrow> (s', res)) =
   (case call s of (s', _, res) \<Rightarrow> (s', res))"
  by (simp add: observe_call_def Let_def split: prod.split)

lemma observed_sends:
  "(case observed_sendGetDiff T cfg lib send p1 s of (s', _, res) \<Rightarrow> (s', res)) = sendGetDiff lib send p1 s"
  "(case observed_sendGetHistory T cfg lib send p2 s of (s', _, res) \<Rightarrow> (s', res)) = sendGetHistory lib send p2 s"
  "(case observed_sendGetResource T cfg lib send p3 s of (s', _, res) \<Rightarrow> (s', res)) = sendGetResource lib send p3 s"
  "(case observed_sendGetSnapshot T cfg lib send p4 s of (s', _, res) \<Rightarrow> (s', res)) = sendGetSnapshot lib send p4 s"
  "(case observed_sendGetStatus T cfg lib send s of (s', _, res) \<Rightarrow> (s', res)) = sendGetStatus lib send s"
  "(case observed_sendGetVolatility T cfg lib send p6 s of (s', _, res) \<Rightarrow> (s', res)) = sendGetVolatility lib send p6 s"
  "(case observed_sendGetVolatilityFields T cfg lib send p7 s of (s', _, res) \<Rightarrow> (s', res)) = sendGetVolatilityFields lib send p7 s"
  "(case observed_sendHealthz T cfg lib send s of (s', _, res) \<Rightarrow> (s', res)) = sendHealthz lib send s"
  "(case observed_sendListClusters T cfg lib send s of (s', _, res) \<Rightarrow> (s', res)) = sendListClusters lib send s"
  "(case observed_sendListGVKs T cfg lib send p10 s of (s', _, res) \<Rightarrow> (s', res)) = sendListGVKs lib send p10 s"
  "(case observed_sendListNamespaces T cfg lib send p11 s of (s', _, res) \<Rightarrow> (s', res)) = sendListNamespaces lib send p11 s"
  by (simp_all only: observe_call_result send_staged_request send_staged_plain
    observed_sendGetDiff_def sendGetDiff_def
    observed_sendGetHistory_def sendGetHistory_def
    observed_sendGetResource_def sendGetResource_def
    observed_sendGetSnapshot_def sendGetSnapshot_def
    observed_sendGetStatus_def sendGetStatus_def
    observed_sendGetVolatility_def sendGetVolatility_def
    observed_sendGetVolatilityFields_def sendGetVolatilityFields_def
    observed_sendHealthz_def sendHealthz_def
    observed_sendListClusters_def sendListClusters_def
    observed_sendListGVKs_def sendListGVKs_def
    observed_sendListNamespaces_def sendListNamespaces_def)

subsection \<open>Both sides of a call\<close>

text \<open>The generated server as transport: its state is that of the handler with what was reported so far.\<close>

definition observed_in_process ::
  "telemetry_env \<Rightarrow> ('o, 'w) serverConfig \<Rightarrow> ('w, 's) hooks \<Rightarrow> 'j server_lib \<Rightarrow> 's handler \<Rightarrow>
   ('s \<times> api_error otel_call list) transport" where
  "observed_in_process T cfg hk S H r s =
     (case observe_request T cfg hk S H r (fst s) of
        (h', calls, Ok resp) \<Rightarrow> ((h', snd s @ calls), Inr resp)
      | (h', calls, Err err) \<Rightarrow> ((h', snd s @ calls), Inl err)
      | (h', calls, Panic m) \<Rightarrow> ((h', snd s @ calls), Inl (ErrText ''EOF'')))"

lemma observed_in_process_step:
  assumes "unhooked cfg hk" "connected T" "in_process S env r h = (h', res)"
  obtains calls where "observed_in_process T cfg hk S (rest_handler env) r (h, sent) = ((h', sent @ calls), res)"
    "routed_to S r \<Longrightarrow> tally is_RequestsAdd calls = 1"
proof -
  obtain h1 calls ans where o: "observe_request T cfg hk S (rest_handler env) r h = (h1, calls, ans)" by (metis prod.exhaust)
  have "serve_request S env r h = (h1, ans)" by (rule observed_answer [OF assms(1,2) o])
  then have "observed_in_process T cfg hk S (rest_handler env) r (h, sent) = ((h', sent @ calls), res)"
    using assms(3) o by (cases ans) (auto simp: observed_in_process_def in_process_def)
  moreover have "routed_to S r \<Longrightarrow> tally is_RequestsAdd calls = 1"
    using observe_request_counts [OF o] by (simp add: once_def)
  ultimately show ?thesis by (rule that)
qed

lemma staged_step:
  assumes libs: "http_ok txt tms C S" "unhooked cfg hk" "connected T" and kvs: "distinct (map fst kvs)"
    and plain: "send_request C (in_process S env) (operation_path op) kvs decode h = (h', res)"
  shows "\<exists>served stage. send_staged C (observed_in_process T cfg hk S (rest_handler env)) (operation_path op) (Some kvs) decode (h, sent) =
      ((h', sent @ served), stage, res) \<and> tally is_RequestsAdd served = 1"
proof -
  obtain raw where raw: "kl_EncodeQuery C kvs = Inr raw" by (rule http_query [OF libs(1) kvs])
  let ?r = "\<lparr>rq_Method = ''GET'', rq_URL = kl_AddPathParts C (kl_serverPath C) (operation_path op), rq_RawQuery = raw\<rparr>"
  obtain h1 ans where ip: "in_process S env ?r h = (h1, ans)" by fastforce
  obtain calls where calls: "observed_in_process T cfg hk S (rest_handler env) ?r (h, sent) = ((h1, sent @ calls), ans)"
      "routed_to S ?r \<Longrightarrow> tally is_RequestsAdd calls = 1"
    by (rule observed_in_process_step [OF libs(2,3) ip, where sent = sent]) blast
  have "routed_to S ?r" using route_sent [OF libs(1)] by (auto simp: routed_to_def)
  then show ?thesis
    using plain raw ip calls
    by (cases ans) (auto simp: send_request_def send_staged_def wrap_error_def http_laws(5) [OF libs(1)])
qed

text \<open>C39: A snapshot call that the generated client makes to the generated server is counted exactly once on either
  side, with all reports switched on it returns what it returns without them, and the client counts
  an error exactly if it returns one.\<close>

theorem call_is_counted_on_both_sides:
  assumes "http_ok txt tms C S" "unhooked cfg hk" "connected T"
    and "observed_sendGetSnapshot T' ccfg C (observed_in_process T cfg hk S (rest_handler env)) params (h, sent) = ((h', sent'), calls, res)"
  shows "sendGetSnapshot C (in_process S env) params h = (h', res) \<and>
    (\<exists>served. sent' = sent @ served \<and> tally is_RequestsAdd served = 1) \<and>
    tally is_RequestsAdd calls = 1 \<and> tally is_ErrorsAdd calls = (if isl res then 1 else 0)"
proof -
  obtain h1 r1 where plain: "sendGetSnapshot C (in_process S env) params h = (h1, r1)" by fastforce
  have "send_request C (in_process S env) (operation_path GetSnapshotOperation) (queryGetSnapshot C params)
      (decodeGetSnapshotResponse (kl_wire C)) h = (h1, r1)"
    using plain by (simp only: sendGetSnapshot_def operation_path.simps)
  then obtain served stage where s: "send_staged C (observed_in_process T cfg hk S (rest_handler env)) (operation_path GetSnapshotOperation)
      (Some (queryGetSnapshot C params)) (decodeGetSnapshotResponse (kl_wire C)) (h, sent) =
      ((h1, sent @ served), stage, r1)" "tally is_RequestsAdd served = 1"
    using staged_step [OF assms(1-3) distinct_GetSnapshot] by blast
  show ?thesis
    using assms(4) plain s(2)
    by (cases r1) (auto simp: observed_sendGetSnapshot_def observe_call_def Let_def s(1) [unfolded operation_path.simps])
qed

subsection \<open>Example\<close>

definition example_clientConfig :: "(unit, unit) clientConfig" where
  "example_clientConfig = \<lparr>cg_otel = no_otel, cg_Client = ()\<rparr>"

abbreviation example_transport :: "(unit apiHandler \<times> api_error otel_call list) transport" where
  "example_transport \<equiv>
     observed_in_process example_telemetry example_serverConfig example_hooks example_server_lib
       (rest_handler viewer_env)"

theorem call_is_counted_on_both_sides_witness:
  "\<exists>h' served calls res.
     observed_sendGetSnapshot example_telemetry example_clientConfig example_client_lib example_transport snapshot_request
       (example_handler, []) = ((h', served), calls, res) \<and>
     sendGetSnapshot example_client_lib (in_process example_server_lib viewer_env) snapshot_request example_handler = (h', res) \<and>
     tally is_RequestsAdd served = 1 \<and> tally is_RequestsAdd calls = 1"
proof -
  obtain h' served calls res where call: "observed_sendGetSnapshot example_telemetry example_clientConfig example_client_lib
      example_transport snapshot_request (example_handler, []) = ((h', served), calls, res)"
    by (metis prod.exhaust)
  show ?thesis
    using call_is_counted_on_both_sides [OF example_http_ok example_unhooked example_connected call] call by auto
qed

end
