(* ===== verification/OptValues.thy ===== *)
theory OptValues
  imports ApiExample
begin

text \<open>
  The optional values of \<open>internal/api/oas_schemas_gen.go\<close> as the structs they are, \<open>OptX{Value, Set}\<close> and
  \<open>OptNilX{Value, Set, Null}\<close>, with their methods, and their JSON methods from \<open>oas_json_gen.go\<close>. Elsewhere an
  \<open>OptX\<close> is an option and an \<open>OptNilX\<close> a value of \<open>OptNil\<close>; the lemmas show that nothing is lost: whatever
  is done to a struct, it stands for one of these values and does what is said of that value. The generated types
  differ in the type of \<open>Value\<close>, whose zero value is a parameter.
\<close>

subsection \<open>Optional values\<close>

record 'a GoOpt =
  ov_Value :: 'a
  ov_Set :: bool

definition NewOpt :: "'a \<Rightarrow> 'a GoOpt" where
  "NewOpt v = \<lparr>ov_Value = v, ov_Set = True\<rparr>"

definition Opt_IsSet :: "'a GoOpt \<Rightarrow> bool" where
  "Opt_IsSet opt = ov_Set opt"

definition Opt_Reset :: "'a \<Rightarrow> 'a GoOpt \<Rightarrow> 'a GoOpt" where
  "Opt_Reset zero opt = opt\<lparr>ov_Value := zero, ov_Set := False\<rparr>"

definition Opt_SetTo :: "'a \<Rightarrow> 'a GoOpt \<Rightarrow> 'a GoOpt" where
  "Opt_SetTo v opt = opt\<lparr>ov_Set := True, ov_Value := v\<rparr>"

definition Opt_Get :: "'a \<Rightarrow> 'a GoOpt \<Rightarrow> 'a \<times> bool" where
  "Opt_Get zero opt = (if \<not> ov_Set opt then (zero, False) else (ov_Value opt, True))"

definition Opt_Or :: "'a \<Rightarrow> 'a GoOpt \<Rightarrow> 'a \<Rightarrow> 'a" where
  "Opt_Or zero opt d = (case Opt_Get zero opt of (v, ok) \<Rightarrow> if ok then v else d)"

subsection \<open>Optional nullable values\<close>

record 'a GoOptNil =
  on_Value :: 'a
  on_Set :: bool
  on_Null :: bool

definition NewOptNil :: "'a \<Rightarrow> 'a GoOptNil" where
  "NewOptNil v = \<lparr>on_Value = v, on_Set = True, on_Null = False\<rparr>"

definition OptNil_IsSet :: "'a GoOptNil \<Rightarrow> bool" where
  "OptNil_IsSet opt = on_Set opt"

definition OptNil_Reset :: "'a \<Rightarrow> 'a GoOptNil \<Rightarrow> 'a GoOptNil" where
  "OptNil_Reset zero opt = opt\<lparr>on_Value := zero, on_Set := False, on_Null := False\<rparr>"

definition OptNil_SetTo :: "'a \<Rightarrow> 'a GoOptNil \<Rightarrow> 'a GoOptNil" where
  "OptNil_SetTo v opt = opt\<lparr>on_Set := True, on_Null := False, on_Value := v\<rparr>"

definition OptNil_IsNull :: "'a GoOptNil \<Rightarrow> bool" where
  "OptNil_IsNull opt = on_Null opt"

definition OptNil_SetToNull :: "'a \<Rightarrow> 'a GoOptNil \<Rightarrow> 'a GoOptNil" where
  "OptNil_SetToNull zero opt = opt\<lparr>on_Set := True, on_Null := True, on_Value := zero\<rparr>"

definition OptNil_Get :: "'a \<Rightarrow> 'a GoOptNil \<Rightarrow> 'a \<times> bool" where
  "OptNil_Get zero opt =
     (if on_Null opt then (zero, False)
      else if \<not> on_Set opt then (zero, False)
      else (on_Value opt, True))"

definition OptNil_Or :: "'a \<Rightarrow> 'a GoOptNil \<Rightarrow> 'a \<Rightarrow> 'a" where
  "OptNil_Or zero opt d = (case OptNil_Get zero opt of (v, ok) \<Rightarrow> if ok then v else d)"

subsection \<open>JSON\<close>

text \<open>An encoder of an optional value may write nothing. A decoder changes the struct even where it fails:
  the flags, and the value where the decoder of the values does. \<open>dec\<close> maps the old value and the encoded one to the new value and an error.\<close>

definition OptNil_Encode :: "'j jx \<Rightarrow> ('a \<Rightarrow> 'j) \<Rightarrow> 'a GoOptNil \<Rightarrow> 'j option" where
  "OptNil_Encode X enc opt =
     (if \<not> on_Set opt then None
      else if on_Null opt then Some (jx_Null X)
      else Some (enc (on_Value opt)))"

definition OptNil_Decode ::
  "'j jx \<Rightarrow> 'a \<Rightarrow> ('a \<Rightarrow> 'j \<Rightarrow> 'a \<times> error option) \<Rightarrow> 'j \<Rightarrow> 'a GoOptNil \<Rightarrow> 'a GoOptNil \<times> error option" where
  "OptNil_Decode X zero dec j opt =
     (if jd_NextIsNull X j
      then (case jd_Null X j of
              Some err \<Rightarrow> (opt, Some err)
            | None \<Rightarrow> (opt\<lparr>on_Value := zero, on_Set := True, on_Null := True\<rparr>, None))
      else (let opt = opt\<lparr>on_Set := True, on_Null := False\<rparr>
            in case dec (on_Value opt) j of (v, err) \<Rightarrow> (opt\<lparr>on_Value := v\<rparr>, err)))"

text \<open>\<open>v, err := format(d); if err != nil { return err }; o.Value = v\<close>\<close>

definition assign_decoded :: "('j \<Rightarrow> error + 'a) \<Rightarrow> 'a \<Rightarrow> 'j \<Rightarrow> 'a \<times> error option" where
  "assign_decoded d old j = (case d j of Inl err \<Rightarrow> (old, Some err) | Inr v \<Rightarrow> (v, None))"

text \<open>\<open>SnapshotResourceLabels.Decode\<close> puts the fields into the map one by one, and leaves it as far as it came. \<open>flds\<close>
  is what \<open>ObjBytes\<close> hands to its callback, and the error it ends with when the callback has none. A nil map is
  the empty one here.\<close>

type_synonym 'j obj_fields = "'j \<Rightarrow> (string \<times> 'j) list \<times> error option"

fun fill_labels :: "'j jx \<Rightarrow> (string \<times> 'j) list \<Rightarrow> string gmap \<Rightarrow> string gmap \<times> error option" where
  "fill_labels X [] m = (m, None)"
| "fill_labels X ((k, j) # kvs) m =
     (case label_field X k j m of Inl err \<Rightarrow> (m, Some err) | Inr m' \<Rightarrow> fill_labels X kvs m')"

definition Labels_Decode_into ::
  "'j jx \<Rightarrow> 'j obj_fields \<Rightarrow> string gmap \<Rightarrow> 'j \<Rightarrow> string gmap \<times> error option" where
  "Labels_Decode_into X flds m j =
     (case flds j of
        (kvs, ends) \<Rightarrow>
          (case fill_labels X kvs m of
             (m', err) \<Rightarrow>
               (m', map_option (ErrWrap ''decode SnapshotResourceLabels'') (if err = None then ends else err))))"

definition OptNilDateTime_Encode :: "'j jx \<Rightarrow> int GoOptNil \<Rightarrow> 'j option" where
  "OptNilDateTime_Encode X opt = OptNil_Encode X (jx_DateTime X) opt"

definition OptNilDateTime_Decode :: "'j jx \<Rightarrow> 'j \<Rightarrow> int GoOptNil \<Rightarrow> int GoOptNil \<times> error option" where
  "OptNilDateTime_Decode X j opt = OptNil_Decode X zero_time (assign_decoded (jd_DateTime X)) j opt"

definition OptNilString_Encode :: "'j jx \<Rightarrow> string GoOptNil \<Rightarrow> 'j option" where
  "OptNilString_Encode X opt = OptNil_Encode X (jx_Str X) opt"

definition OptNilString_Decode :: "'j jx \<Rightarrow> 'j \<Rightarrow> string GoOptNil \<Rightarrow> string GoOptNil \<times> error option" where
  "OptNilString_Decode X j opt = OptNil_Decode X '''' (assign_decoded (jd_Str X)) j opt"

definition OptNilLabels_Encode :: "'j jx \<Rightarrow> string gmap GoOptNil \<Rightarrow> 'j option" where
  "OptNilLabels_Encode X opt = OptNil_Encode X (Encode_Labels X) opt"

text \<open>The labels are decoded into a new map.\<close>

definition OptNilLabels_Decode ::
  "'j jx \<Rightarrow> 'j obj_fields \<Rightarrow> 'j \<Rightarrow> string gmap GoOptNil \<Rightarrow> string gmap GoOptNil \<times> error option" where
  "OptNilLabels_Decode X flds j opt = OptNil_Decode X [] (\<lambda>_. Labels_Decode_into X flds []) j opt"

definition OptString_Encode :: "'j jx \<Rightarrow> string GoOpt \<Rightarrow> 'j option" where
  "OptString_Encode X opt = (if \<not> ov_Set opt then None else Some (jx_Str X (ov_Value opt)))"

definition OptString_Decode :: "'j jx \<Rightarrow> 'j \<Rightarrow> string GoOpt \<Rightarrow> string GoOpt \<times> error option" where
  "OptString_Decode X j opt =
     (let opt = opt\<lparr>ov_Set := True\<rparr>
      in case jd_Str X j of
           Inl err \<Rightarrow> (opt, Some err)
         | Inr v \<Rightarrow> (opt\<lparr>ov_Value := v\<rparr>, None))"

subsection \<open>What the handlers rely on\<close>

text \<open>The last value set is the one that is read, and after a reset there is none.\<close>

locale optional_value =
  fixes zero :: 'a and reset :: "'s \<Rightarrow> 's" and set_to :: "'a \<Rightarrow> 's \<Rightarrow> 's" and get :: "'s \<Rightarrow> 'a \<times> bool"
    and or :: "'s \<Rightarrow> 'a \<Rightarrow> 'a"
  assumes get_reset: "get (reset s) = (zero, False)"
    and get_set_to: "get (set_to v s) = (v, True)"
    and or_get: "or s d = (if snd (get s) then fst (get s) else d)"
begin

lemma or_reset: "or (reset s) d = d"
  by (simp add: or_get get_reset)

lemma or_set_to: "or (set_to v s) d = v"
  by (simp add: or_get get_set_to)

lemma get_last: "vs \<noteq> [] \<Longrightarrow> get (fold set_to vs s) = (last vs, True)"
  by (induction vs arbitrary: s rule: rev_induct) (simp_all add: get_set_to)

end

interpretation opt: optional_value zero "Opt_Reset zero" Opt_SetTo "Opt_Get zero" "Opt_Or zero" for zero
  by unfold_locales (auto simp: Opt_Reset_def Opt_SetTo_def Opt_Get_def Opt_Or_def)

interpretation optnil: optional_value zero "OptNil_Reset zero" OptNil_SetTo "OptNil_Get zero" "OptNil_Or zero" for zero
  by unfold_locales (auto simp: OptNil_Reset_def OptNil_SetTo_def OptNil_Get_def OptNil_Or_def)

subsection \<open>The values the structs stand for\<close>

definition abs_Opt :: "'a GoOpt \<Rightarrow> 'a option" where
  "abs_Opt opt = (if ov_Set opt then Some (ov_Value opt) else None)"

definition abs_OptNil :: "'a GoOptNil \<Rightarrow> 'a OptNil" where
  "abs_OptNil opt = (if \<not> on_Set opt then Unset else if on_Null opt then Null else Set (on_Value opt))"

text \<open>No struct is null without being set, and one that holds nothing holds the zero value.\<close>

definition wf_OptNil :: "'a \<Rightarrow> 'a GoOptNil \<Rightarrow> bool" where
  "wf_OptNil zero opt \<longleftrightarrow> (on_Null opt \<longrightarrow> on_Set opt) \<and> (\<not> on_Set opt \<or> on_Null opt \<longrightarrow> on_Value opt = zero)"

lemma Opt_refines:
  "abs_Opt (NewOpt v) = Some v"
  "abs_Opt (Opt_Reset zero opt) = None"
  "abs_Opt (Opt_SetTo v opt) = Some v"
  "Opt_IsSet opt \<longleftrightarrow> abs_Opt opt \<noteq> None"
  "Opt_Get zero opt = (case abs_Opt opt of Some v \<Rightarrow> (v, True) | None \<Rightarrow> (zero, False))"
  "Opt_Or zero opt d = Or (abs_Opt opt) d"
  by (auto simp: abs_Opt_def NewOpt_def Opt_Reset_def Opt_SetTo_def Opt_IsSet_def Opt_Get_def Opt_Or_def)

lemma OptString_refines:
  "opt_string_field X k (abs_Opt opt) = (case OptString_Encode X opt of None \<Rightarrow> [] | Some j \<Rightarrow> [(k, j)])"
  "OptString_Decode X j opt = (opt', None) \<Longrightarrow> Decode_OptString X j = Inr (abs_Opt opt')"
  "OptString_Decode X j opt = (opt', Some err) \<Longrightarrow> Decode_OptString X j = Inl err"
  by (auto simp: opt_string_field_def abs_Opt_def OptString_Encode_def OptString_Decode_def Decode_OptString_def Let_def
      split: sum.splits)

text \<open>A decoder succeeds where the codec of \<open>Json\<close> does, and with the same value.\<close>

definition decodes :: "('a \<Rightarrow> 'j \<Rightarrow> 'a \<times> error option) \<Rightarrow> ('j \<Rightarrow> error + 'a) \<Rightarrow> bool" where
  "decodes dec d \<longleftrightarrow> (\<forall>old j. case d j of Inr v \<Rightarrow> dec old j = (v, None) | Inl err \<Rightarrow> snd (dec old j) \<noteq> None)"

lemma decodes_assign: "decodes (assign_decoded d) d"
  by (auto simp: decodes_def assign_decoded_def split: sum.split)

lemma fill_labels_loop:
  "fill_labels X kvs m = (m', None) \<longleftrightarrow> obj_loop (label_field X) kvs m = Inr m'"
  by (induction kvs arbitrary: m) (auto split: sum.split)

definition fields_of :: "'j jx \<Rightarrow> 'j obj_fields \<Rightarrow> bool" where
  "fields_of X flds \<longleftrightarrow> (\<forall>j. case jd_Obj X j of Inr kvs \<Rightarrow> flds j = (kvs, None) | Inl err \<Rightarrow> snd (flds j) \<noteq> None)"

lemma decodes_Labels:
  assumes "fields_of X flds"
  shows "decodes (\<lambda>_. Labels_Decode_into X flds []) (Decode_Labels X)"
  unfolding decodes_def
proof (intro allI)
  fix old :: "string gmap" and j
  obtain kvs ends where f: "flds j = (kvs, ends)" by fastforce
  obtain m' err where m': "fill_labels X kvs [] = (m', err)" by fastforce
  show "case Decode_Labels X j of Inr v \<Rightarrow> Labels_Decode_into X flds [] j = (v, None)
      | Inl err \<Rightarrow> snd (Labels_Decode_into X flds [] j) \<noteq> None"
  proof (cases "jd_Obj X j")
    case (Inl e)
    then have "ends \<noteq> None" using assms [unfolded fields_of_def, THEN spec, of j] f by simp
    then show ?thesis using Inl f m' by (auto simp: Decode_Labels_def Labels_Decode_into_def)
  next
    case (Inr kvs')
    then have "kvs' = kvs" "ends = None" using assms [unfolded fields_of_def, THEN spec, of j] f by simp_all
    show ?thesis
    proof (cases "obj_loop (label_field X) kvs []")
      case (Inl e)
      then have "err \<noteq> None" using fill_labels_loop [of X kvs "[]" m'] m' by auto
      then show ?thesis
        using \<open>kvs' = kvs\<close> Inr f m' Inl by (auto simp: Decode_Labels_def Labels_Decode_into_def)
    next
      case loop: (Inr m)
      then have "fill_labels X kvs [] = (m, None)" by (simp add: fill_labels_loop)
      then show ?thesis
        using \<open>kvs' = kvs\<close> \<open>ends = None\<close> Inr f loop by (simp add: Decode_Labels_def Labels_Decode_into_def)
    qed
  qed
qed

text \<open>The methods that change a struct, and what they do to the value it stands for: a decode that succeeds
  sets the value that \<open>Json\<close> decodes; one that fails sets what the decoder of the values leaves, unless it was a null that failed.\<close>

datatype ('a, 'j) opt_method = MReset | MSetTo 'a | MSetToNull | MDecode 'j

fun call_method ::
  "'j jx \<Rightarrow> 'a \<Rightarrow> ('a \<Rightarrow> 'j \<Rightarrow> 'a \<times> error option) \<Rightarrow> ('a, 'j) opt_method \<Rightarrow> 'a GoOptNil \<Rightarrow> 'a GoOptNil" where
  "call_method X zero dec MReset opt = OptNil_Reset zero opt"
| "call_method X zero dec (MSetTo v) opt = OptNil_SetTo v opt"
| "call_method X zero dec MSetToNull opt = OptNil_SetToNull zero opt"
| "call_method X zero dec (MDecode j) opt = fst (OptNil_Decode X zero dec j opt)"

fun spec_method ::
  "'j jx \<Rightarrow> 'a \<Rightarrow> ('a \<Rightarrow> 'j \<Rightarrow> 'a \<times> error option) \<Rightarrow> ('j \<Rightarrow> error + 'a) \<Rightarrow> ('a, 'j) opt_method \<Rightarrow> 'a OptNil \<Rightarrow> 'a OptNil" where
  "spec_method X zero dec d MReset opt = Unset"
| "spec_method X zero dec d (MSetTo v) opt = Set v"
| "spec_method X zero dec d MSetToNull opt = Null"
| "spec_method X zero dec d (MDecode j) opt =
     (case Decode_OptNil X d j of
        Inr v \<Rightarrow> v
      | Inl err \<Rightarrow> if jd_NextIsNull X j then opt else Set (fst (dec (Or_OptNil opt zero) j)))"

lemma Or_abs: "wf_OptNil zero opt \<Longrightarrow> Or_OptNil (abs_OptNil opt) zero = on_Value opt"
  by (auto simp: wf_OptNil_def abs_OptNil_def)

lemma decode_refines:
  assumes "wf_OptNil zero opt" "decodes dec d"
  shows "wf_OptNil zero (fst (OptNil_Decode X zero dec j opt))"
    and "abs_OptNil (fst (OptNil_Decode X zero dec j opt)) = spec_method X zero dec d (MDecode j) (abs_OptNil opt)"
proof -
  obtain v err where v: "dec (on_Value opt) j = (v, err)" by fastforce
  have dv: "d j = Inr w \<Longrightarrow> v = w" for w
    using assms(2) [unfolded decodes_def, THEN spec, THEN spec, of "on_Value opt" j] v by simp
  show "wf_OptNil zero (fst (OptNil_Decode X zero dec j opt))"
    using assms(1) by (auto simp: OptNil_Decode_def wf_OptNil_def v split: option.split)
  show "abs_OptNil (fst (OptNil_Decode X zero dec j opt)) = spec_method X zero dec d (MDecode j) (abs_OptNil opt)"
    using dv Or_abs [OF assms(1)] v
    by (cases "d j"; auto simp: OptNil_Decode_def Decode_OptNil_def abs_OptNil_def split: option.split)
qed

lemma method_refines:
  assumes "wf_OptNil zero opt" "decodes dec d"
  shows "wf_OptNil zero (call_method X zero dec m opt)"
    and "abs_OptNil (call_method X zero dec m opt) = spec_method X zero dec d m (abs_OptNil opt)"
proof -
  show "wf_OptNil zero (call_method X zero dec m opt)"
  proof (cases m)
    case (MDecode j)
    then show ?thesis using decode_refines(1) [OF assms] by simp
  qed (use assms(1) in \<open>auto simp: wf_OptNil_def OptNil_Reset_def OptNil_SetTo_def OptNil_SetToNull_def\<close>)
  show "abs_OptNil (call_method X zero dec m opt) = spec_method X zero dec d m (abs_OptNil opt)"
  proof (cases m)
    case (MDecode j)
    show ?thesis unfolding MDecode call_method.simps by (rule decode_refines(2) [OF assms])
  qed (auto simp: abs_OptNil_def OptNil_Reset_def OptNil_SetTo_def OptNil_SetToNull_def)
qed

lemma observers_refine:
  assumes "wf_OptNil zero opt"
  shows "OptNil_Get zero opt = (case Get_OptNil (abs_OptNil opt) of Some v \<Rightarrow> (v, True) | None \<Rightarrow> (zero, False))"
    and "OptNil_Or zero opt d = Or_OptNil (abs_OptNil opt) d"
    and "OptNil_IsSet opt \<longleftrightarrow> abs_OptNil opt \<noteq> Unset"
    and "OptNil_IsNull opt \<longleftrightarrow> abs_OptNil opt = Null"
    and "opt_nil_field X k enc (abs_OptNil opt) = (case OptNil_Encode X enc opt of None \<Rightarrow> [] | Some j \<Rightarrow> [(k, j)])"
  using assms
  by (auto simp: wf_OptNil_def abs_OptNil_def OptNil_Get_def OptNil_Or_def OptNil_IsSet_def OptNil_IsNull_def
      opt_nil_field_def OptNil_Encode_def)

definition zero_OptNil :: "'a \<Rightarrow> 'a GoOptNil" where
  "zero_OptNil zero = \<lparr>on_Value = zero, on_Set = False, on_Null = False\<rparr>"

lemma methods_refine:
  assumes "decodes dec d"
  shows "wf_OptNil zero (fold (call_method X zero dec) ms (zero_OptNil zero)) \<and>
    abs_OptNil (fold (call_method X zero dec) ms (zero_OptNil zero)) = fold (spec_method X zero dec d) ms Unset"
proof (induction ms rule: rev_induct)
  case Nil
  then show ?case by (simp add: zero_OptNil_def wf_OptNil_def abs_OptNil_def)
next
  case (snoc m ms)
  then show ?case using method_refines [OF _ assms] by simp
qed


definition tree_fields :: "json obj_fields" where
  "tree_fields j = (case j of JObj kvs \<Rightarrow> (kvs, None) | _ \<Rightarrow> ([], Some json_error))"

lemma tree_fields_of: "fields_of tree_jx tree_fields"
  by (simp add: fields_of_def tree_jx_def tree_fields_def split: json.split)


end
