(* ===== verification/Marshal.thy ===== *)
theory Marshal
  imports ApiFacts OptValues
begin

text \<open>
  The methods by which the REST types take part in the standard library's encodings: \<open>MarshalText\<close> and
  \<open>UnmarshalText\<close> of the two enumerated types (\<open>internal/api/oas_schemas_gen.go\<close>), \<open>MarshalJSON\<close> and
  \<open>UnmarshalJSON\<close> of the types (\<open>oas_json_gen.go\<close>). The bytes of an encoder are what it would write to a
  connection; a decoder fills a fresh struct. Unlike a response body, the bytes after the value are not looked at.
\<close>

subsection \<open>Text\<close>

text \<open>The verb \<open>%q\<close> is \<open>strconv.Quote\<close>, here \<open>quote\<close>.\<close>

definition MarshalText_ChangeEventChangeType :: "(string \<Rightarrow> string) \<Rightarrow> string \<Rightarrow> error + string" where
  "MarshalText_ChangeEventChangeType quote s =
     (if s = ''added'' then Inr s
      else if s = ''modified'' then Inr s
      else if s = ''deleted'' then Inr s
      else Inl (ErrText (''invalid value: '' @ quote s)))"

definition UnmarshalText_ChangeEventChangeType :: "(string \<Rightarrow> string) \<Rightarrow> string \<Rightarrow> error + string" where
  "UnmarshalText_ChangeEventChangeType quote data =
     (if data = ''added'' then Inr ''added''
      else if data = ''modified'' then Inr ''modified''
      else if data = ''deleted'' then Inr ''deleted''
      else Inl (ErrText (''invalid value: '' @ quote data)))"

definition MarshalText_GetHistoryChangeType :: "(string \<Rightarrow> string) \<Rightarrow> string \<Rightarrow> error + string" where
  "MarshalText_GetHistoryChangeType quote s =
     (if s = ''added'' then Inr s
      else if s = ''modified'' then Inr s
      else if s = ''deleted'' then Inr s
      else Inl (ErrText (''invalid value: '' @ quote s)))"

definition UnmarshalText_GetHistoryChangeType :: "(string \<Rightarrow> string) \<Rightarrow> string \<Rightarrow> error + string" where
  "UnmarshalText_GetHistoryChangeType quote data =
     (if data = ''added'' then Inr ''added''
      else if data = ''modified'' then Inr ''modified''
      else if data = ''deleted'' then Inr ''deleted''
      else Inl (ErrText (''invalid value: '' @ quote data)))"

text \<open>What is written is what the validator accepts, it is read back as itself, and the two types agree.\<close>

lemma change_type_text:
  "MarshalText_ChangeEventChangeType quote s = Inr data \<longleftrightarrow> s \<in> set change_types \<and> data = s"
  "UnmarshalText_ChangeEventChangeType quote data = Inr s \<longleftrightarrow> s \<in> set change_types \<and> data = s"
  "MarshalText_GetHistoryChangeType = MarshalText_ChangeEventChangeType"
  "UnmarshalText_GetHistoryChangeType = UnmarshalText_ChangeEventChangeType"
  by (auto simp: MarshalText_ChangeEventChangeType_def UnmarshalText_ChangeEventChangeType_def change_types_def
      MarshalText_GetHistoryChangeType_def UnmarshalText_GetHistoryChangeType_def fun_eq_iff split: if_splits)

subsection \<open>JSON\<close>

definition encoder_bytes :: "'j wire_lib \<Rightarrow> 'j option \<Rightarrow> error + string" where
  "encoder_bytes W j = Inr (case j of Some j \<Rightarrow> wl_WriteTo W j | None \<Rightarrow> [])"

definition MarshalJSON_ChangeEvent :: "'j wire_lib \<Rightarrow> ApiChangeEvent \<Rightarrow> error + string" where
  "MarshalJSON_ChangeEvent W s = encoder_bytes W (Some (Encode_ChangeEvent (wl_jx W) s))"

definition UnmarshalJSON_ChangeEvent :: "'j wire_lib \<Rightarrow> string \<Rightarrow> error + ApiChangeEvent" where
  "UnmarshalJSON_ChangeEvent W data = Decode_ChangeEvent (wl_jx W) (wl_DecodeBytes W data)"

definition MarshalJSON_ClusterStatus :: "'j wire_lib \<Rightarrow> ApiClusterStatus \<Rightarrow> error + string" where
  "MarshalJSON_ClusterStatus W s = encoder_bytes W (Some (Encode_ClusterStatus (wl_jx W) s))"

definition UnmarshalJSON_ClusterStatus :: "'j wire_lib \<Rightarrow> string \<Rightarrow> error + ApiClusterStatus" where
  "UnmarshalJSON_ClusterStatus W data = Decode_ClusterStatus (wl_jx W) (wl_DecodeBytes W data)"

definition MarshalJSON_DiffResult :: "'j wire_lib \<Rightarrow> ApiDiffResult \<Rightarrow> error + string" where
  "MarshalJSON_DiffResult W s = encoder_bytes W (Some (Encode_DiffResult (wl_jx W) s))"

definition UnmarshalJSON_DiffResult :: "'j wire_lib \<Rightarrow> string \<Rightarrow> error + ApiDiffResult" where
  "UnmarshalJSON_DiffResult W data = Decode_DiffResult (wl_jx W) (wl_DecodeBytes W data)"

definition MarshalJSON_FieldVolatilityEntry :: "'j wire_lib \<Rightarrow> ApiFieldVolatilityEntry \<Rightarrow> error + string" where
  "MarshalJSON_FieldVolatilityEntry W s = encoder_bytes W (Some (Encode_FieldVolatilityEntry (wl_jx W) s))"

definition UnmarshalJSON_FieldVolatilityEntry :: "'j wire_lib \<Rightarrow> string \<Rightarrow> error + ApiFieldVolatilityEntry" where
  "UnmarshalJSON_FieldVolatilityEntry W data = Decode_FieldVolatilityEntry (wl_jx W) (wl_DecodeBytes W data)"

definition MarshalJSON_GVKInfo :: "'j wire_lib \<Rightarrow> ApiGVKInfo \<Rightarrow> error + string" where
  "MarshalJSON_GVKInfo W s = encoder_bytes W (Some (Encode_GVKInfo (wl_jx W) s))"

definition UnmarshalJSON_GVKInfo :: "'j wire_lib \<Rightarrow> string \<Rightarrow> error + ApiGVKInfo" where
  "UnmarshalJSON_GVKInfo W data = Decode_GVKInfo (wl_jx W) (wl_DecodeBytes W data)"

definition MarshalJSON_VolatilityFields :: "'j wire_lib \<Rightarrow> ApiFieldVolatilityEntry list \<Rightarrow> error + string" where
  "MarshalJSON_VolatilityFields W s = encoder_bytes W (Some (Encode_VolatilityFields (wl_jx W) s))"

definition UnmarshalJSON_VolatilityFields :: "'j wire_lib \<Rightarrow> string \<Rightarrow> error + (ApiFieldVolatilityEntry list)" where
  "UnmarshalJSON_VolatilityFields W data = Decode_VolatilityFields (wl_jx W) (wl_DecodeBytes W data)"

definition MarshalJSON_HistoryPage :: "'j wire_lib \<Rightarrow> HistoryPage \<Rightarrow> error + string" where
  "MarshalJSON_HistoryPage W s = encoder_bytes W (Some (Encode_HistoryPage (wl_jx W) s))"

definition UnmarshalJSON_HistoryPage :: "'j wire_lib \<Rightarrow> string \<Rightarrow> error + HistoryPage" where
  "UnmarshalJSON_HistoryPage W data = Decode_HistoryPage (wl_jx W) (wl_DecodeBytes W data)"

definition MarshalJSON_SnapshotPage :: "'j wire_lib \<Rightarrow> SnapshotPage \<Rightarrow> error + string" where
  "MarshalJSON_SnapshotPage W s = encoder_bytes W (Some (Encode_SnapshotPage (wl_jx W) s))"

definition UnmarshalJSON_SnapshotPage :: "'j wire_lib \<Rightarrow> string \<Rightarrow> error + SnapshotPage" where
  "UnmarshalJSON_SnapshotPage W data = Decode_SnapshotPage (wl_jx W) (wl_DecodeBytes W data)"

definition MarshalJSON_SnapshotResource :: "'j wire_lib \<Rightarrow> SnapshotResource \<Rightarrow> error + string" where
  "MarshalJSON_SnapshotResource W s = encoder_bytes W (Some (Encode_SnapshotResource (wl_jx W) s))"

definition UnmarshalJSON_SnapshotResource :: "'j wire_lib \<Rightarrow> string \<Rightarrow> error + SnapshotResource" where
  "UnmarshalJSON_SnapshotResource W data = Decode_SnapshotResource (wl_jx W) (wl_DecodeBytes W data)"

definition MarshalJSON_StatusResponse :: "'j wire_lib \<Rightarrow> StatusResponse \<Rightarrow> error + string" where
  "MarshalJSON_StatusResponse W s = encoder_bytes W (Some (Encode_StatusResponse (wl_jx W) s))"

definition UnmarshalJSON_StatusResponse :: "'j wire_lib \<Rightarrow> string \<Rightarrow> error + StatusResponse" where
  "UnmarshalJSON_StatusResponse W data = Decode_StatusResponse (wl_jx W) (wl_DecodeBytes W data)"

definition MarshalJSON_VolatilityEntry :: "'j wire_lib \<Rightarrow> ApiVolatilityEntry \<Rightarrow> error + string" where
  "MarshalJSON_VolatilityEntry W s = encoder_bytes W (Some (Encode_VolatilityEntry (wl_jx W) s))"

definition UnmarshalJSON_VolatilityEntry :: "'j wire_lib \<Rightarrow> string \<Rightarrow> error + ApiVolatilityEntry" where
  "UnmarshalJSON_VolatilityEntry W data = Decode_VolatilityEntry (wl_jx W) (wl_DecodeBytes W data)"

definition MarshalJSON_VolatilityPage :: "'j wire_lib \<Rightarrow> VolatilityPage \<Rightarrow> error + string" where
  "MarshalJSON_VolatilityPage W s = encoder_bytes W (Some (Encode_VolatilityPage (wl_jx W) s))"

definition UnmarshalJSON_VolatilityPage :: "'j wire_lib \<Rightarrow> string \<Rightarrow> error + VolatilityPage" where
  "UnmarshalJSON_VolatilityPage W data = Decode_VolatilityPage (wl_jx W) (wl_DecodeBytes W data)"

definition MarshalJSON_Labels :: "'j wire_lib \<Rightarrow> string gmap \<Rightarrow> error + string" where
  "MarshalJSON_Labels W s = encoder_bytes W (Some (Encode_Labels (wl_jx W) s))"

definition UnmarshalJSON_Labels :: "'j wire_lib \<Rightarrow> string \<Rightarrow> error + (string gmap)" where
  "UnmarshalJSON_Labels W data = Decode_Labels (wl_jx W) (wl_DecodeBytes W data)"

definition MarshalJSON_ChangeType :: "'j wire_lib \<Rightarrow> string \<Rightarrow> error + string" where
  "MarshalJSON_ChangeType W s = encoder_bytes W (Some (Encode_ChangeType (wl_jx W) s))"

definition UnmarshalJSON_ChangeType :: "'j wire_lib \<Rightarrow> string \<Rightarrow> error + string" where
  "UnmarshalJSON_ChangeType W data = Decode_ChangeType (wl_jx W) (wl_DecodeBytes W data)"

definition MarshalJSON_OptNilDateTime :: "'j wire_lib \<Rightarrow> int GoOptNil \<Rightarrow> error + string" where
  "MarshalJSON_OptNilDateTime W s = encoder_bytes W (OptNilDateTime_Encode (wl_jx W) s)"

definition UnmarshalJSON_OptNilDateTime :: "'j wire_lib \<Rightarrow> string \<Rightarrow> int GoOptNil \<Rightarrow> int GoOptNil \<times> error option" where
  "UnmarshalJSON_OptNilDateTime W data s = OptNilDateTime_Decode (wl_jx W) (wl_DecodeBytes W data) s"

definition MarshalJSON_OptNilString :: "'j wire_lib \<Rightarrow> string GoOptNil \<Rightarrow> error + string" where
  "MarshalJSON_OptNilString W s = encoder_bytes W (OptNilString_Encode (wl_jx W) s)"

definition UnmarshalJSON_OptNilString :: "'j wire_lib \<Rightarrow> string \<Rightarrow> string GoOptNil \<Rightarrow> string GoOptNil \<times> error option" where
  "UnmarshalJSON_OptNilString W data s = OptNilString_Decode (wl_jx W) (wl_DecodeBytes W data) s"

definition MarshalJSON_OptString :: "'j wire_lib \<Rightarrow> string GoOpt \<Rightarrow> error + string" where
  "MarshalJSON_OptString W s = encoder_bytes W (OptString_Encode (wl_jx W) s)"

definition UnmarshalJSON_OptString :: "'j wire_lib \<Rightarrow> string \<Rightarrow> string GoOpt \<Rightarrow> string GoOpt \<times> error option" where
  "UnmarshalJSON_OptString W data s = OptString_Decode (wl_jx W) (wl_DecodeBytes W data) s"

definition MarshalJSON_OptNilLabels :: "'j wire_lib \<Rightarrow> string gmap GoOptNil \<Rightarrow> error + string" where
  "MarshalJSON_OptNilLabels W s = encoder_bytes W (OptNilLabels_Encode (wl_jx W) s)"

definition UnmarshalJSON_OptNilLabels ::
  "'j wire_lib \<Rightarrow> 'j obj_fields \<Rightarrow> string \<Rightarrow> string gmap GoOptNil \<Rightarrow> string gmap GoOptNil \<times> error option" where
  "UnmarshalJSON_OptNilLabels W flds data s = OptNilLabels_Decode (wl_jx W) flds (wl_DecodeBytes W data) s"

subsection \<open>Reading back\<close>

lemmas marshal_defs = encoder_bytes_def
  MarshalJSON_ChangeEvent_def UnmarshalJSON_ChangeEvent_def
  MarshalJSON_ClusterStatus_def UnmarshalJSON_ClusterStatus_def
  MarshalJSON_DiffResult_def UnmarshalJSON_DiffResult_def
  MarshalJSON_FieldVolatilityEntry_def UnmarshalJSON_FieldVolatilityEntry_def
  MarshalJSON_GVKInfo_def UnmarshalJSON_GVKInfo_def
  MarshalJSON_VolatilityFields_def UnmarshalJSON_VolatilityFields_def
  MarshalJSON_HistoryPage_def UnmarshalJSON_HistoryPage_def
  MarshalJSON_SnapshotPage_def UnmarshalJSON_SnapshotPage_def
  MarshalJSON_SnapshotResource_def UnmarshalJSON_SnapshotResource_def
  MarshalJSON_StatusResponse_def UnmarshalJSON_StatusResponse_def
  MarshalJSON_VolatilityEntry_def UnmarshalJSON_VolatilityEntry_def
  MarshalJSON_VolatilityPage_def UnmarshalJSON_VolatilityPage_def
  MarshalJSON_Labels_def UnmarshalJSON_Labels_def
  MarshalJSON_ChangeType_def UnmarshalJSON_ChangeType_def

lemma bytes_read_back: "wire_ok txt tms W \<Longrightarrow> wl_DecodeBytes W (wl_WriteTo W j) = j"
  by (simp add: wire_ok_def)

lemma bytes_jx: "wire_ok txt tms W \<Longrightarrow> jx_ok txt tms (wl_jx W)"
  by (simp add: wire_ok_def)

text \<open>Every type reads back what it wrote; a label map in the order in which it was ranged over.\<close>

lemma marshal_ChangeEvent:
  assumes W: "wire_ok txt tms W" and "ok_ChangeEvent txt tms x"
  shows "MarshalJSON_ChangeEvent W x = Inr data \<Longrightarrow> UnmarshalJSON_ChangeEvent W data = Inr x"
  using assms(2) by (auto simp: marshal_defs bytes_read_back [OF W] Decode_ChangeEvent_Encode [OF bytes_jx [OF W]])

lemma marshal_ClusterStatus:
  assumes W: "wire_ok txt tms W" and "ok_ClusterStatus txt tms x"
  shows "MarshalJSON_ClusterStatus W x = Inr data \<Longrightarrow> UnmarshalJSON_ClusterStatus W data = Inr x"
  using assms(2) by (auto simp: marshal_defs bytes_read_back [OF W] Decode_ClusterStatus_Encode [OF bytes_jx [OF W]])

lemma marshal_DiffResult:
  assumes W: "wire_ok txt tms W" and "ok_DiffResult txt x"
  shows "MarshalJSON_DiffResult W x = Inr data \<Longrightarrow> UnmarshalJSON_DiffResult W data = Inr x"
  using assms(2) by (auto simp: marshal_defs bytes_read_back [OF W] Decode_DiffResult_Encode [OF bytes_jx [OF W]])

lemma marshal_FieldVolatilityEntry:
  assumes W: "wire_ok txt tms W" and "ok_FieldEntry txt x"
  shows "MarshalJSON_FieldVolatilityEntry W x = Inr data \<Longrightarrow> UnmarshalJSON_FieldVolatilityEntry W data = Inr x"
  using assms(2) by (auto simp: marshal_defs bytes_read_back [OF W] Decode_FieldVolatilityEntry_Encode [OF bytes_jx [OF W]])

lemma marshal_GVKInfo:
  assumes W: "wire_ok txt tms W" and "ok_GVKInfo txt x"
  shows "MarshalJSON_GVKInfo W x = Inr data \<Longrightarrow> UnmarshalJSON_GVKInfo W data = Inr x"
  using assms(2) by (auto simp: marshal_defs bytes_read_back [OF W] Decode_GVKInfo_Encode [OF bytes_jx [OF W]])

lemma marshal_VolatilityFields:
  assumes W: "wire_ok txt tms W" and "\<forall>e\<in>set x. ok_FieldEntry txt e"
  shows "MarshalJSON_VolatilityFields W x = Inr data \<Longrightarrow> UnmarshalJSON_VolatilityFields W data = Inr x"
  using assms(2) by (auto simp: marshal_defs bytes_read_back [OF W] Decode_VolatilityFields_Encode [OF bytes_jx [OF W]])

lemma marshal_HistoryPage:
  assumes W: "wire_ok txt tms W" and "ok_HistoryPage txt tms x"
  shows "MarshalJSON_HistoryPage W x = Inr data \<Longrightarrow> UnmarshalJSON_HistoryPage W data = Inr x"
  using assms(2) by (auto simp: marshal_defs bytes_read_back [OF W] Decode_HistoryPage_Encode [OF bytes_jx [OF W]])

lemma marshal_SnapshotPage:
  assumes W: "wire_ok txt tms W" and "ok_SnapshotPage txt tms x"
  shows "MarshalJSON_SnapshotPage W x = Inr data \<Longrightarrow> UnmarshalJSON_SnapshotPage W data = Inr (ordered_page (wl_jx W) x)"
  using assms(2) by (auto simp: marshal_defs bytes_read_back [OF W] Decode_SnapshotPage_Encode [OF bytes_jx [OF W]])

lemma marshal_SnapshotResource:
  assumes W: "wire_ok txt tms W" and "ok_SnapshotResource txt x"
  shows "MarshalJSON_SnapshotResource W x = Inr data \<Longrightarrow> UnmarshalJSON_SnapshotResource W data = Inr (ordered (wl_jx W) x)"
  using assms(2) by (auto simp: marshal_defs bytes_read_back [OF W] Decode_SnapshotResource_Encode [OF bytes_jx [OF W]])

lemma marshal_StatusResponse:
  assumes W: "wire_ok txt tms W" and "\<forall>c\<in>set (sx_Clusters x). ok_ClusterStatus txt tms c"
  shows "MarshalJSON_StatusResponse W x = Inr data \<Longrightarrow> UnmarshalJSON_StatusResponse W data = Inr x"
  using assms(2) by (auto simp: marshal_defs bytes_read_back [OF W] Decode_StatusResponse_Encode [OF bytes_jx [OF W]])

lemma marshal_VolatilityEntry:
  assumes W: "wire_ok txt tms W" and "ok_VolatilityEntry txt x"
  shows "MarshalJSON_VolatilityEntry W x = Inr data \<Longrightarrow> UnmarshalJSON_VolatilityEntry W data = Inr x"
  using assms(2) by (auto simp: marshal_defs bytes_read_back [OF W] Decode_VolatilityEntry_Encode [OF bytes_jx [OF W]])

lemma marshal_VolatilityPage:
  assumes W: "wire_ok txt tms W" and "ok_VolatilityPage txt x"
  shows "MarshalJSON_VolatilityPage W x = Inr data \<Longrightarrow> UnmarshalJSON_VolatilityPage W data = Inr x"
  using assms(2) by (auto simp: marshal_defs bytes_read_back [OF W] Decode_VolatilityPage_Encode [OF bytes_jx [OF W]])

lemma marshal_Labels:
  assumes W: "wire_ok txt tms W" and "ok_Labels txt x"
  shows "MarshalJSON_Labels W x = Inr data \<Longrightarrow> UnmarshalJSON_Labels W data = Inr (jx_range (wl_jx W) x)"
  using assms(2) by (auto simp: marshal_defs bytes_read_back [OF W] Decode_Labels_Encode [OF bytes_jx [OF W]])

lemma marshal_ChangeType:
  assumes W: "wire_ok txt tms W" and "txt x"
  shows "MarshalJSON_ChangeType W x = Inr data \<Longrightarrow> UnmarshalJSON_ChangeType W data = Inr x"
  using assms(2)
  by (auto simp: marshal_defs bytes_read_back [OF W] Encode_ChangeType_def Decode_ChangeType_def jx_laws [OF bytes_jx [OF W]])

text \<open>An optional value that is set or null is read back into any struct; one that is not set becomes no bytes
  at all, which is no JSON value.\<close>

lemma marshal_OptNilString:
  assumes "wire_ok txt tms W" and "on_Set s" and "on_Null s \<or> txt (on_Value s)" and "wf_OptNil [] s"
    and "MarshalJSON_OptNilString W s = Inr data"
  shows "UnmarshalJSON_OptNilString W data s' = (s, None)"
  using assms
  by (auto simp: MarshalJSON_OptNilString_def UnmarshalJSON_OptNilString_def encoder_bytes_def OptNilString_Encode_def OptNilString_Decode_def
      OptNil_Encode_def OptNil_Decode_def assign_decoded_def wf_OptNil_def bytes_read_back jx_laws [OF bytes_jx] Let_def)

lemma marshal_OptNilDateTime:
  assumes "wire_ok txt tms W" and "on_Set s" and "on_Null s \<or> tms (on_Value s)" and "wf_OptNil zero_time s"
    and "MarshalJSON_OptNilDateTime W s = Inr data"
  shows "UnmarshalJSON_OptNilDateTime W data s' = (s, None)"
  using assms
  by (auto simp: MarshalJSON_OptNilDateTime_def UnmarshalJSON_OptNilDateTime_def encoder_bytes_def OptNilDateTime_Encode_def OptNilDateTime_Decode_def
      OptNil_Encode_def OptNil_Decode_def assign_decoded_def wf_OptNil_def bytes_read_back jx_laws [OF bytes_jx] Let_def)

lemma Encode_Labels_not_null: "jx_ok txt tms X \<Longrightarrow> ok_Labels txt m \<Longrightarrow> \<not> jd_NextIsNull X (Encode_Labels X m)"
proof -
  assume X: "jx_ok txt tms X" and m: "ok_Labels txt m"
  have "set (jx_range X m) = set m" using jx_laws(13) [OF X] by (metis set_mset_mset)
  then have "\<forall>k\<in>fst ` set (map (\<lambda>(k, elem). (k, jx_Str X elem)) (jx_range X m)). txt k"
    using m by (auto simp: ok_Labels_def)
  then show ?thesis unfolding Encode_Labels_def by (rule jx_laws(12) [OF X])
qed

lemma marshal_OptNilLabels:
  assumes W: "wire_ok txt tms W" and "on_Set s" and v: "on_Null s \<or> ok_Labels txt (on_Value s)" and "wf_OptNil [] s"
    and flds: "fields_of (wl_jx W) flds" and "MarshalJSON_OptNilLabels W s = Inr data"
  shows "UnmarshalJSON_OptNilLabels W flds data s' =
    (if on_Null s then s else s\<lparr>on_Value := jx_range (wl_jx W) (on_Value s)\<rparr>, None)"
proof (cases "on_Null s")
  case True
  then show ?thesis
    using assms by (auto simp: MarshalJSON_OptNilLabels_def UnmarshalJSON_OptNilLabels_def encoder_bytes_def OptNilLabels_Encode_def
      OptNilLabels_Decode_def OptNil_Encode_def OptNil_Decode_def wf_OptNil_def bytes_read_back jx_laws [OF bytes_jx])
next
  case False
  then have ok: "ok_Labels txt (on_Value s)" using v by simp
  have "Labels_Decode_into (wl_jx W) flds [] (Encode_Labels (wl_jx W) (on_Value s)) = (jx_range (wl_jx W) (on_Value s), None)"
    using decodes_Labels [OF flds, unfolded decodes_def, THEN spec, THEN spec, of "Encode_Labels (wl_jx W) (on_Value s)"]
    by (simp add: Decode_Labels_Encode [OF bytes_jx [OF W] ok])
  then show ?thesis
    using assms(2,6) False Encode_Labels_not_null [OF bytes_jx [OF W] ok]
    by (auto simp: MarshalJSON_OptNilLabels_def UnmarshalJSON_OptNilLabels_def encoder_bytes_def OptNilLabels_Encode_def
      OptNilLabels_Decode_def OptNil_Encode_def OptNil_Decode_def bytes_read_back [OF W])
qed

lemma marshal_OptString:
  assumes "wire_ok txt tms W" and "ov_Set s" and "txt (ov_Value s)" and "MarshalJSON_OptString W s = Inr data"
  shows "UnmarshalJSON_OptString W data s' = (s, None)"
  using assms
  by (auto simp: MarshalJSON_OptString_def UnmarshalJSON_OptString_def encoder_bytes_def OptString_Encode_def OptString_Decode_def
       bytes_read_back jx_laws [OF bytes_jx] Let_def)

lemma marshal_unset:
  "\<not> on_Set dt \<Longrightarrow> MarshalJSON_OptNilDateTime W dt = Inr []"
  "\<not> on_Set s \<Longrightarrow> MarshalJSON_OptNilString W s = Inr []"
  "\<not> on_Set ls \<Longrightarrow> MarshalJSON_OptNilLabels W ls = Inr []"
  "\<not> ov_Set t \<Longrightarrow> MarshalJSON_OptString W t = Inr []"
  by (simp_all add: MarshalJSON_OptNilDateTime_def MarshalJSON_OptNilString_def MarshalJSON_OptNilLabels_def
      MarshalJSON_OptString_def encoder_bytes_def OptNilDateTime_Encode_def OptNilString_Encode_def
      OptNilLabels_Encode_def OptString_Encode_def OptNil_Encode_def)

end
