(* ===== verification/Oidc.thy ===== *)
theory Oidc
  imports ApiServer
begin

text \<open>
  Access control and the OAuth helpers of the server: \<open>internal/oidc/middleware.go\<close> and the handlers
  around it in \<open>cmd/server/main.go\<close>. Token verification, \<open>net/url\<close>, \<open>encoding/json\<close> and the upstream
  HTTP server are arguments. Each proxy keeps what it learnt from upstream in a state of its own; its
  mutex makes a call of \<open>fetch\<close> or \<open>getUpstream\<close> one step.
\<close>

record web_request =
  wr_request :: request
  wr_Header :: "string \<Rightarrow> string"
  wr_Query :: "(string \<times> string list) list"
  wr_Body :: "error + string"

text \<open>\<open>http.Error\<close>.\<close>

definition http_Error :: "string \<Rightarrow> nat \<Rightarrow> response" where
  "http_Error msg code =
     \<lparr>rs_Status = code, rs_Header = [(''Content-Type'', ''text/plain; charset=utf-8''),
        (''X-Content-Type-Options'', ''nosniff'')], rs_Body = msg @ [CHR 0x0A]\<rparr>"

subsection \<open>The middleware\<close>

record Middleware =
  mw_Verify :: "string \<Rightarrow> error option"
  mw_resourceMetadata :: string

definition New_Middleware ::
  "(string \<Rightarrow> error + 'p) \<Rightarrow> ('p \<Rightarrow> string \<Rightarrow> string \<Rightarrow> error option) \<Rightarrow> string \<Rightarrow> string \<Rightarrow> string \<Rightarrow>
   error + Middleware" where
  "New_Middleware NewProvider Verifier issuer audience resourceMetadata =
     (case NewProvider issuer of
        Inl err \<Rightarrow> Inl err
      | Inr provider \<Rightarrow>
          Inr \<lparr>mw_Verify = Verifier provider audience, mw_resourceMetadata = resourceMetadata\<rparr>)"

definition DQUOTE :: char where "DQUOTE = CHR 0x22"

definition quoted :: "string \<Rightarrow> string" where
  "quoted s = [DQUOTE] @ s @ [DQUOTE]"

definition wwwAuthenticate :: "Middleware \<Rightarrow> string \<Rightarrow> string" where
  "wwwAuthenticate m extra =
     (let base = ''Bearer realm='' @ quoted ''korpus'';
          base = (if mw_resourceMetadata m \<noteq> ''''
                  then base @ '', resource_metadata='' @ quoted (mw_resourceMetadata m) else base);
          base = (if extra \<noteq> '''' then base @ '', '' @ extra else base)
      in base)"

definition unauthorized :: "Middleware \<Rightarrow> string \<Rightarrow> string \<Rightarrow> response" where
  "unauthorized m extra msg =
     (let e = http_Error msg 401
      in e\<lparr>rs_Header := (''WWW-Authenticate'', wwwAuthenticate m extra) # rs_Header e\<rparr>)"

definition Middleware_Handler ::
  "Middleware \<Rightarrow> (web_request \<Rightarrow> 's \<Rightarrow> 's \<times> response result) \<Rightarrow> web_request \<Rightarrow> 's \<Rightarrow> 's \<times> response result" where
  "Middleware_Handler m nxt r s =
     (let auth = wr_Header r ''Authorization''
      in if \<not> HasPrefix auth ''Bearer '' then (s, Ok (unauthorized m '''' ''unauthorized''))
         else
           (let token = TrimPrefix auth ''Bearer ''
            in case mw_Verify m token of
                 Some _ \<Rightarrow> (s, Ok (unauthorized m (''error='' @ quoted ''invalid_token'') ''invalid token''))
               | None \<Rightarrow> nxt r s))"

definition maybeProtect ::
  "Middleware option \<Rightarrow> (web_request \<Rightarrow> 's \<Rightarrow> 's \<times> response result) \<Rightarrow> web_request \<Rightarrow> 's \<Rightarrow> 's \<times> response result" where
  "maybeProtect mw h = (case mw of Some m \<Rightarrow> Middleware_Handler m h | None \<Rightarrow> h)"

subsection \<open>Metadata of the protected resource\<close>

record parsed_url =
  pu_Scheme :: string
  pu_Host :: string
  pu_Path :: string

definition wellKnown :: string where
  "wellKnown = ''/.well-known/oauth-protected-resource''"

definition protectedResourceWellKnownPath :: "(string \<Rightarrow> error + parsed_url) \<Rightarrow> string \<Rightarrow> string" where
  "protectedResourceWellKnownPath Parse audience =
     (case Parse audience of
        Inl _ \<Rightarrow> wellKnown
      | Inr u \<Rightarrow> if pu_Host u = '''' then wellKnown else wellKnown @ TrimSuffix (pu_Path u) ''/'')"

definition protectedResourceMetadataURL :: "(string \<Rightarrow> error + parsed_url) \<Rightarrow> string \<Rightarrow> string" where
  "protectedResourceMetadataURL Parse audience =
     (case Parse audience of
        Inl _ \<Rightarrow> ''''
      | Inr u \<Rightarrow> if pu_Host u = '''' then ''''
                  else pu_Scheme u @ ''://'' @ pu_Host u @ wellKnown @ TrimSuffix (pu_Path u) ''/'')"

definition resourceBaseURL :: "(string \<Rightarrow> error + parsed_url) \<Rightarrow> string \<Rightarrow> string" where
  "resourceBaseURL Parse audience =
     (case Parse audience of
        Inl _ \<Rightarrow> audience
      | Inr u \<Rightarrow> if pu_Host u = '''' then audience else pu_Scheme u @ ''://'' @ pu_Host u)"

text \<open>\<open>json.NewEncoder(w).Encode(v)\<close> of a value is the argument \<open>Encode\<close>.\<close>

definition json_body :: "(any \<Rightarrow> string) \<Rightarrow> doc \<Rightarrow> response" where
  "json_body Encode v =
     \<lparr>rs_Status = 200, rs_Header = [(''Content-Type'', ''application/json'')], rs_Body = Encode (AMap v)\<rparr>"

definition oauthProtectedResourceHandler ::
  "(any \<Rightarrow> string) \<Rightarrow> (string \<Rightarrow> error + parsed_url) \<Rightarrow> response \<Rightarrow> OIDCConfig option \<Rightarrow> response" where
  "oauthProtectedResourceHandler Encode Parse notFound oidc =
     (case oidc of
        None \<Rightarrow> notFound
      | Some c \<Rightarrow> json_body Encode
          [(''resource'', AStr (oidc_Audience c)),
           (''authorization_servers'', AArr [AStr (resourceBaseURL Parse (oidc_Audience c))]),
           (''bearer_methods_supported'', AArr [AStr ''header''])])"

definition authConfigHandler :: "(any \<Rightarrow> string) \<Rightarrow> OIDCConfig option \<Rightarrow> response" where
  "authConfigHandler Encode oidc =
     (case oidc of
        None \<Rightarrow> json_body Encode [(''enabled'', ABool False)]
      | Some c \<Rightarrow> json_body Encode
          [(''enabled'', ABool True), (''issuer'', AStr (oidc_Issuer c)),
           (''clientId'', AStr (oidc_ClientID c)), (''audience'', AStr (oidc_Audience c))])"

subsection \<open>What the proxies use\<close>

text \<open>
  \<open>encoding/json\<close> on objects of raw messages (JSON \<open>null\<close> leaves the nil map, here \<open>None\<close>), on string
  lists (what the slice holds afterwards, error or not) and on a struct with one field; the upstream
  server at the time of one request, with the instants at which the clock is read.
\<close>

record json_lib =
  jl_Unmarshal_map :: "string \<Rightarrow> error + string gmap option"
  jl_Unmarshal_strings :: "string \<Rightarrow> string list"
  jl_Unmarshal_field :: "string \<Rightarrow> string \<Rightarrow> error + string"
  jl_Marshal_map :: "string gmap \<Rightarrow> error + string"
  jl_Marshal_strings :: "string list \<Rightarrow> error + string"
  jl_Marshal_string :: "string \<Rightarrow> string"

record forwarded =
  fw_Method :: string
  fw_URL :: string
  fw_Header :: "string gmap"
  fw_Body :: string

record upstream =
  up_Get :: "string \<Rightarrow> error + (error + string)"
  up_Do :: "forwarded \<Rightarrow> error + response"
  up_NewRequest :: "string \<Rightarrow> error option"
  up_now :: int
  up_later :: int

definition discovery_url :: "string \<Rightarrow> string" where
  "discovery_url issuer = issuer @ ''/.well-known/openid-configuration''"

subsection \<open>The discovery proxy\<close>

record discovery_cache =
  dc_cached :: "string option"
  dc_cachedAt :: int

definition no_discovery :: discovery_cache where
  "no_discovery = \<lparr>dc_cached = None, dc_cachedAt = zero_time\<rparr>"

definition discovery_ttl :: int where
  "discovery_ttl = 5 * 60 * 1000000000"

definition rewrite_discovery :: "json_lib \<Rightarrow> string \<Rightarrow> string gmap \<Rightarrow> string gmap" where
  "rewrite_discovery JL baseURL d =
     gm_put ''authorization_endpoint'' (jl_Marshal_string JL (baseURL @ ''/oauth2/auth''))
       (gm_put ''registration_endpoint'' (jl_Marshal_string JL (baseURL @ ''/oauth2/register'')) d)"

definition refetch_discovery ::
  "json_lib \<Rightarrow> string \<Rightarrow> string \<Rightarrow> upstream \<Rightarrow> discovery_cache \<Rightarrow> discovery_cache \<times> string result" where
  "refetch_discovery JL issuer baseURL up st =
     (case up_Get up (discovery_url issuer) of
        Inl err \<Rightarrow> (st, Err (ErrWrap ''fetch discovery'' err))
      | Inr (Inl err) \<Rightarrow> (st, Err (ErrWrap ''read discovery'' err))
      | Inr (Inr body) \<Rightarrow>
          (case jl_Unmarshal_map JL body of
             Inl err \<Rightarrow> (st, Err (ErrWrap ''parse discovery'' err))
           | Inr None \<Rightarrow> (st, Panic ''assignment to entry in nil map'')
           | Inr (Some d) \<Rightarrow>
               (case jl_Marshal_map JL (rewrite_discovery JL baseURL d) of
                  Inl err \<Rightarrow> (st, Err (ErrWrap ''marshal discovery'' err))
                | Inr new_body \<Rightarrow> (\<lparr>dc_cached = Some new_body, dc_cachedAt = up_later up\<rparr>, Ok new_body))))"

definition fetch_discovery ::
  "json_lib \<Rightarrow> string \<Rightarrow> string \<Rightarrow> upstream \<Rightarrow> discovery_cache \<Rightarrow> discovery_cache \<times> string result" where
  "fetch_discovery JL issuer baseURL up st =
     (case dc_cached st of
        Some body \<Rightarrow>
          if up_now up - dc_cachedAt st < discovery_ttl then (st, Ok body)
          else refetch_discovery JL issuer baseURL up st
      | None \<Rightarrow> refetch_discovery JL issuer baseURL up st)"

definition oidcDiscoveryProxyHandler ::
  "json_lib \<Rightarrow> string \<Rightarrow> string \<Rightarrow> upstream \<Rightarrow> discovery_cache \<Rightarrow> discovery_cache \<times> response result" where
  "oidcDiscoveryProxyHandler JL issuer baseURL up st =
     (case fetch_discovery JL issuer baseURL up st of
        (st', Ok body) \<Rightarrow>
          (st', Ok \<lparr>rs_Status = 200, rs_Header = [(''Content-Type'', ''application/json'')], rs_Body = body\<rparr>)
      | (st', Err _) \<Rightarrow> (st', Ok (http_Error ''upstream error'' 502))
      | (st', Panic m) \<Rightarrow> (st', Panic m))"

subsection \<open>The registration proxy\<close>

definition merged_audience :: "string list \<Rightarrow> string \<Rightarrow> string list" where
  "merged_audience existing audience =
     (let merged = dedup_seen [] existing
      in if audience \<in> set existing then merged else merged @ [audience])"

definition mergeAudience :: "json_lib \<Rightarrow> string \<Rightarrow> string \<Rightarrow> string result" where
  "mergeAudience JL body audience =
     (case jl_Unmarshal_map JL body of
        Inl _ \<Rightarrow> Ok body
      | Inr obj \<Rightarrow>
          (let existing = (case obj of
                 None \<Rightarrow> []
               | Some m \<Rightarrow> (case gm_get m ''audience'' of Some v \<Rightarrow> jl_Unmarshal_strings JL v | None \<Rightarrow> []))
           in case jl_Marshal_strings JL (merged_audience existing audience) of
                Inl _ \<Rightarrow> Ok body
              | Inr raw \<Rightarrow>
                  (case obj of
                     None \<Rightarrow> Panic ''assignment to entry in nil map''
                   | Some m \<Rightarrow>
                       (case jl_Marshal_map JL (gm_put ''audience'' raw m) of
                          Inl _ \<Rightarrow> Ok body
                        | Inr newBody \<Rightarrow> Ok newBody))))"

text \<open>The endpoint that was discovered (\<open>None\<close> before \<open>fetched\<close> is set).\<close>

type_synonym endpoint = "string option"

definition read_endpoint :: "json_lib \<Rightarrow> string \<Rightarrow> string \<Rightarrow> upstream \<Rightarrow> error + string" where
  "read_endpoint JL name issuer up =
     (case up_Get up (discovery_url issuer) of
        Inl err \<Rightarrow> Inl (ErrWrap ''fetch discovery'' err)
      | Inr (Inl err) \<Rightarrow> Inl (ErrWrap ''parse discovery'' err)
      | Inr (Inr body) \<Rightarrow>
          (case jl_Unmarshal_field JL name body of
             Inl err \<Rightarrow> Inl (ErrWrap ''parse discovery'' err)
           | Inr url \<Rightarrow> Inr url))"

definition getRegistrationUpstream ::
  "json_lib \<Rightarrow> string \<Rightarrow> upstream \<Rightarrow> endpoint \<Rightarrow> endpoint \<times> (error + string)" where
  "getRegistrationUpstream JL issuer up st =
     (case st of
        Some url \<Rightarrow> (st, Inr url)
      | None \<Rightarrow>
          (case read_endpoint JL ''registration_endpoint'' issuer up of
             Inl err \<Rightarrow> (st, Inl err)
           | Inr url \<Rightarrow> (Some url, Inr url)))"

definition registration_request :: "web_request \<Rightarrow> string \<Rightarrow> string \<Rightarrow> forwarded" where
  "registration_request r url body =
     \<lparr>fw_Method = ''POST'', fw_URL = url,
      fw_Header = (''Content-Type'', ''application/json'') #
        (if wr_Header r ''Authorization'' \<noteq> '''' then [(''Authorization'', wr_Header r ''Authorization'')] else []),
      fw_Body = body\<rparr>"

definition forward_registration :: "web_request \<Rightarrow> upstream \<Rightarrow> string \<Rightarrow> string \<Rightarrow> response" where
  "forward_registration r up url body =
     (case up_NewRequest up url of
        Some _ \<Rightarrow> http_Error ''bad gateway'' 502
      | None \<Rightarrow>
          (case up_Do up (registration_request r url body) of
             Inl _ \<Rightarrow> http_Error ''bad gateway'' 502
           | Inr resp \<Rightarrow> resp))"

definition oidcRegistrationProxyHandler ::
  "json_lib \<Rightarrow> string \<Rightarrow> string \<Rightarrow> upstream \<Rightarrow> web_request \<Rightarrow> endpoint \<Rightarrow> endpoint \<times> response result" where
  "oidcRegistrationProxyHandler JL issuer audience up r st =
     (case getRegistrationUpstream JL issuer up st of
        (st', Inl _) \<Rightarrow> (st', Ok (http_Error ''upstream not available'' 502))
      | (st', Inr url) \<Rightarrow>
          (st', case wr_Body r of
                  Inl _ \<Rightarrow> Ok (http_Error ''bad request'' 400)
                | Inr body \<Rightarrow> map_result (forward_registration r up url) (mergeAudience JL body audience)))"

subsection \<open>The authorization proxy\<close>

definition getAuthUpstream ::
  "json_lib \<Rightarrow> string \<Rightarrow> upstream \<Rightarrow> endpoint \<Rightarrow> endpoint \<times> (error + string)" where
  "getAuthUpstream JL issuer up st =
     (case st of
        Some url \<Rightarrow> (st, Inr url)
      | None \<Rightarrow>
          (case read_endpoint JL ''authorization_endpoint'' issuer up of
             Inl err \<Rightarrow> (st, Inl err)
           | Inr url \<Rightarrow>
               if url = '''' then (st, Inl (ErrText ''no authorization_endpoint in discovery''))
               else (Some url, Inr url)))"

fun stringInSlice :: "string list \<Rightarrow> string \<Rightarrow> bool" where
  "stringInSlice [] target \<longleftrightarrow> False"
| "stringInSlice (v # vals) target \<longleftrightarrow> v = target \<or> stringInSlice vals target"

text \<open>\<open>url.Values\<close>: reading a key and \<open>Add\<close>.\<close>

type_synonym url_values = "(string \<times> string list) list"

definition Values_get :: "url_values \<Rightarrow> string \<Rightarrow> string list" where
  "Values_get q k = (case map_of q k of Some vs \<Rightarrow> vs | None \<Rightarrow> [])"

fun Values_Add :: "string \<Rightarrow> string \<Rightarrow> url_values \<Rightarrow> url_values" where
  "Values_Add k v [] = [(k, [v])]"
| "Values_Add k v ((k', vs) # q) = (if k' = k then (k', vs @ [v]) # q else (k', vs) # Values_Add k v q)"

definition with_audience :: "string \<Rightarrow> url_values \<Rightarrow> url_values" where
  "with_audience audience q =
     (if \<not> stringInSlice (Values_get q ''audience'') audience then Values_Add ''audience'' audience q else q)"

text \<open>\<open>Parse_with\<close> replaces the query of the parsed URL and writes it; \<open>Redirect\<close> is \<open>http.Redirect\<close>.\<close>

definition oidcAuthProxyHandler ::
  "json_lib \<Rightarrow> (string \<Rightarrow> error + (url_values \<Rightarrow> string)) \<Rightarrow> (string \<Rightarrow> response) \<Rightarrow> string \<Rightarrow> string \<Rightarrow> upstream \<Rightarrow>
   web_request \<Rightarrow> endpoint \<Rightarrow> endpoint \<times> response result" where
  "oidcAuthProxyHandler JL Parse_with Redirect issuer audience up r st =
     (case getAuthUpstream JL issuer up st of
        (st', Inl _) \<Rightarrow> (st', Ok (http_Error ''upstream not available'' 502))
      | (st', Inr url) \<Rightarrow>
          (case Parse_with url of
             Inl _ \<Rightarrow> (st', Ok (http_Error ''bad gateway'' 502))
           | Inr with_query \<Rightarrow> (st', Ok (Redirect (with_query (with_audience audience (wr_Query r)))))))"

subsection \<open>Facts\<close>

lemma stringInSlice_iff: "stringInSlice vals target \<longleftrightarrow> target \<in> set vals"
  by (induction vals) auto

lemma Values_get_Add: "Values_get (Values_Add k v q) k' = (if k' = k then Values_get q k @ [v] else Values_get q k')"
  by (induction k v q rule: Values_Add.induct) (auto simp: Values_get_def)

lemma with_audience_get:
  "Values_get (with_audience a q) k =
     (if k = ''audience'' \<and> a \<notin> set (Values_get q ''audience'') then Values_get q k @ [a] else Values_get q k)"
  by (auto simp: with_audience_def stringInSlice_iff Values_get_Add)

lemma set_merged_audience: "set (merged_audience existing a) = insert a (set existing)"
  by (auto simp: merged_audience_def Let_def set_dedup_seen)

lemma distinct_merged_audience: "distinct (merged_audience existing a)"
  by (auto simp: merged_audience_def Let_def set_dedup_seen distinct_dedup_seen)

text \<open>Once fetched, an endpoint is never asked for again, even an empty one.\<close>

lemma registration_upstream_kept:
  "getRegistrationUpstream JL issuer up st = (st', Inr url) \<Longrightarrow>
   getRegistrationUpstream JL issuer' up' st' = (st', Inr url)"
  by (auto simp: getRegistrationUpstream_def split: option.splits sum.splits)

end
