(* ===== verification/Mux.thy ===== *)
theory Mux
  imports Oidc ApiExample
begin

text \<open>
  \<open>buildMux\<close> of \<open>cmd/server/main.go\<close>: which handler answers which path, and which of them the OIDC
  middleware protects, with the rules by which \<open>http.ServeMux\<close> chooses among the patterns that the code
  registers (it compares the escaped path segment by segment, each unescaped). The patterns are literal;
  an audience whose path has a blank or a brace in it would make another pattern and is not considered.
  The MCP server, the file server of the frontend, \<open>net/url\<close> and what \<open>Oidc\<close> takes from outside are the
  record \<open>web_lib\<close>; \<open>vb_cleanPath\<close> and \<open>vb_moved\<close> are the mux's own path cleaning and redirect.

  The claim is non-interference: with OIDC configured, what a request without a valid token gets does not depend
  on the indexed data, whatever its path is.
\<close>

record 'j web_lib =
  vb_server :: "'j server_lib"
  vb_json :: json_lib
  vb_Parse :: "string \<Rightarrow> error + parsed_url"
  vb_Parse_with :: "string \<Rightarrow> error + (url_values \<Rightarrow> string)"
  vb_Redirect :: "string \<Rightarrow> response"
  vb_Encode :: "any \<Rightarrow> string"
  vb_mcp :: "web_request \<Rightarrow> Server \<Rightarrow> Server \<times> response result"
  vb_file :: "web_request \<Rightarrow> response"
  vb_index :: "web_request \<Rightarrow> response"
  vb_Open :: "string \<Rightarrow> bool"
  vb_EscapedPath :: "URL \<Rightarrow> string"
  vb_PathUnescape :: "string \<Rightarrow> error + string"
  vb_cleanPath :: "string \<Rightarrow> string"
  vb_moved :: "string \<Rightarrow> response"

text \<open>The state behind the mux: the API handler and the caches of the four OIDC proxies.\<close>

record 'r web_state =
  ws_api :: "'r apiHandler"
  ws_discovery :: discovery_cache
  ws_asMetadata :: discovery_cache
  ws_registration :: endpoint
  ws_auth :: endpoint

subsection \<open>The mux\<close>

datatype target = ToHealthz | ToDiscovery | ToASMetadata | ToRegister | ToAuth | ToMetadata | ToAuthConfig
  | ToApi | ToMcp | ToAssets | ToSPA

type_synonym pattern = "string option \<times> string \<times> target"

definition oidc_patterns :: "pattern list" where
  "oidc_patterns =
     [(Some ''GET'', ''/.well-known/openid-configuration'', ToDiscovery),
      (Some ''GET'', ''/.well-known/oauth-authorization-server'', ToASMetadata),
      (Some ''POST'', ''/oauth2/register'', ToRegister),
      (Some ''GET'', ''/oauth2/auth'', ToAuth)]"

definition mux_patterns :: "(string \<Rightarrow> error + parsed_url) \<Rightarrow> OIDCConfig option \<Rightarrow> pattern list" where
  "mux_patterns Parse oidc =
     [(None, ''/healthz'', ToHealthz)] @
     (case oidc of None \<Rightarrow> [] | Some _ \<Rightarrow> oidc_patterns) @
     [(None, (case oidc of None \<Rightarrow> wellKnown | Some c \<Rightarrow> protectedResourceWellKnownPath Parse (oidc_Audience c)),
       ToMetadata),
      (None, ''/auth-config'', ToAuthConfig),
      (None, ''/api/'', ToApi),
      (None, ''/mcp'', ToMcp),
      (None, ''/assets/'', ToAssets),
      (None, ''/'', ToSPA)]"

text \<open>A pattern with the method GET matches HEAD, too.\<close>

fun method_matches :: "string option \<Rightarrow> string \<Rightarrow> bool" where
  "method_matches None meth \<longleftrightarrow> True"
| "method_matches (Some m) meth \<longleftrightarrow> meth = m \<or> m = ''GET'' \<and> meth = ''HEAD''"

text \<open>
  The segments of a path; a final slash is a segment of its own. A pattern that ends in a slash stands for every
  path with at least one more segment than those before the slash.
\<close>

definition path_segments :: "(string \<Rightarrow> error + string) \<Rightarrow> string \<Rightarrow> string list" where
  "path_segments unescape path =
     (let parts = tl (Split path (CHR ''/''));
          clean = map (\<lambda>s. case unescape s of Inr u \<Rightarrow> u | Inl _ \<Rightarrow> s)
      in if parts \<noteq> [] \<and> last parts = '''' then clean (butlast parts) @ [''/''] else clean parts)"

definition literals :: "(string \<Rightarrow> error + string) \<Rightarrow> string \<Rightarrow> string list" where
  "literals unescape pat =
     (if HasSuffix pat ''/'' then butlast (path_segments unescape pat) else path_segments unescape pat)"

definition path_matches_pattern :: "(string \<Rightarrow> error + string) \<Rightarrow> string \<Rightarrow> string \<Rightarrow> bool" where
  "path_matches_pattern unescape pat path \<longleftrightarrow>
     (let xs = path_segments unescape path; ls = literals unescape pat
      in if HasSuffix pat ''/'' then length ls < length xs \<and> take (length ls) xs = ls else xs = ls)"

fun pattern_matches :: "(string \<Rightarrow> error + string) \<Rightarrow> string \<Rightarrow> string \<Rightarrow> pattern \<Rightarrow> bool" where
  "pattern_matches unescape meth path (m, pat, t) \<longleftrightarrow>
     method_matches m meth \<and> path_matches_pattern unescape pat path"

text \<open>A pattern with a method comes before those without, then more literal segments before fewer.\<close>

fun more_specific :: "(string \<Rightarrow> error + string) \<Rightarrow> pattern \<Rightarrow> pattern \<Rightarrow> bool" where
  "more_specific unescape (m, pat, t) (m', pat', t') \<longleftrightarrow>
     m \<noteq> None \<and> m' = None \<or>
     (m = None \<longleftrightarrow> m' = None) \<and> length (literals unescape pat) > length (literals unescape pat')"

fun best_pattern :: "(string \<Rightarrow> error + string) \<Rightarrow> pattern list \<Rightarrow> pattern option" where
  "best_pattern unescape [] = None"
| "best_pattern unescape (p # ps) =
     (case best_pattern unescape ps of
        None \<Rightarrow> Some p
      | Some p' \<Rightarrow> if more_specific unescape p' p then Some p' else Some p)"

definition find_pattern ::
  "(string \<Rightarrow> error + string) \<Rightarrow> pattern list \<Rightarrow> string \<Rightarrow> string \<Rightarrow> pattern option" where
  "find_pattern unescape ps meth path = best_pattern unescape (filter (pattern_matches unescape meth path) ps)"

text \<open>A path that only lacks the final slash of a subtree pattern is sent there.\<close>

fun exact_match :: "pattern option \<Rightarrow> string \<Rightarrow> bool" where
  "exact_match None path \<longleftrightarrow> False"
| "exact_match (Some (m, pat, t)) path \<longleftrightarrow>
     \<not> HasSuffix pat ''/'' \<or>
     HasSuffix path ''/'' \<and> count_list pat (CHR ''/'') = count_list path (CHR ''/'')"

definition lacks_slash :: "(string \<Rightarrow> error + string) \<Rightarrow> pattern list \<Rightarrow> string \<Rightarrow> string \<Rightarrow> bool" where
  "lacks_slash unescape ps meth path \<longleftrightarrow>
     \<not> exact_match (find_pattern unescape ps meth path) path \<and> path \<noteq> '''' \<and> \<not> HasSuffix path ''/'' \<and>
     exact_match (find_pattern unescape ps meth (path @ ''/'')) (path @ ''/'')"

datatype mux_decision = MovedTo string | Target target | NoPattern

definition mux_decide ::
  "(string \<Rightarrow> string) \<Rightarrow> (string \<Rightarrow> error + string) \<Rightarrow> pattern list \<Rightarrow> string \<Rightarrow> string \<Rightarrow> string \<Rightarrow> mux_decision" where
  "mux_decide cleanPath unescape ps meth urlPath escapedPath =
     (let path = (if meth = ''CONNECT'' then escapedPath else cleanPath escapedPath)
      in if lacks_slash unescape ps meth path then MovedTo (cleanPath urlPath @ ''/'')
         else if path \<noteq> escapedPath then MovedTo path
         else (case find_pattern unescape ps meth path of Some (_, _, t) \<Rightarrow> Target t | None \<Rightarrow> NoPattern))"

subsection \<open>The handlers behind it\<close>

definition serve_api_server ::
  "'j web_lib \<Rightarrow> query_env \<Rightarrow> web_request \<Rightarrow> 'r web_state \<Rightarrow> 'r web_state \<times> response result" where
  "serve_api_server lib env r st =
     (case serve_request (vb_server lib) env (wr_request r) (ws_api st) of
        (h, res) \<Rightarrow> (st\<lparr>ws_api := h\<rparr>, res))"

definition serve_mcp_server ::
  "'j web_lib \<Rightarrow> web_request \<Rightarrow> 'r web_state \<Rightarrow> 'r web_state \<times> response result" where
  "serve_mcp_server lib r st =
     (case vb_mcp lib r (ah_q (ws_api st)) of
        (q, res) \<Rightarrow> (st\<lparr>ws_api := (ws_api st)\<lparr>ah_q := q\<rparr>\<rparr>, res))"

text \<open>The frontend: a file of the bundle, or the start page.\<close>

definition serve_spa :: "'j web_lib \<Rightarrow> web_request \<Rightarrow> response" where
  "serve_spa lib r =
     (let path = u_Path (rq_URL (wr_request r))
      in if path \<noteq> ''/'' \<and> vb_Open lib (drop 1 path) then vb_file lib r else vb_index lib r)"

definition serve_target ::
  "'j web_lib \<Rightarrow> query_env \<Rightarrow> OIDCConfig option \<Rightarrow> Middleware option \<Rightarrow> upstream \<Rightarrow> target \<Rightarrow> web_request \<Rightarrow>
   'r web_state \<Rightarrow> 'r web_state \<times> response result" where
  "serve_target lib env oidc mw up t r st =
     (let issuer = (case oidc of Some c \<Rightarrow> oidc_Issuer c | None \<Rightarrow> '''');
          audience = (case oidc of Some c \<Rightarrow> oidc_Audience c | None \<Rightarrow> '''');
          baseURL = resourceBaseURL (vb_Parse lib) audience
      in case t of
           ToHealthz \<Rightarrow> serve_api_server lib env r st
         | ToDiscovery \<Rightarrow>
             (case oidcDiscoveryProxyHandler (vb_json lib) issuer baseURL up (ws_discovery st) of
                (c, res) \<Rightarrow> (st\<lparr>ws_discovery := c\<rparr>, res))
         | ToASMetadata \<Rightarrow>
             (case oidcDiscoveryProxyHandler (vb_json lib) issuer baseURL up (ws_asMetadata st) of
                (c, res) \<Rightarrow> (st\<lparr>ws_asMetadata := c\<rparr>, res))
         | ToRegister \<Rightarrow>
             (case oidcRegistrationProxyHandler (vb_json lib) issuer audience up r (ws_registration st) of
                (c, res) \<Rightarrow> (st\<lparr>ws_registration := c\<rparr>, res))
         | ToAuth \<Rightarrow>
             (case oidcAuthProxyHandler (vb_json lib) (vb_Parse_with lib) (vb_Redirect lib) issuer audience up r
                     (ws_auth st) of
                (c, res) \<Rightarrow> (st\<lparr>ws_auth := c\<rparr>, res))
         | ToMetadata \<Rightarrow>
             (st, Ok (oauthProtectedResourceHandler (vb_Encode lib) (vb_Parse lib)
                        (sl_NotFound (vb_server lib)) oidc))
         | ToAuthConfig \<Rightarrow> (st, Ok (authConfigHandler (vb_Encode lib) oidc))
         | ToApi \<Rightarrow> maybeProtect mw (serve_api_server lib env) r st
         | ToMcp \<Rightarrow> maybeProtect mw (serve_mcp_server lib) r st
         | ToAssets \<Rightarrow> (st, Ok (vb_file lib r))
         | ToSPA \<Rightarrow> (st, Ok (serve_spa lib r)))"

definition serve_web ::
  "'j web_lib \<Rightarrow> query_env \<Rightarrow> OIDCConfig option \<Rightarrow> Middleware option \<Rightarrow> upstream \<Rightarrow> web_request \<Rightarrow>
   'r web_state \<Rightarrow> 'r web_state \<times> response result" where
  "serve_web lib env oidc mw up r st =
     (case mux_decide (vb_cleanPath lib) (vb_PathUnescape lib) (mux_patterns (vb_Parse lib) oidc)
             (rq_Method (wr_request r)) (u_Path (rq_URL (wr_request r)))
             (vb_EscapedPath lib (rq_URL (wr_request r))) of
        MovedTo to \<Rightarrow> (st, Ok (vb_moved lib to))
      | Target t \<Rightarrow> serve_target lib env oidc mw up t r st
      | NoPattern \<Rightarrow> (st, Ok (sl_NotFound (vb_server lib))))"

subsection \<open>Which pattern is found\<close>

lemma best_pattern_mem: "best_pattern unescape ps = Some p \<Longrightarrow> p \<in> set ps"
  by (induction ps arbitrary: p) (auto split: option.splits if_splits)

lemma find_pattern_mem:
  "find_pattern unescape ps meth path = Some (m, pat, t) \<Longrightarrow>
     (m, pat, t) \<in> set ps \<and> method_matches m meth \<and> path_matches_pattern unescape pat path"
  by (auto simp: find_pattern_def dest: best_pattern_mem)

lemma healthz_pattern:
  "(m, pat, ToHealthz) \<in> set (mux_patterns Parse oidc) \<Longrightarrow> pat = ''/healthz''"
  by (auto simp: mux_patterns_def oidc_patterns_def split: option.splits)

subsection \<open>What a request without a token can see\<close>

definition authorized :: "Middleware \<Rightarrow> web_request \<Rightarrow> bool" where
  "authorized m r \<longleftrightarrow>
     HasPrefix (wr_Header r ''Authorization'') ''Bearer '' \<and>
     mw_Verify m (TrimPrefix (wr_Header r ''Authorization'') ''Bearer '') = None"

lemma rs_Status_unauthorized: "rs_Status (unauthorized m extra msg) = 401"
  by (simp add: unauthorized_def http_Error_def Let_def)

lemma Handler_unauthorized:
  "\<not> authorized m r \<Longrightarrow>
     \<exists>resp. rs_Status resp = 401 \<and> (\<forall>nxt st. Middleware_Handler m nxt r st = (st, Ok resp))"
  by (cases "HasPrefix (wr_Header r ''Authorization'') ''Bearer ''")
    (auto simp: authorized_def Middleware_Handler_def Let_def rs_Status_unauthorized)

lemma Handler_authorized: "authorized m r \<Longrightarrow> Middleware_Handler m nxt r st = nxt r st"
  by (simp add: authorized_def Middleware_Handler_def)

text \<open>The path \<open>/healthz\<close> leads the generated router to no other operation.\<close>

lemma serve_healthz:
  assumes "sl_Prefix S = []" "fst (request_path (sl_NormalizeEscapedPath S) (rq_URL r)) = ''/healthz''"
  shows "\<exists>f. \<forall>h. serve_request S env r h = (h, f (Healthz h))"
proof -
  have only: "op = HealthzOperation" if "''/healthz'' = operation_path op" for op
    using that operation_path_inject [of HealthzOperation op] by simp
  consider (get) esc where "ServeHTTP (sl_NormalizeEscapedPath S) [] (rq_Method r) (rq_URL r) = Handle HealthzOperation esc"
    | (other) a where "ServeHTTP (sl_NormalizeEscapedPath S) [] (rq_Method r) (rq_URL r) = NotAllowed a"
    | (none) "ServeHTTP (sl_NormalizeEscapedPath S) [] (rq_Method r) (rq_URL r) = NotFound"
    using assms(2) only
    by (cases "ServeHTTP (sl_NormalizeEscapedPath S) [] (rq_Method r) (rq_URL r)")
      (auto simp: ServeHTTP_walk walk_iff serve_method_def split: if_splits)
  then show ?thesis
  proof cases
    case get
    then show ?thesis
      using assms(1) by (intro exI [of _ "respond S encodeHealthzResponse"])
        (simp add: serve_request_def handleHealthzRequest_def)
  next
    case (other a)
    obtain code headers where "notAllowed (rq_Method r) a = (code, headers)" by force
    then show ?thesis
      using assms(1) other by (auto simp: serve_request_def intro: exI [of _ "\<lambda>_. Ok \<lparr>rs_Status = code,
        rs_Header = headers, rs_Body = []\<rparr>"])
  next
    case none
    then show ?thesis
      using assms(1) by (intro exI [of _ "\<lambda>_. Ok (sl_NotFound S)"]) (simp add: serve_request_def)
  qed
qed

text \<open>C10: With OIDC configured, nobody learns anything of the indexed data without a valid token: for
  every path and method, the answer to a request that carries no token the verifier accepts is the
  same whatever data the server holds (as long as the health of the clusters, which \<open>/healthz\<close> tells, is
  the same), and the request changes none of it. The only assumption on the URL is that a path which is
  \<open>/healthz\<close> for the mux, once unescaped, is \<open>/healthz\<close> for the generated router, too.\<close>

theorem no_token_no_data:
  fixes st :: "'r web_state"
  assumes "\<not> authorized m r" and "sl_Prefix (vb_server lib) = []"
    and "path_matches_pattern (vb_PathUnescape lib) ''/healthz'' (vb_EscapedPath lib (rq_URL (wr_request r))) \<Longrightarrow>
      fst (request_path (sl_NormalizeEscapedPath (vb_server lib)) (rq_URL (wr_request r))) = ''/healthz''"
    and "Healthz h' = Healthz (ws_api st)"
  shows "snd (serve_web lib env oidc (Some m) up r (st\<lparr>ws_api := h'\<rparr>)) =
      snd (serve_web lib env oidc (Some m) up r st) \<and>
    ws_api (fst (serve_web lib env oidc (Some m) up r st)) = ws_api st"
proof -
  let ?path = "vb_EscapedPath lib (rq_URL (wr_request r))" and ?ps = "mux_patterns (vb_Parse lib) oidc"
  obtain resp where refused: "\<And>nxt (s :: 'r web_state). Middleware_Handler m nxt r s = (s, Ok resp)"
    using Handler_unauthorized [OF assms(1)] by metis
  have target: "snd (serve_target lib env oidc (Some m) up t r (st\<lparr>ws_api := h'\<rparr>)) =
        snd (serve_target lib env oidc (Some m) up t r st) \<and>
      ws_api (fst (serve_target lib env oidc (Some m) up t r st)) = ws_api st"
    if "mux_decide (vb_cleanPath lib) (vb_PathUnescape lib) ?ps (rq_Method (wr_request r))
          (u_Path (rq_URL (wr_request r))) ?path = Target t" for t
  proof (cases t)
    case ToHealthz
    then have "path_matches_pattern (vb_PathUnescape lib) ''/healthz'' ?path"
      using that by (auto simp: mux_decide_def Let_def
          dest!: find_pattern_mem healthz_pattern split: option.splits if_splits)
    then obtain f where "\<And>h :: 'r apiHandler. serve_request (vb_server lib) env (wr_request r) h = (h, f (Healthz h))"
      using serve_healthz [OF assms(2) assms(3)] by metis
    then show ?thesis
      using ToHealthz assms(4) by (simp add: serve_target_def serve_api_server_def Let_def)
  next
    case ToApi
    then show ?thesis by (simp add: serve_target_def maybeProtect_def refused)
  next
    case ToMcp
    then show ?thesis by (simp add: serve_target_def maybeProtect_def refused)
  qed (simp_all add: serve_target_def Let_def split: prod.splits)
  show ?thesis
    unfolding serve_web_def using target by (auto split: mux_decision.splits)
qed

text \<open>Two servers with different data, and a token nobody issued.\<close>

definition example_middleware :: Middleware where
  "example_middleware =
     \<lparr>mw_Verify = (\<lambda>t. if t = ''good'' then None else Some (ErrText ''signature'')),
      mw_resourceMetadata = ''https://k.example/.well-known/oauth-protected-resource''\<rparr>"

definition example_json_lib :: json_lib where
  "example_json_lib =
     \<lparr>jl_Unmarshal_map = (\<lambda>s. if s = ''null'' then Inr None else Inr (Some (of_unary s))),
      jl_Unmarshal_strings = of_unary, jl_Unmarshal_field = (\<lambda>_ _. Inl json_error),
      jl_Marshal_map = (\<lambda>m. Inr (unary m)), jl_Marshal_strings = (\<lambda>vs. Inr (unary vs)),
      jl_Marshal_string = unary\<rparr>"

definition example_web_lib :: "json web_lib" where
  "example_web_lib =
     \<lparr>vb_server = example_server_lib, vb_json = example_json_lib,
      vb_Parse = (\<lambda>_. Inl (ErrText ''parse'')), vb_Parse_with = (\<lambda>_. Inl (ErrText ''parse'')),
      vb_Redirect = (\<lambda>_. status_only 302), vb_Encode = (\<lambda>_. []),
      vb_mcp = (\<lambda>_ q. (q, Ok (status_only 200))), vb_file = (\<lambda>_. status_only 200),
      vb_index = (\<lambda>_. status_only 200), vb_Open = (\<lambda>_. False), vb_EscapedPath = u_Path,
      vb_PathUnescape = Inr, vb_cleanPath = id,
      vb_moved = (\<lambda>_. status_only 301)\<rparr>"

definition example_upstream :: upstream where
  "example_upstream =
     \<lparr>up_Get = (\<lambda>_. Inl (ErrText ''dial'')), up_Do = (\<lambda>_. Inl (ErrText ''dial'')), up_NewRequest = (\<lambda>_. None),
      up_now = 0, up_later = 1\<rparr>"

definition example_web_state :: "Server \<Rightarrow> unit web_state" where
  "example_web_state q =
     \<lparr>ws_api = \<lparr>ah_states = [], ah_clusterNames = [], ah_q = q\<rparr>, ws_discovery = no_discovery,
      ws_asMetadata = no_discovery, ws_registration = None, ws_auth = None\<rparr>"

definition forged_request :: web_request where
  "forged_request =
     \<lparr>wr_request = \<lparr>rq_Method = ''GET'', rq_URL = \<lparr>u_Path = ''/api/snapshot'', u_RawPath = []\<rparr>, rq_RawQuery = []\<rparr>,
      wr_Header = (\<lambda>k. if k = ''Authorization'' then ''Bearer bad'' else []), wr_Query = [], wr_Body = Inr []\<rparr>"

lemma healthz_only: "path_matches_pattern Inr ''/healthz'' ''/api/snapshot'' \<longleftrightarrow> False"
  by code_simp

theorem no_token_no_data_witness:
  "snd (serve_web example_web_lib viewer_env (Some \<lparr>oidc_Issuer = [], oidc_Audience = [], oidc_ClientID = []\<rparr>)
          (Some example_middleware) example_upstream forged_request (example_web_state viewer_server)) =
   snd (serve_web example_web_lib viewer_env (Some \<lparr>oidc_Issuer = [], oidc_Audience = [], oidc_ClientID = []\<rparr>)
          (Some example_middleware) example_upstream forged_request (example_web_state (NewServer [] [])))"
proof -
  have "\<not> authorized example_middleware forged_request"
    by (simp add: authorized_def example_middleware_def forged_request_def TrimPrefix_def HasPrefix_def)
  moreover have "Healthz (ws_api (example_web_state viewer_server)) = Healthz (ws_api (example_web_state (NewServer [] [])))"
    by (simp add: Healthz_def example_web_state_def)
  moreover have "(example_web_state (NewServer [] []))\<lparr>ws_api := ws_api (example_web_state viewer_server)\<rparr> =
      example_web_state viewer_server"
    by (simp add: example_web_state_def)
  ultimately show ?thesis
    using no_token_no_data [of example_middleware forged_request example_web_lib
        "ws_api (example_web_state viewer_server)" "example_web_state (NewServer [] [])" viewer_env
        "Some \<lparr>oidc_Issuer = [], oidc_Audience = [], oidc_ClientID = []\<rparr>" example_upstream]
    by (simp add: example_web_lib_def example_server_lib_def forged_request_def healthz_only)
qed

text \<open>With the token the data is served: the middleware only stands in front of it.\<close>

lemma token_gets_data:
  "authorized m r \<Longrightarrow> serve_target lib env oidc (Some m) up ToApi r st = serve_api_server lib env r st"
  by (simp add: serve_target_def maybeProtect_def Handler_authorized)

end
