(* ===== verification/Mcp.thy ===== *)
theory Mcp
  imports ApiFacts
begin

text \<open>
  The tools of the MCP server, \<open>buildMCPServer\<close> in \<open>cmd/server/main.go\<close>: each reads its arguments from
  the JSON object of the call, asks the query server that the REST handlers use, and answers with one
  text. The protocol (\<open>mcp-go\<close>), \<open>encoding/json\<close> and \<open>time.Parse\<close> are the record \<open>mcp_lib\<close>; a list is
  written the same whether Go holds it as nil or as empty. A tool result is the text, an error is
  handed to the library.

  A number of the call is read as a \<open>float64\<close> and then converted to \<open>int\<close>, where REST parses the digits: a
  history request gives the same events through MCP and through REST as long as its limit and its offset
  are at most \<open>2 ^ 53\<close>. Beyond that the two differ (\<open>big_limit_is_rounded\<close>, \<open>big_offset_leaves_int\<close>).
\<close>

record mcp_lib =
  ml_json_strings :: "string list \<Rightarrow> string"
  ml_json_gvks :: "GVKInfo list \<Rightarrow> string"
  ml_json_resources :: "ResourceMeta list \<Rightarrow> string"
  ml_json_events :: "ChangeEvent list \<Rightarrow> string"
  ml_json_map :: "string gmap \<Rightarrow> string"
  ml_json_volatility :: "VolatilityResult list \<Rightarrow> string"
  ml_json_fields :: "FieldVolatilityResult list \<Rightarrow> string"
  ml_ParseTime :: "string \<Rightarrow> error + int"
  ml_lib_text :: "string \<Rightarrow> string"
  ml_out_of_range :: "rat \<Rightarrow> int"

subsection \<open>Arguments\<close>

text \<open>\<open>encoding/json\<close> reads a number into the nearest \<open>float64\<close>, ties to even, with gradual underflow below
  \<open>2 ^ -1022\<close>; a number too large for a \<open>float64\<close> is refused before the tool is called. The arguments of the
  model hold the numbers as the request writes them.\<close>

definition float64_nearest :: "rat \<Rightarrow> rat" where
  "float64_nearest x =
     (if x = 0 then 0
      else let e = max (ilog2 \<bar>x\<bar>) (- 1022) in of_int (round_even (x * two_pow (52 - e))) * two_pow (e - 52))"

text \<open>\<open>args[k].(string)\<close>, and \<open>args[k].(float64)\<close> with its \<open>ok\<close>.\<close>

definition arg_string :: "doc \<Rightarrow> string \<Rightarrow> string" where
  "arg_string args k = as_string (gm_get args k)"

definition arg_number :: "doc \<Rightarrow> string \<Rightarrow> rat option" where
  "arg_number args k = (case gm_get args k of Some (ANum x) \<Rightarrow> Some (float64_nearest x) | _ \<Rightarrow> None)"

text \<open>\<open>int(x)\<close> truncates towards zero; what it gives for a float outside of \<open>int\<close> is left open by the
  language.\<close>

definition go_int :: "mcp_lib \<Rightarrow> rat \<Rightarrow> int" where
  "go_int L x =
     (let n = (if 0 \<le> x then \<lfloor>x\<rfloor> else \<lceil>x\<rceil>) in if is_goint n then n else ml_out_of_range L x)"

definition positive_arg :: "mcp_lib \<Rightarrow> doc \<Rightarrow> string \<Rightarrow> int \<Rightarrow> int" where
  "positive_arg L args k dflt =
     (case arg_number args k of Some x \<Rightarrow> if x > 0 then go_int L x else dflt | None \<Rightarrow> dflt)"

definition offset_arg :: "mcp_lib \<Rightarrow> doc \<Rightarrow> int" where
  "offset_arg L args =
     (case arg_number args ''offset'' of Some x \<Rightarrow> if x \<ge> 0 then go_int L x else 0 | None \<Rightarrow> 0)"

text \<open>A time that does not parse is dropped.\<close>

definition time_arg :: "mcp_lib \<Rightarrow> doc \<Rightarrow> string \<Rightarrow> int option" where
  "time_arg L args k =
     (let s = arg_string args k
      in if s \<noteq> '''' then (case ml_ParseTime L s of Inr t \<Rightarrow> Some t | Inl _ \<Rightarrow> None) else None)"

subsection \<open>Tools\<close>

definition error_text :: "mcp_lib \<Rightarrow> error \<Rightarrow> string" where
  "error_text L e = Error_text (ml_lib_text L) e"

text \<open>\<open>if err != nil { return text(err.Error()) }; return text(mustJSON(result))\<close>\<close>

definition text_result :: "mcp_lib \<Rightarrow> ('a \<Rightarrow> string) \<Rightarrow> 'a result \<Rightarrow> string result" where
  "text_result L json res =
     (case res of
        Ok x \<Rightarrow> Ok (json x)
      | Err err \<Rightarrow> Ok (error_text L err)
      | Panic m \<Rightarrow> Panic m)"

definition tool_list_clusters :: "mcp_lib \<Rightarrow> Server \<Rightarrow> string result" where
  "tool_list_clusters L q = Ok (ml_json_strings L (ListClusters q))"

definition tool_list_gvks :: "mcp_lib \<Rightarrow> Server \<Rightarrow> doc \<Rightarrow> string result" where
  "tool_list_gvks L q args =
     text_result L (ml_json_gvks L) (ListGVKs q (arg_string args ''cluster'') (arg_string args ''namespace''))"

definition tool_list_namespaces :: "mcp_lib \<Rightarrow> Server \<Rightarrow> doc \<Rightarrow> string result" where
  "tool_list_namespaces L q args =
     text_result L (ml_json_strings L) (ListNamespaces q (arg_string args ''cluster''))"

definition tool_get_resource :: "query_env \<Rightarrow> Server \<Rightarrow> doc \<Rightarrow> string result" where
  "tool_get_resource env q args =
     (case GetResource env q (arg_string args ''cluster'') (arg_string args ''group'') (arg_string args ''kind'')
             (arg_string args ''namespace'') (arg_string args ''name'') of
        Ok data \<Rightarrow> Ok data
      | Err err \<Rightarrow>
          if errors_Is err ErrClusterNotFound then Ok ''cluster not found''
          else if errors_Is err ErrNotFound then Ok ''not found''
          else Err err
      | Panic m \<Rightarrow> Panic m)"

definition tool_get_snapshot :: "mcp_lib \<Rightarrow> query_env \<Rightarrow> Server \<Rightarrow> doc \<Rightarrow> Server \<times> string result" where
  "tool_get_snapshot L env q args =
     (let cluster = arg_string args ''cluster'';
          grp = arg_string args ''group'';
          kind = arg_string args ''kind'';
          ns = arg_string args ''namespace'';
          name = arg_string args ''name'';
          cel = arg_string args ''cel'';
          datetimeStr = arg_string args ''datetime'';
          limit = positive_arg L args ''limit'' 50;
          offset = offset_arg L args
      in if datetimeStr \<noteq> '''' then
           (q, if cel \<noteq> '''' then Ok ''cel filter is not supported with datetime''
               else case ml_ParseTime L datetimeStr of
                      Inl err \<Rightarrow> Ok (''invalid datetime: '' @ error_text L err)
                    | Inr t \<Rightarrow>
                        text_result L (\<lambda>res. ml_json_resources L (sr_Items res))
                          (GetHistoricalSnapshot env q t cluster grp kind ns name limit offset))
         else
           (case GetCurrentSnapshot env q cluster grp kind ns name cel [] limit offset of
              (q', Ok res) \<Rightarrow> (q', Ok (ml_json_resources L (sr_Items res)))
            | (q', Err err) \<Rightarrow> (q', Ok (''cel error: '' @ error_text L err))
            | (q', Panic m) \<Rightarrow> (q', Panic m)))"

definition tool_get_history :: "mcp_lib \<Rightarrow> query_env \<Rightarrow> Server \<Rightarrow> doc \<Rightarrow> string result" where
  "tool_get_history L env q args =
     text_result L (\<lambda>(events, _). ml_json_events L events)
       (GetHistory env q (arg_string args ''cluster'') (arg_string args ''group'') (arg_string args ''kind'')
          (arg_string args ''namespace'') (arg_string args ''name'') (arg_string args ''changeType'')
          (time_arg L args ''since'') (time_arg L args ''until'')
          (positive_arg L args ''limit'' 50) (offset_arg L args))"

definition tool_get_diff :: "mcp_lib \<Rightarrow> Server \<Rightarrow> doc \<Rightarrow> string result" where
  "tool_get_diff L q args =
     (case GetDiff q (arg_string args ''cluster'') (arg_string args ''group'') (arg_string args ''kind'')
             (arg_string args ''namespace'') (arg_string args ''name'') (arg_string args ''from'')
             (arg_string args ''to'') of
        Ok res \<Rightarrow> Ok (ml_json_map L [(''before'', df_Before res), (''after'', df_After res)])
      | Err err \<Rightarrow>
          if errors_Is err ErrClusterNotFound then Ok ''cluster not found''
          else if errors_Is err ErrNotFound then Ok ''not found''
          else Ok (error_text L err)
      | Panic m \<Rightarrow> Panic m)"

definition tool_get_volatility :: "mcp_lib \<Rightarrow> query_env \<Rightarrow> Server \<Rightarrow> doc \<Rightarrow> string result" where
  "tool_get_volatility L env q args =
     text_result L (\<lambda>(results, _). ml_json_volatility L results)
       (GetVolatility env q (arg_string args ''cluster'') (arg_string args ''group'') (arg_string args ''kind'')
          (arg_string args ''namespace'') (arg_string args ''name'') (positive_arg L args ''commits'' 50)
          (Finite (case arg_number args ''threshold'' of Some x \<Rightarrow> x | None \<Rightarrow> 0))
          (positive_arg L args ''limit'' 50) (offset_arg L args))"

definition tool_get_volatility_fields :: "mcp_lib \<Rightarrow> query_env \<Rightarrow> Server \<Rightarrow> doc \<Rightarrow> string result" where
  "tool_get_volatility_fields L env q args =
     text_result L (ml_json_fields L)
       (GetVolatilityFields env q (arg_string args ''cluster'') (arg_string args ''group'') (arg_string args ''kind'')
          (arg_string args ''namespace'') (arg_string args ''name'') (positive_arg L args ''commits'' 50)
          (positive_arg L args ''limit'' 0))"

text \<open>The tools by the names they are registered with; an unknown name is the library's to refuse.\<close>

definition call_tool ::
  "mcp_lib \<Rightarrow> query_env \<Rightarrow> string \<Rightarrow> doc \<Rightarrow> Server \<Rightarrow> (Server \<times> string result) option" where
  "call_tool L env tool args q =
     (if tool = ''list_clusters'' then Some (q, tool_list_clusters L q)
      else if tool = ''list_gvks'' then Some (q, tool_list_gvks L q args)
      else if tool = ''list_namespaces'' then Some (q, tool_list_namespaces L q args)
      else if tool = ''get_resource'' then Some (q, tool_get_resource env q args)
      else if tool = ''get_snapshot'' then Some (tool_get_snapshot L env q args)
      else if tool = ''get_history'' then Some (q, tool_get_history L env q args)
      else if tool = ''get_diff'' then Some (q, tool_get_diff L q args)
      else if tool = ''get_volatility'' then Some (q, tool_get_volatility L env q args)
      else if tool = ''get_volatility_fields'' then Some (q, tool_get_volatility_fields L env q args)
      else None)"

subsection \<open>MCP and REST\<close>

text \<open>The arguments of a call that asks what the REST parameters ask; \<open>shw\<close> writes a time.\<close>

definition opt_arg :: "string \<Rightarrow> ('a \<Rightarrow> any) \<Rightarrow> 'a option \<Rightarrow> doc" where
  "opt_arg k f v = (case v of Some x \<Rightarrow> [(k, f x)] | None \<Rightarrow> [])"

definition history_args :: "(int \<Rightarrow> string) \<Rightarrow> GetHistoryParams \<Rightarrow> doc" where
  "history_args shw p =
     opt_arg ''since'' (AStr \<circ> shw) (yp_Since p) @ opt_arg ''until'' (AStr \<circ> shw) (yp_Until p) @
     opt_arg ''cluster'' AStr (yp_Cluster p) @ opt_arg ''group'' AStr (yp_Group p) @
     opt_arg ''kind'' AStr (yp_Kind p) @ opt_arg ''namespace'' AStr (yp_Namespace p) @
     opt_arg ''name'' AStr (yp_Name p) @ opt_arg ''changeType'' AStr (yp_ChangeType p) @
     opt_arg ''limit'' (ANum \<circ> of_int) (yp_Limit p) @ opt_arg ''offset'' (ANum \<circ> of_int) (yp_Offset p)"

lemma gm_get_opt:
  "k \<noteq> k' \<Longrightarrow> gm_get (opt_arg k' f v @ rest) k = gm_get rest k"
  "gm_get rest k = None \<Longrightarrow> gm_get (opt_arg k f v @ rest) k = map_option f v"
  "k \<noteq> k' \<Longrightarrow> gm_get (opt_arg k' f v) k = None"
  "gm_get (opt_arg k f v) k = map_option f v"
  by (cases v; simp add: opt_arg_def gm_get_def)+

lemma as_string_opt: "as_string (map_option AStr v) = Or v []"
  by (cases v) auto

lemma go_int_of_int: "is_goint n \<Longrightarrow> go_int L (of_int n) = n"
  by (simp add: go_int_def Let_def)

lemma ilog2_eq:
  assumes "2 ^ k \<le> n" "n < 2 ^ Suc k"
  shows "ilog2 (of_int n) = int k"
proof -
  have n: "0 < n" using assms(1) by (smt (verit) zero_less_power)
  have up: "nat n < 2 ^ Suc k" using assms(2) n by (simp add: nat_less_iff)
  have low: "2 ^ k \<le> nat n" using assms(1) by (simp add: le_nat_iff n less_imp_le)
  have "floorlog 2 (nat n) = Suc k"
    by (intro le_antisym floorlog_leI floorlog_ge_SucI up low) simp_all
  then show ?thesis using n by (simp add: ilog2_def)
qed

lemma round_even_int: "round_even (of_int m) = m"
  by (simp add: round_even_def)

text \<open>A multiple \<open>m * 2 ^ (e - 52)\<close> with the exponent \<open>e\<close> is a \<open>float64\<close>.\<close>

lemma float64_nearest_multiple:
  assumes "x \<noteq> 0" "ilog2 \<bar>x\<bar> = e" "- 1022 \<le> e" "x * two_pow (52 - e) = of_int m"
  shows "float64_nearest x = x"
proof -
  have "round_even (x * two_pow (52 - e)) = m" by (simp add: assms(4) round_even_int)
  then have "float64_nearest x = of_int m * two_pow (e - 52)"
    using assms(1,3) by (simp add: float64_nearest_def assms(2) Let_def)
  also have "\<dots> = x * (two_pow (52 - e) * two_pow (e - 52))" by (simp flip: assms(4))
  also have "two_pow (52 - e) * two_pow (e - 52) = 1" by (simp flip: two_pow_add) (simp add: two_pow_def)
  finally show ?thesis by simp
qed

text \<open>Every integer up to \<open>2 ^ 53\<close> is a \<open>float64\<close>.\<close>

lemma float64_nearest_int:
  assumes "0 \<le> n" "n \<le> 2 ^ 53"
  shows "float64_nearest (of_int n) = of_int n"
proof (cases "n = 0 \<or> n = 2 ^ 53")
  case True
  have "float64_nearest (of_int (2 ^ 53)) = of_int (2 ^ 53)"
    by (rule float64_nearest_multiple [where e = 53 and m = "2 ^ 52"])
      (use ilog2_eq [of 53 "2 ^ 53"] in \<open>simp_all add: two_pow_def\<close>)
  then show ?thesis using True by (auto simp: float64_nearest_def)
next
  case False
  define k where "k = floorlog 2 (nat n) - 1"
  have n: "0 < n" "n < 2 ^ 53" using False assms by auto
  have "0 < floorlog 2 (nat n)" using n by (simp add: floorlog_def)
  then have b: "2 ^ k \<le> nat n" "nat n < 2 ^ Suc k"
    using floorlog_bounds [of "nat n" 2] n by (auto simp: k_def)
  then have bi: "2 ^ k \<le> n" "n < 2 ^ Suc k" using n(1) by (simp_all add: le_nat_iff nat_less_iff)
  have "(2 :: int) ^ k < 2 ^ 53" using bi(1) n(2) by linarith
  then have "k < 53" by (rule power_less_imp_less_exp [rotated]) simp
  then have k: "k \<le> 52" by simp
  show ?thesis
  proof (rule float64_nearest_multiple)
    show "ilog2 \<bar>of_int n\<bar> = int k" using ilog2_eq [OF bi] n(1) by simp
    show "of_int n * two_pow (52 - int k) = of_int (n * 2 ^ (52 - k))"
      using k by (simp add: two_pow_def nat_diff_distrib)
  qed (use n in auto)
qed

lemma float64_nearest_neg: "x \<le> 0 \<Longrightarrow> float64_nearest x \<le> 0"
proof -
  assume "x \<le> 0"
  then have "round_even (x * two_pow k) \<le> 0" for k
    by (intro round_even_le) (simp add: mult_nonpos_nonneg less_imp_le [OF two_pow_pos])
  then show ?thesis
    by (auto simp: float64_nearest_def Let_def intro!: mult_nonpos_nonneg less_imp_le [OF two_pow_pos])
qed

lemma positive_arg_page_limit:
  assumes "\<And>n. v = Some n \<Longrightarrow> n \<le> 2 ^ 53" "gm_get args ''limit'' = map_option (ANum \<circ> of_int) v"
  shows "positive_arg L args ''limit'' 50 = page_limit v"
proof (cases v)
  case (Some n)
  show ?thesis
  proof (cases "0 < n")
    case True
    then have "float64_nearest (of_int n) = of_int n" "is_goint n"
      using assms(1) [OF Some] float64_nearest_int [of n] by (auto simp: is_goint_def goint_min_def goint_max_def)
    then show ?thesis
      using assms(2) Some True by (simp add: positive_arg_def arg_number_def page_limit_def go_int_of_int)
  next
    case False
    then show ?thesis
      using assms(2) Some float64_nearest_neg [of "of_int n"]
      by (simp add: positive_arg_def arg_number_def page_limit_def)
  qed
qed (use assms(2) in \<open>simp add: positive_arg_def arg_number_def page_limit_def\<close>)

lemma offset_arg_Or:
  assumes "\<And>n. v = Some n \<Longrightarrow> 0 \<le> n \<and> n \<le> 2 ^ 53" "gm_get args ''offset'' = map_option (ANum \<circ> of_int) v"
  shows "offset_arg L args = Or v 0"
proof (cases v)
  case (Some n)
  then have "float64_nearest (of_int n) = of_int n" "is_goint n" "0 \<le> n"
    using assms(1) [OF Some] float64_nearest_int [of n] by (auto simp: is_goint_def goint_min_def goint_max_def)
  then show ?thesis using assms(2) Some by (simp add: offset_arg_def arg_number_def go_int_of_int)
qed (use assms(2) in \<open>simp add: offset_arg_def arg_number_def\<close>)

text \<open>Above \<open>2 ^ 53\<close> the tool works with another limit than the one it was given.\<close>

lemma big_limit_is_rounded: "positive_arg L [(''limit'', ANum (2 ^ 53 + 1))] ''limit'' 50 = 2 ^ 53"
proof -
  have e: "ilog2 (2 ^ 53 + 1) = 53" using ilog2_eq [of 53 "2 ^ 53 + 1"] by simp
  have f: "\<lfloor>9007199254740993 / 2 :: rat\<rfloor> = 4503599627370496" by (rule floor_unique) simp_all
  have "float64_nearest (2 ^ 53 + 1) = 2 ^ 53"
    by (simp add: float64_nearest_def e [simplified]) (simp add: two_pow_def round_even_def f)
  then show ?thesis
    by (simp add: positive_arg_def arg_number_def gm_get_def go_int_def is_goint_def goint_min_def goint_max_def)
qed

text \<open>The largest \<open>int\<close> becomes \<open>2 ^ 63\<close>, which is no \<open>int\<close>: the offset is what the platform makes of it.\<close>

lemma big_offset_leaves_int: "offset_arg L [(''offset'', ANum (2 ^ 63 - 1))] = ml_out_of_range L (2 ^ 63)"
proof -
  have e: "ilog2 (2 ^ 63 - 1) = 62" using ilog2_eq [of 62 "2 ^ 63 - 1"] by simp
  have f: "\<lfloor>9223372036854775807 / 1024 :: rat\<rfloor> = 9007199254740991" by (rule floor_unique) simp_all
  have "float64_nearest (2 ^ 63 - 1) = 2 ^ 63"
    by (simp add: float64_nearest_def e [simplified]) (simp add: two_pow_def round_even_def f)
  then show ?thesis
    by (simp add: offset_arg_def arg_number_def gm_get_def go_int_def is_goint_def goint_min_def goint_max_def)
qed

lemma time_arg_opt:
  "(\<And>t. v = Some t \<Longrightarrow> ml_ParseTime L (shw t) = Inr t \<and> shw t \<noteq> []) \<Longrightarrow>
   gm_get args k = map_option (AStr \<circ> shw) v \<Longrightarrow> time_arg L args k = v"
  by (cases v) (auto simp: time_arg_def arg_string_def)

lemmas history_arg_simps = history_args_def gm_get_opt

text \<open>C34: A history request whose limit and offset are at most \<open>2 ^ 53\<close> gives the same events through MCP
  as through REST: for every such REST request with a page the handler answers, the tool called with the same
  parameters, its numbers read as \<open>float64\<close>, answers with the JSON of the events on that page.\<close>

theorem mcp_history_agrees:
  assumes "api_GetHistory env h p = Ok page"
    and "\<And>n. yp_Limit p = Some n \<Longrightarrow> n \<le> 2 ^ 53"
    and "\<And>n. yp_Offset p = Some n \<Longrightarrow> 0 \<le> n \<and> n \<le> 2 ^ 53"
    and "\<And>t. yp_Since p = Some t \<or> yp_Until p = Some t \<Longrightarrow> ml_ParseTime L (shw t) = Inr t \<and> shw t \<noteq> []"
  shows "\<exists>events. hp_Items page = map toAPIChangeEvent events \<and>
    tool_get_history L env (ah_q h) (history_args shw p) = Ok (ml_json_events L events)"
proof -
  let ?args = "history_args shw p"
  have limit: "positive_arg L ?args ''limit'' 50 = page_limit (yp_Limit p)"
    by (rule positive_arg_page_limit [OF assms(2)]) (simp_all add: history_arg_simps)
  have offset: "offset_arg L ?args = Or (yp_Offset p) 0"
    by (rule offset_arg_Or [OF assms(3)]) (simp_all add: history_arg_simps)
  have times: "time_arg L ?args ''since'' = yp_Since p" "time_arg L ?args ''until'' = yp_Until p"
    by (rule time_arg_opt [where shw = shw]; simp add: assms(4) history_arg_simps)+
  have strings:
    "arg_string ?args ''cluster'' = Or (yp_Cluster p) []" "arg_string ?args ''group'' = Or (yp_Group p) []"
    "arg_string ?args ''kind'' = Or (yp_Kind p) []" "arg_string ?args ''namespace'' = Or (yp_Namespace p) []"
    "arg_string ?args ''name'' = Or (yp_Name p) []"
    "arg_string ?args ''changeType'' = (case yp_ChangeType p of Some c \<Rightarrow> c | None \<Rightarrow> [])"
    by (simp_all add: arg_string_def history_arg_simps as_string_opt split: option.split)
  obtain events totl where q: "GetHistory env (ah_q h) (Or (yp_Cluster p) []) (Or (yp_Group p) [])
      (Or (yp_Kind p) []) (Or (yp_Namespace p) []) (Or (yp_Name p) [])
      (case yp_ChangeType p of Some c \<Rightarrow> c | None \<Rightarrow> []) (yp_Since p) (yp_Until p)
      (page_limit (yp_Limit p)) (Or (yp_Offset p) 0) = Ok (events, totl)"
    and items: "hp_Items page = map toAPIChangeEvent events"
    using assms(1) by (auto simp: api_GetHistory_def Let_def map_result_Ok_iff)
  show ?thesis
    using items q
    by (intro exI [of _ events])
      (simp add: tool_get_history_def limit offset times strings text_result_def)
qed

subsection \<open>Example\<close>

definition example_mcp_lib :: mcp_lib where
  "example_mcp_lib =
     \<lparr>ml_json_strings = concat, ml_json_gvks = (\<lambda>_. ''gvks''), ml_json_resources = (\<lambda>_. ''resources''),
      ml_json_events = (\<lambda>events. concat (map (\<lambda>e. ev_SHA e @ '' '') events)),
      ml_json_map = (\<lambda>_. ''map''), ml_json_volatility = (\<lambda>_. ''volatility''), ml_json_fields = (\<lambda>_. ''fields''),
      ml_ParseTime = (\<lambda>s. if s = ''1970-01-01T00:00:00Z'' then Inr 0 else Inl (ErrText ''parsing time'')),
      ml_lib_text = id, ml_out_of_range = (\<lambda>_. 0)\<rparr>"

theorem mcp_history_agrees_witness:
  "\<exists>events. hp_Items history_answer = map toAPIChangeEvent events \<and>
     tool_get_history example_mcp_lib viewer_env viewer_server
       [(''since'', AStr ''1970-01-01T00:00:00Z''), (''group'', AStr ''apps''), (''name'', AStr ''x''),
        (''offset'', ANum 1)] = Ok (ml_json_events example_mcp_lib events)"
proof -
  let ?p = "history_request\<lparr>yp_Since := Some 0\<rparr>"
  have "api_GetHistory viewer_env example_handler ?p = Ok history_answer"
    by code_simp
  then show ?thesis
    using mcp_history_agrees [of viewer_env example_handler ?p history_answer example_mcp_lib
        "\<lambda>_. ''1970-01-01T00:00:00Z''"]
    by (simp add: history_args_def opt_arg_def history_request_def example_mcp_lib_def example_handler_def
        is_goint_def goint_min_def goint_max_def)
qed

end
