(* ===== verification/ServerMain.thy ===== *)
theory ServerMain
  imports Mux Mcp ClusterFacts
begin

text \<open>
  \<open>main\<close> of \<open>cmd/server/main.go\<close>: the whole server process. After the configuration is loaded every
  cluster gets a state and a pull goroutine; the main goroutine waits until each of them has called
  \<open>initWg.Done\<close>, sets up the OIDC middleware, serves requests, and ends on a signal. A step of the process
  is a step of one goroutine, a request, or a move of the main goroutine. The goroutines share the
  states (a name that is configured twice means one state with two goroutines) and the world. A panic in a
  goroutine ends the process; a panic in a handler is caught by \<open>net/http\<close> and only ends its connection.

  Flags, the profiling endpoints and logging are left out. A request is one step: it sees one moment of
  every cluster.
\<close>

datatype main_phase = Initialising | Serving "Middleware option" bool | Exited nat | Panicked string

record ('g, 'r) server_process =
  sm_states :: "'r ClusterState gmap"
  sm_pullers :: "(ClusterConfig \<times> ('g, 'r) puller) list"
  sm_world :: "'g world"
  sm_cancelled :: bool
  sm_phase :: main_phase
  sm_web :: "'r web_state"

definition clusterNames :: "ServerConfig \<Rightarrow> string list" where
  "clusterNames cfg = map cl_Name (ss_Clusters (sc_Spec cfg))"

definition initial_states :: "ServerConfig \<Rightarrow> 'r ClusterState gmap" where
  "initial_states cfg =
     foldl (\<lambda>m c. gm_put (cl_Name c)
              (new_state (cl_Name c) (ix_Fields (ss_Index (sc_Spec cfg))) (git_SubDir (cl_Git c))) m)
       [] (ss_Clusters (sc_Spec cfg))"

text \<open>The handlers as they see the process now, over the git that answers now.\<close>

definition current_handler ::
  "('g, 'r) go_git \<Rightarrow> ServerConfig \<Rightarrow> ('g, 'r) server_process \<Rightarrow> 'r apiHandler" where
  "current_handler git cfg P =
     \<lparr>ah_states = sm_states P, ah_clusterNames = clusterNames cfg,
      ah_q = NewServer (map (\<lambda>(n, s). (n, as_querier git (sm_world P) s)) (sm_states P)) (clusterNames cfg)\<rparr>"

text \<open>The process when the goroutines are started, and the exit when the configuration is refused.\<close>

definition main_start :: "ServerConfig \<Rightarrow> 'g world \<Rightarrow> ('g, 'r) server_process" where
  "main_start cfg w =
     \<lparr>sm_states = initial_states cfg,
      sm_pullers = map (\<lambda>c. (c, pull_start (new_state (cl_Name c) (ix_Fields (ss_Index (sc_Spec cfg)))
                                              (git_SubDir (cl_Git c))) w)) (ss_Clusters (sc_Spec cfg)),
      sm_world = w, sm_cancelled = False, sm_phase = Initialising,
      sm_web = \<lparr>ws_api = \<lparr>ah_states = [], ah_clusterNames = [], ah_q = NewServer [] []\<rparr>,
        ws_discovery = no_discovery, ws_asMetadata = no_discovery, ws_registration = None, ws_auth = None\<rparr>\<rparr>"

definition server_main :: "ServerConfig result \<Rightarrow> 'g world \<Rightarrow> ('g, 'r) server_process + main_phase" where
  "server_main loaded w =
     (case loaded of
        Ok cfg \<Rightarrow> Inl (main_start cfg w)
      | Err _ \<Rightarrow> Inr (Exited 1)
      | Panic m \<Rightarrow> Inr (Panicked m))"

subsection \<open>The goroutines\<close>

text \<open>A goroutine works on the shared state of its cluster, in the shared world.\<close>

definition load_shared ::
  "('g, 'r) server_process \<Rightarrow> ClusterConfig \<Rightarrow> ('g, 'r) puller \<Rightarrow> ('g, 'r) puller" where
  "load_shared P c p =
     (case gm_get (sm_states P) (cl_Name c) of
        Some s \<Rightarrow> p\<lparr>pl_state := s, pl_world := sm_world P\<rparr>
      | None \<Rightarrow> p\<lparr>pl_world := sm_world P\<rparr>)"

definition store_shared ::
  "('g, 'r) server_process \<Rightarrow> nat \<Rightarrow> ClusterConfig \<Rightarrow> ('g, 'r) puller \<Rightarrow> ('g, 'r) server_process" where
  "store_shared P i c q =
     P\<lparr>sm_states := gm_put (cl_Name c) (pl_state q) (sm_states P),
       sm_pullers := (sm_pullers P)[i := (c, q)],
       sm_world := pl_world q,
       sm_phase := (case pl_phase q of Crashed m \<Rightarrow> Panicked m | _ \<Rightarrow> sm_phase P)\<rparr>"

subsection \<open>The main goroutine\<close>

definition initWg_done :: "('g, 'r) server_process \<Rightarrow> bool" where
  "initWg_done P \<longleftrightarrow> list_all (\<lambda>(c, p). pl_initDone p) (sm_pullers P)"

text \<open>After \<open>initWg.Wait\<close>: the middleware, then the listener (which only logs when it fails).\<close>

definition start_serving ::
  "(string \<Rightarrow> error + parsed_url) \<Rightarrow> (string \<Rightarrow> string \<Rightarrow> string \<Rightarrow> error + Middleware) \<Rightarrow> error option \<Rightarrow>
   ServerConfig \<Rightarrow> ('g, 'r) server_process \<Rightarrow> ('g, 'r) server_process" where
  "start_serving Parse NewMiddleware listen_err cfg P =
     P\<lparr>sm_phase :=
       (case ss_OIDC (sc_Spec cfg) of
          None \<Rightarrow> Serving None (listen_err = None)
        | Some oidc \<Rightarrow>
            (case NewMiddleware (oidc_Issuer oidc) (oidc_Audience oidc)
                    (protectedResourceMetadataURL Parse (oidc_Audience oidc)) of
               Inl _ \<Rightarrow> Exited 1
             | Inr m \<Rightarrow> Serving (Some m) (listen_err = None)))\<rparr>"

subsection \<open>Requests\<close>

text \<open>The MCP endpoint: the protocol of the library around the tools.\<close>

record mcp_protocol =
  mp_request :: "web_request \<Rightarrow> response + string \<times> doc"
  mp_unknown :: "web_request \<Rightarrow> response"
  mp_answer :: "web_request \<Rightarrow> error + string \<Rightarrow> response"

definition serve_mcp ::
  "mcp_protocol \<Rightarrow> mcp_lib \<Rightarrow> query_env \<Rightarrow> web_request \<Rightarrow> Server \<Rightarrow> Server \<times> response result" where
  "serve_mcp proto L env r q =
     (case mp_request proto r of
        Inl resp \<Rightarrow> (q, Ok resp)
      | Inr (tool, args) \<Rightarrow>
          (case call_tool L env tool args q of
             None \<Rightarrow> (q, Ok (mp_unknown proto r))
           | Some (q', Ok t) \<Rightarrow> (q', Ok (mp_answer proto r (Inr t)))
           | Some (q', Err e) \<Rightarrow> (q', Ok (mp_answer proto r (Inl e)))
           | Some (q', Panic m) \<Rightarrow> (q', Panic m)))"

text \<open>What a request may change of a cluster is the program cache of its index.\<close>

definition keep_caches :: "Server \<Rightarrow> 'r ClusterState gmap \<Rightarrow> 'r ClusterState gmap" where
  "keep_caches q states =
     map (\<lambda>(n, s). (n, case gm_get (sv_clusters q) n of Some cq \<Rightarrow> s\<lparr>cs_idx := cq_Index cq\<rparr> | None \<Rightarrow> s)) states"

definition handle_request ::
  "'j web_lib \<Rightarrow> mcp_protocol \<Rightarrow> mcp_lib \<Rightarrow> query_env \<Rightarrow> ('g, 'r) go_git \<Rightarrow> ServerConfig \<Rightarrow> upstream \<Rightarrow>
   Middleware option \<Rightarrow> web_request \<Rightarrow> ('g, 'r) server_process \<Rightarrow> ('g, 'r) server_process \<times> response result" where
  "handle_request lib proto L env git cfg up mw r P =
     (let env = env\<lparr>qe_fs := w_fs (sm_world P)\<rparr>
      in case serve_web (lib\<lparr>vb_mcp := serve_mcp proto L env\<rparr>) env (ss_OIDC (sc_Spec cfg)) mw up r
                ((sm_web P)\<lparr>ws_api := current_handler git cfg P\<rparr>) of
           (ws, res) \<Rightarrow>
             (P\<lparr>sm_web := ws, sm_states := keep_caches (ah_q (ws_api ws)) (sm_states P)\<rparr>, res))"

subsection \<open>Steps\<close>

definition running :: "('g, 'r) server_process \<Rightarrow> bool" where
  "running P \<longleftrightarrow> (case sm_phase P of Initialising \<Rightarrow> True | Serving _ _ \<Rightarrow> True | _ \<Rightarrow> False)"

text \<open>A goroutine only leaves its loop when the context is done.\<close>

inductive server_step ::
  "'j web_lib \<Rightarrow> ('g, 'r) senv set \<Rightarrow> ServerConfig \<Rightarrow> ('g, 'r) server_process \<Rightarrow> ('g, 'r) server_process \<Rightarrow> bool"
  for lib :: "'j web_lib" and E :: "('g, 'r) senv set" and cfg :: ServerConfig where
  goroutine:
    "running P \<Longrightarrow> i < length (sm_pullers P) \<Longrightarrow> sm_pullers P ! i = (c, p) \<Longrightarrow> env \<in> E \<Longrightarrow>
     pull_step c (sc_Spec cfg) env (load_shared P c p) q \<Longrightarrow>
     (pl_phase p = Waiting \<and> pl_phase q = Stopped \<longrightarrow> sm_cancelled P) \<Longrightarrow>
     server_step lib E cfg P (store_shared P i c q)"
| signal: "running P \<Longrightarrow> server_step lib E cfg P (P\<lparr>sm_cancelled := True\<rparr>)"
| initialised:
    "sm_phase P = Initialising \<Longrightarrow> initWg_done P \<Longrightarrow>
     server_step lib E cfg P (start_serving (vb_Parse lib) NewMiddleware listen_err cfg P)"
| request:
    "sm_phase P = Serving mw True \<Longrightarrow> handle_request lib proto L env git cfg up mw r P = (P', res) \<Longrightarrow>
     server_step lib E cfg P P'"
| shutdown: "sm_phase P = Serving mw listening \<Longrightarrow> sm_cancelled P \<Longrightarrow>
     server_step lib E cfg P (P\<lparr>sm_phase := Exited 0\<rparr>)"

inductive_cases server_stepE: "server_step lib E cfg P P'"

inductive server_reach ::
  "'j web_lib \<Rightarrow> ('g, 'r) senv set \<Rightarrow> ServerConfig \<Rightarrow> ('g, 'r) server_process \<Rightarrow> ('g, 'r) server_process \<Rightarrow> bool"
  for lib :: "'j web_lib" and E :: "('g, 'r) senv set" and cfg :: ServerConfig and start :: "('g, 'r) server_process" where
  server_begins: "server_reach lib E cfg start start"
| server_goes_on: "server_reach lib E cfg start P \<Longrightarrow> server_step lib E cfg P P' \<Longrightarrow> server_reach lib E cfg start P'"

end
