(* ===== verification/ServerFacts.thy ===== *)
theory ServerFacts
  imports ServerMain
begin

text \<open>
  What holds in every reachable state of the server process, with all goroutines interleaved: the
  invariant of each cluster's goroutine survives the others, the server serves nothing before every
  goroutine has finished its first attempt, and this point is reached after at most four steps of each.
\<close>

subsection \<open>Requests change only caches\<close>

text \<open>The data behind a server, without the cached programs.\<close>

definition uncached :: "ClusterQuerier \<Rightarrow> ClusterQuerier" where
  "uncached cq = cq\<lparr>cq_Index := (cq_Index cq)\<lparr>in_celCache := []\<rparr>\<rparr>"

definition data_of :: "Server \<Rightarrow> (string \<times> ClusterQuerier) list \<times> string list" where
  "data_of q = (map (\<lambda>(n, cq). (n, uncached cq)) (sv_clusters q), sv_clusterNames q)"

lemma gm_put_map: "map (\<lambda>(n, v). (n, f v)) (gm_put k v m) = gm_put k (f v) (map (\<lambda>(n, v). (n, f v)) m)"
  by (induction k v m rule: gm_put.induct) auto

lemma gm_get_map: "gm_get (map (\<lambda>(n, v). (n, f v)) m) k = map_option f (gm_get m k)"
  by (induction m) (auto simp: gm_get_def)

lemma uncached_one: "snapshot_one env grp kind namespace name cel sel cq = (cq', res) \<Longrightarrow> uncached cq' = uncached cq"
  by (auto simp: snapshot_one_def IndexQuery_def uncached_def Let_def split: if_splits prod.splits sum.splits)

lemma querier_Ok: "querier s n = Ok cq \<Longrightarrow> gm_get (sv_clusters s) n = Some cq"
  by (auto simp: querier_def split: option.splits)

lemma data_of_put:
  assumes "querier s n = Ok cq" "uncached cq' = uncached cq"
  shows "data_of (s\<lparr>sv_clusters := gm_put n cq' (sv_clusters s)\<rparr>) = data_of s"
  using assms(2) querier_Ok [OF assms(1)] gm_put_id [of "map (\<lambda>(n, v). (n, uncached v)) (sv_clusters s)" n "uncached cq"]
  by (simp add: data_of_def gm_put_map gm_get_map)

lemma data_of_loop:
  assumes one: "\<And>cq cq' res. one cq = (cq', res) \<Longrightarrow> uncached cq' = uncached cq"
  shows "snapshot_loop one ns s = (s', res) \<Longrightarrow> data_of s' = data_of s"
proof (induction ns arbitrary: s s' res)
  case (Cons n ns)
  show ?case
  proof (cases "querier s n")
    case (Ok cq)
    obtain cq' r where eq: "one cq = (cq', r)" by fastforce
    have put: "data_of (s\<lparr>sv_clusters := gm_put n cq' (sv_clusters s)\<rparr>) = data_of s"
      by (rule data_of_put [OF Ok one [OF eq]])
    show ?thesis
      using Cons put Ok eq by (cases r) (fastforce split: prod.splits)+
  qed (use Cons.prems in auto)
qed simp

lemma data_of_snapshot:
  assumes "GetCurrentSnapshot env s cluster grp kind namespace name cel sel limit offset = (s', res)"
  shows "data_of s' = data_of s"
proof -
  obtain found where "snapshot_loop (snapshot_one env grp kind namespace name cel sel) (resolve s cluster) s = (s', found)"
    using assms by (auto simp: GetCurrentSnapshot_def split: prod.splits)
  then show ?thesis using data_of_loop uncached_one by blast
qed

text \<open>So the API, the MCP tools and the whole mux leave the data alone.\<close>

definition same_data :: "'r apiHandler \<Rightarrow> 'r apiHandler \<Rightarrow> bool" where
  "same_data h h' \<longleftrightarrow> (\<exists>q. h' = h\<lparr>ah_q := q\<rparr> \<and> data_of q = data_of (ah_q h))"

lemma same_data_refl: "same_data h h"
  unfolding same_data_def by (intro exI [of _ "ah_q h"]) simp

lemma same_data_GetSnapshot: "api_GetSnapshot env h params = (h', res) \<Longrightarrow> same_data h h'"
  using same_data_refl
  by (auto simp: api_GetSnapshot_def same_data_def Let_def split: option.splits prod.splits dest: data_of_snapshot)

lemma with_params_same:
  "(\<And>params. same_data h (fst (run params))) \<Longrightarrow> same_data h (fst (with_params lib op decode r h run))"
  by (auto simp: with_params_def same_data_refl split: sum.split)

lemma serve_request_same: "same_data h (fst (serve_request lib env r h))"
proof -
  have "same_data h (fst (handle_operation lib env r h op))" for op
  proof (cases op)
    case GetSnapshotOperation
    then show ?thesis
      by (auto simp: handleGetSnapshotRequest_def intro!: with_params_same split: prod.split dest: same_data_GetSnapshot)
  qed (auto simp: handleGetDiffRequest_def handleGetHistoryRequest_def handleGetResourceRequest_def
      handleGetStatusRequest_def handleGetVolatilityRequest_def handleGetVolatilityFieldsRequest_def
      handleHealthzRequest_def handleListClustersRequest_def handleListGVKsRequest_def
      handleListNamespacesRequest_def same_data_refl intro!: with_params_same)
  then show ?thesis
    by (auto simp: serve_request_def same_data_refl split: routed.split prod.split)
qed

lemma ws_api_target:
  assumes "\<And>r q. data_of (fst (vb_mcp lib r q)) = data_of q"
  shows "same_data (ws_api st) (ws_api (fst (serve_target lib env oidc mw up t r st)))"
proof -
  have api: "same_data (ws_api st) (ws_api (fst (serve_api_server lib env r st)))"
    using serve_request_same [of "ws_api st" "vb_server lib" env "wr_request r"]
    by (simp add: serve_api_server_def case_prod_beta)
  have mcp: "same_data (ws_api st) (ws_api (fst (serve_mcp_server lib r st)))"
    using assms [of r "ah_q (ws_api st)"]
    by (auto simp: serve_mcp_server_def same_data_def split: prod.splits)
  have protected: "same_data (ws_api st) (ws_api (fst (maybeProtect mw h r st)))"
    if "same_data (ws_api st) (ws_api (fst (h r st)))" for h
    using that same_data_refl by (auto simp: maybeProtect_def Middleware_Handler_def Let_def split: option.split)
  show ?thesis
    by (cases t) (auto simp: serve_target_def Let_def api mcp protected same_data_refl split: prod.splits)
qed

lemma serve_web_same:
  assumes "\<And>r q. data_of (fst (vb_mcp lib r q)) = data_of q"
  shows "same_data (ws_api st) (ws_api (fst (serve_web lib env oidc mw up r st)))"
  using ws_api_target [OF assms] by (auto simp: serve_web_def same_data_refl split: mux_decision.split)

lemma serve_mcp_same: "data_of (fst (serve_mcp proto L env r q)) = data_of q"
proof -
  have "data_of (fst (tool_get_snapshot L env q args)) = data_of q" for args
    using data_of_snapshot
    by (auto simp: tool_get_snapshot_def Let_def split: prod.split result.split if_splits)
  then have "call_tool L env tool args q = Some (q', res) \<Longrightarrow> data_of q' = data_of q" for tool args q' res
    by (auto simp: call_tool_def split: if_splits) (metis fst_conv)
  then show ?thesis
    by (fastforce simp: serve_mcp_def split: sum.split option.split prod.split result.split)
qed

subsection \<open>A goroutine among others\<close>

text \<open>What no move of anybody takes back from a cluster's state.\<close>

definition advances :: "string \<Rightarrow> 'r ClusterState \<Rightarrow> 'r ClusterState \<Rightarrow> bool" where
  "advances name s s' \<longleftrightarrow>
     state_ok name s' \<and> (ready s' \<longrightarrow> indexed s') \<and> (indexed s \<longrightarrow> indexed s') \<and>
     (cs_gc s \<noteq> None \<longrightarrow> cs_gc s' \<noteq> None) \<and> (cs_lastPullAt s \<noteq> None \<longrightarrow> cs_lastPullAt s' \<noteq> None)"

lemma pull_inv_advances:
  "pull_inv name (p\<lparr>pl_state := s\<rparr>) \<Longrightarrow> advances name s s' \<Longrightarrow> pull_inv name (p\<lparr>pl_state := s'\<rparr>)"
  by (auto simp: pull_inv_def advances_def split: option.splits)

text \<open>A step leaves the state as it is, or is one of its methods.\<close>

lemma clone_states:
  "pl_state (first_clone env c p) = pl_state p \<or> (\<exists>gc dir. pl_state (first_clone env c p) = setGit gc dir (pl_state p))"
  "(\<exists>err. pl_state (reclone env c p) = recordPull env err (pl_state p)) \<or> pl_state (reclone env c p) = pl_state p \<or>
   (\<exists>gc dir. pl_state (reclone env c p) = setGit gc dir (pl_state p))"
  by (auto simp: first_clone_def reclone_def split: prod.splits sum.splits result.splits)

lemma tick_state:
  "(\<exists>err. pl_state (on_tick env c p) = recordPull env err (pl_state p)) \<or> pl_state (on_tick env c p) = pl_state p \<or>
   (\<exists>gc dir. pl_state (on_tick env c p) = setGit gc dir (pl_state p))"
proof (cases "pl_gc p")
  case (Some gc)
  obtain w1 r where "Pull (se_git env) gc (pl_world p) = (w1, r)" by fastforce
  then show ?thesis using Some clone_states(2) [of env c "p\<lparr>pl_world := w1\<rparr>"] by (cases r) (simp_all add: on_tick_def)
qed (simp add: on_tick_def)

lemma pull_step_method:
  assumes "pull_step c spec env p q"
  obtains "pl_state q = pl_state p"
  | gc dir where "pl_state q = setGit gc dir (pl_state p)"
  | err where "pl_state q = recordPull env err (pl_state p)"
  | w dir where "pl_state q = fst (rebuild_objects env w dir (pl_state p))"
  | w days where "pl_state q = fst (rebuild_history env w (cl_Name c) days (pl_state p))"
  using assms
proof cases
  case step_first
  then show thesis using clone_states(1) [of env c p] that(1,2) by auto
next
  case step_objects
  then show thesis using that(4) by (simp add: build_objects_def case_prod_beta)
next
  case step_history
  then show thesis using that(5) by (simp add: build_history_def case_prod_beta)
next
  case (step_record err)
  then show thesis using that(3) by (simp add: record_pull_def)
next
  case step_tick
  then show thesis using tick_state [of env c p] that(1,2,3) by auto
qed (use that(1) in \<open>simp add: stop_pulling_def\<close>)

lemma method_keeps:
  "cs_lastPullAt (setGit gc d s) = cs_lastPullAt s"
  "cs_lastPullAt (recordPull env err s) = Some (se_now env)"
  "cs_lastPullAt (fst (rebuild_objects env w dir s)) = cs_lastPullAt s"
  "cs_lastPullAt (fst (rebuild_history env w name days s)) = cs_lastPullAt s"
  "cs_gc (fst (rebuild_objects env w dir s)) = cs_gc s"
  "cs_gc (fst (rebuild_history env w name days s)) = cs_gc s"
  "indexed (fst (rebuild_objects env w dir s)) = indexed s"
  "indexed s \<Longrightarrow> indexed (fst (rebuild_history env w name days s))"
  by (auto simp: setGit_def recordPull_def rebuild_objects_def rebuild_history_def indexed_def Let_def
      split: prod.split option.split result.split)

lemma pull_step_advances:
  assumes "pull_step c spec env p q" "pull_inv (cl_Name c) p" "senv_ok env"
  shows "advances (cl_Name c) (pl_state p) (pl_state q)"
proof -
  have "state_ok (cl_Name c) (pl_state q)" "ready (pl_state q) \<longrightarrow> indexed (pl_state q)"
    using pull_inv_step [OF assms] by (auto simp: pull_inv_def)
  moreover have "(indexed (pl_state p) \<longrightarrow> indexed (pl_state q)) \<and>
      (cs_gc (pl_state p) \<noteq> None \<longrightarrow> cs_gc (pl_state q) \<noteq> None) \<and>
      (cs_lastPullAt (pl_state p) \<noteq> None \<longrightarrow> cs_lastPullAt (pl_state q) \<noteq> None)"
    using assms(1) by (rule pull_step_method) (auto simp: method_keeps indexed_setGit)
  ultimately show ?thesis by (simp add: advances_def)
qed

text \<open>\<open>initWg.Done\<close> is called before the loop, and only after an attempt is on record or has failed for good.\<close>

definition init_inv :: "('g, 'r) puller \<Rightarrow> bool" where
  "init_inv p \<longleftrightarrow>
     (pl_phase p = Waiting \<or> pl_phase p = Stopped \<longrightarrow> pl_initDone p) \<and>
     (pl_initDone p \<longrightarrow> cs_lastPullAt (pl_state p) \<noteq> None \<or> pl_phase p = Stopped)"

lemma init_inv_step:
  assumes "pull_step c spec env p q" "init_inv p"
  shows "init_inv q"
  using assms(1)
proof cases
  case step_first
  then show ?thesis
    using assms(2) by (auto simp: first_clone_def init_inv_def method_keeps split: prod.splits sum.splits result.splits)
next
  case step_objects
  then show ?thesis
    using assms(2) method_keeps(3) [of env]
    by (auto simp: build_objects_def init_inv_def split: prod.splits elim!: after_part.elims) (metis fst_conv option.distinct(1))+
next
  case step_history
  then show ?thesis
    using assms(2) method_keeps(4) [of env]
    by (auto simp: build_history_def init_inv_def split: prod.splits elim!: after_part.elims) (metis fst_conv option.distinct(1))+
next
  case step_tick
  then show ?thesis
    using assms(2)
    by (auto simp: on_tick_def reclone_def init_inv_def method_keeps split: option.splits prod.splits sum.splits result.splits)
qed (use assms(2) in \<open>auto simp: record_pull_def stop_pulling_def init_inv_def method_keeps\<close>)

subsection \<open>The invariant of the process\<close>

text \<open>What a goroutine can rely on, given the shared state of its cluster.\<close>

definition goroutine_ok :: "'r ClusterState gmap \<Rightarrow> ClusterConfig \<Rightarrow> ('g, 'r) puller \<Rightarrow> bool" where
  "goroutine_ok states c p \<longleftrightarrow>
     (\<exists>s. gm_get states (cl_Name c) = Some s \<and> pull_inv (cl_Name c) (p\<lparr>pl_state := s\<rparr>) \<and> init_inv (p\<lparr>pl_state := s\<rparr>))"

definition process_inv :: "ServerConfig \<Rightarrow> ('g, 'r) server_process \<Rightarrow> bool" where
  "process_inv cfg P \<longleftrightarrow>
     map fst (sm_pullers P) = ss_Clusters (sc_Spec cfg) \<and>
     fst ` set (sm_states P) = set (clusterNames cfg) \<and>
     list_all (\<lambda>(c, p). goroutine_ok (sm_states P) c p) (sm_pullers P) \<and>
     (\<forall>mw l. sm_phase P = Serving mw l \<longrightarrow> initWg_done P) \<and>
     (running P \<longrightarrow> list_all (\<lambda>(c, p). \<forall>m. pl_phase p \<noteq> Crashed m) (sm_pullers P))"

text \<open>A change of the states in which every cluster only advances.\<close>

definition all_advance :: "'r ClusterState gmap \<Rightarrow> 'r ClusterState gmap \<Rightarrow> bool" where
  "all_advance states states' \<longleftrightarrow>
     (\<forall>n s. gm_get states n = Some s \<longrightarrow> (\<exists>s'. gm_get states' n = Some s' \<and> (s' = s \<or> advances n s s')))"

lemma init_inv_advances: "init_inv (p\<lparr>pl_state := s\<rparr>) \<Longrightarrow> advances name s s' \<Longrightarrow> init_inv (p\<lparr>pl_state := s'\<rparr>)"
  by (auto simp: init_inv_def advances_def)

lemma goroutine_ok_advance: "goroutine_ok states c p \<Longrightarrow> all_advance states states' \<Longrightarrow> goroutine_ok states' c p"
  unfolding goroutine_ok_def all_advance_def using pull_inv_advances init_inv_advances by blast

lemma goroutines_advance:
  "list_all (\<lambda>(c, p). goroutine_ok states c p) ps \<Longrightarrow> all_advance states states' \<Longrightarrow>
   list_all (\<lambda>(c, p). goroutine_ok states' c p) ps"
  by (erule list.pred_mono_strong) (auto intro: goroutine_ok_advance)

lemma pull_inv_shared: "pull_inv name (load_shared P c p) \<longleftrightarrow>
    pull_inv name (p\<lparr>pl_state := (case gm_get (sm_states P) (cl_Name c) of Some s \<Rightarrow> s | None \<Rightarrow> pl_state p)\<rparr>)"
  by (rule pull_inv_cong) (simp_all add: load_shared_def split: option.split)

lemma goroutine_ok_nth:
  "process_inv cfg P \<Longrightarrow> i < length (sm_pullers P) \<Longrightarrow> sm_pullers P ! i = (c, p) \<Longrightarrow> goroutine_ok (sm_states P) c p"
  by (auto simp: process_inv_def list_all_length)

lemma list_all_update: "list_all Q xs \<Longrightarrow> Q x \<Longrightarrow> list_all Q (xs[i := x])"
  using set_update_subset_insert [of xs i x] by (auto simp: list_all_iff)

lemma pull_step_initDone: "pull_step c spec env p q \<Longrightarrow> pl_initDone p \<Longrightarrow> pl_initDone q"
  by (elim pull_stepE) (auto simp: first_clone_def build_objects_def build_history_def record_pull_def
      on_tick_def reclone_def stop_pulling_def split: prod.splits sum.splits result.splits option.splits)

lemma store_shared_fields:
  "sm_states (store_shared P i c q) = gm_put (cl_Name c) (pl_state q) (sm_states P)"
  "sm_pullers (store_shared P i c q) = (sm_pullers P)[i := (c, q)]"
  "sm_phase (store_shared P i c q) = Serving mw l \<Longrightarrow> sm_phase P = Serving mw l"
  by (auto simp: store_shared_def split: phase.splits)

lemma running_store:
  assumes "running (store_shared P i c q)"
  shows "running P" and "pl_phase q \<noteq> Crashed m"
  using assms by (auto simp: running_def store_shared_def split: phase.splits)

lemma process_inv_goroutine:
  assumes inv: "process_inv cfg P" and i: "i < length (sm_pullers P)" "sm_pullers P ! i = (c, p)"
    and step: "pull_step c (sc_Spec cfg) env (load_shared P c p) q" and env: "senv_ok env"
  shows "process_inv cfg (store_shared P i c q)"
proof -
  have "goroutine_ok (sm_states P) c p" by (rule goroutine_ok_nth [OF inv i])
  then obtain s where s: "gm_get (sm_states P) (cl_Name c) = Some s" "pull_inv (cl_Name c) (p\<lparr>pl_state := s\<rparr>)"
      "init_inv (p\<lparr>pl_state := s\<rparr>)"
    by (auto simp: goroutine_ok_def)
  then have before: "pull_inv (cl_Name c) (load_shared P c p)" "init_inv (load_shared P c p)"
      "pl_state (load_shared P c p) = s"
    by (simp_all add: pull_inv_shared) (simp_all add: load_shared_def init_inv_def)
  have after: "pull_inv (cl_Name c) q" "init_inv q"
    using pull_inv_step [OF step before(1) env] init_inv_step [OF step before(2)] by auto
  have adv: "advances (cl_Name c) s (pl_state q)"
    using pull_step_advances [OF step before(1) env] before(3) by simp
  let ?states = "gm_put (cl_Name c) (pl_state q) (sm_states P)"
  have all: "all_advance (sm_states P) ?states"
    using adv s(1) by (auto simp: all_advance_def gm_get_def gm_put_get)
  have ok: "goroutine_ok ?states c q"
    using after by (auto simp: goroutine_ok_def gm_get_def gm_put_get)
  have "list_all (\<lambda>(c, p). goroutine_ok ?states c p) (sm_pullers P)"
    by (rule goroutines_advance [OF _ all]) (use inv in \<open>simp add: process_inv_def\<close>)
  then have goroutines: "list_all (\<lambda>(c, p). goroutine_ok ?states c p) ((sm_pullers P)[i := (c, q)])"
    by (rule list_all_update) (simp add: ok)
  have names: "map fst ((sm_pullers P)[i := (c, q)]) = map fst (sm_pullers P)"
    using i by (simp add: map_update list_update_same_conv)
  have keys: "fst ` set ?states = fst ` set (sm_states P)"
    using s(1) by (force simp: gm_put_keys gm_get_def dest: map_of_SomeD)
  have serving: "initWg_done (store_shared P i c q)" if "initWg_done P"
  proof -
    have "pl_initDone p" using that i by (auto simp: initWg_done_def list_all_length)
    then have "pl_initDone q"
      using pull_step_initDone [OF step] by (simp add: load_shared_def split: option.splits)
    then show ?thesis
      using that by (simp add: initWg_done_def store_shared_def list_all_update)
  qed
  have alive: "list_all (\<lambda>(c, p). \<forall>m. pl_phase p \<noteq> Crashed m) ((sm_pullers P)[i := (c, q)])"
    if "running (store_shared P i c q)"
    using inv running_store [OF that] by (simp add: process_inv_def list_all_update)
  show ?thesis
    using inv goroutines names keys serving alive
    unfolding process_inv_def store_shared_fields(1,2) names keys by (metis store_shared_fields(3))
qed

text \<open>A request only fills caches.\<close>

lemma advances_cache:
  "state_ok name s \<Longrightarrow> ready s \<longrightarrow> indexed s \<Longrightarrow> advances name s (s\<lparr>cs_idx := (cs_idx s)\<lparr>in_celCache := cache\<rparr>\<rparr>)"
  by (auto simp: advances_def state_ok_def indexed_def ready_def)

lemma uncached_index:
  assumes "uncached cq = uncached (as_querier git w s)"
  shows "\<exists>cache. cq_Index cq = (cs_idx s)\<lparr>in_celCache := cache\<rparr>"
proof -
  have "(cq_Index cq)\<lparr>in_celCache := []\<rparr> = (cs_idx s)\<lparr>in_celCache := []\<rparr>"
    using arg_cong [OF assms, of cq_Index] by (simp add: uncached_def as_querier_def)
  then show ?thesis
    by (intro exI [of _ "in_celCache (cq_Index cq)"]) (cases "cq_Index cq"; cases "cs_idx s"; simp)
qed

lemma keep_caches_get:
  "gm_get (keep_caches q states) n =
     map_option (\<lambda>s. case gm_get (sv_clusters q) n of Some cq \<Rightarrow> s\<lparr>cs_idx := cq_Index cq\<rparr> | None \<Rightarrow> s) (gm_get states n)"
  by (induction states) (auto simp: keep_caches_def gm_get_def split: option.split)

lemma keep_caches_advance:
  assumes "data_of q = data_of (ah_q (current_handler git cfg P))"
    and "\<And>n s. gm_get (sm_states P) n = Some s \<Longrightarrow> state_ok n s \<and> (ready s \<longrightarrow> indexed s)"
  shows "all_advance (sm_states P) (keep_caches q (sm_states P))"
  unfolding all_advance_def
proof (intro allI impI)
  fix n s assume s: "gm_get (sm_states P) n = Some s"
  have "map (\<lambda>(n, cq). (n, uncached cq)) (sv_clusters q) =
      map (\<lambda>(n, s). (n, uncached (as_querier git (sm_world P) s))) (sm_states P)"
    using assms(1) by (simp add: data_of_def current_handler_def NewServer_def case_prod_beta o_def)
  then have "map_option uncached (gm_get (sv_clusters q) n) = Some (uncached (as_querier git (sm_world P) s))"
    using s by (metis gm_get_map option.simps(9))
  then obtain cq where cq: "gm_get (sv_clusters q) n = Some cq" "uncached cq = uncached (as_querier git (sm_world P) s)"
    by auto
  obtain cache where "cq_Index cq = (cs_idx s)\<lparr>in_celCache := cache\<rparr>"
    using uncached_index [OF cq(2)] by blast
  then show "\<exists>s'. gm_get (keep_caches q (sm_states P)) n = Some s' \<and> (s' = s \<or> advances n s s')"
    using s cq(1) assms(2) [OF s] by (simp add: keep_caches_get advances_cache)
qed

text \<open>Every state belongs to a configured cluster, so to a goroutine.\<close>

lemma process_states_ok:
  assumes "process_inv cfg P" "gm_get (sm_states P) n = Some s"
  shows "state_ok n s \<and> (ready s \<longrightarrow> indexed s)"
proof -
  have cs: "map fst (sm_pullers P) = ss_Clusters (sc_Spec cfg)" using assms(1) by (simp add: process_inv_def)
  have "n \<in> set (clusterNames cfg)"
    using assms by (force simp: process_inv_def gm_get_def dest: map_of_SomeD)
  then obtain c where c: "c \<in> set (map fst (sm_pullers P))" "n = cl_Name c"
    unfolding clusterNames_def cs [symmetric] by auto
  then obtain p where "(c, p) \<in> set (sm_pullers P)" by auto
  then have "goroutine_ok (sm_states P) c p" using assms(1) by (auto simp: process_inv_def list_all_iff)
  then show ?thesis using assms(2) c(2) by (auto simp: goroutine_ok_def pull_inv_def)
qed

lemma handle_request_frame:
  assumes "handle_request lib proto L env git cfg up mw r P = (P', res)"
  shows "\<exists>q. data_of q = data_of (ah_q (current_handler git cfg P)) \<and>
    sm_states P' = keep_caches q (sm_states P) \<and> sm_pullers P' = sm_pullers P \<and> sm_phase P' = sm_phase P"
proof -
  let ?env = "env\<lparr>qe_fs := w_fs (sm_world P)\<rparr>" and ?st = "(sm_web P)\<lparr>ws_api := current_handler git cfg P\<rparr>"
  have "same_data (ws_api ?st)
      (ws_api (fst (serve_web (lib\<lparr>vb_mcp := serve_mcp proto L ?env\<rparr>) ?env (ss_OIDC (sc_Spec cfg)) mw up r ?st)))"
    by (rule serve_web_same) (simp add: serve_mcp_same)
  then show ?thesis
    using assms by (auto simp: handle_request_def same_data_def Let_def split: prod.splits)
qed

lemma process_inv_request:
  assumes "process_inv cfg P" "handle_request lib proto L env git cfg up mw r P = (P', res)"
  shows "process_inv cfg P'"
proof -
  obtain q where q: "data_of q = data_of (ah_q (current_handler git cfg P))"
      "sm_states P' = keep_caches q (sm_states P)" "sm_pullers P' = sm_pullers P" "sm_phase P' = sm_phase P"
    using handle_request_frame [OF assms(2)] by blast
  have "all_advance (sm_states P) (sm_states P')"
    unfolding q(2) using process_states_ok [OF assms(1)] by (rule keep_caches_advance [OF q(1)])
  moreover have "fst ` set (sm_states P') = fst ` set (sm_states P)"
    by (force simp: q(2) keep_caches_def)
  ultimately show ?thesis
    using assms(1) q(3,4) goroutines_advance by (auto simp: process_inv_def initWg_done_def running_def)
qed

lemma process_inv_step:
  assumes "server_step lib E cfg P P'" "process_inv cfg P" "\<And>env. env \<in> E \<Longrightarrow> senv_ok env"
  shows "process_inv cfg P'"
  using assms(1)
proof cases
  case (goroutine i c p env q)
  then show ?thesis using process_inv_goroutine [OF assms(2)] assms(3) by auto
next
  case request
  show ?thesis by (rule process_inv_request [OF assms(2) request(2)])
qed (use assms(2) in \<open>auto simp: process_inv_def start_serving_def initWg_done_def running_def split: option.splits sum.splits\<close>)

lemma initial_states_get:
  "c \<in> set (ss_Clusters (sc_Spec cfg)) \<Longrightarrow>
   \<exists>flds subDir. gm_get (initial_states cfg) (cl_Name c) = Some (new_state (cl_Name c) flds subDir)"
  "fst ` set (initial_states cfg) = set (clusterNames cfg)"
proof -
  let ?new = "\<lambda>c. new_state (cl_Name c) (ix_Fields (ss_Index (sc_Spec cfg))) (git_SubDir (cl_Git c))"
  let ?add = "foldl (\<lambda>m c. gm_put (cl_Name c) (?new c) m)"
  have get: "(\<exists>flds subDir. gm_get (?add m cs) n = Some (new_state n flds subDir))"
    if "n \<in> cl_Name ` set cs \<or> (\<exists>flds subDir. gm_get m n = Some (new_state n flds subDir))" for m n cs
    using that
  proof (induction cs arbitrary: m)
    case (Cons c cs)
    have "n \<in> cl_Name ` set cs \<or>
        (\<exists>flds subDir. gm_get (gm_put (cl_Name c) (?new c) m) n = Some (new_state n flds subDir))"
      using Cons.prems by (auto simp: gm_get_def gm_put_get)
    from Cons.IH [OF this] show ?case by simp
  qed simp
  show "c \<in> set (ss_Clusters (sc_Spec cfg)) \<Longrightarrow>
      \<exists>flds subDir. gm_get (initial_states cfg) (cl_Name c) = Some (new_state (cl_Name c) flds subDir)"
    unfolding initial_states_def by (rule get) simp
  have keys: "fst ` set (?add m cs) = fst ` set m \<union> cl_Name ` set cs" for m cs
    by (induction cs arbitrary: m) (auto simp: gm_put_keys)
  show "fst ` set (initial_states cfg) = set (clusterNames cfg)"
    unfolding initial_states_def keys by (simp add: clusterNames_def)
qed

lemma process_inv_start: "process_inv cfg (main_start cfg w)"
proof -
  have "goroutine_ok (initial_states cfg) c (pull_start s w)" if "c \<in> set (ss_Clusters (sc_Spec cfg))" for c s
    using initial_states_get(1) [OF that] pull_inv_start [of _ _ _ w]
    by (fastforce simp: goroutine_ok_def pull_start_def init_inv_def)
  note this [unfolded pull_start_def]
  then show ?thesis
    by (auto simp: process_inv_def main_start_def pull_start_def list_all_iff initial_states_get(2) o_def)
qed

lemma server_reach_inv:
  assumes "server_reach lib E cfg (main_start cfg w) P" "\<And>env. env \<in> E \<Longrightarrow> senv_ok env"
  shows "process_inv cfg P"
  using assms(1)
proof (induction rule: server_reach.induct)
  case (server_goes_on P P')
  then show ?case using process_inv_step assms(2) by blast
qed (rule process_inv_start)

subsection \<open>The first attempts end\<close>

text \<open>The steps that a goroutine has at most before it has called \<open>initWg.Done\<close>.\<close>

fun startup_work :: "phase \<Rightarrow> nat" where
  "startup_work Starting = 4"
| "startup_work BuildingObjects = 3"
| "startup_work BuildingHistory = 2"
| "startup_work (Recording err) = 1"
| "startup_work Waiting = 0"
| "startup_work Stopped = 0"
| "startup_work (Crashed m) = 0"

definition goroutine_work :: "('g, 'r) puller \<Rightarrow> nat" where
  "goroutine_work p = (if pl_initDone p then 0 else startup_work (pl_phase p))"

definition init_work :: "('g, 'r) server_process \<Rightarrow> nat" where
  "init_work P = sum_list (map (goroutine_work \<circ> snd) (sm_pullers P))"

lemma sum_list_work_update:
  "i < length ps \<Longrightarrow>
   sum_list (map f (ps[i := x])) + f (ps ! i) = sum_list (map f ps) + (f x :: nat)"
proof (induction ps arbitrary: i)
  case (Cons y ps)
  then show ?case by (cases i) auto
qed simp

lemma startup_work_after_part: "startup_work ph = n \<Longrightarrow> 1 \<le> n \<Longrightarrow> startup_work (after_part res ph) \<le> n"
  by (cases res) auto

lemma goroutine_work_step:
  assumes "pull_step c spec env p q"
  shows "if pl_initDone p then goroutine_work q = 0 else goroutine_work q < goroutine_work p \<or> pl_phase p = Waiting"
  using assms
proof cases
  case step_objects
  then show ?thesis
    using startup_work_after_part [of BuildingHistory 2]
    by (auto simp: build_objects_def goroutine_work_def less_Suc_eq_le numeral_eq_Suc split: prod.split)
next
  case step_history
  then show ?thesis
    using startup_work_after_part [of "Recording None" 1]
    by (auto simp: build_history_def goroutine_work_def less_Suc_eq_le numeral_eq_Suc split: prod.split)
qed (auto simp: goroutine_work_def first_clone_def record_pull_def on_tick_def reclone_def stop_pulling_def
    split: prod.splits sum.splits result.splits option.splits)

text \<open>A goroutine that has not finished its first attempt can take a step, and no step is wasted.\<close>

lemma unfinished_phase:
  assumes "process_inv cfg P" "running P" "i < length (sm_pullers P)" "sm_pullers P ! i = (c, p)" "\<not> pl_initDone p"
  shows "0 < startup_work (pl_phase p)"
proof -
  have "goroutine_ok (sm_states P) c p" by (rule goroutine_ok_nth [OF assms(1,3,4)])
  moreover have "\<forall>m. pl_phase p \<noteq> Crashed m"
    using assms(1-4) by (auto simp: process_inv_def list_all_length)
  ultimately show ?thesis
    using assms(5) by (cases "pl_phase p") (auto simp: goroutine_ok_def init_inv_def)
qed

lemma init_work_goroutine:
  assumes "process_inv cfg P" "running P" "i < length (sm_pullers P)" "sm_pullers P ! i = (c, p)"
    "pull_step c spec env (load_shared P c p) q"
  shows "init_work (store_shared P i c q) \<le> init_work P"
    and "\<not> pl_initDone p \<Longrightarrow> init_work (store_shared P i c q) < init_work P"
proof -
  have same: "pl_initDone (load_shared P c p) = pl_initDone p" "pl_phase (load_shared P c p) = pl_phase p"
      "goroutine_work (load_shared P c p) = goroutine_work p"
    by (auto simp: load_shared_def goroutine_work_def split: option.split)
  note step = goroutine_work_step [OF assms(5), unfolded same]
  have upd: "init_work (store_shared P i c q) + goroutine_work p = init_work P + goroutine_work q"
    using sum_list_work_update [OF assms(3), of "goroutine_work \<circ> snd" "(c, q)"] assms(4)
    by (simp add: init_work_def store_shared_def)
  show less: "init_work (store_shared P i c q) < init_work P" if "\<not> pl_initDone p"
    using step upd that unfinished_phase [OF assms(1-4) that] by auto
  show "init_work (store_shared P i c q) \<le> init_work P"
    using step upd less by (cases "pl_initDone p") (auto simp: goroutine_work_def)
qed

lemma pull_step_enabled: "0 < startup_work (pl_phase p) \<Longrightarrow> \<exists>q. pull_step c spec env p q"
  by (cases "pl_phase p") (auto intro: pull_step.intros)

text \<open>C5: The start-up ends. While the main goroutine waits for \<open>initWg\<close>, at most four steps of each goroutine
  lie ahead: the count of what is left never grows, every step of an unfinished goroutine lowers it,
  an unfinished goroutine can always take a step, and when none is unfinished the main goroutine goes on.\<close>

theorem startup_terminates:
  fixes P :: "('g, 'r) server_process"
  assumes "server_reach lib E cfg (main_start cfg w) P" and "\<And>env. env \<in> E \<Longrightarrow> senv_ok env"
    and "sm_phase P = Initialising"
  shows "init_work (main_start cfg w :: ('g, 'r) server_process) = 4 * length (ss_Clusters (sc_Spec cfg)) \<and>
    (\<forall>P'. server_step lib E cfg P P' \<longrightarrow> init_work P' \<le> init_work P) \<and>
    (\<forall>i c p env. i < length (sm_pullers P) \<longrightarrow> sm_pullers P ! i = (c, p) \<longrightarrow> \<not> pl_initDone p \<longrightarrow>
       (\<exists>q. pull_step c (sc_Spec cfg) env (load_shared P c p) q) \<and>
       (\<forall>q. pull_step c (sc_Spec cfg) env (load_shared P c p) q \<longrightarrow> init_work (store_shared P i c q) < init_work P)) \<and>
    (init_work P = 0 \<longleftrightarrow> initWg_done P) \<and>
    (initWg_done P \<longrightarrow> (\<exists>P'. server_step lib E cfg P P' \<and> sm_phase P' \<noteq> Initialising))"
proof (intro conjI allI impI)
  have inv: "process_inv cfg P" by (rule server_reach_inv [OF assms(1,2)])
  have run: "running P" by (simp add: running_def assms(3))
  show "init_work (main_start cfg w :: ('g, 'r) server_process) = 4 * length (ss_Clusters (sc_Spec cfg))"
    by (simp add: init_work_def main_start_def pull_start_def goroutine_work_def o_def sum_list_triv)
  show "init_work P' \<le> init_work P" if "server_step lib E cfg P P'" for P'
    using that
  proof cases
    case (goroutine i c p env q)
    then show ?thesis using init_work_goroutine(1) [OF inv run] by simp
  qed (use assms(3) in \<open>simp_all add: init_work_def start_serving_def\<close>)
  show "\<exists>q. pull_step c (sc_Spec cfg) env (load_shared P c p) q"
    if "i < length (sm_pullers P)" "sm_pullers P ! i = (c, p)" "\<not> pl_initDone p" for i c p env
    using unfinished_phase [OF inv run that]
    by (intro pull_step_enabled) (simp add: load_shared_def split: option.split)
  show "init_work (store_shared P i c q) < init_work P"
    if "i < length (sm_pullers P)" "sm_pullers P ! i = (c, p)" "\<not> pl_initDone p"
      "pull_step c (sc_Spec cfg) env (load_shared P c p) q" for i c p env q
    by (rule init_work_goroutine(2) [OF inv run that(1,2,4,3)])
  have "goroutine_work p = 0 \<longleftrightarrow> pl_initDone p" if "(c, p) \<in> set (sm_pullers P)" for c p
  proof -
    obtain i where "i < length (sm_pullers P)" "sm_pullers P ! i = (c, p)"
      using \<open>(c, p) \<in> set (sm_pullers P)\<close> by (auto simp: in_set_conv_nth)
    then show ?thesis using unfinished_phase [OF inv run] by (auto simp: goroutine_work_def)
  qed
  then show "init_work P = 0 \<longleftrightarrow> initWg_done P"
    by (fastforce simp: init_work_def initWg_done_def list_all_iff)
  show "\<exists>P'. server_step lib E cfg P P' \<and> sm_phase P' \<noteq> Initialising" if "initWg_done P"
    using initialised [OF assms(3) that]
    by (intro exI conjI, assumption) (simp add: start_serving_def split: option.split sum.split)
qed

text \<open>C4: Nothing is served too early. Once the server answers requests, the first attempt of every
  configured cluster is over: the state of the cluster has a pull on record, or its goroutine has given up.
  In any such state the indexes hold the cluster's own entries in order, and a cluster that reports
  itself ready has all of them, however the goroutines and the requests are interleaved.\<close>

theorem served_when_initialised:
  assumes "server_reach lib E cfg (main_start cfg w) P" and "\<And>env. env \<in> E \<Longrightarrow> senv_ok env"
    and "sm_phase P = Serving mw listening" and "c \<in> set (ss_Clusters (sc_Spec cfg))"
  shows "\<exists>s. gm_get (sm_states P) (cl_Name c) = Some s \<and> state_ok (cl_Name c) s \<and> (ready s \<longrightarrow> indexed s) \<and>
    (cs_lastPullAt s \<noteq> None \<or> (\<exists>p. (c, p) \<in> set (sm_pullers P) \<and> pl_phase p = Stopped))"
proof -
  have inv: "process_inv cfg P" by (rule server_reach_inv [OF assms(1,2)])
  then have "c \<in> set (map fst (sm_pullers P))" using assms(4) by (simp only: process_inv_def)
  then obtain p where p: "(c, p) \<in> set (sm_pullers P)" by auto
  then have "pl_initDone p" "goroutine_ok (sm_states P) c p"
    using inv assms(3) by (auto simp: process_inv_def initWg_done_def list_all_iff)
  then show ?thesis
    using p by (auto simp: goroutine_ok_def pull_inv_def init_inv_def)
qed

end
