(* ===== verification/ServedFacts.thy ===== *)
theory ServedFacts
  imports ServerFacts
begin

text \<open>
  What clients get to see of the running server: with every goroutine interleaved, whatever a history or a
  snapshot request answers carries the name of a configured cluster, and of the requested one, even if each of the
  accessors the request calls sees another moment (\<open>seen_handler\<close>). The examples run a server with one cluster
  until it serves.
\<close>

subsection \<open>Where the entries come from\<close>

text \<open>What a request sees of a cluster when another goroutine may run between any two of the accessors it
  calls: each of them answers for the state of some moment. A handler is one for a set of processes, the
  moments at which it looks.\<close>

definition moments :: "('g, 'r) server_process set \<Rightarrow> string \<Rightarrow> ('g world \<times> 'r ClusterState) set" where
  "moments Ps n = {(sm_world P, s) | P s. P \<in> Ps \<and> gm_get (sm_states P) n = Some s}"

definition seen_querier ::
  "('g, 'r) go_git \<Rightarrow> ('g, 'r) server_process set \<Rightarrow> string \<Rightarrow> ClusterQuerier \<Rightarrow> bool" where
  "seen_querier git Ps n cq \<longleftrightarrow>
     cq_Index cq \<in> (\<lambda>(w, s). cq_Index (as_querier git w s)) ` moments Ps n \<and>
     cq_CommitIndex cq \<in> (\<lambda>(w, s). cq_CommitIndex (as_querier git w s)) ` moments Ps n \<and>
     cq_ChangeIndex cq \<in> (\<lambda>(w, s). cq_ChangeIndex (as_querier git w s)) ` moments Ps n \<and>
     cq_FileAt cq \<in> (\<lambda>(w, s). cq_FileAt (as_querier git w s)) ` moments Ps n \<and>
     cq_RelPath cq \<in> (\<lambda>(w, s). cq_RelPath (as_querier git w s)) ` moments Ps n \<and>
     cq_GitRepo cq \<in> (\<lambda>(w, s). cq_GitRepo (as_querier git w s)) ` moments Ps n \<and>
     cq_SubDir cq \<in> (\<lambda>(w, s). cq_SubDir (as_querier git w s)) ` moments Ps n \<and>
     cq_WorkDir cq \<in> (\<lambda>(w, s). cq_WorkDir (as_querier git w s)) ` moments Ps n"

definition seen_handler ::
  "('g, 'r) go_git \<Rightarrow> ServerConfig \<Rightarrow> ('g, 'r) server_process set \<Rightarrow> 'r apiHandler \<Rightarrow> bool" where
  "seen_handler git cfg Ps h \<longleftrightarrow>
     sv_clusterNames (ah_q h) = clusterNames cfg \<and>
     (\<forall>n. case gm_get (sv_clusters (ah_q h)) n of
            None \<Rightarrow> n \<notin> set (clusterNames cfg)
          | Some cq \<Rightarrow> n \<in> set (clusterNames cfg) \<and> seen_querier git Ps n cq)"

lemma moments_mono: "Ps \<subseteq> Qs \<Longrightarrow> moments Ps n \<subseteq> moments Qs n"
  by (auto simp: moments_def)

lemma image_moments: "Ps \<subseteq> Qs \<Longrightarrow> x \<in> f ` moments Ps n \<Longrightarrow> x \<in> f ` moments Qs n"
  using moments_mono by blast

lemma seen_mono: "Ps \<subseteq> Qs \<Longrightarrow> seen_querier git Ps n cq \<Longrightarrow> seen_querier git Qs n cq"
  by (simp add: seen_querier_def image_moments)

text \<open>Another accessor may see another moment.\<close>

lemma seen_commits:
  assumes "seen_querier git Ps n cq" "(w, s) \<in> moments Ps n"
  shows "seen_querier git Ps n (cq\<lparr>cq_CommitIndex := cs_commitIdx s\<rparr>)"
proof -
  have "cs_commitIdx s \<in> (\<lambda>(w, s). cq_CommitIndex (as_querier git w s)) ` moments Ps n"
    using assms(2) by (rule rev_image_eqI) (simp add: as_querier_def)
  then show ?thesis using assms(1) by (simp add: seen_querier_def)
qed

lemma seen_at_once:
  assumes "process_inv cfg P"
  shows "seen_handler git cfg {P} (current_handler git cfg P)"
proof -
  have names: "gm_get (sm_states P) n = None \<longleftrightarrow> n \<notin> set (clusterNames cfg)" for n
    using assms by (auto simp: process_inv_def gm_get_def map_of_eq_None_iff)
  have get: "gm_get (sv_clusters (ah_q (current_handler git cfg P))) n =
      map_option (as_querier git (sm_world P)) (gm_get (sm_states P) n)" for n
    by (simp add: current_handler_def NewServer_def gm_get_map)
  have "seen_querier git {P} n (as_querier git (sm_world P) s)" if "gm_get (sm_states P) n = Some s" for n s
  proof -
    have "(sm_world P, s) \<in> moments {P} n" using that by (simp add: moments_def)
    then show ?thesis by (auto simp: seen_querier_def intro!: rev_image_eqI)
  qed
  moreover have "n \<in> set (clusterNames cfg)" if "gm_get (sm_states P) n = Some s" for n s
    using that names [of n] by simp
  moreover have "sv_clusterNames (ah_q (current_handler git cfg P)) = clusterNames cfg"
    by (simp add: current_handler_def NewServer_def)
  ultimately show ?thesis unfolding seen_handler_def get by (auto simp: names split: option.split)
qed

text \<open>What the pages rely on.\<close>

definition own_querier :: "string \<Rightarrow> ClusterQuerier \<Rightarrow> bool" where
  "own_querier n cq \<longleftrightarrow> (\<forall>r \<in> set (in_resources (cq_Index cq)). rm_Cluster r = n) \<and>
     (\<forall>xi. cq_ChangeIndex cq = Some xi \<longrightarrow>
        length (xi_events xi) \<le> 2 ^ 30 \<and> (\<forall>e \<in> set (xi_events xi). ev_Cluster e = n))"

definition own_server :: "ServerConfig \<Rightarrow> Server \<Rightarrow> bool" where
  "own_server cfg q \<longleftrightarrow> sv_clusterNames q = clusterNames cfg \<and>
     (\<forall>n. case gm_get (sv_clusters q) n of
            None \<Rightarrow> n \<notin> set (clusterNames cfg)
          | Some cq \<Rightarrow> n \<in> set (clusterNames cfg) \<and> own_querier n cq)"

lemma own_names: "own_server cfg q \<Longrightarrow> sv_clusterNames q = clusterNames cfg"
  by (simp add: own_server_def)

lemma own_get:
  assumes "own_server cfg q" "gm_get (sv_clusters q) n = Some cq"
  shows "n \<in> set (clusterNames cfg)" "own_querier n cq"
  using assms unfolding own_server_def by (metis option.simps(5))+

lemma own_there: "own_server cfg q \<Longrightarrow> n \<in> set (clusterNames cfg) \<Longrightarrow> gm_get (sv_clusters q) n \<noteq> None"
  unfolding own_server_def by (metis option.simps(4))

definition short_histories :: "('g, 'r) server_process \<Rightarrow> bool" where
  "short_histories P \<longleftrightarrow> (\<forall>n s xi. gm_get (sm_states P) n = Some s \<longrightarrow> cs_changeIdx s = Some xi \<longrightarrow>
     length (xi_events xi) \<le> 2 ^ 30)"

lemma moment_ok:
  assumes "\<forall>P \<in> Ps. process_inv cfg P \<and> short_histories P" "(w, s) \<in> moments Ps n"
  shows "state_ok n s" "cs_changeIdx s = Some xi \<Longrightarrow> length (xi_events xi) \<le> 2 ^ 30"
  using assms process_states_ok unfolding moments_def short_histories_def by blast+

lemma seen_own_querier:
  assumes "\<forall>P \<in> Ps. process_inv cfg P \<and> short_histories P" "seen_querier git Ps n cq"
  shows "own_querier n cq"
proof -
  obtain w1 s1 where idx: "(w1, s1) \<in> moments Ps n" "cq_Index cq = cs_idx s1"
    using assms(2) by (auto simp: seen_querier_def as_querier_def)
  obtain w2 s2 where chg: "(w2, s2) \<in> moments Ps n" "cq_ChangeIndex cq = cs_changeIdx s2"
    using assms(2) by (auto simp: seen_querier_def as_querier_def)
  show ?thesis
    using moment_ok(1) [OF assms(1) idx(1)] moment_ok [OF assms(1) chg(1)] idx(2) chg(2)
    by (auto simp: own_querier_def state_ok_def)
qed

lemma seen_own:
  assumes "\<forall>P \<in> Ps. process_inv cfg P \<and> short_histories P" "seen_handler git cfg Ps h"
  shows "own_server cfg (ah_q h)"
proof -
  note own = seen_own_querier [OF assms(1)]
  have seen: "case gm_get (sv_clusters (ah_q h)) n of
      None \<Rightarrow> n \<notin> set (clusterNames cfg) | Some cq \<Rightarrow> n \<in> set (clusterNames cfg) \<and> seen_querier git Ps n cq" for n
    using assms(2) by (simp add: seen_handler_def)
  have "case gm_get (sv_clusters (ah_q h)) n of
      None \<Rightarrow> n \<notin> set (clusterNames cfg) | Some cq \<Rightarrow> n \<in> set (clusterNames cfg) \<and> own_querier n cq" for n
    using seen [of n] own [of git n] by (cases "gm_get (sv_clusters (ah_q h)) n") simp_all
  then show ?thesis using assms(2) by (simp add: own_server_def seen_handler_def)
qed

text \<open>The resources of a current snapshot lie in the index of one of the clusters it asks.\<close>

lemma snapshot_one_subset:
  "snapshot_one env grp kind namespace name cel sel cq = (cq', Ok rs) \<Longrightarrow> set rs \<subseteq> set (in_resources (cq_Index cq))"
proof -
  have ev: "eval_all ev rs = Ok found \<Longrightarrow> set found \<subseteq> set rs" for ev rs found
    by (induction ev rs arbitrary: found rule: eval_all.induct)
      (auto simp: rbind_Ok_iff map_result_Ok_iff split: if_splits)
  have list: "set (List grp kind namespace sel idx) \<subseteq> set (in_resources idx)" for idx
    by (auto simp: List_def)
  have query: "IndexQuery compile Unmarshal s grp kind namespace sel cel idx = (idx', Ok found) \<Longrightarrow>
      set found \<subseteq> set (in_resources idx)" for compile Unmarshal s idx idx' found
    using list [of idx] by (auto simp: IndexQuery_def Let_def split: if_splits prod.splits sum.splits dest!: ev)
  show "snapshot_one env grp kind namespace name cel sel cq = (cq', Ok rs) \<Longrightarrow> set rs \<subseteq> set (in_resources (cq_Index cq))"
    using list [of "cq_Index cq"]
    by (auto simp: snapshot_one_def map_result_Ok_iff split: if_splits prod.splits dest!: query)
qed

definition resources_of :: "Server \<Rightarrow> string \<Rightarrow> ResourceMeta list option" where
  "resources_of q n = map_option (in_resources \<circ> cq_Index) (gm_get (sv_clusters q) n)"

lemma resources_of_data: "data_of q' = data_of q \<Longrightarrow> resources_of q' n = resources_of q n"
proof -
  assume "data_of q' = data_of q"
  then have "map_option uncached (gm_get (sv_clusters q') n) = map_option uncached (gm_get (sv_clusters q) n)"
    unfolding data_of_def gm_get_map [symmetric] by simp
  then have "map_option (in_resources \<circ> cq_Index \<circ> uncached) (gm_get (sv_clusters q') n) =
      map_option (in_resources \<circ> cq_Index \<circ> uncached) (gm_get (sv_clusters q) n)"
    unfolding option.map_comp [symmetric] by simp
  then show ?thesis by (simp add: resources_of_def uncached_def o_def)
qed

lemma snapshot_loop_subset:
  "snapshot_loop (snapshot_one env grp kind namespace name cel sel) ns s = (s', Ok rs) \<Longrightarrow> r \<in> set rs \<Longrightarrow>
   \<exists>n \<in> set ns. \<exists>xs. resources_of s n = Some xs \<and> r \<in> set xs"
proof (induction ns arbitrary: s s' rs)
  case (Cons n ns)
  let ?one = "snapshot_one env grp kind namespace name cel sel"
  obtain cq where cq: "querier s n = Ok cq" using Cons.prems(1) by (cases "querier s n") auto
  obtain cq' found where one: "?one cq = (cq', found)" by fastforce
  then obtain xs where xs: "found = Ok xs" using Cons.prems(1) cq by (cases found) auto
  let ?s = "s\<lparr>sv_clusters := gm_put n cq' (sv_clusters s)\<rparr>"
  have data: "data_of ?s = data_of s" by (rule data_of_put [OF cq uncached_one [OF one]])
  obtain s1 rest where rest: "snapshot_loop ?one ns ?s = (s1, rest)" by fastforce
  then obtain ys where ys: "rest = Ok ys" "rs = xs @ ys"
    using Cons.prems(1) cq one xs by (auto simp: map_result_Ok_iff)
  consider "r \<in> set xs" | "r \<in> set ys" using Cons.prems(2) ys(2) by auto
  then show ?case
  proof cases
    case 1
    then have "r \<in> set (in_resources (cq_Index cq))" using snapshot_one_subset one xs by blast
    then show ?thesis using querier_Ok [OF cq] by (auto simp: resources_of_def)
  next
    case 2
    then show ?thesis using Cons.IH [OF rest [unfolded ys(1)]] resources_of_data [OF data] by auto
  qed
qed simp

text \<open>Those of a historical one are made under the name of the cluster that was asked.\<close>

lemma historical_loop_subset:
  "historical_loop one ns acc = Ok out \<Longrightarrow> r \<in> set (fst out) \<Longrightarrow>
   r \<in> set (fst acc) \<or> (\<exists>n \<in> set ns. \<exists>ref resources. one n = Ok (Some (ref, resources)) \<and> r \<in> set resources)"
proof (induction ns arbitrary: acc)
  case (Cons n ns)
  obtain all sha tm where acc: "acc = (all, sha, tm)" by (cases acc)
  obtain found where found: "one n = Ok found" using Cons.prems(1) by (auto simp: rbind_Ok_iff)
  show ?case
  proof (cases found)
    case None
    then show ?thesis using Cons found acc by fastforce
  next
    case (Some p)
    then show ?thesis using Cons found acc by (cases p) (fastforce split: if_splits)
  qed
qed simp

lemma resourcesAtCommit_cluster:
  assumes "resourcesAtCommit Unmarshal commit n subDir grp kind namespace name = Inr rs" "r \<in> set rs"
  shows "rm_Cluster r = n"
proof -
  have "rm_Cluster r = n" if "r \<in> set (resource_at Unmarshal commit n pfx grp kind namespace name path)" for pfx path
    using that by (auto simp: resource_at_def Let_def split: if_split_asm option.split_asm sum.split_asm)
  then show ?thesis
    using assms by (auto simp: resourcesAtCommit_def Let_def split: sum.split_asm if_split_asm)
qed

lemma historical_one_cluster:
  assumes "historical_one env t n grp kind namespace name cq = Ok (Some (ref, resources))" "r \<in> set resources"
  shows "rm_Cluster r = n"
proof -
  obtain ci CommitObject where cq: "cq_CommitIndex cq = Some ci" "cq_GitRepo cq = Some CommitObject"
    using assms(1) by (cases "cq_CommitIndex cq"; cases "cq_GitRepo cq") (auto simp: historical_one_def)
  then obtain ref' ok where found: "FindBefore ci t = Ok (ref', ok)"
    using assms(1) by (auto simp: historical_one_def map_result_Ok_iff)
  then obtain commit where commit: "CommitObject (cr_SHA ref') = Inr commit" and "ok"
    using assms(1) cq by (cases "CommitObject (cr_SHA ref')") (auto simp: historical_one_def split: if_splits)
  then have "resourcesAtCommit (qe_Unmarshal env) commit n (cq_SubDir cq) grp kind namespace name = Inr resources"
    using assms(1) cq found
    by (cases "resourcesAtCommit (qe_Unmarshal env) commit n (cq_SubDir cq) grp kind namespace name")
      (auto simp: historical_one_def)
  then show ?thesis using resourcesAtCommit_cluster assms(2) by blast
qed

subsection \<open>What is served\<close>

definition asked_clusters :: "ServerConfig \<Rightarrow> string option \<Rightarrow> string set" where
  "asked_clusters cfg cluster = {n \<in> set (clusterNames cfg). Or cluster [] = [] \<or> n = Or cluster []}"

lemma named_asked: "own_server cfg q \<Longrightarrow> set (named q (Or cluster [])) = asked_clusters cfg cluster"
  by (auto simp: named_def own_names asked_clusters_def)

lemma resolve_asked:
  "own_server cfg q \<Longrightarrow> n \<in> set (resolve q (Or cluster [])) \<Longrightarrow> n \<in> asked_clusters cfg cluster"
  by (auto simp: resolve_def own_names asked_clusters_def split: if_splits dest: own_get(1))

lemma served_history:
  assumes own: "own_server cfg (ah_q h)" and srt: "slice_sort (qe_sort_events env)"
    and page: "api_GetHistory env h params = Ok page"
  shows "ae_Cluster ` set (hp_Items page) \<subseteq> asked_clusters cfg (yp_Cluster params) \<and>
    sorted_wrt (\<lambda>a b. ae_Timestamp b \<le> ae_Timestamp a) (hp_Items page)"
proof -
  let ?q = "ah_q h" and ?c = "Or (yp_Cluster params) []"
  let ?f = "request_filter (yp_Since params) (yp_Until params) (Or (yp_Group params) []) (Or (yp_Kind params) [])
      (Or (yp_Namespace params) []) (Or (yp_Name params) []) (case yp_ChangeType params of Some ct \<Rightarrow> ct | None \<Rightarrow> [])"
  have "queriers_ok ?q ?c"
    unfolding queriers_ok_def list_all_iff
  proof
    fix n assume "n \<in> set (named ?q ?c)"
    then obtain cq where cq: "gm_get (sv_clusters ?q) n = Some cq"
      using own_there [OF own, of n] by (auto simp: named_def own_names [OF own] split: if_splits)
    then show "case gm_get (sv_clusters ?q) n of None \<Rightarrow> False
        | Some cq \<Rightarrow> (case cq_ChangeIndex cq of None \<Rightarrow> True | Some ci \<Rightarrow> length (xi_events ci) \<le> 2 ^ 30)"
      using own_get(2) [OF own cq] by (auto simp: own_querier_def split: option.split)
  qed
  then obtain events where ev: "page_of (history_list env ?q ?c ?f) (Or (yp_Offset params) 0) (page_limit (yp_Limit params)) = Ok events"
      "hp_Items page = map toAPIChangeEvent events"
    using page by (auto simp: api_GetHistory_def GetHistory_page map_result_Ok_iff Let_def)
  have "sorted_wrt (\<lambda>a b. ev_Timestamp b \<le> ev_Timestamp a) events"
    using ev(1) history_list_order [OF srt]
    by (auto simp: page_of_def go_slice_def sorted_wrt_take_drop split: if_splits prod.splits)
  moreover have "ev_Cluster e \<in> asked_clusters cfg (yp_Cluster params)" if "e \<in> set events" for e
  proof -
    have "e \<in># mset (history_list env ?q ?c ?f)" using page_of_subset [OF ev(1)] that by auto
    then obtain n where n: "n \<in> set (named ?q ?c)" "e \<in> set (matching_events ?q ?f n)"
      unfolding history_list_mset [OF srt] by auto
    then obtain cq xi where cq: "gm_get (sv_clusters ?q) n = Some cq" "cq_ChangeIndex cq = Some xi" "e \<in> set (xi_events xi)"
      by (cases "gm_get (sv_clusters ?q) n"; cases "cq_ChangeIndex (the (gm_get (sv_clusters ?q) n))")
        (auto simp: matching_events_def)
    then have "ev_Cluster e = n" using own_get(2) [OF own cq(1)] by (simp add: own_querier_def)
    then show ?thesis using n(1) by (simp add: named_asked [OF own])
  qed
  ultimately show ?thesis using ev(2) by (auto simp: sorted_wrt_map toAPIChangeEvent_def)
qed

lemma sr_Items_current:
  "snd (GetCurrentSnapshot env q cluster grp kind namespace name cel sel limit offset) = Ok res \<Longrightarrow>
   \<exists>q' all. snapshot_loop (snapshot_one env grp kind namespace name cel sel) (resolve q cluster) q = (q', Ok all) \<and>
     set (sr_Items res) \<subseteq> set all"
  by (auto simp: GetCurrentSnapshot_def rbind_Ok_iff map_result_Ok_iff dest: page_of_subset split: prod.splits)

lemma sr_Items_historical:
  "GetHistoricalSnapshot env q t cluster grp kind namespace name limit offset = Ok res \<Longrightarrow> r \<in> set (sr_Items res) \<Longrightarrow>
   \<exists>n \<in> set (named q cluster). rm_Cluster r = n"
  by (auto simp: GetHistoricalSnapshot_def rbind_Ok_iff map_result_Ok_iff
      dest!: page_of_subset historical_loop_subset dest: historical_one_cluster split: prod.splits)

lemma served_snapshot:
  assumes own: "own_server cfg (ah_q h)"
    and page: "snd (api_GetSnapshot env h params) = Ok (SnapshotOK page)"
  shows "ar_Cluster ` set (sp_Items page) \<subseteq> asked_clusters cfg (np_Cluster params)"
proof (cases "np_Datetime params")
  case None
  let ?q = "ah_q h" and ?c = "Or (np_Cluster params) []"
  obtain res where res: "snd (GetCurrentSnapshot env ?q ?c (Or (np_Group params) []) (Or (np_Kind params) [])
        (Or (np_Namespace params) []) (Or (np_Name params) []) (Or (np_Cel params) []) []
        (page_limit (np_Limit params)) (Or (np_Offset params) 0)) = Ok res"
      "sp_Items page = map toSnapshotResource (sr_Items res)"
    using page None
    by (auto simp: api_GetSnapshot_def current_page_def toSnapshotResources_def Let_def split: prod.splits result.splits)
  obtain q' all where all: "snapshot_loop (snapshot_one env (Or (np_Group params) []) (Or (np_Kind params) [])
        (Or (np_Namespace params) []) (Or (np_Name params) []) (Or (np_Cel params) []) []) (resolve ?q ?c) ?q = (q', Ok all)"
      "set (sr_Items res) \<subseteq> set all"
    using sr_Items_current [OF res(1)] by blast
  have "rm_Cluster r \<in> asked_clusters cfg (np_Cluster params)" if r: "r \<in> set all" for r
  proof -
    obtain n xs where n: "n \<in> set (resolve ?q ?c)" "resources_of ?q n = Some xs" "r \<in> set xs"
      using snapshot_loop_subset [OF all(1) r] by blast
    then have "rm_Cluster r = n"
      by (auto simp: resources_of_def own_querier_def dest: own_get(2) [OF own])
    then show ?thesis using resolve_asked [OF own n(1)] by simp
  qed
  then show ?thesis using all(2) res(2) by (auto simp: toSnapshotResource_def)
next
  case (Some t)
  let ?q = "ah_q h" and ?c = "Or (np_Cluster params) []"
  obtain res where res: "GetHistoricalSnapshot env ?q t ?c (Or (np_Group params) []) (Or (np_Kind params) [])
        (Or (np_Namespace params) []) (Or (np_Name params) []) (page_limit (np_Limit params))
        (Or (np_Offset params) 0) = Ok res"
      "sp_Items page = map toSnapshotResource (sr_Items res)"
    using page Some
    by (auto simp: api_GetSnapshot_def historical_page_def toSnapshotResources_def map_result_Ok_iff Let_def split: if_splits)
  have "rm_Cluster r \<in> asked_clusters cfg (np_Cluster params)" if "r \<in> set (sr_Items res)" for r
    using sr_Items_historical [OF res(1) that] by (simp add: named_asked [OF own])
  then show ?thesis using res(2) by (auto simp: toSnapshotResource_def)
qed

text \<open>C3: Whatever the goroutines of the clusters are doing, even if every accessor that a request calls sees
  another moment of another run of the server, every entry of a history page and of a snapshot page, current or historical,
  carries the name of a configured cluster, and of the requested one if the request names one; a history
  page is in descending order of time.\<close>

theorem seen_entries_are_asked_for:
  assumes "\<And>P. P \<in> Ps \<Longrightarrow> server_reach lib E cfg (main_start cfg w) P" and "\<And>env. env \<in> E \<Longrightarrow> senv_ok env"
    and "seen_handler git cfg Ps h" and "slice_sort (qe_sort_events env)"
    and "\<And>P. P \<in> Ps \<Longrightarrow> short_histories P"
    and "api_GetHistory env h hp = Ok page"
    and "snd (api_GetSnapshot env h sp) = Ok (SnapshotOK snap)"
  shows "ae_Cluster ` set (hp_Items page) \<subseteq> asked_clusters cfg (yp_Cluster hp) \<and>
    sorted_wrt (\<lambda>a b. ae_Timestamp b \<le> ae_Timestamp a) (hp_Items page) \<and>
    ar_Cluster ` set (sp_Items snap) \<subseteq> asked_clusters cfg (np_Cluster sp)"
proof -
  have "own_server cfg (ah_q h)"
    using assms(5) server_reach_inv [OF assms(1,2)] by (intro seen_own [OF _ assms(3)]) blast
  then show ?thesis using served_history [OF _ assms(4,6)] served_snapshot [OF _ assms(7)] by blast
qed

text \<open>In particular if a request sees one moment of all clusters.\<close>

theorem served_entries_are_asked_for:
  assumes "server_reach lib E cfg (main_start cfg w) P" and "\<And>env. env \<in> E \<Longrightarrow> senv_ok env"
    and "slice_sort (qe_sort_events env)"
    and "\<And>n s xi. gm_get (sm_states P) n = Some s \<Longrightarrow> cs_changeIdx s = Some xi \<Longrightarrow> length (xi_events xi) \<le> 2 ^ 30"
    and "api_GetHistory env (current_handler git cfg P) hp = Ok page"
    and "snd (api_GetSnapshot env (current_handler git cfg P) sp) = Ok (SnapshotOK snap)"
  shows "ae_Cluster ` set (hp_Items page) \<subseteq> asked_clusters cfg (yp_Cluster hp) \<and>
    sorted_wrt (\<lambda>a b. ae_Timestamp b \<le> ae_Timestamp a) (hp_Items page) \<and>
    ar_Cluster ` set (sp_Items snap) \<subseteq> asked_clusters cfg (np_Cluster sp)"
proof -
  note inv = server_reach_inv [OF assms(1,2)]
  have "own_server cfg (ah_q (current_handler git cfg P))"
    using inv assms(4) by (intro seen_own [OF _ seen_at_once [OF inv]]) (simp add: short_histories_def)
  then show ?thesis using served_history [OF _ assms(3,5)] served_snapshot [OF _ assms(6)] by blast
qed

subsection \<open>A server that serves\<close>

definition demo_config :: ServerConfig where
  "demo_config = \<lparr>sc_TypeMeta = \<lparr>tm_APIVersion = [], tm_Kind = []\<rparr>, sc_Spec = demo_spec\<rparr>"

definition demo_main :: "(unit, unit) server_process" where
  "demo_main = main_start demo_config demo_world"

text \<open>Its git reports one commit, which added a pod.\<close>

definition demo_up :: "(unit, unit) senv" where
  "demo_up = (demo_senv True ''/w1'')\<lparr>se_git_process := (\<lambda>w args d inp.
     Inr (if hd args = ''log''
          then ''COMMIT a '' @ example_show_time 5 @ [NL] @ ''A'' @ [CHR 0x09] @ ''c/core/v1/namespaces/ns1/pods/p1.yaml'' @ [NL]
          else ''a:c/core/v1/namespaces/ns1/pods/p1.yaml missing'' @ [NL]))\<rparr>"

definition no_middleware :: "string \<Rightarrow> string \<Rightarrow> string \<Rightarrow> error + Middleware" where
  "no_middleware issuer audience metadata = Inl (ErrText ''no provider'')"

text \<open>The four steps of its only goroutine, and then the main goroutine.\<close>

definition demo_p1 :: "(unit, unit) puller" where "demo_p1 = first_clone demo_up demo_cluster demo_start"
definition demo_p2 :: "(unit, unit) puller" where "demo_p2 = build_objects demo_up demo_cluster demo_p1"
definition demo_p3 :: "(unit, unit) puller" where "demo_p3 = build_history demo_up demo_cluster demo_spec demo_p2"
definition demo_p4 :: "(unit, unit) puller" where "demo_p4 = record_pull demo_up demo_spec None demo_p3"

definition demo_initialised :: "(unit, unit) server_process" where
  "demo_initialised = foldl (\<lambda>P q. store_shared P 0 demo_cluster q) demo_main [demo_p1, demo_p2, demo_p3, demo_p4]"

definition demo_serving :: "(unit, unit) server_process" where
  "demo_serving = start_serving (vb_Parse example_web_lib) no_middleware None demo_config demo_initialised"

definition runs_alone :: "(unit, unit) server_process \<Rightarrow> (unit, unit) puller \<Rightarrow> bool" where
  "runs_alone P q \<longleftrightarrow> server_reach example_web_lib {demo_up} demo_config demo_main P \<and> sm_phase P = Initialising \<and>
     sm_pullers P = [(demo_cluster, q)] \<and> load_shared P demo_cluster q = q"

lemma runs_alone_step:
  assumes "runs_alone P q" "pull_step demo_cluster demo_spec demo_up q q'" "pl_phase q \<noteq> Waiting"
    "\<And>m. pl_phase q' \<noteq> Crashed m"
  shows "runs_alone (store_shared P 0 demo_cluster q') q'"
proof -
  have "server_step example_web_lib {demo_up} demo_config P (store_shared P 0 demo_cluster q')"
    using assms by (intro goroutine [where p = q]) (auto simp: runs_alone_def running_def demo_config_def)
  then show ?thesis
    using assms(1,4) server_goes_on
    by (auto simp: runs_alone_def store_shared_def load_shared_def gm_get_def gm_put_get split: phase.split)
qed

lemma demo_pull_phases:
  "pl_phase demo_p1 = BuildingObjects" "pl_phase demo_p2 = BuildingHistory" "pl_phase demo_p3 = Recording None"
  "pl_phase demo_p4 = Waiting"
  by code_simp+

lemma demo_main_alone: "runs_alone demo_main demo_start"
  by (simp add: runs_alone_def server_begins demo_main_def main_start_def demo_config_def demo_spec_def
      demo_start_def demo_cluster_def load_shared_def initial_states_def gm_get_def pull_start_def)

lemma demo_first_step: "pull_step demo_cluster demo_spec demo_up demo_start demo_p1"
  unfolding demo_p1_def by (rule step_first) (simp add: demo_start_def pull_start_def)

lemma demo_runs_alone: "runs_alone demo_initialised demo_p4"
proof -
  note phases = demo_pull_phases
  note demo_main_alone [THEN runs_alone_step, OF demo_first_step]
  then have "runs_alone (store_shared demo_main 0 demo_cluster demo_p1) demo_p1"
    using phases(1) by (simp add: demo_start_def pull_start_def)
  note this [THEN runs_alone_step, OF step_objects [OF phases(1)], folded demo_p2_def]
  note this [simplified phases, simplified, THEN runs_alone_step, OF step_history [OF phases(2)], folded demo_p3_def]
  note this [simplified phases, simplified, THEN runs_alone_step, OF step_record [OF phases(3)], folded demo_p4_def]
  then show ?thesis by (simp add: demo_initialised_def phases)
qed

lemma demo_serving_reach: "server_reach example_web_lib {demo_up} demo_config (main_start demo_config demo_world) demo_serving"
proof -
  have "initWg_done demo_initialised"
    using demo_runs_alone by (simp add: runs_alone_def initWg_done_def demo_p4_def record_pull_def)
  then show ?thesis
    using demo_runs_alone unfolding runs_alone_def demo_serving_def demo_main_def
    by (intro server_goes_on [OF _ initialised]) auto
qed

lemma demo_up_ok: "env \<in> {demo_up} \<Longrightarrow> senv_ok env"
  using demo_senv_ok [of True "''/w1''"] by (simp add: demo_up_def senv_ok_def)

lemma demo_serving_phase: "sm_phase demo_serving = Serving None True"
  by (simp add: demo_serving_def start_serving_def demo_config_def demo_spec_def)

theorem startup_terminates_witness:
  "init_work demo_main = 4 \<and> init_work (store_shared demo_main 0 demo_cluster demo_p1) < 4"
proof -
  have "sm_phase (main_start demo_config demo_world) = Initialising" by (simp add: main_start_def)
  note startup_terminates [OF server_begins [of example_web_lib "{demo_up}" demo_config] demo_up_ok, of demo_world,
      OF _ this, folded demo_main_def]
  moreover have "length (ss_Clusters (sc_Spec demo_config)) = 1" "sc_Spec demo_config = demo_spec"
    by (simp_all add: demo_config_def demo_spec_def)
  moreover have "sm_pullers demo_main = [(demo_cluster, demo_start)]" "load_shared demo_main demo_cluster demo_start = demo_start"
    "\<not> pl_initDone demo_start"
    using demo_main_alone by (simp_all add: runs_alone_def demo_start_def pull_start_def)
  ultimately show ?thesis using demo_first_step by simp metis
qed

theorem served_when_initialised_witness:
  "\<exists>s. gm_get (sm_states demo_serving) ''prod'' = Some s \<and> state_ok ''prod'' s \<and> indexed s"
proof -
  have "map_option ready (gm_get (sm_states demo_serving) ''prod'') = Some True" by code_simp
  moreover have "demo_cluster \<in> set (ss_Clusters (sc_Spec demo_config))"
    by (simp add: demo_config_def demo_spec_def)
  ultimately show ?thesis
    using served_when_initialised [OF demo_serving_reach demo_up_ok demo_serving_phase, of demo_cluster]
    by (auto simp: demo_cluster_def)
qed

definition demo_history :: HistoryPage where
  "demo_history = \<lparr>hp_Items = [\<lparr>ae_Timestamp = 5, ae_Sha = ''a'', ae_Cluster = ''prod'', ae_Group = ''core'',
       ae_Kind = [], ae_Namespace = ''ns1'', ae_Name = ''p1'', ae_ChangeType = Added\<rparr>],
     hp_Total = 1, hp_Offset = 0, hp_Limit = 50\<rparr>"

abbreviation demo_handler :: "unit apiHandler" where
  "demo_handler \<equiv> current_handler (demo_git True) demo_config demo_serving"

lemma demo_history_page:
  "api_GetHistory viewer_env demo_handler
     (history_request\<lparr>yp_Group := None, yp_Name := None, yp_Offset := None\<rparr>) = Ok demo_history"
  by code_simp

lemma demo_snapshot_page:
  "\<exists>snap. snd (api_GetSnapshot viewer_env demo_handler (snapshot_request\<lparr>np_Datetime := None\<rparr>)) = Ok (SnapshotOK snap) \<and>
     length (sp_Items snap) = 1"
proof -
  have "(case snd (api_GetSnapshot viewer_env demo_handler (snapshot_request\<lparr>np_Datetime := None\<rparr>)) of
          Ok (SnapshotOK snap) \<Rightarrow> length (sp_Items snap) = 1 | _ \<Rightarrow> False)"
    by code_simp
  then show ?thesis by (auto split: result.splits GetSnapshotRes.splits)
qed

lemma viewer_sorts: "slice_sort (qe_sort_events viewer_env)"
  by (simp add: viewer_env_def sorts.slice_sort_axioms)

lemma demo_short: "short_histories demo_serving" "short_histories demo_main"
proof -
  have "list_all (\<lambda>(n, s). case cs_changeIdx s of None \<Rightarrow> True | Some xi \<Rightarrow> length (xi_events xi) \<le> 1)
      (sm_states demo_serving)"
    "list_all (\<lambda>(n, s). cs_changeIdx s = None) (sm_states demo_main)"
    by code_simp+
  then show "short_histories demo_serving" "short_histories demo_main"
    by (force simp: short_histories_def list_all_iff gm_get_def dest: map_of_SomeD)+
qed

lemma demo_asked: "asked_clusters demo_config c \<subseteq> {''prod''}"
  by (auto simp: asked_clusters_def clusterNames_def demo_config_def demo_spec_def demo_cluster_def)

theorem served_entries_are_asked_for_witness:
  "\<exists>snap. snd (api_GetSnapshot viewer_env demo_handler (snapshot_request\<lparr>np_Datetime := None\<rparr>)) = Ok (SnapshotOK snap) \<and>
     ar_Cluster ` set (sp_Items snap) \<subseteq> {''prod''} \<and> ae_Cluster ` set (hp_Items demo_history) \<subseteq> {''prod''}"
proof -
  obtain snap where snap: "snd (api_GetSnapshot viewer_env demo_handler (snapshot_request\<lparr>np_Datetime := None\<rparr>)) =
      Ok (SnapshotOK snap)"
    using demo_snapshot_page by blast
  have "ae_Cluster ` set (hp_Items demo_history) \<subseteq> asked_clusters demo_config None \<and>
      sorted_wrt (\<lambda>a b. ae_Timestamp b \<le> ae_Timestamp a) (hp_Items demo_history) \<and>
      ar_Cluster ` set (sp_Items snap) \<subseteq> asked_clusters demo_config None"
    using served_entries_are_asked_for [OF demo_serving_reach _ viewer_sorts _ demo_history_page snap] demo_short(1) demo_up_ok
    by (simp add: history_request_def snapshot_request_def short_histories_def)
  then show ?thesis using demo_asked snap by (meson subset_trans)
qed

text \<open>A request that reads the commit index before the server was initialised and everything else later.\<close>

definition torn_handler :: "unit apiHandler" where
  "torn_handler = demo_handler\<lparr>ah_q := (ah_q demo_handler)\<lparr>sv_clusters :=
     map (\<lambda>(n, cq). (n, cq\<lparr>cq_CommitIndex := None\<rparr>)) (sv_clusters (ah_q demo_handler))\<rparr>\<rparr>"

lemma torn_seen: "seen_handler (demo_git True) demo_config {demo_main, demo_serving} torn_handler"
proof -
  let ?git = "demo_git True" and ?Ps = "{demo_main, demo_serving}"
  have inv: "process_inv demo_config demo_serving"
    using server_reach_inv [OF demo_serving_reach demo_up_ok] by simp
  have one: "seen_handler ?git demo_config {demo_serving} demo_handler" by (rule seen_at_once [OF inv])
  have get: "gm_get (sv_clusters (ah_q torn_handler)) n =
      map_option (\<lambda>cq. cq\<lparr>cq_CommitIndex := None\<rparr>) (gm_get (sv_clusters (ah_q demo_handler)) n)" for n
    by (simp add: torn_handler_def gm_get_map)
  have torn: "seen_querier ?git ?Ps n (cq\<lparr>cq_CommitIndex := None\<rparr>)"
    if seen: "seen_querier ?git {demo_serving} n cq" and mem: "n \<in> set (clusterNames demo_config)" for n cq
  proof -
    obtain s where s: "gm_get (sm_states demo_main) n = Some s" "cs_commitIdx s = None"
      using mem by (auto simp: demo_main_def main_start_def initial_states_def clusterNames_def demo_config_def
          demo_spec_def demo_cluster_def gm_get_def new_state_def)
    have "(sm_world demo_main, s) \<in> moments ?Ps n" using s(1) by (auto simp: moments_def)
    moreover have "seen_querier ?git ?Ps n cq" by (rule seen_mono [OF _ seen]) simp
    ultimately show ?thesis using seen_commits s(2) by metis
  qed
  have "case gm_get (sv_clusters (ah_q torn_handler)) n of None \<Rightarrow> n \<notin> set (clusterNames demo_config)
      | Some cq \<Rightarrow> n \<in> set (clusterNames demo_config) \<and> seen_querier ?git ?Ps n cq" for n
  proof (cases "gm_get (sv_clusters (ah_q demo_handler)) n")
    case None
    then show ?thesis using one get [of n] unfolding seen_handler_def by (metis option.simps(4) option.map(1))
  next
    case (Some cq)
    then have "n \<in> set (clusterNames demo_config)" "seen_querier ?git {demo_serving} n cq"
      using one unfolding seen_handler_def by (metis option.simps(5))+
    then show ?thesis using torn get [of n] Some by simp
  qed
  then show ?thesis using one by (simp add: seen_handler_def torn_handler_def)
qed

theorem seen_entries_are_asked_for_witness:
  "\<exists>snap. snd (api_GetSnapshot viewer_env torn_handler (snapshot_request\<lparr>np_Datetime := None\<rparr>)) = Ok (SnapshotOK snap) \<and>
     ar_Cluster ` set (sp_Items snap) \<subseteq> {''prod''} \<and> ae_Cluster ` set (hp_Items demo_history) \<subseteq> {''prod''}"
proof -
  have "(case snd (api_GetSnapshot viewer_env torn_handler (snapshot_request\<lparr>np_Datetime := None\<rparr>)) of
          Ok (SnapshotOK snap) \<Rightarrow> True | _ \<Rightarrow> False)"
    by code_simp
  then obtain snap where snap: "snd (api_GetSnapshot viewer_env torn_handler (snapshot_request\<lparr>np_Datetime := None\<rparr>)) =
      Ok (SnapshotOK snap)"
    by (auto split: result.splits GetSnapshotRes.splits)
  have page: "api_GetHistory viewer_env torn_handler
      (history_request\<lparr>yp_Group := None, yp_Name := None, yp_Offset := None\<rparr>) = Ok demo_history"
    by code_simp
  have reach: "server_reach example_web_lib {demo_up} demo_config (main_start demo_config demo_world) P"
    if "P \<in> {demo_main, demo_serving}" for P
    using that demo_serving_reach server_begins by (auto simp: demo_main_def)
  have "ae_Cluster ` set (hp_Items demo_history) \<subseteq> asked_clusters demo_config None \<and>
      sorted_wrt (\<lambda>a b. ae_Timestamp b \<le> ae_Timestamp a) (hp_Items demo_history) \<and>
      ar_Cluster ` set (sp_Items snap) \<subseteq> asked_clusters demo_config None"
    using seen_entries_are_asked_for [OF reach _ torn_seen viewer_sorts _ page snap] demo_short demo_up_ok
    by (auto simp: history_request_def snapshot_request_def)
  then show ?thesis using demo_asked snap by (meson subset_trans)
qed

end
