(* ===== verification/KorpusMain.thy ===== *)
theory KorpusMain
  imports BackupFacts
begin

text \<open>
  \<open>main\<close> of \<open>cmd/korpus/main.go\<close>: the life of the backup daemon. It loads the configuration and the
  Kubernetes clients, clones the repository, runs a backup at every tick of the schedule, and removes its
  working directory when a signal arrives. Loading the Kubernetes configuration, \<open>cron\<close> and the metrics
  handler are arguments. The scheduled runs are taken one after the other, each with an environment of
  its own (\<open>cron\<close> itself does not wait for a run that takes longer than the schedule).
\<close>

datatype daemon_phase = Scheduled | DaemonExited nat | DaemonPanicked string

text \<open>\<open>dm_deferred\<close> is the argument of the deferred \<open>os.RemoveAll(r.workDir)\<close>: Go evaluates it when the
  statement is reached, so it is the first working directory.\<close>

record ('g, 'r) daemon =
  dm_runner :: "('g, 'r) bstate"
  dm_deferred :: string
  dm_phase :: daemon_phase

definition new_runner :: "'g world \<Rightarrow> celItemContext \<Rightarrow> ('g, 'r) bstate" where
  "new_runner w ctx =
     \<lparr>bs_world = w, bs_workDir = [], bs_gc = None, bs_ctx = ctx, bs_metrics = newBackupMetrics\<rparr>"

text \<open>\<open>loadK8sConfig\<close>: the configuration of the pod, or that of the user.\<close>

definition loadK8sConfig :: "error + 'k \<Rightarrow> error + 'k \<Rightarrow> error + 'k" where
  "loadK8sConfig InClusterConfig ClientConfig =
     (case InClusterConfig of Inr cfg \<Rightarrow> Inr cfg | Inl _ \<Rightarrow> ClientConfig)"

text \<open>The start. \<open>os.Exit\<close> runs no deferred call: when the schedule is refused, the clone stays.\<close>

definition korpus_start ::
  "KorpusConfig result \<Rightarrow> error + 'k \<Rightarrow> ('k \<Rightarrow> error option) \<Rightarrow> ('k \<Rightarrow> error option) \<Rightarrow> (string \<Rightarrow> error option) \<Rightarrow>
   ('g, 'r) benv \<Rightarrow> celItemContext \<Rightarrow> 'g world \<Rightarrow> ('g, 'r) daemon" where
  "korpus_start loaded k8sCfg NewDiscoveryClient NewDynamicClient AddFunc env ctx w =
     (let st = new_runner w ctx;
          stop = (\<lambda>st. \<lparr>dm_runner = st, dm_deferred = [], dm_phase = DaemonExited 1\<rparr>)
      in case loaded of
           Err _ \<Rightarrow> stop st
         | Panic m \<Rightarrow> \<lparr>dm_runner = st, dm_deferred = [], dm_phase = DaemonPanicked m\<rparr>
         | Ok cfg \<Rightarrow>
             (case k8sCfg of
                Inl _ \<Rightarrow> stop st
              | Inr k8s \<Rightarrow>
                  if NewDiscoveryClient k8s \<noteq> None then stop st
                  else if NewDynamicClient k8s \<noteq> None then stop st
                  else
                    (case runner_init (env\<lparr>be_cfg := cfg\<rparr>) st of
                       (st1, Err _) \<Rightarrow> stop st1
                     | (st1, Panic m) \<Rightarrow> \<lparr>dm_runner = st1, dm_deferred = [], dm_phase = DaemonPanicked m\<rparr>
                     | (st1, Ok _) \<Rightarrow>
                         \<lparr>dm_runner = st1, dm_deferred = bs_workDir st1,
                          dm_phase = (if AddFunc (bc_Schedule (ks_Backup (kc_Spec cfg))) \<noteq> None
                                      then DaemonExited 1 else Scheduled)\<rparr>)))"

text \<open>A tick of the schedule, and the signal. A panic in a scheduled run ends the process.\<close>

definition daemon_tick :: "('g, 'r) benv \<Rightarrow> ('g, 'r) daemon \<Rightarrow> ('g, 'r) daemon" where
  "daemon_tick env d =
     (case dm_phase d of
        Scheduled \<Rightarrow>
          (case runner_run env (dm_runner d) of
             (st, Panic m) \<Rightarrow> d\<lparr>dm_runner := st, dm_phase := DaemonPanicked m\<rparr>
           | (st, _) \<Rightarrow> d\<lparr>dm_runner := st\<rparr>)
      | _ \<Rightarrow> d)"

definition daemon_signal :: "('g, 'r) daemon \<Rightarrow> ('g, 'r) daemon" where
  "daemon_signal d =
     (case dm_phase d of
        Scheduled \<Rightarrow>
          (let st = dm_runner d; w = bs_world st
           in d\<lparr>dm_runner := st\<lparr>bs_world := w\<lparr>w_fs := RemoveAll (dm_deferred d) (w_fs w)\<rparr>\<rparr>,
                dm_phase := DaemonExited 0\<rparr>)
      | _ \<Rightarrow> d)"

definition daemon_ticks :: "('g, 'r) benv list \<Rightarrow> ('g, 'r) daemon \<Rightarrow> ('g, 'r) daemon" where
  "daemon_ticks envs d = foldl (\<lambda>d env. daemon_tick env d) d envs"

text \<open>Its HTTP endpoints: the health check knows nothing of the runs.\<close>

definition korpus_mux :: "(backupMetrics \<Rightarrow> string) \<Rightarrow> string \<Rightarrow> ('g, 'r) daemon \<Rightarrow> nat \<times> string" where
  "korpus_mux promhttp path d =
     (if path = ''/healthz'' then (200, [])
      else if path = ''/metrics'' then (200, promhttp (bs_metrics (dm_runner d)))
      else (404, ''404 page not found'' @ [CHR 0x0A]))"

subsection \<open>The runner between the runs\<close>

text \<open>The runner has a client and a working directory, or it has lost both.\<close>

definition runner_ok :: "('g, 'r) bstate \<Rightarrow> bool" where
  "runner_ok st \<longleftrightarrow> (bs_gc st = None \<longleftrightarrow> bs_workDir st = [])"

definition temp_ok :: "('g, 'r) benv \<Rightarrow> bool" where
  "temp_ok env \<longleftrightarrow> (\<forall>w w' dir. be_MkdirTemp env w = (w', Inr dir) \<longrightarrow> dir \<noteq> [])"

lemma runner_init_frame:
  "runner_init env st = (st', res) \<Longrightarrow> runner_ok st \<Longrightarrow> temp_ok env \<Longrightarrow>
   runner_ok st' \<and> bs_metrics st' = bs_metrics st"
  by (auto simp: runner_init_def runner_ok_def temp_ok_def Let_def split: prod.splits sum.splits result.splits)

lemma runner_reset_frame:
  assumes "runner_reset env st = (st', res)" "runner_ok st" "temp_ok env"
  shows "runner_ok st' \<and> bs_metrics st' = bs_metrics st"
proof (cases "bs_workDir st = []")
  case False
  let ?st = "st\<lparr>bs_world := (bs_world st)\<lparr>w_fs := RemoveAll (bs_workDir st) (w_fs (bs_world st))\<rparr>,
      bs_workDir := [], bs_gc := None\<rparr>"
  have "runner_init env ?st = (st', res)" using assms(1) False by (simp add: runner_reset_def)
  then show ?thesis using runner_init_frame [of env ?st] assms(3) by (simp add: runner_ok_def)
qed (use assms runner_init_frame in \<open>auto simp: runner_reset_def\<close>)

lemma runner_ok_world: "runner_ok (st\<lparr>bs_world := w\<rparr>) = runner_ok st"
  by (simp add: runner_ok_def)

lemma pull_or_reset_frame:
  "pull_or_reset env st = (st', res) \<Longrightarrow> runner_ok st \<Longrightarrow> temp_ok env \<Longrightarrow>
   runner_ok st' \<and> bs_metrics st' = bs_metrics st"
  by (auto simp: pull_or_reset_def runner_ok_world split: option.splits prod.splits result.splits
      dest!: runner_reset_frame)

lemma commit_snapshot_frame:
  "commit_snapshot env st = (st', res) \<Longrightarrow> runner_ok st \<Longrightarrow> temp_ok env \<Longrightarrow>
   runner_ok st' \<and> bs_metrics st' = bs_metrics st"
  by (auto simp: commit_snapshot_def runner_ok_world Let_def
      split: option.splits prod.splits result.splits bool.splits dest!: runner_reset_frame)

lemma runOnce_frame:
  assumes "runOnce env st = (st', res)" "runner_ok st" "temp_ok env"
  shows "runner_ok st' \<and> bs_metrics st' = bs_metrics st"
proof -
  obtain st1 r1 where p: "pull_or_reset env st = (st1, r1)" by fastforce
  note f1 = pull_or_reset_frame [OF p assms(2,3)]
  show ?thesis
  proof (cases r1)
    case (Ok u)
    let ?subDir = "filepath_Join [bs_workDir st1, git_SubDir (ks_Git (kc_Spec (be_cfg env)))]"
    obtain ctx s r2 where s: "snapshot env ?subDir (bs_ctx st1, w_fs (bs_world st1)) = ((ctx, s), r2)"
      by (metis prod.collapse)
    have f2: "runner_ok (st1\<lparr>bs_world := (bs_world st1)\<lparr>w_fs := s\<rparr>, bs_ctx := ctx\<rparr>)"
      using f1 by (simp add: runner_ok_def)
    then show ?thesis
      using assms(1,3) p Ok s f1 commit_snapshot_frame [OF _ f2 assms(3)]
      by (cases r2) (auto simp: runOnce_def Let_def)
  qed (use assms(1) p f1 in \<open>auto simp: runOnce_def\<close>)
qed

text \<open>The runs that the metrics count.\<close>

definition counted :: "backupMetrics \<Rightarrow> nat" where
  "counted m = bm_success m + bm_failure m"

lemma runner_run_frame:
  assumes "runner_run env st = (st', Ok u)" "runner_ok st" "temp_ok env"
  shows "runner_ok st' \<and> counted (bs_metrics st') = counted (bs_metrics st) + 1 \<and>
    length (bm_durations (bs_metrics st')) = length (bm_durations (bs_metrics st)) + 1"
proof -
  obtain st1 r where r: "runOnce env st = (st1, r)" by fastforce
  show ?thesis
    using assms(1) r runOnce_frame [OF r assms(2,3)]
    by (cases r) (auto simp: runner_run_def runner_ok_def counted_def Let_def)
qed

lemma runner_run_not_Err: "runner_run env st \<noteq> (st', Err e)"
  by (simp add: runner_run_def Let_def split: prod.split result.split)

lemma ticks_scheduled: "dm_phase (daemon_ticks envs d) = Scheduled \<Longrightarrow> dm_phase d = Scheduled"
proof (induction envs arbitrary: d)
  case (Cons env envs)
  have "dm_phase (daemon_tick env d) = Scheduled" using Cons by (simp add: daemon_ticks_def)
  then show ?case by (auto simp: daemon_tick_def split: daemon_phase.splits)
qed (simp add: daemon_ticks_def)

lemma daemon_tick_frame:
  assumes "dm_phase (daemon_tick env d) = Scheduled" "runner_ok (dm_runner d)" "temp_ok env"
  shows "runner_ok (dm_runner (daemon_tick env d)) \<and> dm_deferred (daemon_tick env d) = dm_deferred d \<and>
    counted (bs_metrics (dm_runner (daemon_tick env d))) = counted (bs_metrics (dm_runner d)) + 1 \<and>
    length (bm_durations (bs_metrics (dm_runner (daemon_tick env d)))) =
      length (bm_durations (bs_metrics (dm_runner d))) + 1"
proof -
  obtain st r where r: "runner_run env (dm_runner d) = (st, r)" by fastforce
  then show ?thesis
    using assms runner_run_frame [of env "dm_runner d" st] runner_run_not_Err
    by (cases r) (auto simp: daemon_tick_def split: daemon_phase.splits)
qed

lemma no_client_panics: "bs_gc st = None \<Longrightarrow> runner_run env st = (st, Panic ''nil pointer dereference'')"
  by (simp add: runner_run_def runOnce_def pull_or_reset_def)

text \<open>C6: As long as the daemon lives, its metrics count every scheduled run once, and its runner has both a
  client and a working directory or neither. In the latter case (a re-clone failed) the next run ends
  the process. A signal removes the first working directory only: if the repository was cloned again, the
  files of the new one are left behind.\<close>

theorem daemon_life:
  assumes "dm_phase (daemon_ticks envs d) = Scheduled" "runner_ok (dm_runner d)" "list_all temp_ok envs"
  shows "let d' = daemon_ticks envs d; st = dm_runner d'; m = bs_metrics st in
     counted m = counted (bs_metrics (dm_runner d)) + length envs \<and>
     length (bm_durations m) = length (bm_durations (bs_metrics (dm_runner d))) + length envs \<and>
     (bs_gc st = None \<longleftrightarrow> bs_workDir st = []) \<and>
     (bs_gc st = None \<longrightarrow> dm_phase (daemon_tick env d') = DaemonPanicked ''nil pointer dereference'') \<and>
     (\<forall>p. p \<noteq> dm_deferred d \<longrightarrow> \<not> inside (dm_deferred d) p \<longrightarrow>
        content (w_fs (bs_world (dm_runner (daemon_signal d')))) p = content (w_fs (bs_world st)) p)"
proof -
  let ?d = "daemon_ticks envs d"
  have ticks: "runner_ok (dm_runner ?d) \<and> dm_deferred ?d = dm_deferred d \<and>
      counted (bs_metrics (dm_runner ?d)) = counted (bs_metrics (dm_runner d)) + length envs \<and>
      length (bm_durations (bs_metrics (dm_runner ?d))) = length (bm_durations (bs_metrics (dm_runner d))) + length envs"
    using assms
  proof (induction envs arbitrary: d)
    case (Cons env envs)
    have "daemon_ticks (env # envs) d = daemon_ticks envs (daemon_tick env d)" by (simp add: daemon_ticks_def)
    moreover from this have "dm_phase (daemon_tick env d) = Scheduled"
      using Cons.prems(1) ticks_scheduled by metis
    ultimately show ?case using Cons daemon_tick_frame [of env d] by simp
  qed (simp add: daemon_ticks_def)
  moreover have "content (RemoveAll (dm_deferred d) s) p = content s p"
    if "p \<noteq> dm_deferred d" "\<not> inside (dm_deferred d) p" for s p
    using that by (cases "dm_deferred d = []") (simp_all add: content_RemoveAll, simp add: RemoveAll_def)
  moreover have "dm_phase (daemon_tick env ?d) = DaemonPanicked ''nil pointer dereference''"
    if "bs_gc (dm_runner ?d) = None"
    using assms(1) that by (simp add: daemon_tick_def no_client_panics)
  ultimately show ?thesis
    using assms(1) by (simp add: Let_def runner_ok_def daemon_signal_def)
qed

text \<open>The remote goes away after the first run: the second one loses the client, the third one would panic.\<close>

definition example_daemon :: "(nat, unit) daemon" where
  "example_daemon = \<lparr>dm_runner = example_bstate, dm_deferred = ''/w'', dm_phase = Scheduled\<rparr>"

theorem daemon_life_witness:
  "let d' = daemon_ticks [example_env False False, example_env True False] example_daemon in
     counted (bs_metrics (dm_runner d')) = 2 \<and> bm_failure (bs_metrics (dm_runner d')) = 1 \<and>
     dm_phase (daemon_tick (example_env False False) d') = DaemonPanicked ''nil pointer dereference''"
proof -
  let ?d = "daemon_ticks [example_env False False, example_env True False] example_daemon"
  have "dm_phase ?d = Scheduled" "map_option (\<lambda>_. ()) (bs_gc (dm_runner ?d)) = None"
    "bm_failure (bs_metrics (dm_runner ?d)) = 1"
    by code_simp+
  moreover have "temp_ok (example_env b d)" for b d by (simp add: temp_ok_def example_env_def)
  moreover have "runner_ok (dm_runner example_daemon)" "counted (bs_metrics (dm_runner example_daemon)) = 0"
    by (simp_all add: example_daemon_def example_bstate_def runner_ok_def counted_def newBackupMetrics_def)
  ultimately show ?thesis
    using daemon_life [of "[example_env False False, example_env True False]" example_daemon "example_env False False"]
    by (simp add: Let_def)
qed

end
