(* ===== verification/Spec2Isabelle.thy ===== *)
theory Spec2Isabelle
  imports GoSort ConfigFacts Sanitizer BackupFacts ChangeQueries FieldFacts IndexSpec QueryFacts ClusterFacts
    ApiFacts ApiConfig ClientTelemetry Marshal Mux Mcp ServedFacts KorpusMain
begin

text \<open>
  \<^bold>\<open>The program.\<close> Korpus has two binaries. The backup daemon (\<open>cmd/korpus\<close>) lists the objects of a
  Kubernetes cluster at every tick of a schedule, strips the fields that the rules exclude, writes each
  object as a YAML file into a clone of a git repository, removes the files of objects that are gone, and
  commits and pushes. The viewer (\<open>cmd/server\<close>) keeps a clone of such a repository for every configured
  cluster, pulls it periodically, builds three indexes from it (the objects of the working tree, the
  commits, the changes), and answers queries over REST and MCP, optionally behind OIDC. The two meet in
  the repository only: the path of a file (\<open>group/version/[namespaces/ns/]resource/name.yaml\<close>)
  is what the daemon writes and the viewer parses.

  \<^bold>\<open>How Go becomes HOL.\<close> A function that can fail returns \<open>result\<close> (\<open>Ok\<close>, \<open>Err\<close> or \<open>Panic\<close>, theory
  Prelude) or, where it cannot panic, a sum with \<open>error\<close>; a function with effects takes the state and returns
  it with its result. \<open>int\<close> is an \<open>int\<close> with the 64-bit wrap-around of \<open>+\<close> and the range checks of slice
  expressions written out; the bit sets of the JSON decoders are words. A map is an association list with
  \<open>gm_get\<close>, \<open>gm_put\<close>, \<open>gm_del\<close> (theory GoData, with the laws as the locale \<open>go_map\<close>); the order of a
  \<open>range\<close> over a map is an argument wherever it can be seen. \<open>float64\<close> quotients are rounded as IEEE 754
  asks (GoFloat), and so are the numbers that an MCP call carries (Mcp). A \<open>time.Time\<close> is the nanoseconds since the epoch. Sorting is any function that permutes
  and sorts (locales \<open>slice_sort\<close>, \<open>stable_slice_sort\<close> in GoSort, interpreted on an insertion sort).

  \<^bold>\<open>What is a parameter.\<close> Code outside the repository is an argument, usually a record of functions:
  go-git and the git process, the Kubernetes clients, the YAML, JSON (\<open>jx\<close>) and CEL libraries, SHA-256,
  the ogen runtime (\<open>uri\<close>, \<open>conv\<close>, \<open>validate\<close>), token verification, the upstream OIDC server, the MCP protocol,
  OpenTelemetry. What the code relies on is a named hypothesis of the theorem that needs it
  (\<open>wire_ok\<close>, \<open>jx_ok\<close>, \<open>fields_of\<close>, \<open>http_ok\<close>, \<open>senv_ok\<close>, \<open>fs_ok\<close>, \<open>keys_once\<close>, \<open>slice_sort\<close>, \<open>cat_file_answers\<close>), and the witness of that
  theorem instantiates it.

  \<^bold>\<open>Theories, from the bottom.\<close>
  \<^item> Prelude, GoStrings, GoData, GoSort, GoFloat, Paths, Files: the vocabulary above, Go's string, path and
    file functions, and \<open>ParseResourcePath\<close> of \<open>internal/gitindex/change.go\<close> with its inverse (locale
    \<open>path_codec\<close>).
  \<^item> Defaults, Config, ConfigFacts: \<open>internal/defaults\<close> and \<open>internal/config\<close>. Loading with environment
    substitution, the rules that exclude types, objects and fields, the \<open>excludeIf\<close> programs. The facts say which
    rule decides, that a loaded configuration is complete, that the iteration order of the built-in map does
    not matter. The rules contribute in their own order, where the comment in the code documents one by kind.
  \<^item> Sanitizer: \<open>internal/sanitizer\<close>. The path parser inverts the written form; deletion removes exactly
    the scalars under the paths and does not depend on the order of the paths.
  \<^item> Store, Discovery, GitClient: \<open>internal/store\<close>, \<open>discovery\<close>, \<open>fetcher\<close>, \<open>gitclient\<close>. A write changes the
    file only if the content differs; writing and cleaning make a directory mirror a map (locale \<open>mirror_store\<close>).
  \<^item> Backup, BackupFacts: the \<open>runner\<close> of \<open>cmd/korpus/main.go\<close>. A run that succeeds leaves exactly the planned
    files; the path of an object is read back as its identity; what happens without discovery.
  \<^item> KorpusMain: \<open>main\<close> of \<open>cmd/korpus/main.go\<close>: start, scheduled runs, signal.
  \<^item> CommitIndex; ChangeIndex, ChangeFacts, ChangeQueries; FieldVolatility, FieldFacts: \<open>internal/gitindex\<close>. The
    parsers of \<open>git log\<close> and \<open>git cat-file --batch\<close> against what git prints for a history, the binary search
    for a time, pages and volatility of changes, field differences.
  \<^item> Index, IndexFacts, IndexSpec: \<open>internal/index\<close>. IndexSpec says on a document alone (keys, dotted paths, the shape of
    the file's path) what its entry must hold, and a build lists one such entry per valid document. The object that a CEL
    query evaluates first is a part of the stored document (\<open>part_of\<close>), so that an expression that is \<open>stable\<close> under leaving
    out keys is answered as on the document. A negative test is not stable, and a resource without a namespace is
    answered differently; both are stated. IndexFacts has the lists and the program cache.
  \<^item> QueryServer, QueryFacts, QuerierLaws: \<open>internal/query\<close>. Pages, history across clusters, historical
    snapshots; the contract of a cluster's indexes is the locale \<open>cluster_querier\<close>.
  \<^item> ClusterState, ClusterFacts: \<open>ClusterState\<close> and the pull goroutine of \<open>cmd/server/main.go\<close>, a step relation
    \<open>pull_step\<close> with one step per moment at which a handler may look. Its invariant gives the interpretation of
    \<open>cluster_querier\<close>.
  \<^item> ApiTypes, Json, JsonFacts, Params, Wire: the generated types, JSON codecs, parameter decoders, response
    encoders and decoders of \<open>internal/api\<close>. Each decoder inverts its encoder; the required-field bits
    report exactly what is missing.
  \<^item> Router: both generated routing trees against one table of paths.
  \<^item> Handlers, ApiServer, ApiClient, ApiExample, ApiFacts: the REST handlers (\<open>cmd/server/handler.go\<close>) behind
    the generated server, and the generated client; a call through both is the handler's answer.
  \<^item> ApiConfig: options, \<open>NewServer\<close>, \<open>NewClient\<close>. The server that the program creates has no prefix and no
    middleware, as the theories above assume; a client for a base URL asks the paths of the server
    with that prefix.
  \<^item> ApiHandler, Telemetry, TelemetryFacts, ClientTelemetry: the interface \<open>Handler\<close> with its two instances; what
    the generated server and client report of a request (\<open>oas_handlers_gen.go\<close>, \<open>oas_client_gen.go\<close>,
    \<open>oas_labeler_gen.go\<close>), as the list of calls they make to OpenTelemetry, and the middleware between the
    parameters and the handler. The reports change no answer, so that ApiServer and ApiClient may leave them
    out; every routed request is counted once, whatever fails, and a handler that panics is not an error.
  \<^item> OptValues, Marshal: the structs of the optional values with their methods, which stand for the \<open>option\<close> and
    \<open>OptNil\<close> values of the other theories under every sequence of calls, also of decodes that fail (the labels are then partly filled, the other values kept)
    (locale \<open>optional_value\<close>), and the
    \<open>MarshalJSON\<close> and \<open>MarshalText\<close> methods with their inverses.
  \<^item> Oidc, Mux: the bearer-token middleware, the metadata documents and proxies, and \<open>buildMux\<close> with the
    pattern rules of \<open>http.ServeMux\<close>: without a valid token nothing is learnt of the data.
  \<^item> Mcp: the nine MCP tools, whose numbers are \<open>float64\<close>; the history tool agrees with the REST operation up to
    \<open>2 ^ 53\<close>, and not beyond.
  \<^item> ServerMain, ServerFacts, ServedFacts: \<open>main\<close> of \<open>cmd/server/main.go\<close>, the goroutines, the main goroutine and
    the requests interleaved (\<open>server_step\<close>). Nothing is served before every first attempt is over, the
    start ends, and every served entry is of a configured and requested cluster.

  \<^bold>\<open>Interleaving.\<close> A step of the server is a step of one pull goroutine, a whole request, or a move of
  the main goroutine. The locks of \<open>ClusterState\<close> and \<open>Index\<close> make each step of a goroutine that changes
  shared state atomic. A request of \<open>server_step\<close> sees one moment of all clusters, which is coarser than the code,
  where another goroutine may run between any two accessors; \<open>seen_handler\<close> (ServedFacts) is the finer view, in
  which each accessor of each cluster answers for a moment of its own, and the entries of a page are
  bounded in it. \<open>telemetry_env\<close> and the handler interface may differ from request to request.

  \<^bold>\<open>Termination and bounds.\<close> No definition needs fuel. Loops that are not structural have a measure (the
  remaining distance of the binary search, the length of the rest of a scanned text, the depth of a document).
  The loop of a goroutine is unbounded and therefore a relation; \<open>init_work\<close>, four for every goroutine
  that has not called \<open>initWg.Done\<close>, bounds its start. Lists that come from Go slices are
  assumed shorter than \<open>2 ^ 47\<close> where an index is added to their length, and histories not longer than the
  \<open>1<<30\<close> events that \<open>GetHistory\<close> asks for.

  \<^bold>\<open>Not modelled.\<close> Flags, logging, the profiling endpoints, HTTP timeouts and connections. Of the reports, what
  OpenTelemetry does with them; ogen's \<open>HookMiddleware\<close> is the record \<open>hooks\<close>, and the theorems ask of a middleware that it
  hands everything on (the program passes none). The marker methods of the response interfaces have no
  behaviour. The getters and setters of the generated structs are the selectors and updates of the records, and
  the nil checks of pointers and slices that Go's decoders never leave nil have no counterpart. An
  \<open>UnmarshalJSON\<close> is modelled on a fresh struct. The single-page application is TypeScript; the server only hands out
  its files. Two scheduled runs of the daemon that overlap (\<open>cron\<close> does not prevent it) are outside of KorpusMain,
  which runs them in turn.
\<close>

end
